(* ===== verification/Prelude.thy ===== *)
theory Prelude
  imports Main "HOL-Library.Sublist" "HOL-Library.Multiset"
begin

section \<open>Prelude: the JavaScript values and library functions the model shares\<close>

text \<open>
  The consoles are written in TypeScript. This theory fixes how the model reads the
  language's strings, truthiness, arrays and sorting, and holds the generic lemmas and the
  \<^theory_text>\<open>named_theorems\<close> collections of the development.

  A JavaScript string is a \<open>string\<close>: a list of bytes, the UTF-8 encoding of the text. Case
  mapping is that of ASCII letters; other bytes are left alone. \<open>undefined\<close> and \<open>null\<close> are
  \<open>None\<close>. \<open>Array.prototype.sort\<close> is stable, so for a consistent comparator its result is
  the one insertion sort computes.
\<close>

named_theorems js_simps \<open>evaluation rules for the string library\<close>
named_theorems inv_intros \<open>introduction rules for state invariants\<close>

subsection \<open>Truthiness and optional values\<close>

definition truthy :: "string option \<Rightarrow> bool" where
  "truthy s = (case s of None \<Rightarrow> False | Some t \<Rightarrow> t \<noteq> [])"

definition str_or :: "string option \<Rightarrow> string \<Rightarrow> string" where
  \<comment> \<open>\<open>s || d\<close> on an optional string\<close>
  "str_or s d = (case s of None \<Rightarrow> d | Some t \<Rightarrow> if t = [] then d else t)"

definition num_or0 :: "int option \<Rightarrow> int" where
  \<comment> \<open>\<open>n || 0\<close>, and also \<open>n ?? 0\<close>, on an optional number\<close>
  "num_or0 n = (case n of None \<Rightarrow> 0 | Some k \<Rightarrow> k)"

definition truthy_num :: "int option \<Rightarrow> bool" where
  "truthy_num n = (case n of None \<Rightarrow> False | Some k \<Rightarrow> k \<noteq> 0)"

lemma truthy_simps [simp]:
  "truthy None = False" "truthy (Some t) = (t \<noteq> [])"
  by (simp_all add: truthy_def)

lemma truthy_num_simps [simp]:
  "truthy_num None = False" "truthy_num (Some k) = (k \<noteq> 0)"
  by (simp_all add: truthy_num_def)

lemma str_or_simps [simp]:
  "str_or None d = d" "str_or (Some []) d = d" "t \<noteq> [] \<Longrightarrow> str_or (Some t) d = t"
  by (simp_all add: str_or_def)

lemma num_or0_simps [simp]: "num_or0 None = 0" "num_or0 (Some k) = k"
  by (simp_all add: num_or0_def)

lemma truthyE:
  assumes "truthy s"
  obtains t where "s = Some t" and "t \<noteq> []"
  using assms by (cases s) auto

subsection \<open>Strings\<close>

definition lower_char :: "char \<Rightarrow> char" where
  "lower_char c = (let n = of_char c :: nat in if 65 \<le> n \<and> n \<le> 90 then char_of (n + 32) else c)"

definition upper_char :: "char \<Rightarrow> char" where
  "upper_char c = (let n = of_char c :: nat in if 97 \<le> n \<and> n \<le> 122 then char_of (n - 32) else c)"

definition to_lower :: "string \<Rightarrow> string" where
  "to_lower s = map lower_char s"

definition to_upper :: "string \<Rightarrow> string" where
  "to_upper s = map upper_char s"

fun starts_with :: "string \<Rightarrow> string \<Rightarrow> bool" where
  "starts_with s [] = True"
| "starts_with [] (p # ps) = False"
| "starts_with (c # s) (p # ps) = (c = p \<and> starts_with s ps)"

definition ends_with :: "string \<Rightarrow> string \<Rightarrow> bool" where
  "ends_with s p = starts_with (rev s) (rev p)"

fun index_of :: "string \<Rightarrow> string \<Rightarrow> nat option" where
  \<comment> \<open>\<open>None\<close> where JavaScript answers \<open>-1\<close>\<close>
  "index_of [] p = (if p = [] then Some 0 else None)"
| "index_of (c # s) p =
     (if starts_with (c # s) p then Some 0 else map_option Suc (index_of s p))"

definition js_includes :: "string \<Rightarrow> string \<Rightarrow> bool" where
  "js_includes s p = (index_of s p \<noteq> None)"

definition slice :: "nat \<Rightarrow> nat \<Rightarrow> 'a list \<Rightarrow> 'a list" where
  \<comment> \<open>\<open>slice(i, j)\<close> with non-negative bounds\<close>
  "slice i j s = take (j - i) (drop i s)"

fun split_on :: "char \<Rightarrow> string \<Rightarrow> string list" where
  "split_on sep [] = [[]]"
| "split_on sep (c # s) =
     (if c = sep then [] # split_on sep s
      else (case split_on sep s of [] \<Rightarrow> [[c]] | w # ws \<Rightarrow> (c # w) # ws))"

fun join :: "string \<Rightarrow> string list \<Rightarrow> string" where
  "join sep [] = []"
| "join sep [w] = w"
| "join sep (w # v # ws) = w @ sep @ join sep (v # ws)"

definition is_space :: "char \<Rightarrow> bool" where
  "is_space c = (c \<in> {CHR '' '', CHR 0x09, CHR 0x0A, CHR 0x0B, CHR 0x0C, CHR 0x0D})"

definition trim :: "string \<Rightarrow> string" where
  "trim s = rev (dropWhile is_space (rev (dropWhile is_space s)))"

definition is_digit :: "char \<Rightarrow> bool" where
  "is_digit c = (let n = of_char c :: nat in 48 \<le> n \<and> n \<le> 57)"

definition is_alpha :: "char \<Rightarrow> bool" where
  "is_alpha c = (let n = of_char c :: nat in (65 \<le> n \<and> n \<le> 90) \<or> (97 \<le> n \<and> n \<le> 122))"

definition digit_char :: "nat \<Rightarrow> char" where
  "digit_char d = char_of (48 + d mod 10)"

fun show_nat :: "nat \<Rightarrow> string" where
  "show_nat n = (if n < 10 then [digit_char n] else show_nat (n div 10) @ [digit_char n])"

declare show_nat.simps [simp del]

definition show_int :: "int \<Rightarrow> string" where
  "show_int i = (if i < 0 then ''-'' @ show_nat (nat (- i)) else show_nat (nat i))"

subsubsection \<open>Lemmas on strings\<close>

lemma starts_with_iff: "starts_with s p \<longleftrightarrow> (\<exists>t. s = p @ t)"
  by (induction s p rule: starts_with.induct) auto

lemma starts_with_append [simp]: "starts_with (p @ s) p"
  by (auto simp: starts_with_iff)

lemma index_of_Some:
  "index_of s p = Some i \<Longrightarrow> \<exists>a b. s = a @ p @ b \<and> length a = i"
proof (induction s p arbitrary: i rule: index_of.induct)
  case (1 p)
  then show ?case by (auto split: if_splits)
next
  case (2 c s p)
  show ?case
  proof (cases "starts_with (c # s) p")
    case True
    then obtain t where "c # s = p @ t" by (auto simp: starts_with_iff)
    then have "c # s = [] @ p @ t \<and> length ([] :: string) = 0" by simp
    with True "2.prems" show ?thesis by (metis index_of.simps(2) option.inject)
  next
    case False
    with "2.prems" obtain j where j: "index_of s p = Some j" "i = Suc j" by auto
    from "2.IH" [OF False j(1)] obtain a b where "s = a @ p @ b" "length a = j" by blast
    with j(2) have "c # s = (c # a) @ p @ b \<and> length (c # a) = i" by simp
    then show ?thesis by blast
  qed
qed

lemma index_of_None: "index_of s p = None \<Longrightarrow> s \<noteq> a @ p @ b"
proof (induction s arbitrary: a)
  case Nil
  then show ?case by (auto split: if_splits)
next
  case (Cons c s)
  from Cons.prems have n: "\<not> starts_with (c # s) p" and r: "index_of s p = None"
    by (auto split: if_splits)
  show ?case
  proof (cases a)
    case Nil
    with n show ?thesis by (metis append_Nil starts_with_iff)
  next
    case (Cons d a')
    with Cons.IH [OF r, of a'] show ?thesis by simp
  qed
qed

lemma js_includes_iff: "js_includes s p \<longleftrightarrow> (\<exists>a b. s = a @ p @ b)"
proof
  assume "js_includes s p"
  then obtain i where "index_of s p = Some i" by (auto simp: js_includes_def)
  from index_of_Some [OF this] show "\<exists>a b. s = a @ p @ b" by blast
next
  assume "\<exists>a b. s = a @ p @ b"
  then show "js_includes s p" using index_of_None [of s p] by (auto simp: js_includes_def)
qed

lemma js_includes_sublist: "js_includes s p \<longleftrightarrow> sublist p s"
  by (auto simp: js_includes_iff sublist_def)

lemma split_on_not_Nil [simp]: "split_on sep s \<noteq> []"
  by (induction s) (auto split: list.splits)

lemma split_on_parts: "w \<in> set (split_on sep s) \<Longrightarrow> sep \<notin> set w"
proof (induction s arbitrary: w)
  case Nil
  then show ?case by simp
next
  case (Cons c s)
  obtain v vs where sp: "split_on sep s = v # vs"
    by (meson list.exhaust split_on_not_Nil)
  then have "sep \<notin> set v" and "\<And>u. u \<in> set vs \<Longrightarrow> sep \<notin> set u"
    using Cons.IH by auto
  with Cons.prems sp show ?case by (auto split: if_splits)
qed

lemma split_on_single: "sep \<notin> set w \<Longrightarrow> split_on sep w = [w]"
  by (induction w) auto

lemma split_on_append:
  "sep \<notin> set w \<Longrightarrow> split_on sep (w @ sep # s) = w # split_on sep s"
  by (induction w) auto

lemma split_on_join:
  assumes "ws \<noteq> []" and "\<And>w. w \<in> set ws \<Longrightarrow> sep \<notin> set w"
  shows "split_on sep (join [sep] ws) = ws"
  using assms
proof (induction "[sep]" ws rule: join.induct)
  case (3 w v ws)
  then have "sep \<notin> set w" by simp
  from split_on_append [OF this] 3 show ?case by simp
qed (auto simp: split_on_single)

lemma join_split_on: "join [sep] (split_on sep s) = s"
proof (induction s)
  case Nil
  then show ?case by simp
next
  case (Cons c s)
  obtain v vs where sp: "split_on sep s = v # vs"
    by (meson list.exhaust split_on_not_Nil)
  with Cons.IH have j: "join [sep] (v # vs) = s" by simp
  show ?case
  proof (cases "c = sep")
    case True
    with sp j show ?thesis by simp
  next
    case False
    with sp j show ?thesis by (cases vs) auto
  qed
qed

lemma set_join: "set (join sep ws) \<subseteq> set sep \<union> (\<Union>w\<in>set ws. set w)"
  by (induction sep ws rule: join.induct) auto

lemma digit_char_inject: "a < 10 \<Longrightarrow> b < 10 \<Longrightarrow> digit_char a = digit_char b \<Longrightarrow> a = b"
proof -
  assume a: "a < 10" and b: "b < 10" and e: "digit_char a = digit_char b"
  from e have "(of_char (digit_char a) :: nat) = of_char (digit_char b)" by simp
  with a b show "a = b" by (simp add: digit_char_def)
qed

lemma is_digit_digit_char [simp]: "is_digit (digit_char d)"
proof -
  have "d mod 10 < 10" by simp
  then show ?thesis by (simp add: is_digit_def digit_char_def Let_def)
qed

lemma show_nat_digits: "c \<in> set (show_nat n) \<Longrightarrow> is_digit c"
proof (induction n rule: show_nat.induct)
  case (1 n)
  then show ?case by (subst (asm) (2) show_nat.simps) (auto split: if_splits)
qed

lemma show_nat_not_Nil [simp]: "show_nat n \<noteq> []"
  by (subst show_nat.simps) simp

fun read_nat :: "string \<Rightarrow> nat" where
  "read_nat s = foldl (\<lambda>n c. 10 * n + (of_char c - 48)) 0 s"

lemma read_show_nat [simp]: "read_nat (show_nat n) = n"
proof (induction n rule: show_nat.induct)
  case (1 n)
  show ?case
  proof (cases "n < 10")
    case True
    then show ?thesis by (subst show_nat.simps) (simp add: digit_char_def)
  next
    case False
    with 1 have "foldl (\<lambda>n c. 10 * n + (of_char c - 48)) 0 (show_nat (n div 10)) = n div 10"
      by simp
    with False show ?thesis by (subst show_nat.simps) (simp add: digit_char_def)
  qed
qed

lemma show_nat_inject: "show_nat m = show_nat n \<Longrightarrow> m = n"
  by (metis read_show_nat)

lemma length_to_lower [simp]: "length (to_lower s) = length s"
  by (simp add: to_lower_def)

lemma to_lower_Nil [simp]: "to_lower [] = []"
  by (simp add: to_lower_def)

lemma to_lower_append [simp]: "to_lower (s @ t) = to_lower s @ to_lower t"
  by (simp add: to_lower_def)

lemma lower_char_idem [simp]: "lower_char (lower_char c) = lower_char c"
  by (auto simp: lower_char_def Let_def)

lemma to_lower_idem [simp]: "to_lower (to_lower s) = to_lower s"
  by (simp add: to_lower_def)

lemma lower_char_nonalpha: "\<not> is_alpha (lower_char c) \<Longrightarrow> lower_char c = c"
  by (auto simp: lower_char_def is_alpha_def Let_def split: if_splits)

lemma to_lower_nonalpha: "d \<in> set (to_lower s) \<Longrightarrow> \<not> is_alpha d \<Longrightarrow> d \<in> set s"
  using lower_char_nonalpha by (fastforce simp: to_lower_def)

subsection \<open>Lists: keyed replacement and windows\<close>

definition replace_front :: "('a \<Rightarrow> 'k) \<Rightarrow> 'a \<Rightarrow> 'a list \<Rightarrow> 'a list" where
  \<comment> \<open>\<open>[x, ...xs.filter(y => y.id !== x.id)]\<close>\<close>
  "replace_front key x xs = x # filter (\<lambda>y. key y \<noteq> key x) xs"

lemma set_replace_front: "set (replace_front key x xs) = insert x {y \<in> set xs. key y \<noteq> key x}"
  by (auto simp: replace_front_def)

lemma distinct_map_filter [intro]: "distinct (map f xs) \<Longrightarrow> distinct (map f (filter P xs))"
  by (rule distinct_map_filter)

lemma distinct_replace_front:
  "distinct (map key xs) \<Longrightarrow> distinct (map key (replace_front key x xs))"
  by (auto simp: replace_front_def)

lemma distinct_map_take: "distinct (map f xs) \<Longrightarrow> distinct (map f (take n xs))"
  by (metis distinct_take take_map)

lemma length_replace_front_le: "length (replace_front key x xs) \<le> Suc (length xs)"
  by (simp add: replace_front_def)

end
