(* ===== verification/Http.thy ===== *)
theory Http
  imports Prelude
begin

section \<open>HTTP messages, JSON bodies and URL encoding\<close>

text \<open>
  Requests and responses as the code builds and reads them, JSON values with
  \<open>JSON.stringify\<close>, and the two URL encodings the code calls: \<open>encodeURIComponent\<close> and
  \<open>URLSearchParams.toString\<close>. Strings are UTF-8 bytes, so percent-encoding works byte by
  byte, as the standard says.
\<close>

subsection \<open>JSON\<close>

datatype json =
    JNull
  | JBool bool
  | JNum int
  | JStr string
  | JArr "json list"
  | JObj "(string \<times> json) list"

definition hex_char :: "nat \<Rightarrow> char" where
  \<comment> \<open>upper-case hexadecimal digit, as percent-encoding writes it\<close>
  "hex_char n = (if n < 10 then char_of (48 + n) else char_of (55 + n))"

definition lhex_char :: "nat \<Rightarrow> char" where
  "lhex_char n = (if n < 10 then char_of (48 + n) else char_of (87 + n))"

definition escape_char :: "char \<Rightarrow> string" where
  "escape_char c =
     (if c = CHR 0x22 then [CHR 0x5C, CHR 0x22]
      else if c = CHR 0x5C then [CHR 0x5C, CHR 0x5C]
      else if c = CHR 0x08 then [CHR 0x5C, CHR ''b'']
      else if c = CHR 0x0C then [CHR 0x5C, CHR ''f'']
      else if c = CHR 0x0A then [CHR 0x5C, CHR ''n'']
      else if c = CHR 0x0D then [CHR 0x5C, CHR ''r'']
      else if c = CHR 0x09 then [CHR 0x5C, CHR ''t'']
      else if (of_char c :: nat) < 32
        then [CHR 0x5C, CHR ''u'', CHR ''0'', CHR ''0'',
              lhex_char (of_char c div 16), lhex_char (of_char c mod 16)]
      else [c])"

definition quote :: "string \<Rightarrow> string" where
  "quote s = [CHR 0x22] @ concat (map escape_char s) @ [CHR 0x22]"

fun stringify :: "json \<Rightarrow> string" where
  "stringify JNull = ''null''"
| "stringify (JBool b) = (if b then ''true'' else ''false'')"
| "stringify (JNum n) = show_int n"
| "stringify (JStr s) = quote s"
| "stringify (JArr xs) = ''['' @ join '','' (map stringify xs) @ '']''"
| "stringify (JObj ps) =
     ''{'' @ join '','' (map (\<lambda>p. quote (fst p) @ '':'' @ stringify (snd p)) ps) @ ''}''"

definition field :: "string \<Rightarrow> json option \<Rightarrow> (string \<times> json) list" where
  \<comment> \<open>an object field whose value may be \<open>undefined\<close>; \<open>JSON.stringify\<close> leaves those out\<close>
  "field k v = (case v of None \<Rightarrow> [] | Some j \<Rightarrow> [(k, j)])"

subsection \<open>Requests and responses\<close>

record request =
  rq_method :: string
  rq_url :: string
  rq_headers :: "(string \<times> string) list"
  rq_body :: "string option"
  rq_cache :: "string option"

record response =
  rs_status :: nat
  rs_ctype :: "string option"
  rs_body :: string

definition rs_ok :: "response \<Rightarrow> bool" where
  "rs_ok r = (200 \<le> rs_status r \<and> rs_status r < 300)"

fun obj_put :: "'k \<Rightarrow> 'v \<Rightarrow> ('k \<times> 'v) list \<Rightarrow> ('k \<times> 'v) list" where
  \<comment> \<open>setting a property of an object literal: an existing key keeps its place\<close>
  "obj_put k v [] = [(k, v)]"
| "obj_put k v ((a, b) # ps) = (if a = k then (a, v) # ps else (a, b) # obj_put k v ps)"

definition obj_spread :: "('k \<times> 'v) list \<Rightarrow> ('k \<times> 'v) list \<Rightarrow> ('k \<times> 'v) list" where
  "obj_spread ps qs = fold (\<lambda>(k, v). obj_put k v) qs ps"

lemma map_of_obj_put: "map_of (obj_put k v ps) = (map_of ps)(k \<mapsto> v)"
  by (induction k v ps rule: obj_put.induct) (auto simp: fun_eq_iff)

lemma map_of_obj_spread: "map_of (obj_spread ps qs) k = (case map_of (rev qs) k of None \<Rightarrow> map_of ps k | Some v \<Rightarrow> Some v)"
proof (induction qs arbitrary: ps)
  case Nil
  then show ?case by (simp add: obj_spread_def)
next
  case (Cons q qs)
  obtain a b where q: "q = (a, b)" by (cases q)
  have "obj_spread ps (q # qs) = obj_spread (obj_put a b ps) qs"
    by (simp add: obj_spread_def q)
  with Cons.IH [of "obj_put a b ps"] show ?case
    by (auto simp: q map_of_obj_put map_add_def split: option.splits)
qed

subsection \<open>Percent-encoding\<close>

definition pct :: "char \<Rightarrow> string" where
  "pct c = [CHR ''%'', hex_char (of_char c div 16), hex_char (of_char c mod 16)]"

definition uri_unreserved :: "char \<Rightarrow> bool" where
  "uri_unreserved c = (is_alpha c \<or> is_digit c \<or> c \<in> set ''-_.!~*'' \<or> c = CHR 0x27 \<or> c \<in> set ''()'')"

definition encode_uri_component :: "string \<Rightarrow> string" where
  "encode_uri_component s = concat (map (\<lambda>c. if uri_unreserved c then [c] else pct c) s)"

definition form_unreserved :: "char \<Rightarrow> bool" where
  "form_unreserved c = (is_alpha c \<or> is_digit c \<or> c \<in> set ''*-._'')"

definition form_encode :: "string \<Rightarrow> string" where
  "form_encode s = concat (map (\<lambda>c. if c = CHR '' '' then ''+'' else if form_unreserved c then [c] else pct c) s)"

definition search_params :: "(string \<times> string) list \<Rightarrow> string" where
  \<comment> \<open>\<open>new URLSearchParams(q).toString()\<close>\<close>
  "search_params q = join ''&'' (map (\<lambda>(k, v). form_encode k @ ''='' @ form_encode v) q)"

definition hex_val :: "char \<Rightarrow> nat" where
  "hex_val c = (let n = of_char c :: nat in if n < 58 then n - 48 else n - 55)"

fun pct_decode :: "string \<Rightarrow> string" where
  "pct_decode (p # a # b # s) =
     (if p = CHR ''%'' then char_of (16 * hex_val a + hex_val b) # pct_decode s
      else p # pct_decode (a # b # s))"
| "pct_decode s = s"

lemma of_char_less: "(of_char c :: nat) < 256"
  using nat_of_char_less_256 by blast

lemma hex_val_hex_char [simp]: "n < 16 \<Longrightarrow> hex_val (hex_char n) = n"
  by (auto simp: hex_val_def hex_char_def Let_def)

lemma hex_digit_alnum: "n < 16 \<Longrightarrow> is_alpha (hex_char n) \<or> is_digit (hex_char n)"
  by (auto simp: is_alpha_def is_digit_def hex_char_def Let_def)

lemma pct_decode_pct [simp]: "pct_decode (pct c @ s) = c # pct_decode s"
proof -
  have "(of_char c :: nat) div 16 < 16" using of_char_less [of c] by (simp add: less_mult_imp_div_less)
  then have "16 * hex_val (hex_char (of_char c div 16)) + hex_val (hex_char (of_char c mod 16)) = (of_char c :: nat)"
    by simp
  then show ?thesis by (simp add: pct_def)
qed

lemma pct_decode_plain: "p \<noteq> CHR ''%'' \<Longrightarrow> pct_decode (p # s) = p # pct_decode s"
  by (cases s; cases "tl s") auto

lemma unreserved_not_pct: "uri_unreserved c \<Longrightarrow> c \<noteq> CHR ''%''"
  by (auto simp: uri_unreserved_def is_alpha_def is_digit_def)

lemma pct_decode_encode: "pct_decode (encode_uri_component s) = s"
proof (induction s)
  case Nil
  then show ?case by (simp add: encode_uri_component_def)
next
  case (Cons c s)
  have e: "encode_uri_component (c # s) =
      (if uri_unreserved c then [c] else pct c) @ encode_uri_component s"
    by (simp add: encode_uri_component_def)
  show ?case
    using Cons.IH unreserved_not_pct [of c] by (auto simp: e pct_decode_plain)
qed

lemma pct_chars: "d \<in> set (pct c) \<Longrightarrow> d = CHR ''%'' \<or> is_alpha d \<or> is_digit d"
proof -
  assume d: "d \<in> set (pct c)"
  have "(of_char c :: nat) div 16 < 16" using of_char_less [of c] by (simp add: less_mult_imp_div_less)
  moreover have "(of_char c :: nat) mod 16 < 16" by simp
  ultimately have "is_alpha (hex_char (of_char c div 16)) \<or> is_digit (hex_char (of_char c div 16))"
    and "is_alpha (hex_char (of_char c mod 16)) \<or> is_digit (hex_char (of_char c mod 16))"
    by (simp_all only: hex_digit_alnum)
  with d show ?thesis by (auto simp: pct_def)
qed

lemma encode_uri_chars:
  "d \<in> set (encode_uri_component s) \<Longrightarrow> d = CHR ''%'' \<or> uri_unreserved d"
  using pct_chars by (fastforce simp: encode_uri_component_def uri_unreserved_def split: if_splits)

lemma encode_uri_safe:
  assumes "d \<in> set ''&=?#/+ ''"
  shows "d \<notin> set (encode_uri_component s)"
proof
  assume "d \<in> set (encode_uri_component s)"
  from encode_uri_chars [OF this] assms show False
    by (auto simp: uri_unreserved_def is_alpha_def is_digit_def)
qed

lemma form_encode_chars:
  "d \<in> set (form_encode s) \<Longrightarrow> d = CHR ''%'' \<or> d = CHR ''+'' \<or> form_unreserved d"
  using pct_chars by (fastforce simp: form_encode_def form_unreserved_def split: if_splits)

lemma form_encode_safe:
  assumes "d \<in> set ''&=?#/ ''"
  shows "d \<notin> set (form_encode s)"
proof
  assume "d \<in> set (form_encode s)"
  from form_encode_chars [OF this] assms show False
    by (auto simp: form_unreserved_def is_alpha_def is_digit_def)
qed

text \<open>
  The server's view of a query string: the pairs between \<open>&\<close>. Encoded keys and values come
  back as exactly the pairs that were written.
\<close>

definition query_pairs :: "string \<Rightarrow> (string \<times> string) list" where
  "query_pairs s = map (\<lambda>w. (takeWhile (\<lambda>c. c \<noteq> CHR ''='') w, tl (dropWhile (\<lambda>c. c \<noteq> CHR ''='') w)))
     (split_on (CHR ''&'') s)"

lemma takeWhile_neq_append: "c \<notin> set k \<Longrightarrow> takeWhile (\<lambda>d. d \<noteq> c) (k @ c # v) = k"
  by (induction k) auto

lemma dropWhile_neq_append: "c \<notin> set k \<Longrightarrow> dropWhile (\<lambda>d. d \<noteq> c) (k @ c # v) = c # v"
  by (induction k) auto

lemma query_pairs_join:
  assumes "ps \<noteq> []"
    and "\<And>k v. (k, v) \<in> set ps \<Longrightarrow> CHR ''&'' \<notin> set k \<and> CHR ''='' \<notin> set k \<and> CHR ''&'' \<notin> set v"
  shows "query_pairs (join ''&'' (map (\<lambda>(k, v). k @ ''='' @ v) ps)) = ps"
proof -
  have "split_on (CHR ''&'') (join ''&'' (map (\<lambda>(k, v). k @ ''='' @ v) ps)) = map (\<lambda>(k, v). k @ ''='' @ v) ps"
    by (rule split_on_join) (use assms in fastforce)+
  moreover have "map ((\<lambda>w. (takeWhile (\<lambda>c. c \<noteq> CHR ''='') w, tl (dropWhile (\<lambda>c. c \<noteq> CHR ''='') w)))
      \<circ> (\<lambda>(k, v). k @ ''='' @ v)) ps = ps"
    by (rule map_idI) (use assms(2) in \<open>fastforce simp: takeWhile_neq_append dropWhile_neq_append\<close>)
  ultimately show ?thesis by (simp add: query_pairs_def)
qed

lemma query_pairs_search_params:
  "q \<noteq> [] \<Longrightarrow> query_pairs (search_params q) = map (\<lambda>(k, v). (form_encode k, form_encode v)) q"
proof -
  assume "q \<noteq> []"
  then have "query_pairs (join ''&'' (map (\<lambda>(k, v). k @ ''='' @ v) (map (\<lambda>(k, v). (form_encode k, form_encode v)) q)))
      = map (\<lambda>(k, v). (form_encode k, form_encode v)) q"
    by (intro query_pairs_join) (auto simp: form_encode_safe)
  then show ?thesis by (simp add: search_params_def comp_def case_prod_unfold)
qed

end
