(* ===== verification/Bff.thy ===== *)
theory Bff
  imports Http
begin

section \<open>The backend-for-frontend: service token and role gate\<close>

text \<open>
  Models \<open>dashboard/lib/go.ts\<close> (the cached service token and the fetch bridge) and
  \<open>dashboard/app/api/proxy/[...path]/route.ts\<close> (the role-gated proxy the browser talks to).
  Better Auth's \<open>getSession\<close>, the clock and the Go server's replies are inputs. An exception
  is an \<open>Inl\<close>; each handler also returns the upstream requests it sent, in order, and the
  token cache it leaves.
\<close>

subsection \<open>The service token (lib/go.ts)\<close>

record token_cache =
  tc_token :: string
  tc_exp :: int

datatype go_error = LoginFailed nat | NetworkFailed | BadLoginBody

datatype login_body = NotJson | TokenField "string option"

datatype login_reply = LoginNetFail | LoginReply nat login_body

record go_env =
  ge_api :: string
  ge_user :: "string option"
  ge_pass :: "string option"
  ge_now :: int
  ge_now_after :: int
  ge_login :: login_reply

definition js_undefined :: string where
  "js_undefined = ''undefined''"

definition token_ttl :: int where
  "token_ttl = 11 * 60 * 60 * 1000"

definition login_request :: "go_env \<Rightarrow> request" where
  "login_request env = \<lparr>rq_method = ''POST'', rq_url = ge_api env @ ''/api/v1/login'',
     rq_headers = [(''Content-Type'', ''application/json'')],
     rq_body = Some (stringify (JObj (field ''username'' (map_option JStr (ge_user env)) @ field ''password'' (map_option JStr (ge_pass env))))),
     rq_cache = Some ''no-store''\<rparr>"

definition go_login ::
  "go_env \<Rightarrow> token_cache option \<Rightarrow> (go_error + string) \<times> token_cache option \<times> request list" where
  "go_login env cached =
     (case ge_login env of
        LoginNetFail \<Rightarrow> (Inl NetworkFailed, cached, [login_request env])
      | LoginReply status body \<Rightarrow>
          if \<not> (200 \<le> status \<and> status < 300) then (Inl (LoginFailed status), cached, [login_request env])
          else (case body of
                  NotJson \<Rightarrow> (Inl BadLoginBody, cached, [login_request env])
                | TokenField t \<Rightarrow>
                    let tok = (case t of None \<Rightarrow> js_undefined | Some x \<Rightarrow> x)
                    in (Inr tok, Some \<lparr>tc_token = tok, tc_exp = ge_now_after env + token_ttl\<rparr>, [login_request env])))"

definition go_token ::
  "go_env \<Rightarrow> token_cache option \<Rightarrow> (go_error + string) \<times> token_cache option \<times> request list" where
  "go_token env cached =
     (case cached of
        Some c \<Rightarrow> if tc_exp c > ge_now env then (Inr (tc_token c), cached, []) else go_login env cached
      | None \<Rightarrow> go_login env cached)"

definition go_fetch_request :: "go_env \<Rightarrow> string \<Rightarrow> string \<Rightarrow> string \<Rightarrow> (string \<times> string) list \<Rightarrow> string option \<Rightarrow> request" where
  \<comment> \<open>the request \<open>goFetch(path, init)\<close> sends once it holds the token\<close>
  "go_fetch_request env token path meth hdrs body =
     \<lparr>rq_method = meth, rq_url = ge_api env @ path,
      rq_headers = obj_put ''Authorization'' (''Bearer '' @ token)
        (obj_spread [(''Content-Type'', ''application/json'')] hdrs),
      rq_body = body, rq_cache = Some ''no-store''\<rparr>"

type_synonym upstream = "request \<Rightarrow> response option"

definition go_fetch ::
  "go_env \<Rightarrow> upstream \<Rightarrow> token_cache option \<Rightarrow> string \<Rightarrow> string \<Rightarrow> (string \<times> string) list \<Rightarrow> string option
     \<Rightarrow> (go_error + response) \<times> token_cache option \<times> request list" where
  "go_fetch env up cached path meth hdrs body =
     (case go_token env cached of
        (Inl e, c, sent) \<Rightarrow> (Inl e, c, sent)
      | (Inr tok, c, sent) \<Rightarrow>
          let rq = go_fetch_request env tok path meth hdrs body
          in ((case up rq of None \<Rightarrow> Inl NetworkFailed | Some r \<Rightarrow> Inr r), c, sent @ [rq]))"

subsection \<open>The role gate (app/api/proxy/[...path]/route.ts)\<close>

definition RANK :: "string \<Rightarrow> nat option" where
  "RANK = map_of [(''viewer'', 1), (''analyst'', 2), (''admin'', 3)]"

definition re_siem :: "string \<Rightarrow> bool" where
  \<comment> \<open>\<open>/^siem//\<close>\<close>
  "re_siem p = starts_with p ''siem/''"

definition GET_MIN_ROLE :: "((string \<Rightarrow> bool) \<times> string) list" where
  "GET_MIN_ROLE = [(re_siem, ''analyst'')]"

definition WRITE_MIN_ROLE :: string where
  "WRITE_MIN_ROLE = ''analyst''"

definition re_agents_policy :: "string \<Rightarrow> bool" where
  \<comment> \<open>\<open>/^agents/[^/]+/(policy|upgrade)$/\<close>\<close>
  "re_agents_policy p =
     (case split_on (CHR ''/'') p of
        [a, x, b] \<Rightarrow> a = ''agents'' \<and> x \<noteq> [] \<and> (b = ''policy'' \<or> b = ''upgrade'') | _ \<Rightarrow> False)"

definition re_rules_toggle :: "string \<Rightarrow> bool" where
  \<comment> \<open>\<open>/^rules/[^/]+/toggle$/\<close>\<close>
  "re_rules_toggle p =
     (case split_on (CHR ''/'') p of [a, x, b] \<Rightarrow> a = ''rules'' \<and> x \<noteq> [] \<and> b = ''toggle'' | _ \<Rightarrow> False)"

definition WRITE_ADMIN_ROLE :: "(string \<Rightarrow> bool) list" where
  "WRITE_ADMIN_ROLE = [re_agents_policy, re_rules_toggle]"

definition write_min_role :: "string list \<Rightarrow> string" where
  "write_min_role path =
     (let p = join ''/'' path in if list_ex (\<lambda>re. re p) WRITE_ADMIN_ROLE then ''admin'' else WRITE_MIN_ROLE)"

definition segment_char :: "char \<Rightarrow> bool" where
  "segment_char c = (is_alpha c \<or> is_digit c \<or> c = CHR ''_'' \<or> c = CHR ''-'')"

definition valid_segment :: "string \<Rightarrow> bool" where
  \<comment> \<open>\<open>SEGMENT = /^[A-Za-z0-9_-]+$/\<close>\<close>
  "valid_segment s = (s \<noteq> [] \<and> list_all segment_char s)"

record op_session =
  se_role :: "string option"

definition operator_role :: "op_session option \<Rightarrow> string option" where
  "operator_role session = (case session of None \<Rightarrow> None | Some s \<Rightarrow> Some (to_lower (str_or (se_role s) ''viewer'')))"

definition allowed :: "string option \<Rightarrow> string \<Rightarrow> bool" where
  "allowed role least =
     (case role of None \<Rightarrow> False
      | Some r \<Rightarrow> (case RANK r of None \<Rightarrow> 0 | Some n \<Rightarrow> n) \<ge> (case RANK least of None \<Rightarrow> 99 | Some n \<Rightarrow> n))"

definition valid_path :: "string list \<Rightarrow> bool" where
  "valid_path path = (length path > 0 \<and> list_all valid_segment path)"

definition get_min_role :: "string list \<Rightarrow> string" where
  "get_min_role path =
     (let p = join ''/'' path in
      case find (\<lambda>r. fst r p) GET_MIN_ROLE of Some r \<Rightarrow> snd r | None \<Rightarrow> ''viewer'')"

definition passthrough :: "response \<Rightarrow> response" where
  "passthrough r = r\<lparr>rs_ctype := Some (str_or (rs_ctype r) ''application/json'')\<rparr>"

definition plain :: "nat \<Rightarrow> string \<Rightarrow> response" where
  \<comment> \<open>\<open>new Response(text, { status })\<close>; a string body sets this content type\<close>
  "plain status text = \<lparr>rs_status = status, rs_ctype = Some ''text/plain;charset=UTF-8'', rs_body = text\<rparr>"

datatype meth = MGet | MPost | MDelete

record bff_env =
  be_go :: go_env
  be_up :: upstream
  be_session :: "op_session option"

record incoming =
  in_path :: "string list"
  in_search :: string
  in_body :: string

type_synonym bff_result = "(go_error + response) \<times> token_cache option \<times> request list"

definition forward :: "bff_env \<Rightarrow> token_cache option \<Rightarrow> incoming \<Rightarrow> string \<Rightarrow> string option \<Rightarrow> bff_result" where
  "forward env c rq m body =
     (case go_fetch (be_go env) (be_up env) c (''/api/v1/'' @ join ''/'' (in_path rq) @ in_search rq) m [] body of
        (Inl e, c', sent) \<Rightarrow> (Inl e, c', sent)
      | (Inr r, c', sent) \<Rightarrow> (Inr (passthrough r), c', sent))"

definition bff_GET :: "bff_env \<Rightarrow> token_cache option \<Rightarrow> incoming \<Rightarrow> bff_result" where
  "bff_GET env c rq =
     (let path = in_path rq in
      if \<not> valid_path path then (Inr (plain 400 ''bad request''), c, [])
      else let role = operator_role (be_session env) in
      if role = None \<or> role = Some [] then (Inr (plain 401 ''unauthorized''), c, [])
      else let min = get_min_role path in
      if \<not> allowed role min then (Inr (plain 403 (''forbidden: '' @ min @ '' role required'')), c, [])
      else forward env c rq ''GET'' None)"

definition bff_POST :: "bff_env \<Rightarrow> token_cache option \<Rightarrow> incoming \<Rightarrow> bff_result" where
  "bff_POST env c rq =
     (let path = in_path rq in
      if \<not> valid_path path then (Inr (plain 400 ''bad request''), c, [])
      else let role = operator_role (be_session env) in
      if role = None \<or> role = Some [] then (Inr (plain 401 ''unauthorized''), c, [])
      else let min = write_min_role path in
      if \<not> allowed role min then (Inr (plain 403 (''forbidden: '' @ min @ '' role required'')), c, [])
      else forward env c rq ''POST'' (Some (in_body rq)))"

definition bff_DELETE :: "bff_env \<Rightarrow> token_cache option \<Rightarrow> incoming \<Rightarrow> bff_result" where
  "bff_DELETE env c rq =
     (let path = in_path rq in
      if \<not> valid_path path then (Inr (plain 400 ''bad request''), c, [])
      else let role = operator_role (be_session env) in
      if role = None \<or> role = Some [] then (Inr (plain 401 ''unauthorized''), c, [])
      else if \<not> allowed role WRITE_MIN_ROLE then (Inr (plain 403 (''forbidden: '' @ WRITE_MIN_ROLE @ '' role required'')), c, [])
      else forward env c rq ''DELETE'' None)"

fun bff_handle :: "meth \<Rightarrow> bff_env \<Rightarrow> token_cache option \<Rightarrow> incoming \<Rightarrow> bff_result" where
  "bff_handle MGet = bff_GET"
| "bff_handle MPost = bff_POST"
| "bff_handle MDelete = bff_DELETE"

subsection \<open>The access policy, stated on path segments\<close>

text \<open>
  The code decides on the joined path with regular expressions. The policy below decides on
  the list of segments, and \<open>go_routes\<close> is the role each Go console route asks for
  (\<open>server/internal/api/api.go\<close>, the \<open>auth.Require\<close> registrations), with \<open>{id}\<close> for a
  path parameter.
\<close>

fun least_role :: "meth \<Rightarrow> string list \<Rightarrow> string" where
  "least_role MGet path =
     (case path of a # b # _ \<Rightarrow> if a = ''siem'' then ''analyst'' else ''viewer'' | _ \<Rightarrow> ''viewer'')"
| "least_role MPost path =
     (case path of
        [a, _, b] \<Rightarrow> if a = ''agents'' \<and> b \<in> {''policy'', ''upgrade''} \<or> a = ''rules'' \<and> b = ''toggle''
                   then ''admin'' else ''analyst''
      | _ \<Rightarrow> ''analyst'')"
| "least_role MDelete path = ''analyst''"

definition role_rank :: "string option \<Rightarrow> nat" where
  "role_rank r = (case r of None \<Rightarrow> 0 | Some n \<Rightarrow> (case RANK n of None \<Rightarrow> 0 | Some k \<Rightarrow> k))"

datatype decision = BadRequest | Unauthorized | Forbidden string | Forward

definition decide :: "meth \<Rightarrow> op_session option \<Rightarrow> string list \<Rightarrow> decision" where
  "decide m session path =
     (if path = [] \<or> (\<exists>s\<in>set path. \<not> valid_segment s) then BadRequest
      else if session = None then Unauthorized
      else if role_rank (operator_role session) < role_rank (Some (least_role m path)) then Forbidden (least_role m path)
      else Forward)"

fun verb :: "meth \<Rightarrow> string" where
  "verb MGet = ''GET''"
| "verb MPost = ''POST''"
| "verb MDelete = ''DELETE''"

fun sent_body :: "meth \<Rightarrow> incoming \<Rightarrow> string option" where
  "sent_body MPost rq = Some (in_body rq)"
| "sent_body _ rq = None"

definition go_routes :: "(meth \<times> string list \<times> string) list" where
  "go_routes =
     [(MGet, [''agents''], ''viewer''),
      (MGet, [''agents'', ''{id}''], ''viewer''),
      (MGet, [''events''], ''viewer''),
      (MGet, [''detections''], ''viewer''),
      (MGet, [''responses''], ''viewer''),
      (MGet, [''rules''], ''viewer''),
      (MGet, [''cases''], ''viewer''),
      (MGet, [''cases'', ''{id}''], ''viewer''),
      (MGet, [''suppressions''], ''viewer''),
      (MGet, [''dlp'', ''policies''], ''viewer''),
      (MGet, [''dlp'', ''classifiers''], ''viewer''),
      (MGet, [''stats'', ''overview''], ''viewer''),
      (MGet, [''siem'', ''export''], ''analyst''),
      (MPost, [''detections'', ''{id}'', ''status''], ''analyst''),
      (MPost, [''detections'', ''{id}'', ''triage''], ''analyst''),
      (MPost, [''respond''], ''analyst''),
      (MPost, [''agents'', ''{id}'', ''policy''], ''admin''),
      (MPost, [''agents'', ''{id}'', ''upgrade''], ''admin''),
      (MPost, [''cases''], ''analyst''),
      (MPost, [''cases'', ''{id}''], ''analyst''),
      (MPost, [''cases'', ''{id}'', ''notes''], ''analyst''),
      (MPost, [''suppressions''], ''analyst''),
      (MDelete, [''suppressions'', ''{id}''], ''analyst''),
      (MPost, [''rules'', ''{id}'', ''toggle''], ''admin'')]"

fun route_matches :: "string list \<Rightarrow> string list \<Rightarrow> bool" where
  "route_matches [] [] = True"
| "route_matches (r # rs) (s # ss) = ((r = s \<or> r = ''{id}'' \<and> s \<noteq> []) \<and> route_matches rs ss)"
| "route_matches _ _ = False"

fun resolve_dots :: "string list \<Rightarrow> string list \<Rightarrow> string list" where
  \<comment> \<open>dot-segment removal of the URL standard, which \<open>fetch\<close> applies to the path\<close>
  "resolve_dots acc [] = rev acc"
| "resolve_dots acc (s # ss) =
     (if to_lower s \<in> {''..'', ''.%2e'', ''%2e.'', ''%2e%2e''} then resolve_dots (tl acc) ss
      else if to_lower s \<in> {''.'', ''%2e''} then resolve_dots acc ss
      else resolve_dots (s # acc) ss)"

subsection \<open>Lemmas\<close>

lemma RANK_simps [simp]:
  "RANK ''viewer'' = Some 1" "RANK ''analyst'' = Some 2" "RANK ''admin'' = Some 3"
  by (simp_all add: RANK_def)

lemma RANK_None: "r \<notin> {''viewer'', ''analyst'', ''admin''} \<Longrightarrow> RANK r = None"
  by (simp add: RANK_def)

lemma valid_segment_no_slash: "valid_segment s \<Longrightarrow> CHR ''/'' \<notin> set s"
  by (auto simp: valid_segment_def list_all_iff segment_char_def is_alpha_def is_digit_def)

lemma valid_segment_not_dots:
  assumes "valid_segment s" shows "CHR ''.'' \<notin> set s" and "CHR ''%'' \<notin> set s" and "s \<noteq> []"
  using assms by (auto simp: valid_segment_def list_all_iff segment_char_def is_alpha_def is_digit_def)

lemma valid_path_iff: "valid_path path \<longleftrightarrow> path \<noteq> [] \<and> (\<forall>s\<in>set path. valid_segment s)"
  by (auto simp: valid_path_def list_all_iff)

lemma split_valid_path: "valid_path path \<Longrightarrow> split_on (CHR ''/'') (join ''/'' path) = path"
  by (rule split_on_join) (auto simp: valid_path_iff valid_segment_no_slash)

lemma to_lower_nonempty [simp]: "to_lower s = [] \<longleftrightarrow> s = []"
  by (simp add: to_lower_def)

lemma str_or_viewer_nonempty: "str_or r ''viewer'' \<noteq> []"
  by (cases r) (auto simp: str_or_def)

lemma operator_role_eq_None [simp]: "operator_role s = None \<longleftrightarrow> s = None"
  by (cases s) (auto simp: operator_role_def)

lemma operator_role_not_empty [simp]: "operator_role s \<noteq> Some []"
  by (cases s) (auto simp: operator_role_def str_or_viewer_nonempty)

lemma write_min_role_eq: "valid_path path \<Longrightarrow> write_min_role path = least_role MPost path"
  by (auto simp: write_min_role_def WRITE_ADMIN_ROLE_def re_agents_policy_def re_rules_toggle_def Let_def
      split_valid_path WRITE_MIN_ROLE_def valid_path_iff
      dest: valid_segment_not_dots(3) split: list.splits)

lemma starts_with_siem:
  assumes "valid_path path"
  shows "starts_with (join ''/'' path) ''siem/'' \<longleftrightarrow> (\<exists>b rest. path = ''siem'' # b # rest)"
proof
  assume "starts_with (join ''/'' path) ''siem/''"
  then obtain t where "join ''/'' path = ''siem'' @ CHR ''/'' # t"
    by (auto simp: starts_with_iff)
  then have "path = split_on (CHR ''/'') (''siem'' @ CHR ''/'' # t)"
    using split_valid_path [OF assms] by simp
  also have "\<dots> = ''siem'' # split_on (CHR ''/'') t" by simp
  finally show "\<exists>b rest. path = ''siem'' # b # rest"
    by (cases "split_on (CHR ''/'') t") auto
next
  assume "\<exists>b rest. path = ''siem'' # b # rest"
  then show "starts_with (join ''/'' path) ''siem/''" by auto
qed

lemma get_min_role_eq: "valid_path path \<Longrightarrow> get_min_role path = least_role MGet path"
  by (auto simp: get_min_role_def GET_MIN_ROLE_def re_siem_def Let_def starts_with_siem split: list.splits)

lemma least_role_known: "least_role m path \<in> {''viewer'', ''analyst'', ''admin''}"
  by (cases m) (auto split: list.splits)

lemma allowed_iff:
  assumes "least \<in> {''viewer'', ''analyst'', ''admin''}"
  shows "allowed (Some r) least \<longleftrightarrow> role_rank (Some least) \<le> role_rank (Some r)"
  using assms by (auto simp: allowed_def role_rank_def split: option.splits)

subsection \<open>The contract the three handlers share\<close>

locale gated_handler =
  fixes handle :: "bff_env \<Rightarrow> token_cache option \<Rightarrow> incoming \<Rightarrow> bff_result"
    and m :: meth
  assumes bad_path: "\<not> valid_path (in_path rq) \<Longrightarrow> handle env c rq = (Inr (plain 400 ''bad request''), c, [])"
    and no_session: "valid_path (in_path rq) \<Longrightarrow> be_session env = None \<Longrightarrow>
      handle env c rq = (Inr (plain 401 ''unauthorized''), c, [])"
    and low_rank: "valid_path (in_path rq) \<Longrightarrow> be_session env = Some s \<Longrightarrow>
      \<not> allowed (operator_role (Some s)) (least_role m (in_path rq)) \<Longrightarrow>
      handle env c rq = (Inr (plain 403 (''forbidden: '' @ least_role m (in_path rq) @ '' role required'')), c, [])"
    and passes: "valid_path (in_path rq) \<Longrightarrow> be_session env = Some s \<Longrightarrow>
      allowed (operator_role (Some s)) (least_role m (in_path rq)) \<Longrightarrow>
      handle env c rq = forward env c rq (verb m) (sent_body m rq)"
begin

lemma rank_test:
  "allowed (operator_role (Some s)) (least_role m p) \<longleftrightarrow>
     \<not> role_rank (operator_role (Some s)) < role_rank (Some (least_role m p))"
  using allowed_iff [OF least_role_known] by (auto simp: operator_role_def not_less)

lemma handle_decides:
  "handle env c rq =
     (case decide m (be_session env) (in_path rq) of
        BadRequest \<Rightarrow> (Inr (plain 400 ''bad request''), c, [])
      | Unauthorized \<Rightarrow> (Inr (plain 401 ''unauthorized''), c, [])
      | Forbidden r \<Rightarrow> (Inr (plain 403 (''forbidden: '' @ r @ '' role required'')), c, [])
      | Forward \<Rightarrow> forward env c rq (verb m) (sent_body m rq))"
proof (cases "valid_path (in_path rq)")
  case False
  then show ?thesis by (auto simp: bad_path decide_def valid_path_iff)
next
  case True
  then have v: "\<not> (in_path rq = [] \<or> (\<exists>s\<in>set (in_path rq). \<not> valid_segment s))"
    by (auto simp: valid_path_iff)
  show ?thesis
  proof (cases "be_session env")
    case None
    with True v show ?thesis by (simp add: no_session decide_def)
  next
    case (Some s)
    with True v show ?thesis
      by (simp add: low_rank [OF True Some] passes [OF True Some] decide_def rank_test)
  qed
qed

lemma sends_only_forwarded:
  "snd (snd (handle env c rq)) \<noteq> [] \<Longrightarrow> decide m (be_session env) (in_path rq) = Forward"
  by (cases "decide m (be_session env) (in_path rq)") (auto simp: handle_decides)

end

interpretation gate_get: gated_handler bff_GET MGet
  by unfold_locales (auto simp: bff_GET_def Let_def get_min_role_eq)

interpretation gate_post: gated_handler bff_POST MPost
  by unfold_locales (auto simp: bff_POST_def Let_def write_min_role_eq)

interpretation gate_delete: gated_handler bff_DELETE MDelete
  by unfold_locales (auto simp: bff_DELETE_def Let_def WRITE_MIN_ROLE_def)

lemma gated_bff_handle: "gated_handler (bff_handle m) m"
  by (cases m) (simp_all add: gate_get.gated_handler_axioms gate_post.gated_handler_axioms
      gate_delete.gated_handler_axioms)

lemma bff_sends: "snd (snd (bff_handle m env c rq)) \<noteq> [] \<Longrightarrow> decide m (be_session env) (in_path rq) = Forward"
  by (rule gated_handler.sends_only_forwarded [OF gated_bff_handle])

lemma decide_ForwardE:
  assumes "decide m s path = Forward"
  shows "valid_path path" and "s \<noteq> None"
    and "role_rank (Some (least_role m path)) \<le> role_rank (operator_role s)"
  using assms by (auto simp: decide_def valid_path_iff split: if_splits)

subsection \<open>Lemmas on what is sent\<close>

lemma go_token_sent: "q \<in> set (snd (snd (go_token env c))) \<Longrightarrow> q = login_request env"
  by (auto simp: go_token_def go_login_def Let_def split: option.splits if_splits login_reply.splits login_body.splits)

lemma forward_sent:
  assumes "q \<in> set (snd (snd (forward env c rq v b)))"
  shows "q = login_request (be_go env) \<or>
    (\<exists>tok. fst (go_token (be_go env) c) = Inr tok \<and>
       q = go_fetch_request (be_go env) tok (''/api/v1/'' @ join ''/'' (in_path rq) @ in_search rq) v [] b)"
  using assms go_token_sent [of q "be_go env" c]
  by (auto simp: forward_def go_fetch_def Let_def split: prod.splits sum.splits option.splits)

lemma resolve_dots_plain:
  "\<forall>s\<in>set ss. CHR ''.'' \<notin> set s \<and> CHR ''%'' \<notin> set s \<Longrightarrow> resolve_dots acc ss = rev acc @ ss"
proof (induction ss arbitrary: acc)
  case Nil
  then show ?case by simp
next
  case (Cons s ss)
  have low: "d \<in> set (to_lower s) \<Longrightarrow> d = CHR ''.'' \<or> d = CHR ''%'' \<Longrightarrow> d \<in> set s" for d
    using to_lower_nonalpha [of d s] by (auto simp: is_alpha_def)
  have "to_lower s \<notin> {''..'', ''.%2e'', ''%2e.'', ''%2e%2e''}" and "to_lower s \<notin> {''.'', ''%2e''}"
    using Cons.prems low [of "CHR ''.''"] low [of "CHR ''%''"] by auto
  with Cons show ?case by simp
qed

fun run_tokens ::
  "go_env list \<Rightarrow> token_cache option \<Rightarrow> (go_error + string) list \<times> token_cache option \<times> request list" where
  \<comment> \<open>successive calls of \<open>goToken\<close>, each with its own clock and login reply\<close>
  "run_tokens [] c = ([], c, [])"
| "run_tokens (e # es) c =
     (case go_token e c of (r, c', sent) \<Rightarrow>
        (case run_tokens es c' of (rs, c'', sent') \<Rightarrow> (r # rs, c'', sent @ sent')))"

lemma go_token_hit: "ge_now e < tc_exp c \<Longrightarrow> go_token e (Some c) = (Inr (tc_token c), Some c, [])"
  by (simp add: go_token_def)

lemma run_tokens_hits:
  "\<forall>e\<in>set es. ge_now e < tc_exp c \<Longrightarrow>
     run_tokens es (Some c) = (replicate (length es) (Inr (tc_token c)), Some c, [])"
  by (induction es) (auto simp: go_token_hit)

lemma route_matches_Cons:
  "route_matches (r # rs) path \<longleftrightarrow> (\<exists>s ss. path = s # ss \<and> (r = s \<or> r = ''{id}'' \<and> s \<noteq> []) \<and> route_matches rs ss)"
  by (cases path) auto

lemma route_matches_Nil: "route_matches [] path \<longleftrightarrow> path = []"
  by (cases path) auto

lemma go_route_least_role:
  "(m, pat, role) \<in> set go_routes \<Longrightarrow> route_matches pat path \<Longrightarrow> least_role m path = role"
  by (auto simp: go_routes_def route_matches_Cons route_matches_Nil)

subsection \<open>Properties\<close>

text \<open>C1: each of the proxy's handlers (GET, POST, DELETE) answers 400, 401 or 403 without
  touching the token cache or the network, or forwards the request, exactly as the policy on
  path segments decides. The policy is stated without the code's regular expressions.\<close>

theorem bff_matches_policy:
  "bff_handle m env c rq =
     (case decide m (be_session env) (in_path rq) of
        BadRequest \<Rightarrow> (Inr (plain 400 ''bad request''), c, [])
      | Unauthorized \<Rightarrow> (Inr (plain 401 ''unauthorized''), c, [])
      | Forbidden r \<Rightarrow> (Inr (plain 403 (''forbidden: '' @ r @ '' role required'')), c, [])
      | Forward \<Rightarrow> forward env c rq (verb m) (sent_body m rq))"
  by (rule gated_handler.handle_decides [OF gated_bff_handle])

text \<open>C2: the proxy holds an admin token, so its own gate must be the Go server's role table.
  For every console route the Go server registers and every path of that shape, a request is
  forwarded exactly when the operator's role has the rank the Go route asks for: no operator
  gains a right through the proxy and none loses one.\<close>

theorem bff_agrees_with_go_rbac:
  assumes "(m, pat, role) \<in> set go_routes" and "route_matches pat (in_path rq)" and "valid_path (in_path rq)"
  shows "if role_rank (Some role) \<le> role_rank (operator_role (be_session env))
    then bff_handle m env c rq = forward env c rq (verb m) (sent_body m rq)
    else \<exists>status text. status \<in> {401, 403} \<and> bff_handle m env c rq = (Inr (plain status text), c, [])"
proof -
  have l: "least_role m (in_path rq) = role" by (rule go_route_least_role [OF assms(1,2)])
  have "role_rank (Some role) \<noteq> 0"
    using least_role_known [of m "in_path rq"] by (auto simp: l role_rank_def)
  moreover have "role_rank (operator_role None) = 0" by (simp add: operator_role_def role_rank_def)
  ultimately show ?thesis
    using assms(3)
    by (cases "be_session env")
      (auto simp: gated_handler.handle_decides [OF gated_bff_handle] decide_def l valid_path_iff not_less)
qed

definition sample_go_env :: go_env where
  "sample_go_env = \<lparr>ge_api = ''http://server:8080'', ge_user = Some ''admin'', ge_pass = Some ''pw'',
     ge_now = 1000, ge_now_after = 1020, ge_login = LoginReply 200 (TokenField (Some ''jwt''))\<rparr>"

definition sample_bff_env :: bff_env where
  "sample_bff_env = \<lparr>be_go = sample_go_env, be_up = (\<lambda>_. None), be_session = Some \<lparr>se_role = None\<rparr>\<rparr>"

lemma bff_agrees_with_go_rbac_witness:
  "\<exists>status text. status \<in> {401, 403} \<and>
     bff_handle MPost sample_bff_env None \<lparr>in_path = [''agents'', ''a1'', ''policy''], in_search = [], in_body = []\<rparr> =
       (Inr (plain status text), None, [])"
proof -
  have m: "(MPost, [''agents'', ''{id}'', ''policy''], ''admin'') \<in> set go_routes" by (simp add: go_routes_def)
  have r: "route_matches [''agents'', ''{id}'', ''policy''] (in_path \<lparr>in_path = [''agents'', ''a1'', ''policy''], in_search = [], in_body = []\<rparr>)"
    by simp
  have v: "valid_path (in_path \<lparr>in_path = [''agents'', ''a1'', ''policy''], in_search = [], in_body = []\<rparr>)" by code_simp
  have l: "to_lower ''viewer'' = ''viewer''" by code_simp
  show ?thesis
    using bff_agrees_with_go_rbac [OF m r v, of sample_bff_env None]
    by (simp add: sample_bff_env_def operator_role_def role_rank_def l)
qed

text \<open>C5: whatever a handler sends is the login request or a request under \<open>/api/v1/\<close> of the
  Go API whose path is the segments of the incoming path; resolving dot segments, plain or
  percent-encoded, changes nothing, so no path reaches a route outside \<open>/api/v1/\<close>.\<close>

theorem bff_confined:
  assumes "q \<in> set (snd (snd (bff_handle m env c rq)))"
  shows "q = login_request (be_go env) \<or>
    (\<exists>p. rq_url q = ge_api (be_go env) @ ''/api/v1/'' @ p @ in_search rq \<and>
         split_on (CHR ''/'') p = in_path rq \<and>
         resolve_dots [''v1'', ''api''] (split_on (CHR ''/'') p) = [''api'', ''v1''] @ in_path rq)"
proof -
  have fw: "decide m (be_session env) (in_path rq) = Forward"
    by (rule bff_sends [of m env c rq]) (use assms in auto)
  then have vp: "valid_path (in_path rq)" by (rule decide_ForwardE)
  have "q \<in> set (snd (snd (forward env c rq (verb m) (sent_body m rq))))"
    using assms by (simp add: gated_handler.handle_decides [OF gated_bff_handle] fw)
  from forward_sent [OF this] show ?thesis
  proof (elim disjE exE conjE)
    fix tok
    assume "q = go_fetch_request (be_go env) tok (''/api/v1/'' @ join ''/'' (in_path rq) @ in_search rq)
        (verb m) [] (sent_body m rq)"
    moreover have "resolve_dots [''v1'', ''api''] (in_path rq) = rev [''v1'', ''api''] @ in_path rq"
      by (rule resolve_dots_plain) (use vp in \<open>auto simp: valid_path_iff valid_segment_not_dots\<close>)
    ultimately show ?thesis
      using split_valid_path [OF vp] by (auto simp: go_fetch_request_def)
  qed simp
qed

lemma bff_confined_witness:
  "\<exists>p. ''http://server:8080/api/v1/agents?limit=5'' = ge_api sample_go_env @ ''/api/v1/'' @ p @ ''?limit=5'' \<and>
     split_on (CHR ''/'') p = [''agents''] \<and>
     resolve_dots [''v1'', ''api''] (split_on (CHR ''/'') p) = [''api'', ''v1''] @ [''agents'']"
proof -
  let ?rq = "\<lparr>in_path = [''agents''], in_search = ''?limit=5'', in_body = []\<rparr>"
  let ?q = "go_fetch_request sample_go_env ''jwt'' ''/api/v1/agents?limit=5'' ''GET'' [] None"
  have "valid_path [''agents'']" "to_lower ''viewer'' = ''viewer''" by code_simp+
  then have "?q \<in> set (snd (snd (bff_handle MGet sample_bff_env None ?rq)))"
    by (simp add: bff_GET_def Let_def sample_bff_env_def operator_role_def get_min_role_def GET_MIN_ROLE_def re_siem_def allowed_def
        forward_def go_fetch_def go_token_def go_login_def sample_go_env_def)
  from bff_confined [OF this] show ?thesis
    by (simp add: go_fetch_request_def login_request_def sample_bff_env_def sample_go_env_def)
qed

text \<open>Every forwarded request carries the service token as its only credential: the
  header list is the content type and one \<open>Authorization: Bearer\<close>, whatever the browser sent.\<close>

theorem bff_service_credential:
  assumes "q \<in> set (snd (snd (bff_handle m env c rq)))" and "q \<noteq> login_request (be_go env)"
  shows "\<exists>tok. fst (go_token (be_go env) c) = Inr tok \<and>
    rq_headers q = [(''Content-Type'', ''application/json''), (''Authorization'', ''Bearer '' @ tok)] \<and>
    rq_method q = verb m \<and> rq_cache q = Some ''no-store''"
proof -
  have fw: "decide m (be_session env) (in_path rq) = Forward"
    by (rule bff_sends [of m env c rq]) (use assms in auto)
  have "q \<in> set (snd (snd (forward env c rq (verb m) (sent_body m rq))))"
    using assms by (simp add: gated_handler.handle_decides [OF gated_bff_handle] fw)
  from forward_sent [OF this] assms(2) show ?thesis
    by (auto simp: go_fetch_request_def obj_spread_def)
qed

lemma bff_service_credential_witness:
  "\<exists>tok. fst (go_token sample_go_env None) = Inr tok \<and>
     [(''Content-Type'', ''application/json''), (''Authorization'', ''Bearer jwt'')] =
     [(''Content-Type'', ''application/json''), (''Authorization'', ''Bearer '' @ tok)] \<and>
     ''GET'' = verb MGet \<and> Some ''no-store'' = Some ''no-store''"
proof -
  let ?rq = "\<lparr>in_path = [''agents''], in_search = [], in_body = []\<rparr>"
  let ?q = "go_fetch_request sample_go_env ''jwt'' ''/api/v1/agents'' ''GET'' [] None"
  have "valid_path [''agents'']" "to_lower ''viewer'' = ''viewer''" by code_simp+
  then have "?q \<in> set (snd (snd (bff_handle MGet sample_bff_env None ?rq)))"
    by (simp add: bff_GET_def Let_def sample_bff_env_def operator_role_def get_min_role_def GET_MIN_ROLE_def re_siem_def allowed_def
        forward_def go_fetch_def go_token_def go_login_def sample_go_env_def)
  moreover have "?q \<noteq> login_request (be_go sample_bff_env)"
    by (simp add: go_fetch_request_def login_request_def sample_bff_env_def)
  ultimately show ?thesis
    using bff_service_credential [of ?q MGet sample_bff_env None ?rq]
    by (simp add: sample_bff_env_def go_fetch_request_def obj_spread_def)
qed

text \<open>Once a login has succeeded, every later call within eleven hours of it returns that
  token from the cache: one login request in all, and the cache keeps the first expiry.\<close>

theorem go_token_single_login:
  assumes "ge_login e = LoginReply st (TokenField (Some tok))" and "200 \<le> st" and "st < 300"
    and "\<forall>d\<in>set es. ge_now d < ge_now_after e + token_ttl"
  shows "run_tokens (e # es) None =
    (replicate (Suc (length es)) (Inr tok),
     Some \<lparr>tc_token = tok, tc_exp = ge_now_after e + token_ttl\<rparr>, [login_request e])"
  using assms run_tokens_hits [of es "\<lparr>tc_token = tok, tc_exp = ge_now_after e + token_ttl\<rparr>"]
  by (simp add: go_token_def go_login_def Let_def)

lemma go_token_single_login_witness:
  "run_tokens [sample_go_env, sample_go_env\<lparr>ge_now := 39600000\<rparr>] None =
    ([Inr ''jwt'', Inr ''jwt''], Some \<lparr>tc_token = ''jwt'', tc_exp = 39601020\<rparr>, [login_request sample_go_env])"
  using go_token_single_login [of sample_go_env 200 "''jwt''" "[sample_go_env\<lparr>ge_now := 39600000\<rparr>]"]
  by (simp add: sample_go_env_def token_ttl_def)

text \<open>C25: a failed login (no network, a bad status, a body that is not JSON) raises, leaves the
  cache as it was, and the proxy passes the exception on having sent only the login request:
  no request goes upstream without a token.\<close>

theorem bff_login_failure:
  assumes "fst (go_token (be_go env) c) = Inl err" and "decide m (be_session env) (in_path rq) = Forward"
  shows "bff_handle m env c rq = (Inl err, c, [login_request (be_go env)])"
proof -
  have "go_token (be_go env) c = (Inl err, c, [login_request (be_go env)])"
    using assms(1) by (auto simp: go_token_def go_login_def Let_def
        split: option.splits if_splits login_reply.splits login_body.splits)
  with assms(2) show ?thesis
    by (simp add: gated_handler.handle_decides [OF gated_bff_handle] forward_def go_fetch_def)
qed

lemma bff_login_failure_witness:
  "bff_handle MGet (sample_bff_env\<lparr>be_go := sample_go_env\<lparr>ge_login := LoginReply 503 NotJson\<rparr>\<rparr>) None
     \<lparr>in_path = [''rules''], in_search = [], in_body = []\<rparr> =
   (Inl (LoginFailed 503), None, [login_request (sample_go_env\<lparr>ge_login := LoginReply 503 NotJson\<rparr>)])"
proof -
  let ?env = "sample_bff_env\<lparr>be_go := sample_go_env\<lparr>ge_login := LoginReply 503 NotJson\<rparr>\<rparr>"
  have f: "fst (go_token (be_go ?env) None) = Inl (LoginFailed 503)"
    by (simp add: go_token_def go_login_def)
  have "decide MGet (Some \<lparr>se_role = None\<rparr>) [''rules''] = Forward" by code_simp
  then have d: "decide MGet (be_session ?env) (in_path \<lparr>in_path = [''rules''], in_search = [], in_body = []\<rparr>) = Forward"
    by (simp add: sample_bff_env_def)
  from bff_login_failure [OF f d] show ?thesis by simp
qed

end
