(* ===== verification/Stream.thy ===== *)
theory Stream
  imports Prelude
begin

section \<open>The shared push channel of the dashboard\<close>

text \<open>
  Models \<open>dashboard/lib/use-stream.ts\<close>: one module-level EventSource, counted references, the
  handler table and the status callbacks. Handlers and status callbacks are numbered; calling
  one is an output of the step. The deferred \<open>setTimeout(teardown, 0)\<close> calls are counted in
  \<open>hb_timers\<close>. The browser and the components that subscribe are the step relation at the end.
\<close>

subsection \<open>Module state and operations\<close>

record hub =
  hb_open :: bool
  hb_refs :: int
  hb_handlers :: "(string \<times> nat list) list"
  hb_status :: "nat list"
  hb_connected :: bool
  hb_timers :: nat

definition hub0 :: hub where
  "hub0 = \<lparr>hb_open = False, hb_refs = 0, hb_handlers = [], hb_status = [], hb_connected = False, hb_timers = 0\<rparr>"

datatype 'a delivery = DData nat 'a | DWhole nat string 'a

definition set_add :: "nat \<Rightarrow> nat list \<Rightarrow> nat list" where
  \<comment> \<open>\<open>Set.add\<close>: insertion order, no duplicates\<close>
  "set_add h hs = (if h \<in> set hs then hs else hs @ [h])"

definition set_delete :: "nat \<Rightarrow> nat list \<Rightarrow> nat list" where
  "set_delete h hs = filter (\<lambda>x. x \<noteq> h) hs"

fun handlers_put :: "string \<Rightarrow> nat list \<Rightarrow> (string \<times> nat list) list \<Rightarrow> (string \<times> nat list) list" where
  "handlers_put t hs [] = [(t, hs)]"
| "handlers_put t hs ((u, gs) # ps) = (if u = t then (t, hs) # ps else (u, gs) # handlers_put t hs ps)"

definition set_connected :: "bool \<Rightarrow> hub \<Rightarrow> hub \<times> (nat \<times> bool) list" where
  "set_connected c s =
     (if c = hb_connected s then (s, [])
      else (s\<lparr>hb_connected := c\<rparr>, map (\<lambda>cb. (cb, c)) (hb_status s)))"

definition ensure :: "hub \<Rightarrow> hub" where
  "ensure s = (if hb_open s then s else s\<lparr>hb_open := True\<rparr>)"

definition on_message :: "hub \<Rightarrow> (string option \<times> 'a) option \<Rightarrow> 'a delivery list" where
  \<comment> \<open>\<open>None\<close>: the frame is not JSON\<close>
  "on_message s frame =
     (case frame of
        None \<Rightarrow> []
      | Some (ty, d) \<Rightarrow>
          if \<not> truthy ty then []
          else (let t = the ty in
            map (\<lambda>h. DData h d) (case map_of (hb_handlers s) t of None \<Rightarrow> [] | Some hs \<Rightarrow> hs)
            @ map (\<lambda>h. DWhole h t d) (case map_of (hb_handlers s) ''*'' of None \<Rightarrow> [] | Some hs \<Rightarrow> hs)))"

definition teardown :: "hub \<Rightarrow> hub \<times> (nat \<times> bool) list" where
  "teardown s =
     (if hb_refs s > 0 \<or> \<not> hb_open s then (s, [])
      else set_connected False (s\<lparr>hb_open := False\<rparr>))"

definition subscribe :: "string \<Rightarrow> nat \<Rightarrow> hub \<Rightarrow> hub" where
  "subscribe t h s =
     (let s1 = ensure (s\<lparr>hb_refs := hb_refs s + 1\<rparr>);
          s2 = (if map_of (hb_handlers s1) t = None then s1\<lparr>hb_handlers := handlers_put t [] (hb_handlers s1)\<rparr> else s1)
      in s2\<lparr>hb_handlers := handlers_put t (set_add h (the (map_of (hb_handlers s2) t))) (hb_handlers s2)\<rparr>)"

definition unsubscribe :: "string \<Rightarrow> nat \<Rightarrow> hub \<Rightarrow> hub" where
  \<comment> \<open>the function \<open>subscribe\<close> returns\<close>
  "unsubscribe t h s =
     (let s1 = (case map_of (hb_handlers s) t of
                  None \<Rightarrow> s
                | Some hs \<Rightarrow> s\<lparr>hb_handlers := handlers_put t (set_delete h hs) (hb_handlers s)\<rparr>)
      in s1\<lparr>hb_refs := hb_refs s1 - 1, hb_timers := hb_timers s1 + 1\<rparr>)"

definition status_mount :: "nat \<Rightarrow> hub \<Rightarrow> hub \<times> (nat \<times> bool) list" where
  \<comment> \<open>the effect of \<open>useStreamStatus\<close>; the output is the call \<open>setC(connected)\<close>\<close>
  "status_mount cb s =
     (let s1 = s\<lparr>hb_status := set_add cb (hb_status s)\<rparr>
      in ((ensure s1)\<lparr>hb_refs := hb_refs s1 + 1\<rparr>, [(cb, hb_connected s1)]))"

definition status_unmount :: "nat \<Rightarrow> hub \<Rightarrow> hub" where
  "status_unmount cb s =
     s\<lparr>hb_status := set_delete cb (hb_status s), hb_refs := hb_refs s - 1, hb_timers := hb_timers s + 1\<rparr>"

definition timer_fires :: "hub \<Rightarrow> hub \<times> (nat \<times> bool) list" where
  "timer_fires s = teardown (s\<lparr>hb_timers := hb_timers s - 1\<rparr>)"

subsection \<open>Components and browser around the module\<close>

text \<open>
  The world adds the components: the subscriptions in force, the mounted status hooks and what
  each status hook was last told. React calls each cleanup once, every hook makes its handler
  afresh, and a closed EventSource fires no events.
\<close>

record world =
  w_hub :: hub
  w_subs :: "(string \<times> nat) list"
  w_stats :: "nat list"
  w_told :: "nat \<Rightarrow> bool"

definition world0 :: world where
  "world0 = \<lparr>w_hub = hub0, w_subs = [], w_stats = [], w_told = (\<lambda>_. False)\<rparr>"

definition tell :: "(nat \<times> bool) list \<Rightarrow> (nat \<Rightarrow> bool) \<Rightarrow> (nat \<Rightarrow> bool)" where
  "tell out f = fold (\<lambda>(cb, c) g. g(cb := c)) out f"

definition lift_out :: "hub \<times> (nat \<times> bool) list \<Rightarrow> world \<Rightarrow> world" where
  "lift_out r w = w\<lparr>w_hub := fst r, w_told := tell (snd r) (w_told w)\<rparr>"

inductive stream_step :: "world \<Rightarrow> world \<Rightarrow> bool" where
  st_subscribe: "h \<notin> snd ` set (w_subs w) \<Longrightarrow>
     stream_step w (w\<lparr>w_hub := subscribe t h (w_hub w), w_subs := (t, h) # w_subs w\<rparr>)"
| st_unsubscribe: "(t, h) \<in> set (w_subs w) \<Longrightarrow>
     stream_step w (w\<lparr>w_hub := unsubscribe t h (w_hub w), w_subs := remove1 (t, h) (w_subs w)\<rparr>)"
| st_mount: "cb \<notin> set (w_stats w) \<Longrightarrow>
     stream_step w (lift_out (status_mount cb (w_hub w)) (w\<lparr>w_stats := cb # w_stats w\<rparr>))"
| st_unmount: "cb \<in> set (w_stats w) \<Longrightarrow>
     stream_step w (w\<lparr>w_hub := status_unmount cb (w_hub w), w_stats := remove1 cb (w_stats w)\<rparr>)"
| st_open: "hb_open (w_hub w) \<Longrightarrow> stream_step w (lift_out (set_connected True (w_hub w)) w)"
| st_error: "hb_open (w_hub w) \<Longrightarrow> stream_step w (lift_out (set_connected False (w_hub w)) w)"
| st_timer: "0 < hb_timers (w_hub w) \<Longrightarrow> stream_step w (lift_out (timer_fires (w_hub w)) w)"

inductive stream_reachable :: "world \<Rightarrow> bool" where
  sr_init: "stream_reachable world0"
| sr_step: "stream_reachable w \<Longrightarrow> stream_step w w' \<Longrightarrow> stream_reachable w'"

inductive_cases stream_stepE: "stream_step w w'"

subsection \<open>Lemmas\<close>

definition handlers_of_type :: "string \<Rightarrow> hub \<Rightarrow> nat list" where
  "handlers_of_type t s = (case map_of (hb_handlers s) t of None \<Rightarrow> [] | Some hs \<Rightarrow> hs)"

lemma map_of_handlers_put: "map_of (handlers_put t hs ps) = (map_of ps)(t \<mapsto> hs)"
  by (induction t hs ps rule: handlers_put.induct) (auto simp: fun_eq_iff)

lemma set_set_add [simp]: "set (set_add h hs) = insert h (set hs)"
  by (auto simp: set_add_def)

lemma distinct_set_add: "distinct hs \<Longrightarrow> distinct (set_add h hs)"
  by (auto simp: set_add_def)

lemma set_set_delete [simp]: "set (set_delete h hs) = set hs - {h}"
  by (auto simp: set_delete_def)

lemma distinct_set_delete: "distinct hs \<Longrightarrow> distinct (set_delete h hs)"
  by (auto simp: set_delete_def)

lemma handlers_subscribe:
  "handlers_of_type u (subscribe t h s) =
     (if u = t then set_add h (handlers_of_type t s) else handlers_of_type u s)"
  by (auto simp: subscribe_def ensure_def Let_def handlers_of_type_def map_of_handlers_put split: option.splits)

lemma handlers_unsubscribe:
  "handlers_of_type u (unsubscribe t h s) =
     (if u = t then set_delete h (handlers_of_type t s) else handlers_of_type u s)"
  by (auto simp: unsubscribe_def Let_def handlers_of_type_def map_of_handlers_put set_delete_def split: option.splits)

lemma subscribe_fields [simp]:
  "hb_open (subscribe t h s) = True" "hb_refs (subscribe t h s) = hb_refs s + 1"
  "hb_status (subscribe t h s) = hb_status s" "hb_connected (subscribe t h s) = hb_connected s"
  "hb_timers (subscribe t h s) = hb_timers s"
  by (auto simp: subscribe_def ensure_def Let_def)

lemma unsubscribe_fields [simp]:
  "hb_open (unsubscribe t h s) = hb_open s" "hb_refs (unsubscribe t h s) = hb_refs s - 1"
  "hb_status (unsubscribe t h s) = hb_status s" "hb_connected (unsubscribe t h s) = hb_connected s"
  "hb_timers (unsubscribe t h s) = hb_timers s + 1"
  by (auto simp: unsubscribe_def Let_def split: option.splits)

lemma tell_Nil [simp]: "tell [] f = f"
  by (simp add: tell_def)

lemma tell_map: "tell (map (\<lambda>cb. (cb, c)) cbs) f = (\<lambda>x. if x \<in> set cbs then c else f x)"
proof (induction cbs arbitrary: f)
  case Nil
  then show ?case by (simp add: tell_def)
next
  case (Cons cb cbs)
  have "tell (map (\<lambda>cb. (cb, c)) (cb # cbs)) f = tell (map (\<lambda>cb. (cb, c)) cbs) (f(cb := c))"
    by (simp add: tell_def)
  with Cons show ?case by (auto simp: fun_eq_iff)
qed

text \<open>What holds between the module and the components in every reachable state.\<close>

definition stream_inv :: "world \<Rightarrow> bool" where
  "stream_inv w \<longleftrightarrow>
     distinct (map snd (w_subs w)) \<and> distinct (w_stats w) \<and> distinct (hb_status (w_hub w)) \<and>
     hb_refs (w_hub w) = int (length (w_subs w) + length (w_stats w)) \<and>
     set (hb_status (w_hub w)) = set (w_stats w) \<and>
     (\<forall>t. distinct (handlers_of_type t (w_hub w)) \<and> set (handlers_of_type t (w_hub w)) = {h. (t, h) \<in> set (w_subs w)}) \<and>
     (hb_refs (w_hub w) > 0 \<longrightarrow> hb_open (w_hub w)) \<and>
     (hb_refs (w_hub w) = 0 \<and> hb_open (w_hub w) \<longrightarrow> hb_timers (w_hub w) > 0) \<and>
     (hb_connected (w_hub w) \<longrightarrow> hb_open (w_hub w)) \<and>
     (\<forall>cb\<in>set (w_stats w). w_told w cb = hb_connected (w_hub w))"

lemma stream_invD:
  assumes "stream_inv w"
  shows "distinct (map snd (w_subs w))" and "distinct (w_stats w)" and "distinct (hb_status (w_hub w))"
    and "hb_refs (w_hub w) = int (length (w_subs w) + length (w_stats w))"
    and "set (hb_status (w_hub w)) = set (w_stats w)"
    and "distinct (handlers_of_type t (w_hub w))"
    and "set (handlers_of_type t (w_hub w)) = {h. (t, h) \<in> set (w_subs w)}"
    and "hb_refs (w_hub w) > 0 \<Longrightarrow> hb_open (w_hub w)"
    and "hb_refs (w_hub w) = 0 \<Longrightarrow> hb_open (w_hub w) \<Longrightarrow> hb_timers (w_hub w) > 0"
    and "hb_connected (w_hub w) \<Longrightarrow> hb_open (w_hub w)"
    and "cb \<in> set (w_stats w) \<Longrightarrow> w_told w cb = hb_connected (w_hub w)"
  using assms unfolding stream_inv_def by blast+

lemma stream_inv_init: "stream_inv world0"
  by (simp add: stream_inv_def world0_def hub0_def handlers_of_type_def)

lemma handlers_of_type_cong: "hb_handlers s = hb_handlers s' \<Longrightarrow> handlers_of_type t s = handlers_of_type t s'"
  by (simp add: handlers_of_type_def)

lemma set_connected_told:
  "\<forall>cb\<in>set (hb_status s). f cb = hb_connected s \<Longrightarrow> cb \<in> set (hb_status s) \<Longrightarrow>
     tell (snd (set_connected c s)) f cb = c"
  by (auto simp: set_connected_def tell_map)

lemma set_connected_fields [simp]:
  "hb_open (fst (set_connected c s)) = hb_open s" "hb_refs (fst (set_connected c s)) = hb_refs s"
  "hb_handlers (fst (set_connected c s)) = hb_handlers s" "hb_status (fst (set_connected c s)) = hb_status s"
  "hb_timers (fst (set_connected c s)) = hb_timers s" "hb_connected (fst (set_connected c s)) = c"
  by (auto simp: set_connected_def)

lemma stream_inv_set_connected:
  assumes "stream_inv w" and "c \<Longrightarrow> hb_open (w_hub w)"
  shows "stream_inv (lift_out (set_connected c (w_hub w)) w)"
proof -
  note i = stream_invD [OF assms(1)]
  have "tell (snd (set_connected c (w_hub w))) (w_told w) cb = c" if "cb \<in> set (w_stats w)" for cb
    by (rule set_connected_told) (use that i(5,11) in auto)
  moreover have "handlers_of_type t (fst (set_connected c (w_hub w))) = handlers_of_type t (w_hub w)" for t
    by (rule handlers_of_type_cong) simp
  ultimately show ?thesis
    unfolding stream_inv_def using i assms(2) by (simp add: lift_out_def)
qed

lemma stream_inv_subscribe:
  assumes "stream_inv w" and "h \<notin> snd ` set (w_subs w)"
  shows "stream_inv (w\<lparr>w_hub := subscribe t h (w_hub w), w_subs := (t, h) # w_subs w\<rparr>)"
proof -
  note i = stream_invD [OF assms(1)]
  have "set (handlers_of_type u (subscribe t h (w_hub w))) = {k. (u, k) \<in> set ((t, h) # w_subs w)}" for u
    using i(7) [of u] by (auto simp: handlers_subscribe)
  moreover have "distinct (handlers_of_type u (subscribe t h (w_hub w)))" for u
    using i(6) [of u] by (auto simp: handlers_subscribe distinct_set_add)
  ultimately show ?thesis
    unfolding stream_inv_def using i assms(2) by simp
qed

lemma stream_inv_unsubscribe:
  assumes "stream_inv w" and "(t, h) \<in> set (w_subs w)"
  shows "stream_inv (w\<lparr>w_hub := unsubscribe t h (w_hub w), w_subs := remove1 (t, h) (w_subs w)\<rparr>)"
proof -
  note i = stream_invD [OF assms(1)]
  have d: "distinct (w_subs w)" using i(1) by (simp add: distinct_map)
  then have r: "set (remove1 (t, h) (w_subs w)) = set (w_subs w) - {(t, h)}" by simp
  have l: "length (w_subs w) = Suc (length (remove1 (t, h) (w_subs w)))"
    using assms(2) by (auto simp: length_remove1 neq_Nil_conv dest: length_pos_if_in_set)
  have "set (handlers_of_type u (unsubscribe t h (w_hub w))) = {k. (u, k) \<in> set (remove1 (t, h) (w_subs w))}" for u
    using i(7) [of u] r by (auto simp: handlers_unsubscribe)
  moreover have "distinct (handlers_of_type u (unsubscribe t h (w_hub w)))" for u
    using i(6) [of u] by (auto simp: handlers_unsubscribe distinct_set_delete)
  moreover have "distinct (map snd (remove1 (t, h) (w_subs w)))"
    using i(1) by (metis distinct_map distinct_remove1 inj_on_subset set_remove1_subset)
  ultimately show ?thesis
    unfolding stream_inv_def using i l by simp
qed

lemma status_mount_fields [simp]:
  "hb_open (fst (status_mount cb s)) = True" "hb_refs (fst (status_mount cb s)) = hb_refs s + 1"
  "hb_handlers (fst (status_mount cb s)) = hb_handlers s"
  "hb_status (fst (status_mount cb s)) = set_add cb (hb_status s)"
  "hb_timers (fst (status_mount cb s)) = hb_timers s"
  "hb_connected (fst (status_mount cb s)) = hb_connected s"
  "snd (status_mount cb s) = [(cb, hb_connected s)]"
  by (auto simp: status_mount_def ensure_def Let_def)

lemma stream_inv_mount:
  assumes "stream_inv w" and "cb \<notin> set (w_stats w)"
  shows "stream_inv (lift_out (status_mount cb (w_hub w)) (w\<lparr>w_stats := cb # w_stats w\<rparr>))"
proof -
  note i = stream_invD [OF assms(1)]
  have "handlers_of_type t (fst (status_mount cb (w_hub w))) = handlers_of_type t (w_hub w)" for t
    by (rule handlers_of_type_cong) simp
  then show ?thesis
    unfolding stream_inv_def using i assms(2)
    by (simp add: lift_out_def distinct_set_add tell_def)
qed

lemma stream_inv_unmount:
  assumes "stream_inv w" and "cb \<in> set (w_stats w)"
  shows "stream_inv (w\<lparr>w_hub := status_unmount cb (w_hub w), w_stats := remove1 cb (w_stats w)\<rparr>)"
proof -
  note i = stream_invD [OF assms(1)]
  have l: "length (w_stats w) = Suc (length (remove1 cb (w_stats w)))"
    using assms(2) by (auto simp: length_remove1 neq_Nil_conv dest: length_pos_if_in_set)
  have "handlers_of_type t (status_unmount cb (w_hub w)) = handlers_of_type t (w_hub w)" for t
    by (rule handlers_of_type_cong) (simp add: status_unmount_def)
  then show ?thesis
    unfolding stream_inv_def using i l
    by (simp add: status_unmount_def distinct_set_delete)
qed

lemma stream_inv_timer:
  assumes "stream_inv w" and "0 < hb_timers (w_hub w)"
  shows "stream_inv (lift_out (timer_fires (w_hub w)) w)"
proof (cases "hb_refs (w_hub w) > 0 \<or> \<not> hb_open (w_hub w)")
  case True
  note i = stream_invD [OF assms(1)]
  have "handlers_of_type t ((w_hub w)\<lparr>hb_timers := k\<rparr>) = handlers_of_type t (w_hub w)" for t k
    by (rule handlers_of_type_cong) simp
  then show ?thesis
    unfolding stream_inv_def using i True
    by (auto simp: lift_out_def timer_fires_def teardown_def)
next
  case False
  note i = stream_invD [OF assms(1)]
  let ?s = "(w_hub w)\<lparr>hb_timers := hb_timers (w_hub w) - 1, hb_open := False\<rparr>"
  have f: "timer_fires (w_hub w) = set_connected False ?s"
    using False by (simp add: timer_fires_def teardown_def)
  have "handlers_of_type t (fst (set_connected False ?s)) = handlers_of_type t (w_hub w)" for t
    by (rule handlers_of_type_cong) simp
  moreover have "tell (snd (set_connected False ?s)) (w_told w) cb = False" if "cb \<in> set (w_stats w)" for cb
    by (rule set_connected_told) (use that i(5,11) in auto)
  ultimately show ?thesis
    unfolding stream_inv_def using i False by (simp add: lift_out_def f)
qed

lemma stream_step_inv: "stream_step w w' \<Longrightarrow> stream_inv w \<Longrightarrow> stream_inv w'"
  by (induction rule: stream_step.induct)
    (blast intro: stream_inv_subscribe stream_inv_unsubscribe stream_inv_mount stream_inv_unmount
      stream_inv_set_connected stream_inv_timer)+

lemma stream_reachable_inv: "stream_reachable w \<Longrightarrow> stream_inv w"
  by (induction rule: stream_reachable.induct) (auto intro: stream_inv_init stream_step_inv)

subsection \<open>Properties\<close>

text \<open>C16: in every reachable state of the page the EventSource is open while any component
  subscribes or shows the live status, is reported connected only while it is open, and can
  stay open without users only while a deferred teardown is still pending: the channel neither
  drops under a subscriber nor leaks.\<close>

theorem stream_open_iff_used:
  assumes "stream_reachable w"
  shows "(w_subs w \<noteq> [] \<or> w_stats w \<noteq> [] \<longrightarrow> hb_open (w_hub w)) \<and>
    (w_subs w = [] \<and> w_stats w = [] \<and> hb_timers (w_hub w) = 0 \<longrightarrow> \<not> hb_open (w_hub w)) \<and>
    (hb_connected (w_hub w) \<longrightarrow> hb_open (w_hub w)) \<and>
    hb_refs (w_hub w) = int (length (w_subs w) + length (w_stats w))"
proof -
  note i = stream_invD [OF stream_reachable_inv [OF assms]]
  have "hb_refs (w_hub w) > 0 \<longleftrightarrow> w_subs w \<noteq> [] \<or> w_stats w \<noteq> []"
    using i(4) by (cases "w_subs w"; cases "w_stats w") auto
  with i(4,8,9,10) show ?thesis by auto
qed

lemma subscribed_world:
  "stream_reachable (world0\<lparr>w_hub := subscribe ''event'' 7 hub0, w_subs := [(''event'', 7)]\<rparr>)"
  using sr_step [OF sr_init st_subscribe [of 7 world0 "''event''"]] by (simp add: world0_def)

lemma stream_open_iff_used_witness:
  "hb_open (subscribe ''event'' 7 hub0) \<and> hb_refs (subscribe ''event'' 7 hub0) = 1"
  using stream_open_iff_used [OF subscribed_world] by (simp add: world0_def)

text \<open>C26: a pushed message of type \<open>t\<close> reaches exactly the components subscribed to \<open>t\<close>, each
  once and with the payload, and the wildcard subscribers, each once and with the whole
  message; malformed and untyped frames reach no one.\<close>

theorem stream_delivery_exact:
  assumes "stream_reachable w" and "t \<noteq> []"
  shows "distinct (on_message (w_hub w) (Some (Some t, d))) \<and>
    set (on_message (w_hub w) (Some (Some t, d))) =
      {DData h d | h. (t, h) \<in> set (w_subs w)} \<union> {DWhole h t d | h. (''*'', h) \<in> set (w_subs w)} \<and>
    on_message (w_hub w) None = ([] :: 'a delivery list) \<and> on_message (w_hub w) (Some (None, d)) = []"
proof -
  note i = stream_invD [OF stream_reachable_inv [OF assms(1)]]
  have e: "on_message (w_hub w) (Some (Some t, d)) =
      map (\<lambda>h. DData h d) (handlers_of_type t (w_hub w)) @ map (\<lambda>h. DWhole h t d) (handlers_of_type ''*'' (w_hub w))"
    using assms(2) by (simp add: on_message_def handlers_of_type_def Let_def)
  have "distinct (on_message (w_hub w) (Some (Some t, d)))"
    using i(6) [of t] i(6) [of "''*''"] unfolding e by (auto simp: distinct_map inj_on_def)
  moreover have "set (on_message (w_hub w) (Some (Some t, d))) =
      {DData h d | h. (t, h) \<in> set (w_subs w)} \<union> {DWhole h t d | h. (''*'', h) \<in> set (w_subs w)}"
    unfolding e using i(7) [of t] i(7) [of "''*''"] by auto
  ultimately show ?thesis by (simp add: on_message_def)
qed

lemma stream_delivery_exact_witness:
  "set (on_message (subscribe ''event'' 7 hub0) (Some (Some ''event'', True))) =
     {DData h True | h. (''event'', h) \<in> set [(''event'', 7)]} \<union>
     {DWhole h ''event'' True | h. (''*'', h) \<in> set [(''event'', 7)]}"
  using stream_delivery_exact [OF subscribed_world, of "''event''" True, THEN conjunct2, THEN conjunct1]
  by (simp add: world0_def)

text \<open>Every mounted live indicator was last told the channel's present state, so no
  component shows LIVE on a closed or failed channel.\<close>

theorem stream_status_truthful:
  assumes "stream_reachable w" and "cb \<in> set (w_stats w)"
  shows "w_told w cb = hb_connected (w_hub w) \<and> (w_told w cb \<longrightarrow> hb_open (w_hub w))"
  using stream_invD(10,11) [OF stream_reachable_inv [OF assms(1)]] assms(2) by auto

definition live_world :: world where
  "live_world = lift_out (set_connected True (fst (status_mount 3 hub0)))
     (lift_out (status_mount 3 hub0) (world0\<lparr>w_stats := [3]\<rparr>))"

lemma stream_status_truthful_witness: "w_told live_world 3 = hb_connected (w_hub live_world)"
proof -
  let ?w = "lift_out (status_mount 3 hub0) (world0\<lparr>w_stats := [3]\<rparr>)"
  have "stream_reachable ?w"
    using sr_step [OF sr_init st_mount [of 3 world0]] by (simp add: world0_def)
  moreover have "w_hub ?w = fst (status_mount 3 hub0)" by (simp add: lift_out_def)
  ultimately have "stream_reachable live_world"
    unfolding live_world_def by (metis sr_step st_open status_mount_fields(1))
  moreover have "3 \<in> set (w_stats live_world)" by (simp add: live_world_def lift_out_def)
  ultimately show ?thesis using stream_status_truthful by blast
qed

end
