(* ===== verification/Relay.thy ===== *)
theory Relay
  imports Http Stream
begin

section \<open>The server-sent-events relay\<close>

text \<open>
  Models \<open>dashboard/app/api/stream/route.ts\<close>: one relay per open page, from the Go server's
  console WebSocket to the browser's EventSource. The state holds the variables the route keeps
  (\<open>ws\<close> and \<open>ping\<close>) and what the platform keeps for it: whether the socket is open, whether the
  response stream is open, and the bytes written so far. The session lookup, the service login
  and the sockets are the environment; their outcomes are arguments and events. As in the
  WebSocket standard, a socket delivers messages only while it is open.

  \<open>sse_parse\<close> is the browser's reading of the bytes (the event-stream format of the HTML standard,
  the part of it the relay uses: comments, \<open>data\<close>, other fields ignored, a blank line
  dispatches).
\<close>

subsection \<open>The route\<close>

record relay =
  rl_ws :: bool
  rl_ping :: bool
  rl_sock_open :: bool
  rl_stream_open :: bool
  rl_out :: string

datatype relay_event =
    RMessage "string option"
  | RSockClosed
  | RSockError
  | RPing
  | RCancel

definition nl :: string where
  "nl = [CHR 0x0A]"

definition relay_send :: "string \<Rightarrow> relay \<Rightarrow> relay" where
  \<comment> \<open>\<open>enqueue\<close> on a closed controller throws, and the throw is swallowed\<close>
  "relay_send str s = (if rl_stream_open s then s\<lparr>rl_out := rl_out s @ str\<rparr> else s)"

definition relay_cleanup :: "relay \<Rightarrow> relay" where
  "relay_cleanup s = s\<lparr>rl_ping := False, rl_sock_open := (if rl_ws s then False else rl_sock_open s), rl_ws := False\<rparr>"

definition hello :: string where
  "hello = '': connected'' @ nl @ ''retry: 3000'' @ nl @ nl"

definition relay_start :: "string \<Rightarrow> string \<Rightarrow> relay \<times> (string \<times> string list)" where
  \<comment> \<open>the state after \<open>start\<close> and the socket it opens: address and subprotocols\<close>
  "relay_start ws_url token =
     (relay_send hello \<lparr>rl_ws = True, rl_ping = True, rl_sock_open = True, rl_stream_open = True, rl_out = []\<rparr>,
      (ws_url, [''bearer'', token]))"

definition data_frame :: "string option \<Rightarrow> string" where
  "data_frame d = ''data: '' @ (case d of None \<Rightarrow> [] | Some t \<Rightarrow> t) @ nl @ nl"

definition ping_frame :: string where
  "ping_frame = '': ping'' @ nl @ nl"

fun relay_step :: "relay_event \<Rightarrow> relay \<Rightarrow> relay" where
  "relay_step (RMessage d) s = (if rl_sock_open s then relay_send (data_frame d) s else s)"
| "relay_step RSockClosed s = (relay_cleanup s)\<lparr>rl_sock_open := False, rl_stream_open := False\<rparr>"
| "relay_step RSockError s = (if rl_ws s then s\<lparr>rl_sock_open := False\<rparr> else s)"
| "relay_step RPing s = (if rl_ping s then relay_send ping_frame s else s)"
| "relay_step RCancel s = relay_cleanup (s\<lparr>rl_stream_open := False\<rparr>)"

definition relay_run :: "relay_event list \<Rightarrow> relay \<Rightarrow> relay" where
  "relay_run es s = fold relay_step es s"

definition ws_address :: "string option \<Rightarrow> string" where
  \<comment> \<open>\<open>(GO_API || "http://server:8080").replace(/^http/, "ws") + "/ws"\<close>\<close>
  "ws_address go_api =
     (let u = str_or go_api ''http://server:8080''
      in (if starts_with u ''http'' then ''ws'' @ drop 4 u else u) @ ''/ws'')"

definition sse_headers :: "(string \<times> string) list" where
  "sse_headers =
     [(''content-type'', ''text/event-stream; charset=utf-8''),
      (''cache-control'', ''no-cache, no-transform''),
      (''connection'', ''keep-alive''),
      (''x-accel-buffering'', ''no'')]"

datatype relay_answer =
    RelayDenied nat string
  | RelayRaised string
  | RelayOpen "(string \<times> string) list" relay "string \<times> string list"

definition relay_GET :: "bool \<Rightarrow> string + string \<Rightarrow> string option \<Rightarrow> relay_answer" where
  \<comment> \<open>the session, the outcome of \<open>goToken()\<close> and the environment's \<open>GO_API\<close>\<close>
  "relay_GET session token go_api =
     (if \<not> session then RelayDenied 401 ''unauthorized''
      else (case token of
              Inl e \<Rightarrow> RelayRaised e
            | Inr t \<Rightarrow> (let (s, sock) = relay_start (ws_address go_api) t in RelayOpen sse_headers s sock)))"

subsection \<open>What the browser reads\<close>

fun sse_lines :: "string list \<Rightarrow> string \<Rightarrow> string list" where
  \<comment> \<open>the data buffer (each data line with its newline) and the messages dispatched\<close>
  "sse_lines [] buf = []"
| "sse_lines (l # ls) buf =
     (if l = [] then (if buf = [] then sse_lines ls [] else butlast buf # sse_lines ls [])
      else if starts_with l ''data: '' then sse_lines ls (buf @ drop 6 l @ nl)
      else if starts_with l ''data:'' then sse_lines ls (buf @ drop 5 l @ nl)
      else sse_lines ls buf)"

definition sse_parse :: "string \<Rightarrow> string list" where
  "sse_parse s = sse_lines (split_on (CHR 0x0A) s) []"

fun relayed :: "relay_event list \<Rightarrow> string list" where
  \<comment> \<open>the payloads that arrive before the first close, error or cancel\<close>
  "relayed [] = []"
| "relayed (RMessage d # es) = (case d of None \<Rightarrow> [] | Some t \<Rightarrow> t) # relayed es"
| "relayed (RPing # es) = relayed es"
| "relayed (e # es) = []"

fun plain_event :: "relay_event \<Rightarrow> bool" where
  \<comment> \<open>the Go server sends one line of JSON per message\<close>
  "plain_event (RMessage (Some t)) = (CHR 0x0A \<notin> set t)"
| "plain_event _ = True"

definition active :: "relay \<Rightarrow> bool" where
  "active s = (rl_ws s \<and> rl_ping s \<and> rl_sock_open s \<and> rl_stream_open s)"

definition finished :: "relay \<Rightarrow> bool" where
  "finished s = (\<not> rl_ws s \<and> \<not> rl_ping s \<and> \<not> rl_sock_open s \<and> \<not> rl_stream_open s)"

definition dead :: "relay \<Rightarrow> bool" where
  \<comment> \<open>no message will be written any more\<close>
  "dead s = (\<not> rl_sock_open s)"

subsection \<open>Lemmas\<close>

lemma relay_run_Nil [simp]: "relay_run [] s = s"
  and relay_run_Cons [simp]: "relay_run (e # es) s = relay_run es (relay_step e s)"
  by (simp_all add: relay_run_def)

lemma split_on_nl_end: "CHR 0x0A \<notin> set w \<Longrightarrow> split_on (CHR 0x0A) (w @ nl @ r) = w # split_on (CHR 0x0A) r"
  by (simp add: nl_def split_on_append)

lemma sse_frame:
  assumes "CHR 0x0A \<notin> set t"
  shows "sse_parse (''data: '' @ t @ nl @ nl @ r) = t # sse_parse r"
proof -
  have "split_on (CHR 0x0A) (''data: '' @ t @ nl @ nl @ r) = (''data: '' @ t) # [] # split_on (CHR 0x0A) r"
    using split_on_nl_end [of "''data: '' @ t" "nl @ r"] split_on_nl_end [of "[]" r] assms
    by (simp add: nl_def)
  then show ?thesis
    unfolding sse_parse_def by (simp add: nl_def)
qed

lemma sse_ping: "sse_parse (ping_frame @ r) = sse_parse r"
  by (simp add: sse_parse_def ping_frame_def nl_def)

lemma sse_hello: "sse_parse (hello @ r) = sse_parse r"
  by (simp add: sse_parse_def hello_def nl_def)

lemma sse_none: "sse_parse (''data: '' @ nl @ nl @ r) = [] # sse_parse r"
  using sse_frame [of "[]" r] by simp

lemma sse_data:
  assumes "plain_event (RMessage d)"
  shows "sse_parse (data_frame d @ r) = (case d of None \<Rightarrow> [] | Some t \<Rightarrow> t) # sse_parse r"
proof (cases d)
  case None
  then show ?thesis using sse_none [of r] by (simp add: data_frame_def)
next
  case (Some t)
  then show ?thesis using sse_frame [of t r] assms by (simp add: data_frame_def)
qed

lemma dead_step: "dead s \<Longrightarrow> dead (relay_step e s) \<and> (\<exists>z. rl_out (relay_step e s) = rl_out s @ z \<and> (z = [] \<or> z = ping_frame))"
  by (cases e) (auto simp: dead_def relay_send_def relay_cleanup_def)

lemma dead_run: "dead s \<Longrightarrow> \<exists>z. rl_out (relay_run es s) = rl_out s @ z \<and> sse_parse z = []"
proof (induction es arbitrary: s)
  case Nil
  then show ?case by (intro exI [of _ "[]"]) (simp add: sse_parse_def)
next
  case (Cons e es)
  from dead_step [OF Cons.prems, of e] obtain z where z: "rl_out (relay_step e s) = rl_out s @ z"
    "z = [] \<or> z = ping_frame" and d: "dead (relay_step e s)" by blast
  from Cons.IH [OF d] obtain y where y: "rl_out (relay_run es (relay_step e s)) = rl_out (relay_step e s) @ y"
    "sse_parse y = []" by blast
  have "sse_parse (z @ y) = []" using z(2) y(2) sse_ping [of y] by auto
  with y(1) z(1) show ?case by (intro exI [of _ "z @ y"]) simp
qed

lemma active_run:
  assumes "active s" and "\<forall>e\<in>set es. plain_event e"
  shows "\<exists>z. rl_out (relay_run es s) = rl_out s @ z \<and> sse_parse z = relayed es"
  using assms
proof (induction es arbitrary: s)
  case Nil
  then show ?case by (intro exI [of _ "[]"]) (simp add: sse_parse_def)
next
  case (Cons e es)
  show ?case
  proof (cases "e = RPing \<or> (\<exists>d. e = RMessage d)")
    case True
    define f where "f = (case e of RMessage d \<Rightarrow> data_frame d | _ \<Rightarrow> ping_frame)"
    have st: "relay_step e s = s\<lparr>rl_out := rl_out s @ f\<rparr>"
      using True Cons.prems(1) by (auto simp: active_def relay_send_def f_def)
    have "active (relay_step e s)" using Cons.prems(1) by (simp add: st active_def)
    with Cons obtain z where z: "rl_out (relay_run es (relay_step e s)) = rl_out (relay_step e s) @ z"
      "sse_parse z = relayed es" by fastforce
    have "sse_parse (f @ z) = relayed (e # es)"
      using True Cons.prems(2) z(2) by (auto simp: f_def sse_data sse_ping)
    with z(1) st show ?thesis by (intro exI [of _ "f @ z"]) simp
  next
    case False
    then have r: "relayed (e # es) = []" by (cases e) auto
    have d: "dead (relay_step e s)" and o: "rl_out (relay_step e s) = rl_out s"
      using False Cons.prems(1) by (cases e; simp add: dead_def active_def relay_cleanup_def)+
    from dead_run [OF d, of es] obtain z where "rl_out (relay_run es (relay_step e s)) = rl_out (relay_step e s) @ z"
      "sse_parse z = []" by blast
    with r o show ?thesis by (intro exI [of _ z]) simp
  qed
qed

lemma finished_step: "finished s \<Longrightarrow> relay_step e s = s"
  by (cases e) (simp_all add: finished_def relay_cleanup_def relay_send_def)

lemma finished_run: "finished s \<Longrightarrow> relay_run es s = s"
  by (induction es arbitrary: s) (simp_all add: finished_step)

text \<open>The socket variable and the stream in every state a run can reach.\<close>

definition relay_inv :: "relay \<Rightarrow> bool" where
  "relay_inv s = ((rl_ping s \<longleftrightarrow> rl_ws s) \<and> (rl_sock_open s \<longrightarrow> rl_ws s) \<and> (rl_ws s \<longrightarrow> rl_stream_open s))"

lemma relay_inv_step: "relay_inv s \<Longrightarrow> relay_inv (relay_step e s)"
  by (cases e) (auto simp: relay_inv_def relay_send_def relay_cleanup_def)

lemma relay_inv_run: "relay_inv s \<Longrightarrow> relay_inv (relay_run es s)"
  by (induction es arbitrary: s) (simp_all add: relay_inv_step)

lemma relay_inv_start: "relay_inv (fst (relay_start u t))"
  by (simp add: relay_inv_def relay_start_def relay_send_def)

lemma relay_run_append: "relay_run (es @ fs) s = relay_run fs (relay_run es s)"
  by (simp add: relay_run_def)

subsection \<open>Properties\<close>

text \<open>C19: the browser's event-stream parser, run on the bytes the relay wrote, gives back exactly
  the payloads the Go server sent before the connection ended, in order and whole; heartbeats,
  the greeting and whatever happens after the end add no message.\<close>

theorem relay_roundtrip:
  assumes "\<forall>e\<in>set es. plain_event e"
  shows "sse_parse (rl_out (relay_run es (fst (relay_start u t)))) = relayed es"
proof -
  have "active (fst (relay_start u t))" and o: "rl_out (fst (relay_start u t)) = hello"
    by (simp_all add: active_def relay_start_def relay_send_def)
  from active_run [OF this(1) assms] o obtain z where
    "rl_out (relay_run es (fst (relay_start u t))) = hello @ z" "sse_parse z = relayed es" by auto
  then show ?thesis by (simp add: sse_hello)
qed

lemma relay_roundtrip_witness:
  "sse_parse (rl_out (relay_run [RMessage (Some ''{}''), RPing, RMessage (Some ''data: x''), RCancel, RMessage (Some ''y'')]
     (fst (relay_start ''ws://s/ws'' ''tok'')))) = [''{}'', ''data: x'']"
  using relay_roundtrip [of "[RMessage (Some ''{}''), RPing, RMessage (Some ''data: x''), RCancel, RMessage (Some ''y'')]"
      "''ws://s/ws''" "''tok''"] by simp

text \<open>A relay leaks nothing: once the browser cancels or the socket closes, the heartbeat is
  stopped, the socket and the stream are closed, and no later event changes the relay; without a
  session nothing is opened, and the service token never shows in the response, only in the
  socket's subprotocol.\<close>

theorem relay_releases:
  "finished (relay_run (es @ RCancel # fs) (fst (relay_start u t))) \<and>
   finished (relay_run (es @ RSockClosed # fs) (fst (relay_start u t))) \<and>
   relay_GET False tok api = RelayDenied 401 ''unauthorized'' \<and>
   relay_GET True (Inr t) api = RelayOpen sse_headers (fst (relay_start (ws_address api) t')) (ws_address api, [''bearer'', t])"
proof -
  let ?s = "relay_run es (fst (relay_start u t))"
  have i: "relay_inv ?s" by (rule relay_inv_run [OF relay_inv_start])
  have "finished (relay_step RCancel ?s)" "finished (relay_step RSockClosed ?s)"
    using i by (auto simp: finished_def relay_inv_def relay_cleanup_def)
  then have "finished (relay_run fs (relay_step RCancel ?s))" "finished (relay_run fs (relay_step RSockClosed ?s))"
    by (simp_all add: finished_run)
  then show ?thesis
    by (simp add: relay_run_append relay_GET_def relay_start_def)
qed

end
