(* ===== verification/Guard.thy ===== *)
theory Guard
  imports Http
begin

section \<open>The request guard in front of the dashboard, and operator provisioning\<close>

text \<open>
  Models \<open>dashboard/proxy.ts\<close> (the function every matched request passes before any page or API
  route, and the matcher that decides which requests are matched) and
  \<open>dashboard/scripts/seed-operator.mjs\<close> (the script that creates operators, since public sign-up is
  closed). Better Auth's sign-up and the database are parameters: their outcomes are arguments.
\<close>

subsection \<open>proxy.ts\<close>

record web_req =
  wr_method :: string
  wr_path :: string
  wr_purpose :: "string option"

datatype guard_answer =
    Refuse nat json
  | Pass "(string \<times> string) list"

definition sq :: "string \<Rightarrow> string" where
  \<comment> \<open>in single quotes\<close>
  "sq s = [CHR 0x27] @ s @ [CHR 0x27]"

definition csp_directives :: "string list" where
  "csp_directives =
     [''default-src '' @ sq ''self'',
      ''script-src '' @ sq ''self'' @ '' '' @ sq ''unsafe-inline'',
      ''style-src '' @ sq ''self'' @ '' '' @ sq ''unsafe-inline'',
      ''img-src '' @ sq ''self'' @ '' data: blob:'',
      ''font-src '' @ sq ''self'' @ '' data:'',
      ''connect-src '' @ sq ''self'',
      ''frame-ancestors '' @ sq ''none'',
      ''base-uri '' @ sq ''self'',
      ''object-src '' @ sq ''none'',
      ''form-action '' @ sq ''self'']"

definition guard_fn :: "string option \<Rightarrow> web_req \<Rightarrow> guard_answer" where
  "guard_fn node_env r =
     (if wr_method r = ''POST'' \<and> starts_with (wr_path r) ''/api/auth/sign-up''
      then Refuse 403 (JObj [(''error'', JStr ''self-registration disabled'')])
      else Pass (if node_env = Some ''production''
                 then [(''content-security-policy'', join ''; '' csp_directives)] else []))"

definition asset_exts :: "string list" where
  "asset_exts = [''svg'', ''png'', ''jpg'', ''jpeg'', ''gif'', ''webp'', ''ico'', ''txt'', ''sh'']"

definition favicon_like :: "string \<Rightarrow> bool" where
  \<comment> \<open>the dot of \<open>favicon.ico\<close> is a regular expression's dot\<close>
  "favicon_like s = (starts_with s ''favicon'' \<and> drop 7 s \<noteq> [] \<and> hd (drop 7 s) \<noteq> CHR 0x0A \<and> starts_with (drop 8 s) ''ico'')"

definition exempt_path :: "string \<Rightarrow> bool" where
  \<comment> \<open>the negative lookahead of the matcher, on the path after its slash\<close>
  "exempt_path s =
     (starts_with s ''_next/static'' \<or> starts_with s ''_next/image'' \<or> favicon_like s \<or>
      list_ex (\<lambda>x. ends_with s (CHR ''.'' # x)) asset_exts)"

definition matched :: "web_req \<Rightarrow> bool" where
  "matched r =
     (case wr_path r of
        [] \<Rightarrow> False
      | c # s \<Rightarrow> c = CHR ''/'' \<and> \<not> exempt_path s \<and> wr_purpose r \<noteq> Some ''prefetch'')"

definition guard :: "string option \<Rightarrow> web_req \<Rightarrow> guard_answer" where
  "guard node_env r = (if matched r then guard_fn node_env r else Pass [])"

subsection \<open>seed-operator.mjs\<close>

record seed_env =
  se_email :: "string option"
  se_pass :: "string option"
  se_role :: "string option"

datatype seed_effect =
    SignUp string string string
  | SetRole string string
  | PoolEnd

definition seed_role :: "seed_env \<Rightarrow> string" where
  "seed_role e = to_lower (str_or (se_role e) ''viewer'')"

definition benign_failure :: "string \<Rightarrow> bool" where
  "benign_failure msg =
     (let m = to_lower msg in js_includes m ''exist'' \<or> js_includes m ''already'' \<or> js_includes m ''unique'')"

definition seed_run :: "seed_env \<Rightarrow> string option \<Rightarrow> bool \<Rightarrow> seed_effect list \<times> nat" where
  \<comment> \<open>the sign-up's error message, if it failed, and whether the database took the update; the
    effects in order and the exit code\<close>
  "seed_run e failure db_ok =
     (if \<not> truthy (se_email e) \<or> \<not> truthy (se_pass e) then ([], 1)
      else if seed_role e \<notin> {''viewer'', ''analyst'', ''admin''} then ([], 1)
      else
        (let email = the (se_email e);
             signup = SignUp email (the (se_pass e)) (hd (split_on (CHR ''@'') email))
         in if (case failure of None \<Rightarrow> True | Some msg \<Rightarrow> benign_failure msg)
            then (if db_ok then ([signup, SetRole email (seed_role e), PoolEnd], 0)
                  else ([signup, SetRole email (seed_role e)], 1))
            else ([signup, PoolEnd], 1)))"

subsection \<open>Lemmas\<close>

lemma ends_with_iff: "ends_with s p \<longleftrightarrow> (\<exists>t. s = t @ p)"
proof -
  have "ends_with s p \<longleftrightarrow> (\<exists>t. rev s = rev p @ t)" by (simp add: ends_with_def starts_with_iff)
  also have "\<dots> \<longleftrightarrow> (\<exists>t. s = t @ p)" by (metis rev_append rev_rev_ident)
  finally show ?thesis .
qed

lemma not_exempt_api: "starts_with s ''api/'' \<Longrightarrow> exempt_path s \<longleftrightarrow> list_ex (\<lambda>x. ends_with s (CHR ''.'' # x)) asset_exts"
  by (auto simp: exempt_path_def favicon_like_def starts_with_iff)

subsection \<open>Properties\<close>

text \<open>Exactly which requests the sign-up block refuses: a POST under \<open>/api/auth/sign-up\<close>, unless
  its path ends like a static file or the client sent the header \<open>purpose: prefetch\<close>. The second
  exemption is the client's to choose, so the block does not hold against a client that sets it.\<close>

theorem signup_block_exact:
  "guard node_env r = Refuse 403 (JObj [(''error'', JStr ''self-registration disabled'')]) \<longleftrightarrow>
     wr_method r = ''POST'' \<and> starts_with (wr_path r) ''/api/auth/sign-up'' \<and>
     wr_purpose r \<noteq> Some ''prefetch'' \<and> \<not> list_ex (\<lambda>x. ends_with (tl (wr_path r)) (CHR ''.'' # x)) asset_exts"
proof (cases "starts_with (wr_path r) ''/api/auth/sign-up''")
  case True
  then obtain t where t: "wr_path r = CHR ''/'' # ''api/'' @ t" by (auto simp: starts_with_iff)
  have "exempt_path (''api/'' @ t) \<longleftrightarrow> list_ex (\<lambda>x. ends_with (''api/'' @ t) (CHR ''.'' # x)) asset_exts"
    by (rule not_exempt_api) (rule starts_with_append)
  with t True show ?thesis by (simp add: guard_def guard_fn_def matched_def)
next
  case False
  then show ?thesis by (simp add: guard_def guard_fn_def)
qed

text \<open>In production every matched request that is not refused gets a content security policy in
  which no directive names a remote origin: each source is the site itself, an inline or data
  source, or nothing.\<close>

theorem csp_same_origin:
  assumes "matched r" and "guard (Some ''production'') r = Pass hs"
  shows "\<exists>csp. map_of hs ''content-security-policy'' = Some csp \<and>
    (\<forall>d\<in>set (split_on (CHR '';'') csp). \<forall>src\<in>set (tl (split_on (CHR '' '') (trim d))).
       src \<in> {sq ''self'', sq ''unsafe-inline'', sq ''none'', ''data:'', ''blob:''})"
proof -
  have "hs = [(''content-security-policy'', join ''; '' csp_directives)]"
    using assms by (auto simp: guard_def guard_fn_def split: if_splits)
  then show ?thesis
    by (simp add: csp_directives_def sq_def trim_def is_space_def)
qed

lemma csp_same_origin_witness:
  "\<exists>csp. map_of [(''content-security-policy'', join ''; '' csp_directives)] ''content-security-policy'' = Some csp \<and>
    (\<forall>d\<in>set (split_on (CHR '';'') csp). \<forall>src\<in>set (tl (split_on (CHR '' '') (trim d))).
       src \<in> {sq ''self'', sq ''unsafe-inline'', sq ''none'', ''data:'', ''blob:''})"
  by (rule csp_same_origin [of "\<lparr>wr_method = ''GET'', wr_path = ''/cases'', wr_purpose = None\<rparr>"])
    (simp_all add: matched_def guard_def guard_fn_def exempt_path_def favicon_like_def asset_exts_def ends_with_def)

text \<open>The provisioning script changes a role only after it has made sure the account exists, only
  to one of the three roles, for the address it was given, and it exits with 0 exactly when the
  role was set.\<close>

theorem seed_sets_valid_role:
  "(snd (seed_run e failure db_ok) = 0 \<longleftrightarrow>
      truthy (se_email e) \<and> truthy (se_pass e) \<and> seed_role e \<in> {''viewer'', ''analyst'', ''admin''} \<and>
      (case failure of None \<Rightarrow> True | Some msg \<Rightarrow> benign_failure msg) \<and> db_ok) \<and>
   (\<forall>a r. SetRole a r \<in> set (fst (seed_run e failure db_ok)) \<longrightarrow>
      r \<in> {''viewer'', ''analyst'', ''admin''} \<and> Some a = se_email e \<and>
      (\<exists>p n. hd (fst (seed_run e failure db_ok)) = SignUp a p n)) \<and>
   (snd (seed_run e failure db_ok) = 0 \<longrightarrow>
      SetRole (the (se_email e)) (seed_role e) \<in> set (fst (seed_run e failure db_ok)))"
  by (auto simp: seed_run_def Let_def truthy_def split: option.splits)

lemma seed_sets_valid_role_witness:
  "SetRole ''a@b.c'' ''analyst'' \<in> set (fst (seed_run
     \<lparr>se_email = Some ''a@b.c'', se_pass = Some ''pw'', se_role = Some ''Analyst''\<rparr> (Some ''User already exists'') True))"
proof -
  let ?e = "\<lparr>se_email = Some ''a@b.c'', se_pass = Some ''pw'', se_role = Some ''Analyst''\<rparr>"
  have r: "seed_role ?e = ''analyst''" by code_simp
  have "benign_failure ''User already exists''" by code_simp
  then show ?thesis
    using seed_sets_valid_role [of ?e "Some ''User already exists''" True] r by simp
qed

end
