(* ===== verification/Dates.thy ===== *)
theory Dates
  imports Prelude
begin

section \<open>Timestamps: parsing, relative ages and the UTC clock\<close>

text \<open>
  Times are integer milliseconds since the epoch; \<open>None\<close> is \<open>NaN\<close>. \<open>date_parse\<close> is
  \<open>Date.parse\<close> on the RFC 3339 strings Go's \<open>encoding/json\<close> writes (any number of fraction
  digits, \<open>Z\<close> or a numeric offset) and \<open>NaN\<close> on anything else, where the language leaves the
  result to the engine. \<open>ago\<close> is the function that \<open>web/src/ui.tsx\<close> and
  \<open>dashboard/lib/format.ts\<close> both declare.
\<close>

subsection \<open>Calendar and parser\<close>

definition leap_year :: "nat \<Rightarrow> bool" where
  "leap_year y = (y mod 4 = 0 \<and> (y mod 100 \<noteq> 0 \<or> y mod 400 = 0))"

definition days_in_month :: "nat \<Rightarrow> nat \<Rightarrow> nat" where
  "days_in_month y mo =
     (if mo \<in> {4, 6, 9, 11} then 30 else if mo = 2 then (if leap_year y then 29 else 28) else 31)"

definition days_from_civil :: "nat \<Rightarrow> nat \<Rightarrow> nat \<Rightarrow> int" where
  \<comment> \<open>days from 1970-01-01 in the proleptic Gregorian calendar\<close>
  "days_from_civil y mo d =
     (let y' = (if mo \<le> 2 then int y - 1 else int y);
          era = y' div 400; yoe = y' mod 400;
          doy = (153 * ((int mo + 9) mod 12) + 2) div 5 + int d - 1
      in era * 146097 + (yoe * 365 + yoe div 4 - yoe div 100 + doy) - 719468)"

fun read_digits :: "nat \<Rightarrow> nat \<Rightarrow> string \<Rightarrow> (nat \<times> string) option" where
  "read_digits 0 acc s = Some (acc, s)"
| "read_digits (Suc k) acc [] = None"
| "read_digits (Suc k) acc (c # s) =
     (if is_digit c then read_digits k (10 * acc + (of_char c - 48)) s else None)"

fun expect :: "char \<Rightarrow> string \<Rightarrow> string option" where
  "expect c [] = None"
| "expect c (d # s) = (if c = d then Some s else None)"

definition read_fraction :: "string \<Rightarrow> (nat \<times> string) option" where
  \<comment> \<open>milliseconds of an optional fraction: the first three digits count\<close>
  "read_fraction s =
     (case s of
        c # t \<Rightarrow>
          if c = CHR ''.'' then
            (let ds = takeWhile is_digit t
             in if ds = [] then None else Some (read_nat (take 3 (ds @ ''00'')), dropWhile is_digit t))
          else Some (0, s)
      | [] \<Rightarrow> Some (0, s))"

definition read_offset :: "string \<Rightarrow> int option" where
  \<comment> \<open>\<open>Z\<close> or a signed \<open>hh:mm\<close>, in minutes, at the end of the string\<close>
  "read_offset s =
     (case s of
        [] \<Rightarrow> None
      | c # t \<Rightarrow>
          if c = CHR ''Z'' then (if t = [] then Some 0 else None)
          else if c = CHR ''+'' \<or> c = CHR ''-'' then
            Option.bind (read_digits 2 0 t) (\<lambda>(h, t1).
            Option.bind (expect (CHR '':'') t1) (\<lambda>t2.
            Option.bind (read_digits 2 0 t2) (\<lambda>(m, t3).
              if t3 = [] \<and> h < 24 \<and> m < 60
              then Some ((if c = CHR ''-'' then -1 else 1) * int (60 * h + m)) else None)))
          else None)"

definition read_date :: "string \<Rightarrow> (int \<times> string) option" where
  "read_date s =
     Option.bind (read_digits 4 0 s) (\<lambda>(y, s1).
     Option.bind (expect (CHR ''-'') s1) (\<lambda>s2.
     Option.bind (read_digits 2 0 s2) (\<lambda>(mo, s3).
     Option.bind (expect (CHR ''-'') s3) (\<lambda>s4.
     Option.bind (read_digits 2 0 s4) (\<lambda>(d, s5).
       if 1 \<le> mo \<and> mo \<le> 12 \<and> 1 \<le> d \<and> d \<le> days_in_month y mo
       then Some (days_from_civil y mo d, s5) else None)))))"

definition read_time :: "string \<Rightarrow> (int \<times> string) option" where
  "read_time s =
     Option.bind (read_digits 2 0 s) (\<lambda>(h, s1).
     Option.bind (expect (CHR '':'') s1) (\<lambda>s2.
     Option.bind (read_digits 2 0 s2) (\<lambda>(mi, s3).
     Option.bind (expect (CHR '':'') s3) (\<lambda>s4.
     Option.bind (read_digits 2 0 s4) (\<lambda>(sec, s5).
     Option.bind (read_fraction s5) (\<lambda>(ms, s6).
       if h < 24 \<and> mi < 60 \<and> sec < 60
       then Some (int (((h * 60 + mi) * 60 + sec) * 1000 + ms), s6) else None))))))"

definition date_parse :: "string \<Rightarrow> int option" where
  "date_parse s =
     Option.bind (read_date s) (\<lambda>(days, s1).
     Option.bind (expect (CHR ''T'') s1) (\<lambda>s2.
     Option.bind (read_time s2) (\<lambda>(ms, s3).
     Option.bind (read_offset s3) (\<lambda>off. Some (days * 86400000 + ms - off * 60000)))))"

subsection \<open>What the consoles show\<close>

definition elapsed_s :: "int \<Rightarrow> int \<Rightarrow> int" where
  "elapsed_s now d = max 0 ((now - d) div 1000)"

definition ago_text :: "int \<Rightarrow> string" where
  "ago_text s =
     (if s < 60 then show_int s @ ''s ago''
      else if s < 3600 then show_int (s div 60) @ ''m ago''
      else if s < 86400 then show_int (s div 3600) @ ''h ago''
      else show_int (s div 86400) @ ''d ago'')"

definition ago :: "int \<Rightarrow> string \<Rightarrow> string" where
  \<comment> \<open>\<open>NaN\<close> fails every comparison and reaches the last branch\<close>
  "ago now ts = (case date_parse ts of None \<Rightarrow> ''NaNd ago'' | Some d \<Rightarrow> ago_text (elapsed_s now d))"

definition pad2 :: "int \<Rightarrow> string" where
  "pad2 n = [digit_char (nat (n div 10)), digit_char (nat (n mod 10))]"

definition utc_clock :: "int \<Rightarrow> string" where
  \<comment> \<open>\<open>new Date(now).toISOString().slice(11, 19)\<close>\<close>
  "utc_clock now =
     (let s = (now div 1000) mod 86400
      in pad2 (s div 3600) @ '':'' @ pad2 (s div 60 mod 60) @ '':'' @ pad2 (s mod 60))"

subsection \<open>Lemmas\<close>

lemma read_digits_2_4:
  "read_digits 2 acc s = read_digits (Suc (Suc 0)) acc s"
  "read_digits 4 acc s = read_digits (Suc (Suc (Suc (Suc 0)))) acc s"
  by (simp_all add: numeral_2_eq_2 numeral_eq_Suc)

lemmas date_parse_defs = date_parse_def read_date_def read_time_def read_offset_def read_fraction_def
  Let_def is_digit_def days_in_month_def days_from_civil_def leap_year_def read_digits_2_4

lemma date_parse_examples:
  "date_parse ''1970-01-01T00:00:00Z'' = Some 0"
  "date_parse ''2024-02-29T12:30:15.123456789Z'' = Some 1709209815123"
  "date_parse ''2024-03-01T00:00:00+02:00'' = Some 1709244000000"
  "date_parse ''2023-02-29T00:00:00Z'' = None"
  by (simp_all add: date_parse_defs)

lemma read_digits_two: "n < 100 \<Longrightarrow> read_digits 2 0 (pad2 (int n) @ s) = Some (n, s)"
proof -
  assume n: "n < 100"
  have "nat (int n div 10) = n div 10" "nat (int n mod 10) = n mod 10"
    by (simp_all add: nat_div_distrib nat_mod_distrib)
  with n show ?thesis
    by (simp add: pad2_def numeral_2_eq_2) (simp add: digit_char_def)
qed

lemma elapsed_s_nonneg: "0 \<le> elapsed_s now d"
  by (simp add: elapsed_s_def)

lemma read_digits_pad2:
  assumes "0 \<le> n" and "n < 100"
  shows "read_digits 2 0 (pad2 n @ s) = Some (nat n, s)"
  using read_digits_two [of "nat n" s] assms by (simp add: nat_less_iff)

lemma div_bounds: "0 < k \<Longrightarrow> (s :: int) div k * k \<le> s \<and> s < (s div k + 1) * k"
proof -
  assume "0 < k"
  then have "0 \<le> s mod k" "s mod k < k" by simp_all
  moreover have "s = s div k * k + s mod k" by simp
  moreover have "(s div k + 1) * k = s div k * k + k" by (simp add: distrib_right)
  ultimately show ?thesis by linarith
qed

subsection \<open>Properties\<close>

text \<open>The relative age is written in the largest unit that fits: the value and unit printed
  for \<open>s\<close> elapsed seconds satisfy \<open>v * unit <= s < (v + 1) * unit\<close>, with at most 59 seconds
  or minutes and 23 hours. A timestamp in the future counts as now.\<close>

theorem ago_largest_unit:
  assumes "date_parse ts = Some d"
  shows "\<exists>v u secs most. ago now ts = show_int v @ u @ '' ago'' \<and>
     (u, secs, most) \<in> {(''s'', 1, Some 60), (''m'', 60, Some 60), (''h'', 3600, Some 24), (''d'', 86400, None)} \<and>
     v * secs \<le> elapsed_s now d \<and> elapsed_s now d < (v + 1) * secs \<and> 0 \<le> v \<and>
     (case most of None \<Rightarrow> True | Some b \<Rightarrow> v < b)"
proof -
  define s where "s = elapsed_s now d"
  have s0: "0 \<le> s" by (simp add: s_def elapsed_s_nonneg)
  have t: "ago now ts = ago_text s" by (simp add: ago_def assms s_def)
  consider "s < 60" | "60 \<le> s" "s < 3600" | "3600 \<le> s" "s < 86400" | "86400 \<le> s" by linarith
  then show ?thesis
  proof cases
    case 1
    then have "ago now ts = show_int s @ ''s'' @ '' ago''" by (simp add: t ago_text_def)
    moreover have "s * 1 \<le> s \<and> s < (s + 1) * 1" by simp
    ultimately show ?thesis unfolding s_def [symmetric]
      by (intro exI [of _ s] exI [of _ "''s''"] exI [of _ 1] exI [of _ "Some 60"]) (use 1 s0 in simp)
  next
    case 2
    then have "ago now ts = show_int (s div 60) @ ''m'' @ '' ago''" by (simp add: t ago_text_def)
    moreover have "s div 60 * 60 \<le> s \<and> s < (s div 60 + 1) * 60 \<and> 0 \<le> s div 60 \<and> s div 60 < 60"
      using 2 s0 div_bounds [of 60 s] by (simp add: pos_imp_zdiv_nonneg_iff)
    ultimately show ?thesis unfolding s_def [symmetric]
      by (intro exI [of _ "s div 60"] exI [of _ "''m''"] exI [of _ 60] exI [of _ "Some 60"]) simp
  next
    case 3
    then have "ago now ts = show_int (s div 3600) @ ''h'' @ '' ago''" by (simp add: t ago_text_def)
    moreover have "s div 3600 * 3600 \<le> s \<and> s < (s div 3600 + 1) * 3600 \<and> 0 \<le> s div 3600 \<and> s div 3600 < 24"
      using 3 s0 div_bounds [of 3600 s] by (simp add: pos_imp_zdiv_nonneg_iff)
    ultimately show ?thesis unfolding s_def [symmetric]
      by (intro exI [of _ "s div 3600"] exI [of _ "''h''"] exI [of _ 3600] exI [of _ "Some 24"]) simp
  next
    case 4
    then have "ago now ts = show_int (s div 86400) @ ''d'' @ '' ago''" by (simp add: t ago_text_def)
    moreover have "s div 86400 * 86400 \<le> s \<and> s < (s div 86400 + 1) * 86400 \<and> 0 \<le> s div 86400"
      using 4 s0 div_bounds [of 86400 s] by (simp add: pos_imp_zdiv_nonneg_iff)
    ultimately show ?thesis unfolding s_def [symmetric]
      by (intro exI [of _ "s div 86400"] exI [of _ "''d''"] exI [of _ 86400] exI [of _ None]) simp
  qed
qed

lemma ago_largest_unit_witness:
  "\<exists>v u secs most. ago 7260000 ''1970-01-01T00:00:00Z'' = show_int v @ u @ '' ago'' \<and>
     (u, secs, most) \<in> {(''s'', 1, Some 60), (''m'', 60, Some 60), (''h'', 3600, Some 24), (''d'', 86400, None)} \<and>
     v * secs \<le> elapsed_s 7260000 0 \<and> elapsed_s 7260000 0 < (v + 1) * secs \<and> 0 \<le> v \<and>
     (case most of None \<Rightarrow> True | Some b \<Rightarrow> v < (b :: int))"
  using ago_largest_unit [OF date_parse_examples(1), of 7260000] .

text \<open>The clock in the top bar is the UTC time of day: reading the printed hours, minutes
  and seconds back gives the time of day of \<open>now\<close>, to the second.\<close>

theorem utc_clock_roundtrip:
  "read_time (utc_clock now @ ''Z'') = Some ((now div 1000) mod 86400 * 1000, ''Z'')"
proof -
  define s where "s = (now div 1000) mod 86400"
  have s: "0 \<le> s" "s < 86400" by (simp_all add: s_def)
  define h where "h = s div 3600"
  define m where "m = s div 60 mod 60"
  define e where "e = s mod 60"
  have h: "0 \<le> h" "h < 24" using s div_bounds [of 3600 s] unfolding h_def by (simp_all add: pos_imp_zdiv_nonneg_iff)
  have m: "0 \<le> m" "m < 60" and e: "0 \<le> e" "e < 60" by (simp_all add: m_def e_def)
  have eq: "s = (h * 60 + m) * 60 + e" 
  proof -
    have "s div 3600 = s div 60 div 60" using zdiv_zmult2_eq [of 60 s 60] by simp
    then show ?thesis using div_mult_mod_eq [of s 60] div_mult_mod_eq [of "s div 60" 60]
      by (simp add: h_def m_def e_def)
  qed
  have c: "utc_clock now @ ''Z'' = pad2 h @ '':'' @ pad2 m @ '':'' @ pad2 e @ ''Z''"
    by (simp add: utc_clock_def Let_def h_def m_def e_def s_def)
  have "nat h < 24" "nat m < 60" "nat e < 60" using h m e by linarith+
  moreover have "int (((nat h * 60 + nat m) * 60 + nat e) * 1000 + 0) = s * 1000"
    using h(1) m(1) e(1) by (simp add: eq)
  ultimately show ?thesis
    unfolding c s_def [symmetric] read_time_def
    using h m e by (simp add: read_digits_pad2 read_fraction_def)
qed

end
