(* ===== verification/LiveData.thy ===== *)
theory LiveData
  imports Http Dates
begin

section \<open>Live data: polling, live lists and actions\<close>

text \<open>
  Models \<open>dashboard/lib/use-data.ts\<close>. A hook's state is a record; each callback is a function on
  it and each point where the code awaits a reply is a separate step that takes the reply. The
  effect closure's flag \<open>on\<close> is an argument: it is false once the effect was cleaned up.
  \<open>JSON.parse\<close> is an argument of the definitions that call it, because the row types are
  open.
\<close>

definition ts_num :: "string option \<Rightarrow> int" where
  "ts_num s = (if \<not> truthy s then 0 else (case date_parse (the s) of None \<Rightarrow> 0 | Some n \<Rightarrow> n))"

subsection \<open>useData: poll one endpoint\<close>

datatype err_kind = EForbidden | EUnauthorized | ENetwork | EServer

record 'd poll =
  po_data :: "'d option"
  po_live :: bool
  po_error :: "(nat \<times> err_kind) option"
  po_last :: string

definition poll0 :: "'d poll" where
  "poll0 = \<lparr>po_data = None, po_live = False, po_error = None, po_last = []\<rparr>"

datatype fetch_out = FStatus nat | FText string | FFail

definition tick_done :: "(string \<Rightarrow> 'd option) \<Rightarrow> bool \<Rightarrow> fetch_out \<Rightarrow> 'd poll \<Rightarrow> 'd poll" where
  "tick_done parse on r s =
     (case r of
        FStatus st \<Rightarrow>
          (let kind = (if st = 403 then EForbidden else if st = 401 then EUnauthorized else EServer)
           in if on then s\<lparr>po_live := False, po_error := Some (st, kind)\<rparr> else s)
      | FText text \<Rightarrow>
          if \<not> on then s
          else (let s1 = s\<lparr>po_live := True, po_error := None\<rparr>
                in if text = po_last s1 then s1
                   else (let s2 = s1\<lparr>po_last := text\<rparr>
                         in case parse text of Some d \<Rightarrow> s2\<lparr>po_data := Some d\<rparr> | None \<Rightarrow> s2))
      | FFail \<Rightarrow> if on then s\<lparr>po_live := False, po_error := Some (0, ENetwork)\<rparr> else s)"

record 'd hook =
  hk_poll :: "'d poll"
  hk_on :: bool
  hk_debounce :: bool
  hk_inflight :: nat

datatype hook_event =
    HInterval bool
  | HVisibility bool
  | HPush
  | HDebounceFires
  | HReply fetch_out
  | HRefetch
  | HUnmount

definition tick_start :: "'d hook \<Rightarrow> 'd hook" where
  "tick_start h = h\<lparr>hk_inflight := hk_inflight h + 1\<rparr>"

definition hook_mount :: "'d poll \<Rightarrow> 'd hook" where
  \<comment> \<open>the effect starts: one tick at once\<close>
  "hook_mount p = tick_start \<lparr>hk_poll = p, hk_on = True, hk_debounce = False, hk_inflight = 0\<rparr>"

fun hook_step :: "(string \<Rightarrow> 'd option) \<Rightarrow> bool \<Rightarrow> hook_event \<Rightarrow> 'd hook \<Rightarrow> 'd hook" where
  "hook_step parse reval (HInterval hidden) h = (if hk_on h \<and> \<not> hidden then tick_start h else h)"
| "hook_step parse reval (HVisibility visible) h = (if hk_on h \<and> visible then tick_start h else h)"
| "hook_step parse reval HPush h =
     (if hk_on h \<and> reval \<and> \<not> hk_debounce h then h\<lparr>hk_debounce := True\<rparr> else h)"
| "hook_step parse reval HDebounceFires h =
     (if hk_debounce h then tick_start (h\<lparr>hk_debounce := False\<rparr>) else h)"
| "hook_step parse reval (HReply r) h =
     (if hk_inflight h = 0 then h
      else h\<lparr>hk_inflight := hk_inflight h - 1, hk_poll := tick_done parse (hk_on h) r (hk_poll h)\<rparr>)"
| "hook_step parse reval HRefetch h = tick_start h"
| "hook_step parse reval HUnmount h = h\<lparr>hk_on := False, hk_debounce := False\<rparr>"

definition hook_run :: "(string \<Rightarrow> 'd option) \<Rightarrow> bool \<Rightarrow> hook_event list \<Rightarrow> 'd hook \<Rightarrow> 'd hook" where
  "hook_run parse reval es h = fold (hook_step parse reval) es h"

subsection \<open>useLiveList: a paged list with a live tail\<close>

record row =
  r_id :: string
  r_ts :: string

record 'r live_list =
  ll_items :: "'r list"
  ll_loading :: bool
  ll_loading_more :: bool
  ll_has_more :: bool
  ll_connected :: bool
  ll_error :: bool
  ll_seen :: "string set"
  ll_newest :: string

datatype 'r list_reply = RFail | RRows "'r list option"

definition list_url :: "string \<Rightarrow> string \<Rightarrow> string" where
  "list_url base extra =
     ''/api/proxy/'' @ base @ (if js_includes base ''?'' then ''&'' else ''?'') @ extra"

definition initial_url :: "string \<Rightarrow> nat \<Rightarrow> string" where
  "initial_url base page_size = list_url base (''limit='' @ show_nat page_size)"

definition tail_url :: "string \<Rightarrow> string \<Rightarrow> string" where
  "tail_url base newest = list_url base (''since='' @ encode_uri_component newest @ ''&limit=300'')"

definition more_url :: "string \<Rightarrow> nat \<Rightarrow> nat \<Rightarrow> string" where
  "more_url base page_size n = list_url base (''limit='' @ show_nat page_size @ ''&offset='' @ show_nat n)"

definition live0 :: "'r live_list" where
  "live0 = \<lparr>ll_items = [], ll_loading = True, ll_loading_more = False, ll_has_more = True,
     ll_connected = False, ll_error = False, ll_seen = {}, ll_newest = []\<rparr>"

definition list_reset :: "'r live_list \<Rightarrow> 'r live_list" where
  "list_reset s = s\<lparr>ll_seen := {}, ll_newest := [], ll_items := [], ll_has_more := True, ll_loading := True\<rparr>"

definition rows_of :: "'r list option \<Rightarrow> 'r list" where
  \<comment> \<open>\<open>j || []\<close>\<close>
  "rows_of j = (case j of None \<Rightarrow> [] | Some rs \<Rightarrow> rs)"

definition initial_done ::
  "nat \<Rightarrow> bool \<Rightarrow> 'x row_scheme list_reply \<Rightarrow> 'x row_scheme live_list \<Rightarrow> 'x row_scheme live_list" where
  "initial_done page_size on r s =
     (case r of
        RRows j \<Rightarrow>
          if \<not> on then s
          else (let rows = rows_of j in
            s\<lparr>ll_seen := ll_seen s \<union> r_id ` set rows,
              ll_newest := (if rows = [] then ll_newest s else r_ts (hd rows)),
              ll_items := rows, ll_has_more := (length rows \<ge> page_size),
              ll_connected := True, ll_error := False, ll_loading := False\<rparr>)
      | RFail \<Rightarrow> if on then s\<lparr>ll_connected := False, ll_error := True, ll_loading := False\<rparr> else s)"

definition tail_done ::
  "nat \<Rightarrow> bool \<Rightarrow> 'x row_scheme list_reply \<Rightarrow> 'x row_scheme live_list \<Rightarrow> 'x row_scheme live_list" where
  "tail_done cap on r s =
     (case r of
        RRows j \<Rightarrow>
          if \<not> on then s
          else (let fresh = filter (\<lambda>x. r_id x \<notin> ll_seen s) (rows_of j);
                    s1 = s\<lparr>ll_connected := True, ll_error := False\<rparr>
                in if fresh = [] then s1
                   else s1\<lparr>ll_seen := ll_seen s \<union> r_id ` set fresh,
                     ll_newest := (if ts_num (Some (r_ts (hd fresh))) > ts_num (Some (ll_newest s))
                                   then r_ts (hd fresh) else ll_newest s),
                     ll_items := take cap (fresh @ ll_items s)\<rparr>)
      | RFail \<Rightarrow> if on then s\<lparr>ll_connected := False, ll_error := True\<rparr> else s)"

definition push_in ::
  "('x row_scheme \<Rightarrow> bool) option \<Rightarrow> nat \<Rightarrow> 'x row_scheme option \<Rightarrow> 'x row_scheme live_list \<Rightarrow> 'x row_scheme live_list" where
  "push_in filt cap raw s =
     (case raw of
        None \<Rightarrow> s
      | Some x \<Rightarrow>
          if r_id x = [] \<or> r_id x \<in> ll_seen s then s
          else if (case filt of None \<Rightarrow> False | Some f \<Rightarrow> \<not> f x) then s
          else s\<lparr>ll_seen := insert (r_id x) (ll_seen s),
                 ll_newest := (if ts_num (Some (r_ts x)) > ts_num (Some (ll_newest s)) then r_ts x else ll_newest s),
                 ll_items := take cap (x # ll_items s),
                 ll_connected := True\<rparr>)"

definition more_start :: "'r live_list \<Rightarrow> 'r live_list" where
  "more_start s = s\<lparr>ll_loading_more := True\<rparr>"

definition more_done ::
  "nat \<Rightarrow> 'x row_scheme list_reply \<Rightarrow> 'x row_scheme live_list \<Rightarrow> 'x row_scheme live_list" where
  "more_done page_size r s =
     (case r of
        RRows j \<Rightarrow>
          (let rows = filter (\<lambda>x. r_id x \<notin> ll_seen s) (rows_of j) in
            s\<lparr>ll_seen := ll_seen s \<union> r_id ` set rows,
              ll_items := ll_items s @ rows,
              ll_has_more := (if length (rows_of j) < page_size then False else ll_has_more s),
              ll_loading_more := False\<rparr>)
      | RFail \<Rightarrow> s\<lparr>ll_error := True, ll_loading_more := False\<rparr>)"

text \<open>
  The page around the hook. A change of query starts a new generation of effects; a reply
  belongs to the generation whose effect asked for it, and its flag \<open>on\<close> is whether that
  generation is still the current one. \<open>loadMore\<close> has no such flag.
\<close>

datatype 'r list_event =
    LQuery
  | LInitial nat "'r list_reply"
  | LTail nat "'r list_reply"
  | LPush "('r \<Rightarrow> bool) option" "'r option"
  | LMoreStart
  | LMore "'r list_reply"

fun list_apply ::
  "nat \<Rightarrow> nat \<Rightarrow> 'x row_scheme list_event \<Rightarrow> 'x row_scheme live_list \<times> nat \<Rightarrow> 'x row_scheme live_list \<times> nat" where
  "list_apply page_size cap LQuery (s, g) = (list_reset s, g + 1)"
| "list_apply page_size cap (LInitial k r) (s, g) = (initial_done page_size (k = g) r s, g)"
| "list_apply page_size cap (LTail k r) (s, g) = (tail_done cap (k = g) r s, g)"
| "list_apply page_size cap (LPush filt raw) (s, g) = (push_in filt cap raw s, g)"
| "list_apply page_size cap LMoreStart (s, g) = (more_start s, g)"
| "list_apply page_size cap (LMore r) (s, g) = (more_done page_size r s, g)"

definition list_run ::
  "nat \<Rightarrow> nat \<Rightarrow> 'x row_scheme list_event list \<Rightarrow> 'x row_scheme live_list \<times> nat \<Rightarrow> 'x row_scheme live_list \<times> nat" where
  "list_run page_size cap es w = fold (list_apply page_size cap) es w"

definition reply_ok :: "'x row_scheme list_reply \<Rightarrow> bool" where
  \<comment> \<open>one reply of the server never repeats an id (it is the table's primary key)\<close>
  "reply_ok r = (case r of RFail \<Rightarrow> True | RRows j \<Rightarrow> distinct (map r_id (rows_of j)))"

fun event_ok :: "'x row_scheme list_event \<Rightarrow> bool" where
  "event_ok (LInitial k r) = reply_ok r"
| "event_ok (LTail k r) = reply_ok r"
| "event_ok (LMore r) = reply_ok r"
| "event_ok _ = True"

fun same_query :: "'r list_event \<Rightarrow> bool" where
  \<comment> \<open>neither a change of query nor its first page\<close>
  "same_query LQuery = False"
| "same_query (LInitial k r) = False"
| "same_query _ = True"

subsection \<open>useDebounced\<close>

record 'v debounced =
  db_v :: 'v
  db_pending :: "'v option"

definition debounce_change :: "'v \<Rightarrow> 'v debounced \<Rightarrow> 'v debounced" where
  \<comment> \<open>the cleanup clears the old timer, the effect arms a new one for the new value\<close>
  "debounce_change x d = d\<lparr>db_pending := Some x\<rparr>"

definition debounce_fire :: "'v debounced \<Rightarrow> 'v debounced" where
  "debounce_fire d = (case db_pending d of None \<Rightarrow> d | Some x \<Rightarrow> \<lparr>db_v = x, db_pending = None\<rparr>)"

subsection \<open>Actions\<close>

definition post_request :: "string \<Rightarrow> json \<Rightarrow> request" where
  "post_request path body = \<lparr>rq_method = ''POST'', rq_url = ''/api/proxy/'' @ path,
     rq_headers = [(''Content-Type'', ''application/json'')], rq_body = Some (stringify body), rq_cache = None\<rparr>"

definition del_request :: "string \<Rightarrow> request" where
  "del_request path = \<lparr>rq_method = ''DELETE'', rq_url = ''/api/proxy/'' @ path,
     rq_headers = [], rq_body = None, rq_cache = None\<rparr>"

record action_result =
  ar_ok :: bool
  ar_status :: nat
  ar_error :: "string option"
  ar_data :: "json option"

datatype post_out = PFail | PReply nat "string option" "json option"

definition network_error :: string where
  "network_error = ''Network error '' @ [CHR 0xE2, CHR 0x80, CHR 0x94] @ '' the console could not reach the server''"

definition post_json_result :: "post_out \<Rightarrow> action_result" where
  \<comment> \<open>\<open>PReply status text data\<close>: \<open>None\<close> where reading the body as text, or as JSON, throws\<close>
  "post_json_result r =
     (case r of
        PFail \<Rightarrow> \<lparr>ar_ok = False, ar_status = 0, ar_error = Some network_error, ar_data = None\<rparr>
      | PReply st text data \<Rightarrow>
          if \<not> (200 \<le> st \<and> st < 300)
          then \<lparr>ar_ok = False, ar_status = st,
                ar_error = Some (str_or text (''HTTP '' @ show_nat st)), ar_data = None\<rparr>
          else \<lparr>ar_ok = True, ar_status = st, ar_error = None, ar_data = data\<rparr>)"

record respond_args =
  ra_type :: string
  ra_agent :: string
  ra_target :: "json option"
  ra_reason :: "string option"
  ra_detection :: "string option"

definition respond_request :: "respond_args \<Rightarrow> request" where
  "respond_request a = post_request ''respond''
     (JObj ([(''type'', JStr (ra_type a)), (''agent_id'', JStr (ra_agent a)),
             (''target'', case ra_target a of None \<Rightarrow> JObj [] | Some t \<Rightarrow> t),
             (''reason'', JStr (case ra_reason a of None \<Rightarrow> ''manual '' @ ra_type a @ '' from console'' | Some x \<Rightarrow> x))]
            @ field ''detection_id'' (map_option JStr (ra_detection a))))"

subsection \<open>The contract of the operations that add rows\<close>

text \<open>
  Tail, push and load-more share a contract: they add only rows whose ids were not seen, in
  front or at the back, may cut the list at its end, and record the new ids as seen.
\<close>

definition ids :: "'x row_scheme list \<Rightarrow> string set" where
  "ids rs = r_id ` set rs"

definition list_inv :: "'x row_scheme live_list \<Rightarrow> bool" where
  "list_inv s \<longleftrightarrow> distinct (map r_id (ll_items s)) \<and> ids (ll_items s) \<subseteq> ll_seen s"

lemma ids_append [simp]: "ids (xs @ ys) = ids xs \<union> ids ys"
  by (simp add: ids_def image_Un)

locale seen_guarded =
  fixes ok :: "'a \<Rightarrow> bool"
    and act :: "'a \<Rightarrow> 'x row_scheme live_list \<Rightarrow> 'x row_scheme live_list"
  assumes adds_unseen: "ok r \<Longrightarrow> \<exists>front rear. distinct (map r_id (front @ rear)) \<and>
      ids (front @ rear) \<inter> ll_seen s = {} \<and> prefix (ll_items (act r s)) (front @ ll_items s @ rear) \<and>
      ll_seen (act r s) = ll_seen s \<union> ids (front @ rear)"
begin

lemma keeps_inv:
  assumes "ok r" and "list_inv s"
  shows "list_inv (act r s)"
proof -
  obtain front rear where fb: "distinct (map r_id (front @ rear))" "ids (front @ rear) \<inter> ll_seen s = {}"
    "prefix (ll_items (act r s)) (front @ ll_items s @ rear)" "ll_seen (act r s) = ll_seen s \<union> ids (front @ rear)"
    using adds_unseen [OF assms(1)] by blast
  from fb(3) obtain z where z: "front @ ll_items s @ rear = ll_items (act r s) @ z" by (auto simp: prefix_def)
  have "distinct (map r_id (front @ ll_items s @ rear))"
    using fb(1,2) assms(2) by (auto simp: list_inv_def ids_def)
  then have "distinct (map r_id (ll_items (act r s)))" by (simp only: z map_append distinct_append)
  moreover have "ids (ll_items (act r s)) \<subseteq> ids (front @ ll_items s @ rear)"
    unfolding z by simp
  ultimately show ?thesis
    using assms(2) fb(4) by (auto simp: list_inv_def)
qed

lemma keeps_hidden:
  assumes "ok r" and "i \<in> ll_seen s" and "i \<notin> ids (ll_items s)"
  shows "i \<in> ll_seen (act r s) \<and> i \<notin> ids (ll_items (act r s))"
proof -
  obtain front rear where fb: "ids (front @ rear) \<inter> ll_seen s = {}"
    "prefix (ll_items (act r s)) (front @ ll_items s @ rear)" "ll_seen (act r s) = ll_seen s \<union> ids (front @ rear)"
    using adds_unseen [OF assms(1)] by blast
  from fb(2) obtain z where z: "front @ ll_items s @ rear = ll_items (act r s) @ z" by (auto simp: prefix_def)
  have "i \<notin> ids (front @ ll_items s @ rear)" using fb(1) assms(2,3) by auto
  then have "i \<notin> ids (ll_items (act r s))" unfolding z by simp
  then show ?thesis using fb(3) assms(2) by simp
qed

end

lemma distinct_filter_rows: "distinct (map r_id rs) \<Longrightarrow> distinct (map r_id (filter P rs))"
  by (rule distinct_map_filter)

interpretation tail_op: seen_guarded reply_ok "tail_done cap on" for cap on
proof
  fix r :: "'x row_scheme list_reply" and s :: "'x row_scheme live_list"
  assume ok: "reply_ok r"
  show "\<exists>front rear. distinct (map r_id (front @ rear)) \<and> ids (front @ rear) \<inter> ll_seen s = {} \<and>
      prefix (ll_items (tail_done cap on r s)) (front @ ll_items s @ rear) \<and>
      ll_seen (tail_done cap on r s) = ll_seen s \<union> ids (front @ rear)"
  proof (cases "\<exists>j. r = RRows j \<and> on \<and> filter (\<lambda>x. r_id x \<notin> ll_seen s) (rows_of j) \<noteq> []")
    case True
    then obtain j where j: "r = RRows j" "on" and ne: "filter (\<lambda>x. r_id x \<notin> ll_seen s) (rows_of j) \<noteq> []"
      by blast
    define fresh where "fresh = filter (\<lambda>x. r_id x \<notin> ll_seen s) (rows_of j)"
    have "distinct (map r_id fresh)"
      using ok j(1) by (simp add: reply_ok_def distinct_filter_rows fresh_def)
    moreover have "ids fresh \<inter> ll_seen s = {}" by (auto simp: fresh_def ids_def)
    moreover have "ll_items (tail_done cap on r s) = take cap (fresh @ ll_items s)"
      and "ll_seen (tail_done cap on r s) = ll_seen s \<union> ids fresh"
      using j ne by (simp_all add: tail_done_def Let_def ids_def flip: fresh_def)
    ultimately show ?thesis
      by (intro exI [of _ fresh] exI [of _ "[]"]) (simp add: take_is_prefix del: take_append)
  next
    case False
    have "ll_items (tail_done cap on r s) = ll_items s" and "ll_seen (tail_done cap on r s) = ll_seen s"
      using False by (simp_all add: tail_done_def Let_def del: filter_empty_conv split: list_reply.splits)
    then show ?thesis
      by (intro exI [of _ "[]"]) (simp add: ids_def)
  qed
qed

interpretation more_op: seen_guarded reply_ok "more_done page_size" for page_size
proof
  fix r :: "'x row_scheme list_reply" and s :: "'x row_scheme live_list"
  assume ok: "reply_ok r"
  show "\<exists>front rear. distinct (map r_id (front @ rear)) \<and> ids (front @ rear) \<inter> ll_seen s = {} \<and>
      prefix (ll_items (more_done page_size r s)) (front @ ll_items s @ rear) \<and>
      ll_seen (more_done page_size r s) = ll_seen s \<union> ids (front @ rear)"
  proof (cases r)
    case RFail
    then show ?thesis by (intro exI [of _ "[]"]) (auto simp: more_done_def ids_def)
  next
    case (RRows j)
    let ?rows = "filter (\<lambda>x. r_id x \<notin> ll_seen s) (rows_of j)"
    have "distinct (map r_id ?rows)" using ok RRows by (simp add: reply_ok_def distinct_filter_rows)
    then show ?thesis
      by (intro exI [of _ "[]"] exI [of _ ?rows]) (auto simp: more_done_def RRows Let_def ids_def)
  qed
qed

interpretation push_op: seen_guarded "\<lambda>_. True" "push_in filt cap"
  for filt :: "('x row_scheme \<Rightarrow> bool) option" and cap
proof
  fix r :: "'x row_scheme option" and s :: "'x row_scheme live_list"
  show "\<exists>front rear. distinct (map r_id (front @ rear)) \<and> ids (front @ rear) \<inter> ll_seen s = {} \<and>
      prefix (ll_items (push_in filt cap r s)) (front @ ll_items s @ rear) \<and>
      ll_seen (push_in filt cap r s) = ll_seen s \<union> ids (front @ rear)"
  proof (cases "push_in filt cap r s = s")
    case True
    then show ?thesis by (intro exI [of _ "[]"]) (auto simp: ids_def)
  next
    case False
    then obtain x where x: "r = Some x" "r_id x \<notin> ll_seen s"
      and items: "ll_items (push_in filt cap r s) = take cap (x # ll_items s)"
      and seen: "ll_seen (push_in filt cap r s) = insert (r_id x) (ll_seen s)"
      by (auto simp: push_in_def split: option.splits if_splits)
    then show ?thesis
      by (intro exI [of _ "[x]"] exI [of _ "[]"]) (simp add: ids_def take_is_prefix)
  qed
qed

lemma list_inv_initial: "reply_ok r \<Longrightarrow> list_inv s \<Longrightarrow> list_inv (initial_done page_size on r s)"
  by (auto simp: initial_done_def list_inv_def ids_def reply_ok_def Let_def split: list_reply.splits)

lemma list_inv_apply:
  assumes "event_ok e" and "list_inv s"
  shows "list_inv (fst (list_apply page_size cap e (s, g)))"
proof (cases e)
  case LQuery
  then show ?thesis by (simp add: list_inv_def list_reset_def ids_def)
next
  case LMoreStart
  with assms show ?thesis by (simp add: list_inv_def more_start_def)
qed (use assms in \<open>simp_all add: list_inv_initial tail_op.keeps_inv more_op.keeps_inv push_op.keeps_inv\<close>)

lemma list_inv_run:
  assumes "\<forall>e\<in>set es. event_ok e" and "list_inv (fst w)"
  shows "list_inv (fst (list_run page_size cap es w))"
  using assms unfolding list_run_def
proof (induction es arbitrary: w)
  case (Cons e es)
  obtain s g where w: "w = (s, g)" by (cases w)
  have "list_inv (fst (list_apply page_size cap e w))"
    unfolding w by (rule list_inv_apply) (use Cons.prems w in auto)
  with Cons show ?case by simp
qed simp

lemma hidden_apply:
  assumes "event_ok e" and "same_query e" and "i \<in> ll_seen s" and "i \<notin> ids (ll_items s)"
  shows "i \<in> ll_seen (fst (list_apply page_size cap e (s, g))) \<and>
    i \<notin> ids (ll_items (fst (list_apply page_size cap e (s, g))))"
proof (cases e)
  case LMoreStart
  with assms show ?thesis by (simp add: more_start_def)
qed (use assms in \<open>simp_all add: tail_op.keeps_hidden more_op.keeps_hidden push_op.keeps_hidden\<close>)

lemma hidden_run:
  assumes "\<forall>e\<in>set es. event_ok e \<and> same_query e" and "i \<in> ll_seen (fst w)" and "i \<notin> ids (ll_items (fst w))"
  shows "i \<notin> ids (ll_items (fst (list_run page_size cap es w)))"
  using assms unfolding list_run_def
proof (induction es arbitrary: w)
  case (Cons e es)
  obtain s g where w: "w = (s, g)" by (cases w)
  have "i \<in> ll_seen (fst (list_apply page_size cap e w)) \<and> i \<notin> ids (ll_items (fst (list_apply page_size cap e w)))"
    unfolding w by (rule hidden_apply) (use Cons.prems w in auto)
  with Cons show ?case by simp
qed simp

subsection \<open>Lemmas on polling and on the URLs\<close>

definition poll_inv :: "(string \<Rightarrow> 'd option) \<Rightarrow> 'd poll \<Rightarrow> bool" where
  "poll_inv parse p \<longleftrightarrow> (\<forall>d. po_last p \<noteq> [] \<longrightarrow> parse (po_last p) = Some d \<longrightarrow> po_data p = Some d)"

lemma poll_inv_tick: "poll_inv parse p \<Longrightarrow> poll_inv parse (tick_done parse on r p)"
  by (auto simp: poll_inv_def tick_done_def Let_def split: fetch_out.splits option.splits)

lemma poll_inv_step: "poll_inv parse (hk_poll h) \<Longrightarrow> poll_inv parse (hk_poll (hook_step parse reval e h))"
  by (cases e) (simp_all add: tick_start_def poll_inv_tick)

lemma poll_inv_run: "poll_inv parse (hk_poll h) \<Longrightarrow> poll_inv parse (hk_poll (hook_run parse reval es h))"
  unfolding hook_run_def by (induction es arbitrary: h) (simp_all add: poll_inv_step)

lemma hook_run_Nil [simp]: "hook_run parse reval [] h = h"
  and hook_run_Cons [simp]: "hook_run parse reval (e # es) h = hook_run parse reval es (hook_step parse reval e h)"
  by (simp_all add: hook_run_def)

lemma hook_run_append: "hook_run parse reval (es @ fs) h = hook_run parse reval fs (hook_run parse reval es h)"
  by (simp add: hook_run_def)

lemma tick_done_off: "tick_done parse False r p = p"
  by (simp add: tick_done_def Let_def split: fetch_out.splits)

lemma hook_off_step:
  "\<not> hk_on h \<Longrightarrow> \<not> hk_on (hook_step parse reval e h) \<and> hk_poll (hook_step parse reval e h) = hk_poll h"
  by (cases e) (simp_all add: tick_start_def tick_done_off)

definition url_query :: "string \<Rightarrow> string" where
  "url_query u = tl (dropWhile (\<lambda>c. c \<noteq> CHR ''?'') u)"

lemma split_on_app: "split_on sep (a @ sep # b) = split_on sep a @ split_on sep b"
  by (induction a) (auto split: list.splits)

lemma query_pairs_app: "query_pairs (a @ CHR ''&'' # b) = query_pairs a @ query_pairs b"
  by (simp add: query_pairs_def split_on_app)

lemma js_includes_char: "js_includes s [c] \<longleftrightarrow> c \<in> set s"
  by (auto simp: js_includes_iff in_set_conv_decomp)

lemma dropWhile_mid: "c \<in> set s \<Longrightarrow> dropWhile (\<lambda>d. d \<noteq> c) (s @ r) = dropWhile (\<lambda>d. d \<noteq> c) s @ r"
  by (induction s) auto

lemma url_query_list:
  "query_pairs (url_query (list_url base extra)) =
     (if js_includes base ''?'' then query_pairs (url_query base) else []) @ query_pairs extra"
proof (cases "js_includes base ''?''")
  case True
  then have q: "CHR ''?'' \<in> set base" by (simp add: js_includes_char)
  have "url_query (list_url base extra) = tl (dropWhile (\<lambda>c. c \<noteq> CHR ''?'') (base @ CHR ''&'' # extra))"
    using True by (simp add: url_query_def list_url_def)
  also have "\<dots> = tl (dropWhile (\<lambda>c. c \<noteq> CHR ''?'') base @ CHR ''&'' # extra)"
    by (simp only: dropWhile_mid [OF q])
  also have "\<dots> = url_query base @ CHR ''&'' # extra"
    using q by (simp add: url_query_def tl_append dropWhile_eq_Nil_conv split: list.splits)
  finally show ?thesis using True by (simp add: query_pairs_app)
next
  case False
  then have q: "CHR ''?'' \<notin> set (''/api/proxy/'' @ base)" by (simp add: js_includes_char)
  have "url_query (list_url base extra) = extra"
    using False dropWhile_neq_append [OF q, of extra] by (simp add: url_query_def list_url_def)
  with False show ?thesis by simp
qed

subsection \<open>Properties\<close>


definition row_of :: "string \<Rightarrow> row" where
  "row_of i = \<lparr>r_id = i, r_ts = ''2024-03-01T00:00:00Z''\<rparr>"


text \<open>A row pushed over the stream after a change of query, but before the first page of
  that query arrives, is lost when the page does not hold it yet: its id stays marked as seen, so
  no tail, push or older page shows it until the query changes again.\<close>

theorem live_list_lost_row:
  assumes "r_id x \<noteq> []" and "case filt of None \<Rightarrow> True | Some f \<Rightarrow> f x"
    and "r_id x \<notin> ids (rows_of j)" and "\<forall>e\<in>set es. event_ok e \<and> same_query e"
  shows "r_id x \<notin> ids (ll_items (fst (list_run page_size cap
    ([LQuery, LPush filt (Some x), LInitial (g + 1) (RRows j)] @ es) (s, g))))"
proof -
  define w where "w = list_run page_size cap [LQuery, LPush filt (Some x), LInitial (g + 1) (RRows j)] (s, g)"
  have "\<not> (case filt of None \<Rightarrow> False | Some f \<Rightarrow> \<not> f x)" using assms(2) by (cases filt) auto
  then have "r_id x \<in> ll_seen (fst w)" and "ll_items (fst w) = rows_of j"
    using assms(1) by (simp_all add: w_def list_run_def list_reset_def push_in_def initial_done_def Let_def)
  with hidden_run [OF assms(4), of "r_id x" w page_size cap] assms(3) show ?thesis
    by (simp add: w_def list_run_def)
qed

lemma live_list_lost_row_witness:
  "r_id (row_of ''new'') \<notin> ids (ll_items (fst (list_run 2 9
     ([LQuery, LPush None (Some (row_of ''new'')), LInitial (0 + 1) (RRows (Some [row_of ''old'']))] @
      [LTail 1 (RRows (Some [row_of ''new'']))]) (live0, 0))))"
  by (rule live_list_lost_row) (simp_all add: row_of_def ids_def rows_of_def reply_ok_def)

text \<open>A row that a push or a tail cuts off at the cap never comes back under the same query:
  scrolling for older rows asks for it again and drops it as already seen.\<close>

theorem live_list_cut_row:
  assumes "list_inv s" and "x \<in> set (ll_items s)" and "event_ok e" and "same_query e"
    and "r_id x \<notin> ids (ll_items (fst (list_apply page_size cap e (s, g))))"
    and "\<forall>e\<in>set es. event_ok e \<and> same_query e"
  shows "r_id x \<notin> ids (ll_items (fst (list_run page_size cap (e # es) (s, g))))"
proof -
  define w where "w = list_apply page_size cap e (s, g)"
  have "r_id x \<in> ll_seen s" using assms(1,2) by (auto simp: list_inv_def ids_def)
  then have "r_id x \<in> ll_seen (fst w)"
    using assms(4) by (cases e) (auto simp: w_def tail_done_def push_in_def more_start_def more_done_def Let_def
        split: list_reply.splits option.splits)
  with hidden_run [OF assms(6), of "r_id x" w page_size cap] assms(5) show ?thesis
    by (simp add: w_def list_run_def)
qed

definition full_list :: "row live_list" where
  "full_list = live0\<lparr>ll_items := [row_of ''b'', row_of ''a''], ll_seen := {''b'', ''a''}\<rparr>"

lemma live_list_cut_row_witness:
  "r_id (row_of ''a'') \<notin> ids (ll_items (fst (list_run 2 2
     (LPush None (Some (row_of ''c'')) # [LMoreStart, LMore (RRows (Some [row_of ''a'']))]) (full_list, 0))))"
  by (rule live_list_cut_row)
    (simp_all add: full_list_def live0_def row_of_def ids_def list_inv_def rows_of_def reply_ok_def push_in_def)

text \<open>After a change of query a late reply to a tail of the old query is ignored, but a late
  reply to \<open>loadMore\<close> is appended: the page then shows rows of the old query under the new
  filter.\<close>

theorem live_list_stale_page:
  "list_run page_size cap [LQuery, LTail g r] (s, g) = list_run page_size cap [LQuery] (s, g) \<and>
   ll_items (fst (list_run page_size cap
     [LMoreStart, LQuery, LInitial (g + 1) (RRows (Some rs)), LMore (RRows (Some old))] (s, g)))
     = rs @ filter (\<lambda>x. r_id x \<notin> ids rs) old"
  by (simp add: list_run_def tail_done_def list_reset_def initial_done_def more_start_def more_done_def
      rows_of_def Let_def ids_def split: list_reply.splits)

text \<open>C22: the short cut that skips an unchanged body never hides data: in every history of the
  hook, after a reply whose body parses, the hook shows exactly that body, live and without
  error.\<close>

theorem use_data_shows_reply:
  assumes "h = hook_run parse reval es (hook_mount poll0)" and "hk_on h" and "0 < hk_inflight h"
    and "parse t = Some d" and "parse [] = None"
  shows "hk_poll (hook_step parse reval (HReply (FText t)) h) =
    \<lparr>po_data = Some d, po_live = True, po_error = None, po_last = t\<rparr>"
proof -
  have "poll_inv parse (hk_poll h)"
    unfolding assms(1) by (rule poll_inv_run) (simp add: poll_inv_def hook_mount_def poll0_def tick_start_def)
  moreover have "t \<noteq> []" using assms(4,5) by auto
  ultimately show ?thesis
    using assms(2-4) by (auto simp: tick_done_def Let_def poll_inv_def)
qed

lemma use_data_shows_reply_witness:
  "hk_poll (hook_step (\<lambda>t. if t = [] then None else Some t) True (HReply (FText ''x''))
     (hook_run (\<lambda>t. if t = [] then None else Some t) True [HReply (FText ''x''), HInterval False] (hook_mount poll0)))
   = \<lparr>po_data = Some ''x'', po_live = True, po_error = None, po_last = ''x''\<rparr>"
  by (rule use_data_shows_reply [OF refl]) (simp_all add: hook_mount_def tick_start_def)

text \<open>After the component unmounts nothing changes its data any more, whatever replies,
  pushes and timers are still to come; while it is mounted a burst of pushes costs one request.\<close>

theorem use_data_unmount_and_burst:
  "hk_poll (hook_run parse reval (HUnmount # es) h) = hk_poll h \<and>
   (hk_on h \<and> \<not> hk_debounce h \<longrightarrow>
     hk_inflight (hook_run parse True (replicate (Suc n) HPush @ [HDebounceFires]) h) = hk_inflight h + 1)"
proof
  have "\<not> hk_on h' \<Longrightarrow> hk_poll (hook_run parse reval es h') = hk_poll h'" for h' :: "'a hook"
    by (induction es arbitrary: h') (simp_all add: hook_off_step)
  then show "hk_poll (hook_run parse reval (HUnmount # es) h) = hk_poll h" by simp
next
  have r: "hk_debounce h' \<Longrightarrow> hook_run parse True (replicate n HPush) h' = h'" for h' :: "'a hook"
    by (induction n) simp_all
  show "hk_on h \<and> \<not> hk_debounce h \<longrightarrow>
     hk_inflight (hook_run parse True (replicate (Suc n) HPush @ [HDebounceFires]) h) = hk_inflight h + 1"
    by (simp add: hook_run_append r tick_start_def)
qed

lemma use_data_unmount_and_burst_witness:
  "hk_inflight (hook_run (\<lambda>t. Some t) True (replicate (Suc 3) HPush @ [HDebounceFires]) (hook_mount poll0)) = 2"
  using use_data_unmount_and_burst [of "\<lambda>t. Some t" True "[]" "hook_mount poll0" 3, THEN conjunct2]
  by (simp add: hook_mount_def tick_start_def)

text \<open>The cursor and the page size reach the server unchanged: the query of a tail request is
  the query of the list followed by \<open>since\<close> and \<open>limit\<close>, and \<open>since\<close> decodes to the
  newest timestamp, whatever bytes it holds.\<close>

theorem tail_url_query:
  "query_pairs (url_query (tail_url base newest)) =
     (if js_includes base ''?'' then query_pairs (url_query base) else []) @
     [(''since'', encode_uri_component newest), (''limit'', ''300'')] \<and>
   pct_decode (encode_uri_component newest) = newest"
proof -
  have "CHR ''&'' \<notin> set (encode_uri_component newest)"
    by (rule encode_uri_safe) simp
  then have "query_pairs (join ''&'' (map (\<lambda>(k, v). k @ ''='' @ v)
      [(''since'', encode_uri_component newest), (''limit'', ''300'')])) =
      [(''since'', encode_uri_component newest), (''limit'', ''300'')]"
    by (intro query_pairs_join) auto
  then show ?thesis
    by (simp add: tail_url_def url_query_list pct_decode_encode)
qed

text \<open>An action is reported as successful exactly when the server answered with a 2xx
  status; every other outcome carries a non-empty message for the operator, the server's own text
  when it sent one.\<close>

theorem post_json_reports:
  "(ar_ok (post_json_result r) \<longleftrightarrow> (\<exists>st text data. r = PReply st text data \<and> 200 \<le> st \<and> st < 300)) \<and>
   (ar_ok (post_json_result r) \<longrightarrow> ar_error (post_json_result r) = None) \<and>
   (\<not> ar_ok (post_json_result r) \<longrightarrow> truthy (ar_error (post_json_result r))) \<and>
   (\<forall>st t data. r = PReply st (Some t) data \<and> t \<noteq> [] \<and> \<not> ar_ok (post_json_result r) \<longrightarrow>
      ar_error (post_json_result r) = Some t)"
  by (auto simp: post_json_result_def network_error_def str_or_def split: post_out.splits option.splits)

lemma post_json_reports_witness:
  "ar_error (post_json_result (PReply 403 (Some ''forbidden'') None)) = Some ''forbidden''"
  using post_json_reports [of "PReply 403 (Some ''forbidden'') None"]
  by (simp add: post_json_result_def)

end
