(* ===== verification/MitreDb.thy ===== *)
theory MitreDb
  imports Prelude
begin

section \<open>MITRE ATT&CK lookup\<close>

text \<open>
  Models \<open>dashboard/lib/mitre.ts\<close>: the kill chain, the curated technique table and the lookups on
  them. A tactic is its name, as in the source; an object literal is its list of entries in
  source order.
\<close>

record technique_entry =
  tq_name :: string
  tq_tactic :: string

definition TACTICS :: "string list" where
  "TACTICS =
     [''Reconnaissance'',
      ''Resource Development'',
      ''Initial Access'',
      ''Execution'',
      ''Persistence'',
      ''Privilege Escalation'',
      ''Defense Evasion'',
      ''Credential Access'',
      ''Discovery'',
      ''Lateral Movement'',
      ''Collection'',
      ''Command and Control'',
      ''Exfiltration'',
      ''Impact'']"

definition TACTIC_SHORT :: "(string \<times> string) list" where
  "TACTIC_SHORT =
     [(''Reconnaissance'', ''Recon''),
      (''Resource Development'', ''ResDev''),
      (''Initial Access'', ''Access''),
      (''Execution'', ''Exec''),
      (''Persistence'', ''Persist''),
      (''Privilege Escalation'', ''PrivEsc''),
      (''Defense Evasion'', ''Evasion''),
      (''Credential Access'', ''Creds''),
      (''Discovery'', ''Discovery''),
      (''Lateral Movement'', ''Lateral''),
      (''Collection'', ''Collect''),
      (''Command and Control'', ''C2''),
      (''Exfiltration'', ''Exfil''),
      (''Impact'', ''Impact'')]"

definition TECHNIQUES :: "(string \<times> technique_entry) list" where
  "TECHNIQUES =
    [(''T1595'', \<lparr>tq_name = ''Active Scanning'', tq_tactic = ''Reconnaissance''\<rparr>),
     (''T1190'', \<lparr>tq_name = ''Exploit Public-Facing Application'', tq_tactic = ''Initial Access''\<rparr>),
     (''T1133'', \<lparr>tq_name = ''External Remote Services'', tq_tactic = ''Initial Access''\<rparr>),
     (''T1078'', \<lparr>tq_name = ''Valid Accounts'', tq_tactic = ''Initial Access''\<rparr>),
     (''T1200'', \<lparr>tq_name = ''Hardware Additions'', tq_tactic = ''Initial Access''\<rparr>),
     (''T1059'', \<lparr>tq_name = ''Command & Scripting Interpreter'', tq_tactic = ''Execution''\<rparr>),
     (''T1059.004'', \<lparr>tq_name = ''Unix Shell'', tq_tactic = ''Execution''\<rparr>),
     (''T1203'', \<lparr>tq_name = ''Exploitation for Client Execution'', tq_tactic = ''Execution''\<rparr>),
     (''T1106'', \<lparr>tq_name = ''Native API'', tq_tactic = ''Execution''\<rparr>),
     (''T1053'', \<lparr>tq_name = ''Scheduled Task/Job'', tq_tactic = ''Execution''\<rparr>),
     (''T1053.003'', \<lparr>tq_name = ''Cron'', tq_tactic = ''Persistence''\<rparr>),
     (''T1204'', \<lparr>tq_name = ''User Execution'', tq_tactic = ''Execution''\<rparr>),
     (''T1547'', \<lparr>tq_name = ''Boot/Logon Autostart Execution'', tq_tactic = ''Persistence''\<rparr>),
     (''T1543'', \<lparr>tq_name = ''Create or Modify System Process'', tq_tactic = ''Persistence''\<rparr>),
     (''T1543.002'', \<lparr>tq_name = ''Systemd Service'', tq_tactic = ''Persistence''\<rparr>),
     (''T1546'', \<lparr>tq_name = ''Event Triggered Execution'', tq_tactic = ''Persistence''\<rparr>),
     (''T1546.004'', \<lparr>tq_name = ''Unix Shell Config Modification'', tq_tactic = ''Persistence''\<rparr>),
     (''T1037'', \<lparr>tq_name = ''Boot/Logon Initialization Scripts'', tq_tactic = ''Persistence''\<rparr>),
     (''T1136'', \<lparr>tq_name = ''Create Account'', tq_tactic = ''Persistence''\<rparr>),
     (''T1098'', \<lparr>tq_name = ''Account Manipulation'', tq_tactic = ''Persistence''\<rparr>),
     (''T1098.004'', \<lparr>tq_name = ''SSH Authorized Keys'', tq_tactic = ''Persistence''\<rparr>),
     (''T1505'', \<lparr>tq_name = ''Server Software Component'', tq_tactic = ''Persistence''\<rparr>),
     (''T1505.003'', \<lparr>tq_name = ''Web Shell'', tq_tactic = ''Persistence''\<rparr>),
     (''T1574'', \<lparr>tq_name = ''Hijack Execution Flow'', tq_tactic = ''Persistence''\<rparr>),
     (''T1574.006'', \<lparr>tq_name = ''Dynamic Linker Hijacking'', tq_tactic = ''Persistence''\<rparr>),
     (''T1548'', \<lparr>tq_name = ''Abuse Elevation Control Mechanism'', tq_tactic = ''Privilege Escalation''\<rparr>),
     (''T1548.003'', \<lparr>tq_name = ''Sudo and Sudo Caching'', tq_tactic = ''Privilege Escalation''\<rparr>),
     (''T1068'', \<lparr>tq_name = ''Exploitation for Privilege Escalation'', tq_tactic = ''Privilege Escalation''\<rparr>),
     (''T1055'', \<lparr>tq_name = ''Process Injection'', tq_tactic = ''Defense Evasion''\<rparr>),
     (''T1070'', \<lparr>tq_name = ''Indicator Removal'', tq_tactic = ''Defense Evasion''\<rparr>),
     (''T1070.002'', \<lparr>tq_name = ''Clear Linux/Mac System Logs'', tq_tactic = ''Defense Evasion''\<rparr>),
     (''T1070.004'', \<lparr>tq_name = ''File Deletion'', tq_tactic = ''Defense Evasion''\<rparr>),
     (''T1027'', \<lparr>tq_name = ''Obfuscated Files or Information'', tq_tactic = ''Defense Evasion''\<rparr>),
     (''T1140'', \<lparr>tq_name = ''Deobfuscate/Decode Files'', tq_tactic = ''Defense Evasion''\<rparr>),
     (''T1014'', \<lparr>tq_name = ''Rootkit'', tq_tactic = ''Defense Evasion''\<rparr>),
     (''T1562'', \<lparr>tq_name = ''Impair Defenses'', tq_tactic = ''Defense Evasion''\<rparr>),
     (''T1562.001'', \<lparr>tq_name = ''Disable or Modify Tools'', tq_tactic = ''Defense Evasion''\<rparr>),
     (''T1222'', \<lparr>tq_name = ''File and Directory Permissions Modification'', tq_tactic = ''Defense Evasion''\<rparr>),
     (''T1564'', \<lparr>tq_name = ''Hide Artifacts'', tq_tactic = ''Defense Evasion''\<rparr>),
     (''T1610'', \<lparr>tq_name = ''Deploy Container'', tq_tactic = ''Defense Evasion''\<rparr>),
     (''T1611'', \<lparr>tq_name = ''Escape to Host'', tq_tactic = ''Privilege Escalation''\<rparr>),
     (''T1110'', \<lparr>tq_name = ''Brute Force'', tq_tactic = ''Credential Access''\<rparr>),
     (''T1003'', \<lparr>tq_name = ''OS Credential Dumping'', tq_tactic = ''Credential Access''\<rparr>),
     (''T1003.008'', \<lparr>tq_name = ''/etc/passwd and /etc/shadow'', tq_tactic = ''Credential Access''\<rparr>),
     (''T1552'', \<lparr>tq_name = ''Unsecured Credentials'', tq_tactic = ''Credential Access''\<rparr>),
     (''T1552.001'', \<lparr>tq_name = ''Credentials In Files'', tq_tactic = ''Credential Access''\<rparr>),
     (''T1552.004'', \<lparr>tq_name = ''Private Keys'', tq_tactic = ''Credential Access''\<rparr>),
     (''T1555'', \<lparr>tq_name = ''Credentials from Password Stores'', tq_tactic = ''Credential Access''\<rparr>),
     (''T1056'', \<lparr>tq_name = ''Input Capture'', tq_tactic = ''Credential Access''\<rparr>),
     (''T1082'', \<lparr>tq_name = ''System Information Discovery'', tq_tactic = ''Discovery''\<rparr>),
     (''T1083'', \<lparr>tq_name = ''File and Directory Discovery'', tq_tactic = ''Discovery''\<rparr>),
     (''T1057'', \<lparr>tq_name = ''Process Discovery'', tq_tactic = ''Discovery''\<rparr>),
     (''T1018'', \<lparr>tq_name = ''Remote System Discovery'', tq_tactic = ''Discovery''\<rparr>),
     (''T1046'', \<lparr>tq_name = ''Network Service Discovery'', tq_tactic = ''Discovery''\<rparr>),
     (''T1033'', \<lparr>tq_name = ''System Owner/User Discovery'', tq_tactic = ''Discovery''\<rparr>),
     (''T1087'', \<lparr>tq_name = ''Account Discovery'', tq_tactic = ''Discovery''\<rparr>),
     (''T1518'', \<lparr>tq_name = ''Software Discovery'', tq_tactic = ''Discovery''\<rparr>),
     (''T1021'', \<lparr>tq_name = ''Remote Services'', tq_tactic = ''Lateral Movement''\<rparr>),
     (''T1021.004'', \<lparr>tq_name = ''SSH'', tq_tactic = ''Lateral Movement''\<rparr>),
     (''T1563'', \<lparr>tq_name = ''Remote Service Session Hijacking'', tq_tactic = ''Lateral Movement''\<rparr>),
     (''T1560'', \<lparr>tq_name = ''Archive Collected Data'', tq_tactic = ''Collection''\<rparr>),
     (''T1005'', \<lparr>tq_name = ''Data from Local System'', tq_tactic = ''Collection''\<rparr>),
     (''T1039'', \<lparr>tq_name = ''Data from Network Shared Drive'', tq_tactic = ''Collection''\<rparr>),
     (''T1071'', \<lparr>tq_name = ''Application Layer Protocol'', tq_tactic = ''Command and Control''\<rparr>),
     (''T1071.001'', \<lparr>tq_name = ''Web Protocols'', tq_tactic = ''Command and Control''\<rparr>),
     (''T1090'', \<lparr>tq_name = ''Proxy'', tq_tactic = ''Command and Control''\<rparr>),
     (''T1095'', \<lparr>tq_name = ''Non-Application Layer Protocol'', tq_tactic = ''Command and Control''\<rparr>),
     (''T1571'', \<lparr>tq_name = ''Non-Standard Port'', tq_tactic = ''Command and Control''\<rparr>),
     (''T1572'', \<lparr>tq_name = ''Protocol Tunneling'', tq_tactic = ''Command and Control''\<rparr>),
     (''T1573'', \<lparr>tq_name = ''Encrypted Channel'', tq_tactic = ''Command and Control''\<rparr>),
     (''T1105'', \<lparr>tq_name = ''Ingress Tool Transfer'', tq_tactic = ''Command and Control''\<rparr>),
     (''T1219'', \<lparr>tq_name = ''Remote Access Software'', tq_tactic = ''Command and Control''\<rparr>),
     (''T1041'', \<lparr>tq_name = ''Exfiltration Over C2 Channel'', tq_tactic = ''Exfiltration''\<rparr>),
     (''T1048'', \<lparr>tq_name = ''Exfiltration Over Alternative Protocol'', tq_tactic = ''Exfiltration''\<rparr>),
     (''T1567'', \<lparr>tq_name = ''Exfiltration Over Web Service'', tq_tactic = ''Exfiltration''\<rparr>),
     (''T1567.002'', \<lparr>tq_name = ''Exfiltration to Cloud Storage'', tq_tactic = ''Exfiltration''\<rparr>),
     (''T1052'', \<lparr>tq_name = ''Exfiltration Over Physical Medium'', tq_tactic = ''Exfiltration''\<rparr>),
     (''T1052.001'', \<lparr>tq_name = ''Exfiltration over USB'', tq_tactic = ''Exfiltration''\<rparr>),
     (''T1030'', \<lparr>tq_name = ''Data Transfer Size Limits'', tq_tactic = ''Exfiltration''\<rparr>),
     (''T1486'', \<lparr>tq_name = ''Data Encrypted for Impact'', tq_tactic = ''Impact''\<rparr>),
     (''T1490'', \<lparr>tq_name = ''Inhibit System Recovery'', tq_tactic = ''Impact''\<rparr>),
     (''T1489'', \<lparr>tq_name = ''Service Stop'', tq_tactic = ''Impact''\<rparr>),
     (''T1496'', \<lparr>tq_name = ''Resource Hijacking'', tq_tactic = ''Impact''\<rparr>),
     (''T1529'', \<lparr>tq_name = ''System Shutdown/Reboot'', tq_tactic = ''Impact''\<rparr>)]"

definition technique :: "string \<Rightarrow> technique_entry option" where
  "technique i =
     (let key = to_upper (trim i)
      in case map_of TECHNIQUES key of
           Some t \<Rightarrow> Some t
         | None \<Rightarrow> map_of TECHNIQUES (hd (split_on (CHR ''.'') key)))"

definition technique_name :: "string \<Rightarrow> string" where
  "technique_name i = (case technique i of None \<Rightarrow> i | Some t \<Rightarrow> tq_name t)"

definition technique_tactic :: "string \<Rightarrow> string option" where
  "technique_tactic i = map_option tq_tactic (technique i)"

definition attack_url :: "string \<Rightarrow> string" where
  "attack_url i =
     (let parts = split_on (CHR ''.'') (to_upper (trim i));
          root = ''https://attack.mitre.org/techniques/'' @ hd parts @ ''/''
      in case tl parts of
           [] \<Rightarrow> root
         | sub # _ \<Rightarrow> if sub = [] then root else root @ sub @ ''/'')"

definition tactics_from_techniques :: "string list \<Rightarrow> string list" where
  \<comment> \<open>the set is filled in order; the result is read off the kill chain\<close>
  "tactics_from_techniques tids =
     (let seen = fold (\<lambda>i s. case technique_tactic i of
                         None \<Rightarrow> s
                       | Some t \<Rightarrow> if t = [] then s else insert t s) tids {}
      in filter (\<lambda>t. t \<in> seen) TACTICS)"

subsection \<open>Lemmas\<close>

lemma tactic_short_keys: "map fst TACTIC_SHORT = TACTICS"
  by (simp add: TACTIC_SHORT_def TACTICS_def)

lemma table_tactics: "list_all (\<lambda>(k, t). tq_tactic t \<in> set TACTICS) TECHNIQUES"
  by (simp add: TECHNIQUES_def TACTICS_def)

lemma table_keys: "list_all (\<lambda>(k, t). to_upper (trim k) = k \<and> tq_name t \<noteq> []) TECHNIQUES"
  by code_simp

lemma tactics_distinct: "distinct TACTICS"
  by (simp add: TACTICS_def)

lemma technique_in_table: "technique i = Some t \<Longrightarrow> \<exists>k. (k, t) \<in> set TECHNIQUES"
  by (auto simp: technique_def Let_def split: option.splits dest: map_of_SomeD)

lemma technique_tactic_in: "technique_tactic i = Some t \<Longrightarrow> t \<in> set TACTICS"
  using table_tactics technique_in_table by (fastforce simp: technique_tactic_def list_all_iff)

lemma tactics_nonempty: "[] \<notin> set TACTICS"
  by (simp add: TACTICS_def)

lemma fold_seen:
  "fold (\<lambda>i s. case technique_tactic i of None \<Rightarrow> s | Some t \<Rightarrow> if t = [] then s else insert t s) tids s =
     s \<union> {t. \<exists>i\<in>set tids. technique_tactic i = Some t}"
proof (induction tids arbitrary: s)
  case (Cons i tids)
  have "technique_tactic i \<noteq> Some []" using technique_tactic_in tactics_nonempty by blast
  with Cons show ?case by (auto split: option.splits)
qed simp

lemma to_upper_trim_fix: "(k, t) \<in> set TECHNIQUES \<Longrightarrow> to_upper (trim k) = k"
  using table_keys by (fastforce simp: list_all_iff)

subsection \<open>Properties\<close>

text \<open>The strip shows the tactics in kill-chain order, each once, and exactly those of the
  techniques observed; no technique of the table has a tactic outside the chain, so none is
  silently missing.\<close>

theorem tactics_in_chain_order:
  "subseq (tactics_from_techniques tids) TACTICS \<and> distinct (tactics_from_techniques tids) \<and>
   set (tactics_from_techniques tids) = {t. \<exists>i\<in>set tids. technique_tactic i = Some t}"
proof -
  have e: "tactics_from_techniques tids = filter (\<lambda>t. \<exists>i\<in>set tids. technique_tactic i = Some t) TACTICS"
    by (simp add: tactics_from_techniques_def fold_seen)
  show ?thesis
    unfolding e using technique_tactic_in tactics_distinct by (auto intro: subseq_filter_left)
qed

text \<open>Every id of the table resolves to its own entry, and a sub-technique that is not listed
  resolves to its parent's entry, whatever its suffix.\<close>

theorem technique_resolves:
  assumes "map_of TECHNIQUES k = Some t"
  shows "technique k = Some t \<and>
    (\<forall>sub. to_upper (trim (k @ ''.'' @ sub)) = k @ ''.'' @ sub \<and> CHR ''.'' \<notin> set k \<and>
       map_of TECHNIQUES (k @ ''.'' @ sub) = None \<longrightarrow> technique (k @ ''.'' @ sub) = Some t)"
  using assms to_upper_trim_fix [OF map_of_SomeD [OF assms]]
  by (simp add: technique_def split_on_append)

lemma technique_resolves_witness: "technique ''T1059.999'' = Some \<lparr>tq_name = ''Command & Scripting Interpreter'', tq_tactic = ''Execution''\<rparr>"
proof -
  let ?t = "\<lparr>tq_name = ''Command & Scripting Interpreter'', tq_tactic = ''Execution''\<rparr>"
  have "map_of TECHNIQUES ''T1059'' = Some ?t" by code_simp
  moreover have "map_of TECHNIQUES ''T1059.999'' = None" by code_simp
  moreover have "to_upper (trim ''T1059.999'') = ''T1059.999''" by code_simp
  ultimately show ?thesis
    using technique_resolves [of "''T1059''" ?t] by simp
qed

end
