(* ===== verification/Types.thy ===== *)
theory Types
  imports Http Dates
begin

section \<open>The data the console shows\<close>

text \<open>
  The interfaces of \<open>web/src/types.ts\<close>, in the source's order, one record each; a field \<open>x?\<close> is an
  option. \<open>dashboard/lib/types.ts\<close> declares the same interfaces; it adds the uid
  of a process, whether a rule is enabled, and suppressions (in \<open>DashRules\<close>). Closed unions of literals are strings, because the values come off the wire unchecked.
  A case detail extends a case. \<open>Record<string, number>\<close> is a list of entries in the order the
  server wrote them (the order \<open>Object.entries\<close> gives for the names used here, which are not
  integer-like).
\<close>

record process =
  pr_pid :: "int option"
  pr_ppid :: "int option"
  pr_name :: "string option"
  pr_exe :: "string option"
  pr_cmdline :: "string option"
  pr_user :: "string option"
  pr_parent :: "string option"
  pr_lineage :: "string option"
  pr_container :: "string option"
  pr_hash :: "string option"
  pr_uid :: "int option"

record file_info =
  fi_path :: "string option"
  fi_op :: "string option"
  fi_size :: "int option"
  fi_hash :: "string option"

record net_info =
  ni_direction :: "string option"
  ni_proto :: "string option"
  ni_remote :: "string option"
  ni_domain :: "string option"
  ni_url :: "string option"
  ni_category :: "string option"
  ni_bytes_out :: "int option"
  ni_bytes_in :: "int option"
  ni_blocked :: "bool option"

record usb_info =
  us_action :: "string option"
  us_vendor :: "string option"
  us_product :: "string option"
  us_serial :: "string option"
  us_mount :: "string option"
  us_size_gb :: "int option"

record auth_info =
  au_method :: "string option"
  au_source_ip :: "string option"
  au_tty :: "string option"
  au_result :: "string option"

record dlp_info =
  dl_classifier :: "string option"
  dl_channel :: "string option"
  dl_matches :: "int option"
  dl_sample :: "string option"
  dl_verdict :: "string option"

record event =
  ev_id :: string
  ev_agent_id :: string
  ev_hostname :: string
  ev_ts :: string
  ev_category :: string
  ev_action :: string
  ev_severity :: string
  ev_user :: "string option"
  ev_message :: "string option"
  ev_process :: "process option"
  ev_file :: "file_info option"
  ev_network :: "net_info option"
  ev_usb :: "usb_info option"
  ev_auth :: "auth_info option"
  ev_dlp :: "dlp_info option"
  ev_labels :: "string list option"

record agent =
  ag_id :: string
  ag_hostname :: string
  ag_os :: string
  ag_kernel :: string
  ag_arch :: string
  ag_ip :: string
  ag_mac :: string
  ag_version :: string
  ag_status :: string
  ag_labels :: "string list option"
  ag_enrolled_at :: string
  ag_last_seen :: string
  ag_event_count :: int

record detection =
  de_id :: string
  de_ts :: string
  de_rule_id :: string
  de_rule_name :: string
  de_severity :: string
  de_category :: string
  de_agent_id :: string
  de_hostname :: string
  de_user :: "string option"
  de_summary :: string
  de_mitre :: "string list option"
  de_tactic :: "string option"
  de_status :: string
  de_event_ids :: "string list option"
  de_engine :: string
  de_assigned_to :: "string option"

record response_action =
  re_id :: string
  re_ts :: string
  re_type :: string
  re_agent_id :: string
  re_hostname :: string
  re_target :: "(string \<times> json) list option"
  re_reason :: string
  re_issued_by :: string
  re_detection_id :: "string option"
  re_status :: string
  re_result :: "string option"
  re_automated :: bool

record triage_result =
  tr_summary :: string
  tr_assessment :: string
  tr_recommended_actions :: "string list"
  tr_confidence :: string
  tr_model :: string
  tr_generated_at :: string
  tr_cached :: bool

record case_note =
  cn_ts :: string
  cn_author :: string
  cn_body :: string

record case_rec =
  ca_id :: string
  ca_title :: string
  ca_severity :: string
  ca_status :: string
  ca_assigned_to :: "string option"
  ca_agent_id :: "string option"
  ca_hostname :: "string option"
  ca_detection_ids :: "string list"
  ca_mitre :: "string list option"
  ca_notes :: "case_note list option"
  ca_created_at :: string
  ca_updated_at :: string
  ca_created_by :: "string option"

record case_detail = case_rec +
  cd_detections :: "detection list"

record rule =
  ru_ID :: string
  ru_Title :: string
  ru_Severity :: string
  ru_Category :: string
  ru_Tactic :: string
  ru_Description :: string
  ru_AutoRespond :: string
  ru_MITRE :: "string list option"

record time_bucket =
  tb_hour :: string
  tb_count :: int

record tactic_count =
  tc_tactic :: string
  tc_count :: int

record overview =
  ov_counts :: "(string \<times> int) list"
  ov_severity :: "(string \<times> int) list"
  ov_by_category :: "(string \<times> int) list"
  ov_timeline :: "time_bucket list"
  ov_top_mitre :: "tactic_count list"

end
