(* ===== verification/Format.thy ===== *)
theory Format
  imports Types
begin

section \<open>Formatting helpers and labels\<close>

text \<open>
  \<open>dashboard/lib/format.ts\<close> and the helpers \<open>web/src/ui.tsx\<close> shares with it, and
  \<open>dashboard/lib/response-actions.ts\<close>. Numbers are integers. Divisions by 1024 are exact on
  doubles; a division by 1000 is not, so \<open>compact\<close> goes through the double nearest to the
  quotient before \<open>toFixed\<close> rounds it.
\<close>

subsection \<open>Text constants outside ASCII, as UTF-8 bytes\<close>

definition u_dash :: string where "u_dash = [CHR 0xE2, CHR 0x80, CHR 0x94]"
definition u_middot :: string where "u_middot = [CHR 0xC2, CHR 0xB7]"
definition u_ellipsis :: string where "u_ellipsis = [CHR 0xE2, CHR 0x80, CHR 0xA6]"
definition u_right :: string where "u_right = [CHR 0xE2, CHR 0x86, CHR 0x92]"
definition u_up :: string where "u_up = [CHR 0xE2, CHR 0x86, CHR 0x91]"
definition u_cross :: string where "u_cross = [CHR 0xE2, CHR 0x9C, CHR 0x95]"
definition u_check :: string where "u_check = [CHR 0xE2, CHR 0x9C, CHR 0x93]"

subsection \<open>Formatting helpers\<close>

function byte_loop :: "int \<Rightarrow> nat \<Rightarrow> nat" where
  \<comment> \<open>\<open>while (v >= 1024 && i < u.length - 1) \{ v /= 1024; i++; \}\<close> with \<open>v = n / 1024 ^ i\<close>, which a
    division by a power of two keeps exact; the result is the final \<open>i\<close>\<close>
  "byte_loop n i = (if n \<ge> 1024 * 1024 ^ i \<and> i < 4 then byte_loop n (Suc i) else i)"
  by pat_completeness auto
termination by (relation "measure (\<lambda>(n, i). 4 - i)") auto

declare byte_loop.simps [simp del]

definition byte_units :: "string list" where
  "byte_units = [''B'', ''KB'', ''MB'', ''GB'', ''TB'']"

definition to_fixed0 :: "int \<Rightarrow> int \<Rightarrow> string" where
  \<comment> \<open>\<open>(n / d).toFixed(0)\<close> for \<open>n \<ge> 0\<close>, or \<open>d = 1\<close>\<close>
  "to_fixed0 n d = show_int ((2 * n + d) div (2 * d))"

definition to_fixed1 :: "int \<Rightarrow> int \<Rightarrow> string" where
  \<comment> \<open>\<open>(n / d).toFixed(1)\<close> for \<open>n \<ge> 0\<close> and an exact quotient\<close>
  "to_fixed1 n d = (let k = (20 * n + d) div (2 * d) in show_int (k div 10) @ ''.'' @ show_int (k mod 10))"

definition bytes :: "int option \<Rightarrow> string" where
  "bytes n =
     (if \<not> truthy_num n then ''0 B''
      else (let k = the n; i = byte_loop k 0; d = 1024 ^ i
            in (if k < 10 * d \<and> i > 0 then to_fixed1 k d else to_fixed0 k d) @ '' '' @ byte_units ! i))"

definition sev_var :: "(string \<times> string) list" where
  "sev_var =
     [(''critical'', ''var(--sev-critical)''),
      (''high'', ''var(--sev-high)''),
      (''medium'', ''var(--sev-medium)''),
      (''low'', ''var(--sev-low)''),
      (''info'', ''var(--sev-info)'')]"

definition sev_color :: "string \<Rightarrow> string" where
  "sev_color s = (case map_of sev_var s of Some v \<Rightarrow> v | None \<Rightarrow> ''var(--sev-info)'')"

definition tpl :: "string option \<Rightarrow> string" where
  \<comment> \<open>an optional string inside a template literal\<close>
  "tpl s = (case s of None \<Rightarrow> ''undefined'' | Some t \<Rightarrow> t)"

definition opt_str :: "string option \<Rightarrow> string" where
  "opt_str s = str_or s []"

definition event_detail :: "event \<Rightarrow> string" where
  \<comment> \<open>\<open>detail\<close> of \<open>dashboard/lib/format.ts\<close>\<close>
  "event_detail e =
     (if truthy (Option.bind (ev_process e) pr_cmdline) then the (pr_cmdline (the (ev_process e)))
      else if truthy (Option.bind (ev_file e) fi_path)
      then opt_str (fi_op (the (ev_file e))) @ '' '' @ the (fi_path (the (ev_file e)))
      else if truthy (Option.bind (ev_network e) ni_domain)
      then the (ni_domain (the (ev_network e))) @
           (if truthy_num (ni_bytes_out (the (ev_network e)))
            then '' '' @ u_up @ bytes (ni_bytes_out (the (ev_network e))) else [])
      else case ev_usb e of
        Some u \<Rightarrow> trim (opt_str (us_vendor u) @ '' '' @ opt_str (us_product u) @ '' '' @ opt_str (us_serial u))
      | None \<Rightarrow>
        (case ev_auth e of
           Some a \<Rightarrow> opt_str (au_method a) @ '' from '' @ str_or (au_source_ip a) ''local'' @ '' '' @ u_right @ '' '' @ opt_str (au_result a)
         | None \<Rightarrow>
           (case ev_dlp e of
              Some d \<Rightarrow> tpl (dl_classifier d) @ '' via '' @ tpl (dl_channel d)
            | None \<Rightarrow> opt_str (ev_message e))))"

fun log2n :: "nat \<Rightarrow> nat" where
  "log2n n = (if n < 2 then 0 else Suc (log2n (n div 2)))"

declare log2n.simps [simp del]

definition half_even :: "nat \<Rightarrow> nat \<Rightarrow> nat" where
  \<comment> \<open>\<open>n / d\<close> rounded to the nearest integer, ties to even\<close>
  "half_even n d =
     (let k = n div d; r = 2 * (n mod d)
      in if r < d then k else if r > d then k + 1 else if even k then k else k + 1)"

definition double_quot :: "nat \<Rightarrow> nat \<Rightarrow> nat \<times> nat" where
  \<comment> \<open>the double nearest to \<open>n / d\<close>, for \<open>d \<le> n < 2 ^ 52\<close>: \<open>m / 2 ^ s\<close> with a 53-bit \<open>m\<close>\<close>
  "double_quot n d = (let s = 52 - log2n (n div d) in (half_even (n * 2 ^ s) d, s))"

definition compact :: "nat \<Rightarrow> string" where
  "compact n =
     (if n \<ge> 1000
      then (let (m, s) = double_quot n 1000 in to_fixed1 (int m) (2 ^ s)) @ ''k''
      else show_nat n)"

subsection \<open>Response verbs\<close>

definition RESPONSE_LABELS :: "(string \<times> string) list" where
  "RESPONSE_LABELS =
     [(''kill_process'', ''Kill process''),
      (''kill_tree'', ''Kill process tree''),
      (''isolate'', ''Isolate endpoint''),
      (''unisolate'', ''Lift isolation''),
      (''disable_account'', ''Disable account''),
      (''block_upload'', ''Block uploads''),
      (''unblock_upload'', ''Lift upload block''),
      (''block_usb'', ''Block USB''),
      (''unblock_usb'', ''Lift USB block''),
      (''freeze'', ''Freeze processes''),
      (''unfreeze'', ''Unfreeze processes''),
      (''quarantine_file'', ''Quarantine file''),
      (''live_triage'', ''Live triage''),
      (''update_policy'', ''Update policy''),
      (''self_update'', ''Agent self-update'')]"

definition response_label :: "string \<Rightarrow> string" where
  "response_label t =
     (case map_of RESPONSE_LABELS t of
        Some l \<Rightarrow> l
      | None \<Rightarrow>
          (case map (\<lambda>c. if c = CHR ''_'' then CHR '' '' else c) t of
             [] \<Rightarrow> []
           | c # cs \<Rightarrow> upper_char c # cs))"

definition DESTRUCTIVE_RESPONSES :: "string list" where
  "DESTRUCTIVE_RESPONSES =
     [''kill_process'', ''kill_tree'', ''isolate'', ''disable_account'', ''freeze'', ''quarantine_file'']"

subsection \<open>Lemmas\<close>

lemma compact_examples:
  "compact 999 = ''999''" "compact 1050 = ''1.1k''" "compact 1150 = ''1.1k''" "compact 12345 = ''12.3k''" "compact 1250 = ''1.3k''"
  by (simp_all add: compact_def double_quot_def half_even_def to_fixed1_def Let_def log2n.simps show_int_def
      show_nat.simps digit_char_def char_of_def bit_0)

lemma byte_loop_spec:
  "i \<le> 4 \<Longrightarrow> (0 < i \<longrightarrow> 1024 ^ i \<le> n) \<Longrightarrow>
     byte_loop n i \<le> 4 \<and> (0 < byte_loop n i \<longrightarrow> 1024 ^ byte_loop n i \<le> n) \<and>
     (byte_loop n i < 4 \<longrightarrow> n < 1024 * 1024 ^ byte_loop n i)"
proof (induction n i rule: byte_loop.induct)
  case (1 n i)
  show ?case
  proof (cases "n \<ge> 1024 * 1024 ^ i \<and> i < 4")
    case True
    then show ?thesis using 1 by (subst (1 2 3 4 5) byte_loop.simps) simp
  next
    case False
    then have "byte_loop n i = i" by (subst byte_loop.simps) auto
    with 1 False show ?thesis by auto
  qed
qed

lemma round_bounds:
  assumes "0 < (d :: int)"
  shows "2 * d * ((2 * n + d) div (2 * d)) - d \<le> 2 * n \<and> 2 * n < 2 * d * ((2 * n + d) div (2 * d)) + d"
  using div_bounds [of "2 * d" "2 * n + d"] assms by (simp add: algebra_simps)

subsection \<open>Properties\<close>

text \<open>A byte count is shown in the largest unit it fills (up to terabytes), and the number shown
  is within half a unit of its last digit: below 10 units one decimal, else none. The loop that
  picks the unit always ends.\<close>

theorem bytes_accurate:
  assumes "0 < n"
  shows "\<exists>i v. i \<le> 4 \<and> (0 < i \<longrightarrow> 1024 ^ i \<le> n) \<and> (i < 4 \<longrightarrow> n < 1024 * 1024 ^ i) \<and>
    ((bytes (Some n) = show_int v @ '' '' @ byte_units ! i \<and> (i = 0 \<or> 10 * 1024 ^ i \<le> n) \<and>
        2 * 1024 ^ i * v - 1024 ^ i \<le> 2 * n \<and> 2 * n < 2 * 1024 ^ i * v + 1024 ^ i) \<or>
     (bytes (Some n) = show_int (v div 10) @ ''.'' @ show_int (v mod 10) @ '' '' @ byte_units ! i \<and> 0 < i \<and>
        2 * 1024 ^ i * v - 1024 ^ i \<le> 20 * n \<and> 20 * n < 2 * 1024 ^ i * v + 1024 ^ i))"
proof -
  define i where "i = byte_loop n 0"
  define d :: int where "d = 1024 ^ i"
  have i: "i \<le> 4" "0 < i \<longrightarrow> d \<le> n" "i < 4 \<longrightarrow> n < 1024 * d"
    using byte_loop_spec [of 0 n] by (simp_all add: i_def d_def)
  have d: "0 < d" by (simp add: d_def)
  show ?thesis
  proof (cases "n < 10 * d \<and> i > 0")
    case True
    then have "bytes (Some n) = show_int ((20 * n + d) div (2 * d) div 10) @ ''.'' @
        show_int ((20 * n + d) div (2 * d) mod 10) @ '' '' @ byte_units ! i"
      using assms by (simp add: bytes_def Let_def to_fixed1_def flip: i_def d_def)
    with i True round_bounds [OF d, of "10 * n"] show ?thesis
      unfolding d_def [symmetric]
      by (intro exI [of _ i] exI [of _ "(20 * n + d) div (2 * d)"]) (simp add: d_def)
  next
    case False
    then have "bytes (Some n) = show_int ((2 * n + d) div (2 * d)) @ '' '' @ byte_units ! i"
      using assms by (auto simp add: bytes_def Let_def to_fixed0_def simp flip: i_def d_def)
    with i False round_bounds [OF d, of n] show ?thesis
      by (intro exI [of _ i] exI [of _ "(2 * n + d) div (2 * d)"]) (auto simp: d_def)
  qed
qed

lemma bytes_accurate_witness:
  "\<exists>i v. i \<le> 4 \<and> (0 < i \<longrightarrow> 1024 ^ i \<le> (1536 :: int)) \<and> (i < 4 \<longrightarrow> (1536 :: int) < 1024 * 1024 ^ i) \<and>
    ((bytes (Some 1536) = show_int v @ '' '' @ byte_units ! i \<and> (i = 0 \<or> 10 * 1024 ^ i \<le> (1536 :: int)) \<and>
        2 * 1024 ^ i * v - 1024 ^ i \<le> 2 * 1536 \<and> 2 * 1536 < 2 * 1024 ^ i * v + 1024 ^ i) \<or>
     (bytes (Some 1536) = show_int (v div 10) @ ''.'' @ show_int (v mod 10) @ '' '' @ byte_units ! i \<and> 0 < i \<and>
        2 * 1024 ^ i * v - 1024 ^ i \<le> 20 * 1536 \<and> 20 * 1536 < 2 * 1024 ^ i * v + 1024 ^ i))"
  by (rule bytes_accurate) simp

end
