(* ===== verification/Vdom.thy ===== *)
theory Vdom
  imports Format
begin

section \<open>Rendered trees and the browser environment\<close>

text \<open>
  What a React component returns: an element has a tag, attributes, event handlers and children;
  a handler carries the message its callback sends to the component's state. \<open>Null\<close> is what
  \<open>cond \&\& <x/>\<close> renders when the condition fails, \<open>Frag\<close> a fragment or a list of children.
  Attributes are text, a \<open>style\<close> object its declarations. For a tree \<open>n\<close>, \<open>set_node n\<close> is the set
  of all messages the user can send from it.

  \<open>env\<close> collects what the page reads from the browser and the model leaves open: the clock, the
  locale's renderings of times and numbers and its collation (\<open>localeCompare\<close>, negative, zero or
  positive).
\<close>

datatype 'm handler =
    On string 'm
  | OnValue string "string \<Rightarrow> 'm"
  | OnKey "string \<Rightarrow> 'm option"

datatype 'm node =
    Null
  | Txt string
  | Elem string "(string \<times> string) list" "'m handler list" "'m node list"
  | Frag "'m node list"

abbreviation el :: "string \<Rightarrow> (string \<times> string) list \<Rightarrow> 'm node list \<Rightarrow> 'm node" where
  "el t as ns \<equiv> Elem t as [] ns"

abbreviation cls :: "string \<Rightarrow> string \<times> string" where
  "cls c \<equiv> (''className'', c)"

abbreviation sty :: "string \<Rightarrow> string \<times> string" where
  "sty c \<equiv> (''style'', c)"

definition only_if :: "bool \<Rightarrow> 'm node \<Rightarrow> 'm node" where
  "only_if b n = (if b then n else Null)"

definition unless_disabled :: "bool \<Rightarrow> 'm handler list \<Rightarrow> 'm handler list" where
  \<comment> \<open>a disabled control sends nothing\<close>
  "unless_disabled disabled hs = (if disabled then [] else hs)"

definition disabled_attr :: "bool \<Rightarrow> (string \<times> string) list" where
  "disabled_attr disabled = (if disabled then [(''disabled'', [])] else [])"

definition opt_attr :: "string \<Rightarrow> string option \<Rightarrow> (string \<times> string) list" where
  \<comment> \<open>an attribute whose value may be \<open>undefined\<close>\<close>
  "opt_attr k v = (case v of None \<Rightarrow> [] | Some t \<Rightarrow> [(k, t)])"

definition opt_txt :: "string option \<Rightarrow> 'm node" where
  \<comment> \<open>an optional string as a child\<close>
  "opt_txt s = (case s of None \<Rightarrow> Null | Some t \<Rightarrow> Txt t)"

definition num_txt :: "int \<Rightarrow> 'm node" where
  "num_txt n = Txt (show_int n)"

primrec text_of :: "'m node \<Rightarrow> string" where
  "text_of Null = []"
| "text_of (Txt s) = s"
| "text_of (Elem t as hs ns) = concat (map text_of ns)"
| "text_of (Frag ns) = concat (map text_of ns)"

primrec unconfirmed :: "'m node \<Rightarrow> 'm set" where
  \<comment> \<open>the messages the user can send other than through a confirm button\<close>
  "unconfirmed Null = {}"
| "unconfirmed (Txt s) = {}"
| "unconfirmed (Elem t as hs ns) =
     (if t = ''ConfirmButton'' then {} else (\<Union>h\<in>set hs. set_handler h)) \<union> \<Union> (set (map unconfirmed ns))"
| "unconfirmed (Frag ns) = \<Union> (set (map unconfirmed ns))"

record env =
  en_now :: int
  en_time :: "string \<Rightarrow> string"
  en_datetime :: "string \<Rightarrow> string"
  en_number :: "int \<Rightarrow> string"
  en_collate :: "string \<Rightarrow> string \<Rightarrow> int"

definition plain_env :: env where
  \<comment> \<open>one concrete browser, for examples\<close>
  "plain_env = \<lparr>en_now = 0, en_time = (\<lambda>t. t), en_datetime = (\<lambda>t. t), en_number = show_int,
     en_collate = (\<lambda>a b. int (length a) - int (length b))\<rparr>"

lemma only_if_simps [simp]: "only_if True n = n" "only_if False n = Null"
  by (simp_all add: only_if_def)

lemma set_node_only_if [simp]: "set_node (only_if b n) = (if b then set_node n else {})"
  by (simp add: only_if_def)

lemma set_node_opt_txt [simp]: "set_node (opt_txt s) = {}"
  by (simp add: opt_txt_def split: option.splits)

lemma set_node_num_txt [simp]: "set_node (num_txt n) = {}"
  by (simp add: num_txt_def)

lemma unconfirmed_subset: "unconfirmed n \<subseteq> set_node n"
  by (induction n) (auto split: if_splits)

lemma unconfirmed_only_if [simp]: "unconfirmed (only_if b n) = (if b then unconfirmed n else {})"
  by (simp add: only_if_def)

lemma set_unless_disabled [simp]: "set (unless_disabled d hs) = (if d then {} else set hs)"
  by (simp add: unless_disabled_def)

lemma text_of_only_if [simp]: "text_of (only_if b n) = (if b then text_of n else [])"
  by (simp add: only_if_def)

lemma text_of_opt_txt [simp]: "text_of (opt_txt s) = str_or s []"
  by (cases s) (auto simp: opt_txt_def str_or_def)

lemma text_of_num_txt [simp]: "text_of (num_txt n) = show_int n"
  by (simp add: num_txt_def)

end
