(* ===== verification/Ui.thy ===== *)
theory Ui
  imports Vdom
begin

section \<open>Small interface elements\<close>

text \<open>Models \<open>web/src/ui.tsx\<close>. \<open>ago\<close> and \<open>bytes\<close> are the functions of \<open>Dates\<close> and \<open>Format\<close>; the
  file declares them once more, word for word.\<close>

definition row_click_attrs :: "(string \<times> string) list" where
  "row_click_attrs = [(''role'', ''button''), (''tabIndex'', ''0''), sty ''cursor: pointer'']"

definition row_click :: "'m \<Rightarrow> 'm handler list" where
  "row_click m = [On ''click'' m, OnKey (\<lambda>key. if key = ''Enter'' \<or> key = '' '' then Some m else None)]"

definition sev_tag :: "string \<Rightarrow> 'm node" where
  "sev_tag s = el ''span'' [cls (''sev sev-'' @ s)] [Txt s]"

definition status_tag :: "string \<Rightarrow> 'm node" where
  "status_tag s = el ''span'' [cls (''status-tag st-'' @ s)] [el ''span'' [cls ''d''] [], Txt s]"

definition stat :: "string \<Rightarrow> 'm node \<Rightarrow> 'm node option \<Rightarrow> bool \<Rightarrow> string option \<Rightarrow> 'm node" where
  "stat label value foot crit accent =
     el ''div'' [cls (''panel stat'' @ (if crit then '' crit'' else []))]
       [el ''span'' (cls ''edge'' # (if truthy accent then [sty (''background: '' @ the accent)] else [])) [],
        el ''div'' [cls ''label''] [Txt label],
        el ''div'' [cls ''value''] [value],
        (case foot of None \<Rightarrow> Null | Some f \<Rightarrow> el ''div'' [cls ''foot''] [f])]"

definition panel :: "string option \<Rightarrow> string option \<Rightarrow> 'm node \<Rightarrow> string option \<Rightarrow> 'm node list \<Rightarrow> 'm node" where
  "panel title sub right className children =
     el ''div'' [cls (''panel '' @ str_or className [])]
       [only_if (truthy title)
          (el ''div'' [cls ''panel-head'']
             [el ''h3'' [] [opt_txt title],
              only_if (truthy sub) (el ''span'' [cls ''sub''] [opt_txt sub]),
              el ''span'' [sty ''flex: 1''] [],
              right]),
        el ''div'' [cls ''panel-body''] children]"

definition mitre :: "string list option \<Rightarrow> 'm node" where
  "mitre is =
     (case is of
        None \<Rightarrow> el ''span'' [cls ''dim''] [Txt u_dash]
      | Some [] \<Rightarrow> el ''span'' [cls ''dim''] [Txt u_dash]
      | Some ts \<Rightarrow> el ''span'' [cls ''mitre''] (map (\<lambda>t. el ''span'' [(''key'', t), cls ''chip violet''] [Txt t]) ts))"

definition CAT_ICON :: "(string \<times> string) list" where
  "CAT_ICON =
     [(''process'', [CHR 0xE2, CHR 0x96, CHR 0xB6]),
      (''file'', [CHR 0xE2, CHR 0x9C, CHR 0x8E]),
      (''network'', [CHR 0xE2, CHR 0x97, CHR 0x88]),
      (''auth'', [CHR 0xE2, CHR 0x9A, CHR 0xBF]),
      (''ssh'', [CHR 0xE2, CHR 0x9A, CHR 0xBF]),
      (''usb'', [CHR 0xE2, CHR 0x9B, CHR 0x81]),
      (''package'', [CHR 0xE2, CHR 0x9D, CHR 0x92]),
      (''dlp'', [CHR 0xE2, CHR 0x9C, CHR 0xA6]),
      (''system'', [CHR 0xE2, CHR 0x80, CHR 0xA2])]"

definition cat_icon :: "string \<Rightarrow> string \<Rightarrow> string" where
  \<comment> \<open>\<open>CAT_ICON[c] || d\<close>\<close>
  "cat_icon c d = str_or (map_of CAT_ICON c) d"

subsection \<open>Lemmas\<close>

lemma set_node_sev_tag [simp]: "set_node (sev_tag s) = {}"
  by (simp add: sev_tag_def)

lemma set_node_status_tag [simp]: "set_node (status_tag s) = {}"
  by (simp add: status_tag_def)

lemma set_node_mitre [simp]: "set_node (mitre is) = {}"
  by (auto simp: mitre_def split: option.splits list.splits)

lemma set_node_stat [simp]:
  "set_node (stat l v f c a) = set_node v \<union> (case f of None \<Rightarrow> {} | Some n \<Rightarrow> set_node n)"
  by (simp add: stat_def split: option.splits)

lemma set_node_panel [simp]:
  "set_node (panel t s r c ns) = (if truthy t then set_node r else {}) \<union> (\<Union>n\<in>set ns. set_node n)"
  by (auto simp: panel_def)

lemma set_row_click [simp]: "(\<Union>h\<in>set (row_click m). set_handler h) = {m}"
  by (auto simp: row_click_def split: if_splits)

end
