(* ===== verification/Widgets.thy ===== *)
theory Widgets
  imports Ui
begin

section \<open>Drawer, confirm button, copy button, key-value list\<close>

text \<open>
  Models \<open>web/src/components.tsx\<close>. A component with state is a record, a message type, a view and a
  step. The confirm button's three-second timer runs exactly while it is armed, because the effect
  is keyed on \<open>armed\<close> and its cleanup clears the timer.
\<close>

subsection \<open>Drawer\<close>

definition drawer_key :: "'m \<Rightarrow> string \<Rightarrow> 'm option" where
  "drawer_key on_close key = (if key = ''Escape'' then Some on_close else None)"

definition drawer :: "string \<Rightarrow> string option \<Rightarrow> 'm \<Rightarrow> 'm node list \<Rightarrow> 'm node option \<Rightarrow> 'm node" where
  \<comment> \<open>the key handler is the window listener the effect installs while the drawer is mounted\<close>
  "drawer title sub on_close children foot = Frag
     [Elem ''div'' [cls ''drawer-scrim''] [On ''click'' on_close] [],
      Elem ''div'' [cls ''drawer scroll''] [OnKey (drawer_key on_close)]
        [el ''div'' [cls ''drawer-head'']
           [el ''div'' [sty ''display: flex; align-items: center; gap: 12px'']
              [el ''div'' [sty ''flex: 1'']
                 [only_if (truthy sub) (el ''div'' [cls ''page-kicker''] [opt_txt sub]),
                  el ''h2'' [sty ''margin: 2px 0 0; font-family: var(--mono); font-size: 17px''] [Txt title]],
               Elem ''button'' [cls ''btn btn-ghost btn-sm''] [On ''click'' on_close] [Txt (u_cross @ '' Close'')]]],
         el ''div'' [cls ''drawer-body''] children,
         (case foot of
            None \<Rightarrow> Null
          | Some f \<Rightarrow> el ''div'' [cls ''drawer-body'',
              sty ''border-top: 1px solid var(--line); position: sticky; bottom: 0; background: var(--panel-solid)''] [f])]]"

subsection \<open>ConfirmButton\<close>

datatype confirm_msg = Arm | Confirm | Cancel | TimerFires

definition confirm_step :: "confirm_msg \<Rightarrow> bool \<Rightarrow> bool \<times> bool" where
  \<comment> \<open>the new \<open>armed\<close>, and whether \<open>onConfirm\<close> is called; the timer exists only while armed\<close>
  "confirm_step m armed =
     (case m of
        Arm \<Rightarrow> (True, False)
      | Confirm \<Rightarrow> (False, True)
      | Cancel \<Rightarrow> (False, False)
      | TimerFires \<Rightarrow> (False, False))"

definition confirm_view :: "string option \<Rightarrow> string \<Rightarrow> confirm_msg node list \<Rightarrow> bool \<Rightarrow> confirm_msg node" where
  "confirm_view className confirm_label children armed =
     (if armed
      then el ''span'' [sty ''display: inline-flex; gap: 6px'']
        [Elem ''button'' [cls (str_or className ''btn btn-danger btn-sm'')] [On ''click'' Confirm]
           [Txt (u_check @ '' ''), Txt confirm_label],
         Elem ''button'' [cls ''btn btn-ghost btn-sm''] [On ''click'' Cancel] [Txt ''Cancel'']]
      else Elem ''button'' (opt_attr ''className'' className) [On ''click'' Arm] children)"

definition confirm_enabled :: "string option \<Rightarrow> string \<Rightarrow> bool \<Rightarrow> confirm_msg \<Rightarrow> bool" where
  \<comment> \<open>what can happen next: a button on the screen, or the pending timer\<close>
  "confirm_enabled className confirm_label armed m =
     (m \<in> set_node (confirm_view className confirm_label [] armed) \<or> (armed \<and> m = TimerFires))"

fun confirm_run :: "string option \<Rightarrow> string \<Rightarrow> confirm_msg list \<Rightarrow> bool \<Rightarrow> bool" where
  \<comment> \<open>a sequence that can happen from the given state\<close>
  "confirm_run c l [] armed = True"
| "confirm_run c l (m # ms) armed = (confirm_enabled c l armed m \<and> confirm_run c l ms (fst (confirm_step m armed)))"

definition confirm_button :: "string option \<Rightarrow> string \<Rightarrow> 'm \<Rightarrow> 'm node list \<Rightarrow> 'm node" where
  \<comment> \<open>the element as its parent writes it; the parent's message is sent on \<open>onConfirm\<close>\<close>
  "confirm_button className confirm_label on_confirm children =
     Elem ''ConfirmButton'' (opt_attr ''className'' className @ [(''confirmLabel'', confirm_label)])
       [On ''confirm'' on_confirm] children"

subsection \<open>Copyable\<close>

record copy_state =
  co_done :: bool
  co_timers :: nat

datatype copy_msg = CopyClick | CopyWritten bool | CopyTimer

definition copy_step :: "string \<Rightarrow> copy_msg \<Rightarrow> copy_state \<Rightarrow> copy_state \<times> string option" where
  \<comment> \<open>the new state and the text handed to the clipboard\<close>
  "copy_step text m s =
     (case m of
        CopyClick \<Rightarrow> (s, Some text)
      | CopyWritten ok \<Rightarrow> (if ok then \<lparr>co_done = True, co_timers = co_timers s + 1\<rparr> else s, None)
      | CopyTimer \<Rightarrow> (if co_timers s = 0 then s else \<lparr>co_done = False, co_timers = co_timers s - 1\<rparr>, None))"

definition copyable :: "string option \<Rightarrow> copy_msg node option \<Rightarrow> copy_state \<Rightarrow> copy_msg node" where
  "copyable text children s =
     (if \<not> truthy text then Frag [case children of Some c \<Rightarrow> c | None \<Rightarrow> Txt u_dash]
      else Elem ''span''
        [cls ''copyable'', (''title'', ''Copy to clipboard''), (''role'', ''button''), (''tabIndex'', ''0''),
         (''aria-label'', ''Copy '' @ the text)]
        [On ''click'' CopyClick, OnKey (\<lambda>key. if key = ''Enter'' \<or> key = '' '' then Some CopyClick else None)]
        [case children of Some c \<Rightarrow> c | None \<Rightarrow> Txt (the text),
         el ''span'' [cls ''copy-ico''] [Txt (if co_done s then u_check else [CHR 0xE2, CHR 0xA7, CHR 0x89])]])"

definition copy_text :: "string option \<Rightarrow> 'm node" where
  \<comment> \<open>\<open><Copyable text=\{...\} />\<close> inside another component, showing its text or a dash\<close>
  "copy_text text = Elem ''Copyable'' (opt_attr ''text'' text) [] [Txt (str_or text u_dash)]"

subsection \<open>KV\<close>

definition kv :: "(string \<times> 'm node option) list \<Rightarrow> 'm node" where
  "kv items = el ''dl'' [cls ''kv'']
     (map (\<lambda>(k, v). el ''div'' [sty ''display: contents'']
        [el ''dt'' [] [Txt k], el ''dd'' [] [case v of None \<Rightarrow> Txt u_dash | Some n \<Rightarrow> n]]) items)"

definition kv_opt :: "string option \<Rightarrow> 'm node option" where
  "kv_opt s = map_option Txt s"

subsection \<open>Lemmas\<close>

lemma set_node_drawer [simp]:
  "set_node (drawer t s c ns f) = {c} \<union> (\<Union>n\<in>set ns. set_node n) \<union> (case f of None \<Rightarrow> {} | Some n \<Rightarrow> set_node n)"
  by (auto simp: drawer_def drawer_key_def split: option.splits)

lemma set_node_confirm_button [simp]:
  "set_node (confirm_button c l m ns) = insert m (\<Union>n\<in>set ns. set_node n)"
  by (auto simp: confirm_button_def)

lemma set_node_copy_text [simp]: "set_node (copy_text t) = {}"
  by (simp add: copy_text_def)

lemma set_node_kv [simp]:
  "set_node (kv items) = (\<Union>(k, v)\<in>set items. case v of None \<Rightarrow> {} | Some n \<Rightarrow> set_node n)"
  by (induction items) (auto simp: kv_def split: option.splits)

lemma confirm_offers:
  "confirm_enabled c l armed m \<longleftrightarrow> (if armed then m \<in> {Confirm, Cancel, TimerFires} else m = Arm)"
  by (auto simp: confirm_enabled_def confirm_view_def)

subsection \<open>Properties\<close>

text \<open>A destructive action needs two clicks: in everything that can happen to a confirm button
  from its idle state, each call of \<open>onConfirm\<close> is a click on Confirm right after the click that
  armed the button, with no timeout and no Cancel in between.\<close>

theorem confirm_needs_two_clicks:
  assumes "confirm_run c l ms False" and "i < length ms" and "ms ! i = Confirm"
  shows "0 < i \<and> ms ! (i - 1) = Arm"
proof -
  have "confirm_run c l ms armed \<Longrightarrow> i < length ms \<Longrightarrow> ms ! i = Confirm \<Longrightarrow>
      (i = 0 \<and> armed) \<or> (0 < i \<and> ms ! (i - 1) = Arm)" for ms armed i
  proof (induction ms arbitrary: armed i)
    case (Cons m ms)
    show ?case
    proof (cases i)
      case 0
      with Cons.prems show ?thesis by (auto simp: confirm_offers split: if_splits)
    next
      case (Suc j)
      have "confirm_run c l ms (fst (confirm_step m armed))" using Cons.prems(1) by simp
      from Cons.IH [OF this, of j] Cons.prems(2,3) Suc
      have "(j = 0 \<and> fst (confirm_step m armed)) \<or> (0 < j \<and> ms ! (j - 1) = Arm)" by simp
      then show ?thesis
        using Suc by (cases m) (auto simp: confirm_step_def nth_Cons split: nat.splits)
    qed
  qed simp
  with assms show ?thesis by blast
qed

lemma confirm_needs_two_clicks_witness: "[Arm, Cancel, Arm, Confirm] ! (3 - 1) = Arm"
  using confirm_needs_two_clicks [of None "''Confirm''" "[Arm, Cancel, Arm, Confirm]" 3]
  by (simp add: confirm_offers confirm_step_def)

end
