(* ===== verification/Filters.thy ===== *)
theory Filters
  imports Widgets
begin

section \<open>Filtering and sorting of tables\<close>

text \<open>
  Models \<open>web/src/filters.tsx\<close>. A table cell is a number (\<open>NaN\<close> included: a comparison with it
  is \<open>NaN\<close>, which sorting reads as equal), a string or nothing. The comparator is
  the code's, with the browser's collation as a parameter; \<open>Array.prototype.sort\<close> is a stable sort,
  here a stable insertion sort: for a comparator that is a total preorder every stable sort gives
  the same list.
\<close>

subsection \<open>Controls\<close>

definition search_input :: "string \<Rightarrow> (string \<Rightarrow> 'm) \<Rightarrow> string option \<Rightarrow> nat option \<Rightarrow> 'm node" where
  "search_input value on_change placeholder width =
     el ''div'' (cls ''search'' # (case width of
           None \<Rightarrow> []
         | Some w \<Rightarrow> if w = 0 then [] else [sty (''min-width: '' @ show_nat w @ ''px'')]))
       [el ''span'' [cls ''search-ico'', (''aria-hidden'', ''true'')] [Txt [CHR 0xE2, CHR 0x8C, CHR 0x95]],
        Elem ''input'' ([cls ''input search-input''] @ opt_attr ''placeholder'' placeholder @ [(''value'', value), (''spellCheck'', ''false'')])
          [OnValue ''change'' on_change] [],
        only_if (value \<noteq> [])
          (Elem ''button'' [cls ''search-clear'', (''title'', ''Clear''), (''aria-label'', ''Clear search'')]
             [On ''click'' (on_change [])] [Txt u_cross])]"

record seg_option =
  so_value :: string
  so_label :: string
  so_count :: "int option"
  so_dot :: "string option"

definition segmented :: "string \<Rightarrow> (string \<Rightarrow> 'm) \<Rightarrow> seg_option list \<Rightarrow> 'm node" where
  "segmented value on_change options =
     el ''div'' [cls ''seg'', (''role'', ''tablist'')]
       (map (\<lambda>o'. Elem ''button''
          [(''key'', so_value o'), (''role'', ''tab''), (''aria-selected'', if value = so_value o' then ''true'' else ''false''),
           cls (''seg-item'' @ (if value = so_value o' then '' on'' else []))]
          [On ''click'' (on_change (so_value o'))]
          [only_if (truthy (so_dot o')) (el ''span'' [cls (''seg-dot '' @ opt_str (so_dot o'))] []),
           Txt (so_label o'),
           (case so_count o' of None \<Rightarrow> Null | Some n \<Rightarrow> el ''span'' [cls ''seg-count''] [num_txt n])]) options)"

definition sort_header :: "string \<Rightarrow> string \<Rightarrow> string \<Rightarrow> int \<Rightarrow> (string \<Rightarrow> 'm) \<Rightarrow> string option \<Rightarrow> 'm node" where
  "sort_header k label skey dir on_sort align =
     (let active = (k = skey)
      in Elem ''th''
        ([cls (''th-sort'' @ (if active then '' on'' else []))] @
         (if truthy align then [sty (''text-align: '' @ the align)] else []) @ [(''title'', ''Sort by '' @ label)])
        [On ''click'' (on_sort k)]
        [el ''span'' [cls ''th-label'']
           [Txt label,
            el ''span'' [cls ''th-caret'']
              [Txt (if active then (if dir = 1 then [CHR 0xE2, CHR 0x96, CHR 0xB2] else [CHR 0xE2, CHR 0x96, CHR 0xBC])
                    else [CHR 0xE2, CHR 0x86, CHR 0x95])]]])"

subsection \<open>useTableSort\<close>

record table_sort =
  ts_key :: string
  ts_dir :: int

definition sort_toggle :: "string \<Rightarrow> table_sort \<Rightarrow> table_sort" where
  "sort_toggle k s =
     (if k = ts_key s then s\<lparr>ts_dir := (if ts_dir s = 1 then -1 else 1)\<rparr>
      else \<lparr>ts_key = k, ts_dir = 1\<rparr>)"

datatype cell = CNone | CNum int | CNaN | CStr string

fun cell_str :: "cell \<Rightarrow> string" where
  "cell_str CNone = []"
| "cell_str (CNum n) = show_int n"
| "cell_str CNaN = ''NaN''"
| "cell_str (CStr s) = s"

fun cell_cmp :: "(string \<Rightarrow> string \<Rightarrow> int) \<Rightarrow> int \<Rightarrow> cell \<Rightarrow> cell \<Rightarrow> int" where
  "cell_cmp collate dir CNone CNone = 0"
| "cell_cmp collate dir CNone vb = 1"
| "cell_cmp collate dir va CNone = -1"
| "cell_cmp collate dir (CNum a) (CNum b) = (a - b) * dir"
| "cell_cmp collate dir (CNum a) CNaN = 0"
| "cell_cmp collate dir CNaN (CNum b) = 0"
| "cell_cmp collate dir CNaN CNaN = 0"
| "cell_cmp collate dir va vb = collate (cell_str va) (cell_str vb) * dir"

fun insert_by :: "('a \<Rightarrow> 'a \<Rightarrow> int) \<Rightarrow> 'a \<Rightarrow> 'a list \<Rightarrow> 'a list" where
  "insert_by cmp x [] = [x]"
| "insert_by cmp x (y # ys) = (if cmp x y \<le> 0 then x # y # ys else y # insert_by cmp x ys)"

definition js_sort :: "('a \<Rightarrow> 'a \<Rightarrow> int) \<Rightarrow> 'a list \<Rightarrow> 'a list" where
  "js_sort cmp xs = foldr (insert_by cmp) xs []"

definition table_sorted :: "(string \<Rightarrow> string \<Rightarrow> int) \<Rightarrow> table_sort \<Rightarrow> ('r \<Rightarrow> string \<Rightarrow> cell) \<Rightarrow> 'r list \<Rightarrow> 'r list" where
  "table_sorted collate s get rows =
     js_sort (\<lambda>a b. cell_cmp collate (ts_dir s) (get a (ts_key s)) (get b (ts_key s))) rows"

definition match_text :: "string \<Rightarrow> cell list \<Rightarrow> bool" where
  "match_text q fs = (q = [] \<or> js_includes (to_lower (join '' '' (map cell_str fs))) (to_lower q))"

subsection \<open>Sorting with a comparator\<close>

text \<open>What the specification of \<open>Array.prototype.sort\<close> asks of a comparator: it is a total
  preorder.\<close>

locale comparator =
  fixes cmp :: "'a \<Rightarrow> 'a \<Rightarrow> int" and ok :: "'a \<Rightarrow> bool"
  assumes total: "ok x \<Longrightarrow> ok y \<Longrightarrow> cmp x y \<le> 0 \<or> cmp y x \<le> 0"
    and trans_le: "ok x \<Longrightarrow> ok y \<Longrightarrow> ok z \<Longrightarrow> cmp x y \<le> 0 \<Longrightarrow> cmp y z \<le> 0 \<Longrightarrow> cmp x z \<le> 0"
begin

lemma mset_insert: "mset (insert_by cmp x ys) = add_mset x (mset ys)"
  by (induction ys) auto

lemma mset_sort: "mset (js_sort cmp xs) = mset xs"
  by (induction xs) (auto simp: js_sort_def mset_insert)

lemma set_insert: "set (insert_by cmp x ys) = insert x (set ys)"
  by (induction ys) auto

lemma sorted_insert:
  assumes "sorted_wrt (\<lambda>a b. cmp a b \<le> 0) ys" and "ok x" and "\<forall>y\<in>set ys. ok y"
  shows "sorted_wrt (\<lambda>a b. cmp a b \<le> 0) (insert_by cmp x ys)"
  using assms
proof (induction ys)
  case (Cons y ys)
  show ?case
  proof (cases "cmp x y \<le> 0")
    case True
    have "cmp x z \<le> 0" if "z \<in> set ys" for z
      using trans_le [of x y z] True that Cons.prems by auto
    with True Cons.prems show ?thesis by auto
  next
    case False
    then have "cmp y x \<le> 0" using total [of x y] Cons.prems by auto
    with False Cons show ?thesis by (auto simp: set_insert)
  qed
qed simp

lemma sorted_sort:
  "\<forall>x\<in>set xs. ok x \<Longrightarrow> sorted_wrt (\<lambda>a b. cmp a b \<le> 0) (js_sort cmp xs)"
proof (induction xs)
  case Nil
  then show ?case by (simp add: js_sort_def)
next
  case (Cons x xs)
  have "set (js_sort cmp xs) = set xs" using mset_sort by (metis set_mset_mset)
  then show ?case
    using Cons sorted_insert [of "js_sort cmp xs" x] by (simp add: js_sort_def)
qed

lemma stable_insert:
  assumes "\<And>a b. P a \<Longrightarrow> P b \<Longrightarrow> cmp a b \<le> 0"
  shows "filter P (insert_by cmp x ys) = (if P x then x # filter P ys else filter P ys)"
  using assms by (induction ys) auto

lemma stable_sort:
  assumes "\<And>a b. P a \<Longrightarrow> P b \<Longrightarrow> cmp a b \<le> 0"
  shows "filter P (js_sort cmp xs) = filter P xs"
  by (induction xs) (simp_all add: js_sort_def stable_insert [of P, OF assms])

end

definition numeric_cell :: "cell \<Rightarrow> bool" where
  "numeric_cell c = (case c of CStr s \<Rightarrow> False | CNaN \<Rightarrow> False | _ \<Rightarrow> True)"

definition text_cell :: "cell \<Rightarrow> bool" where
  "text_cell c = (case c of CNum n \<Rightarrow> False | CNaN \<Rightarrow> False | _ \<Rightarrow> True)"

definition lawful_collation :: "(string \<Rightarrow> string \<Rightarrow> int) \<Rightarrow> bool" where
  \<comment> \<open>what ECMA-402 promises of \<open>localeCompare\<close>: a consistent comparator\<close>
  "lawful_collation c \<longleftrightarrow> (\<forall>x y. c y x < 0 \<longleftrightarrow> 0 < c x y) \<and> (\<forall>x y z. c x y \<le> 0 \<longrightarrow> c y z \<le> 0 \<longrightarrow> c x z \<le> 0)"

lemma cmp_numeric_le:
  "numeric_cell a \<Longrightarrow> numeric_cell b \<Longrightarrow> cell_cmp c dir a b \<le> 0 \<longleftrightarrow>
     b = CNone \<or> (\<exists>m n. a = CNum m \<and> b = CNum n \<and> m * dir \<le> n * dir)"
  by (cases a; cases b) (auto simp: numeric_cell_def left_diff_distrib)

lemma cmp_text_le:
  "text_cell a \<Longrightarrow> text_cell b \<Longrightarrow> cell_cmp c dir a b \<le> 0 \<longleftrightarrow>
     b = CNone \<or> (\<exists>s t. a = CStr s \<and> b = CStr t \<and> c s t * dir \<le> 0)"
  by (cases a; cases b) (auto simp: text_cell_def)

interpretation numeric_cmp: comparator "\<lambda>a b. cell_cmp c dir (get a) (get b)" "\<lambda>a. numeric_cell (get a)" for c dir get
proof
  fix x y
  assume "numeric_cell (get x)" "numeric_cell (get y)"
  then show "cell_cmp c dir (get x) (get y) \<le> 0 \<or> cell_cmp c dir (get y) (get x) \<le> 0"
    by (cases "get x"; cases "get y") (auto simp: numeric_cell_def left_diff_distrib)
next
  fix x y z
  assume "numeric_cell (get x)" "numeric_cell (get y)" "numeric_cell (get z)"
    "cell_cmp c dir (get x) (get y) \<le> 0" "cell_cmp c dir (get y) (get z) \<le> 0"
  then show "cell_cmp c dir (get x) (get z) \<le> 0" by (auto simp: cmp_numeric_le)
qed

lemma collate_dir:
  assumes "lawful_collation c" and "dir \<in> {1, -1}"
  shows "c x y * dir \<le> 0 \<or> c y x * dir \<le> 0"
    and "c x y * dir \<le> 0 \<Longrightarrow> c y z * dir \<le> 0 \<Longrightarrow> c x z * dir \<le> 0"
proof -
  have f: "c y x < 0 \<longleftrightarrow> 0 < c x y" "c z y < 0 \<longleftrightarrow> 0 < c y z" "c z x < 0 \<longleftrightarrow> 0 < c x z" "c x y < 0 \<longleftrightarrow> 0 < c y x"
      "c y z < 0 \<longleftrightarrow> 0 < c z y" "c x z < 0 \<longleftrightarrow> 0 < c z x" for x y z
    using assms(1) by (auto simp: lawful_collation_def)
  have t: "c x y \<le> 0 \<Longrightarrow> c y z \<le> 0 \<Longrightarrow> c x z \<le> 0" for x y z
    using assms(1) unfolding lawful_collation_def by blast
  show "c x y * dir \<le> 0 \<or> c y x * dir \<le> 0"
    using assms(2) f(1) [of y x] f(4) [of x y] by auto
  show "c x y * dir \<le> 0 \<Longrightarrow> c y z * dir \<le> 0 \<Longrightarrow> c x z * dir \<le> 0"
    using assms(2) t [of x y z] t [of z y x] f(1) [of y x] f(2) [of z y] f(3) [of z x] f(4) [of x y] f(5) [of y z] f(6) [of x z]
    by (auto simp: not_less)
qed

interpretation text_cmp: comparator "\<lambda>a b. cell_cmp c dir (get a) (get b)"
  "\<lambda>a. text_cell (get a) \<and> lawful_collation c \<and> dir \<in> {1, -1}" for c dir get
proof
  fix x y
  assume t: "text_cell (get x) \<and> lawful_collation c \<and> dir \<in> {1, -1}" "text_cell (get y) \<and> lawful_collation c \<and> dir \<in> {1, -1}"
  then have "c s t * dir \<le> 0 \<or> c t s * dir \<le> 0" for s t using collate_dir(1) by blast
  with t show "cell_cmp c dir (get x) (get y) \<le> 0 \<or> cell_cmp c dir (get y) (get x) \<le> 0"
    by (cases "get x"; cases "get y") (simp_all add: text_cell_def)
next
  fix x y z
  assume t: "text_cell (get x) \<and> lawful_collation c \<and> dir \<in> {1, -1}" "text_cell (get y) \<and> lawful_collation c \<and> dir \<in> {1, -1}"
    "text_cell (get z) \<and> lawful_collation c \<and> dir \<in> {1, -1}"
    and le: "cell_cmp c dir (get x) (get y) \<le> 0" "cell_cmp c dir (get y) (get z) \<le> 0"
  then have "c r s * dir \<le> 0 \<Longrightarrow> c s u * dir \<le> 0 \<Longrightarrow> c r u * dir \<le> 0" for r s u using collate_dir(2) by blast
  with t le show "cell_cmp c dir (get x) (get z) \<le> 0" by (fastforce simp: cmp_text_le)
qed

subsection \<open>Searching\<close>

lemma sublist_sep:
  assumes "sublist p (w @ sep # r)" and "sep \<notin> set p"
  shows "sublist p w \<or> sublist p r"
proof -
  from assms(1) consider "sublist p w" | "sublist p (sep # r)"
    | a b where "p = a @ b" "suffix a w" "prefix b (sep # r)"
    by (auto simp: sublist_append)
  then show ?thesis
  proof cases
    case 2
    then have "prefix p (sep # r) \<or> sublist p r" by (simp add: sublist_Cons_right)
    with assms(2) show ?thesis by (cases p) auto
  next
    case 3
    then have "b = []" using assms(2) by (cases b) auto
    with 3 show ?thesis by (simp add: suffix_imp_sublist)
  qed simp
qed

lemma sublist_join:
  assumes "p \<noteq> []" and "sep \<notin> set p"
  shows "sublist p (join [sep] ws) \<longleftrightarrow> (\<exists>w\<in>set ws. sublist p w)"
proof
  show "sublist p (join [sep] ws) \<Longrightarrow> \<exists>w\<in>set ws. sublist p w"
    using assms
  proof (induction "[sep]" ws rule: join.induct)
    case (3 w v ws)
    then have "sublist p w \<or> sublist p (join [sep] (v # ws))" using sublist_sep [of p w sep] by simp
    with 3 show ?case by auto
  qed auto
next
  show "\<exists>w\<in>set ws. sublist p w \<Longrightarrow> sublist p (join [sep] ws)"
  proof (induction "[sep]" ws rule: join.induct)
    case (3 w v ws)
    then show ?case
      by (auto intro: sublist_order.order_trans [of p _ "w @ [sep] @ join [sep] (v # ws)"]
          simp: sublist_append sublist_Cons_right)
  qed auto
qed

lemma lower_space [simp]: "lower_char CHR '' '' = CHR '' ''"
  by code_simp

lemma to_lower_join: "to_lower (join '' '' ws) = join '' '' (map to_lower ws)"
  by (induction "'' ''" ws rule: join.induct) (simp_all add: to_lower_def)

lemma to_lower_space: "CHR '' '' \<notin> set q \<Longrightarrow> CHR '' '' \<notin> set (to_lower q)"
  using to_lower_nonalpha [of "CHR '' ''" q] by (auto simp: is_alpha_def)

subsection \<open>Properties\<close>

text \<open>A table sorted on a column of numbers holds the same rows, ordered by the number in the
  chosen direction with empty cells last whatever the direction, and rows whose cells are equal
  stay in their order. The toggle on the same header flips the direction and nothing else.\<close>

theorem numeric_sort_correct:
  assumes "\<forall>r\<in>set rows. numeric_cell (get r (ts_key s))"
  shows "mset (table_sorted c s get rows) = mset rows \<and>
    sorted_wrt (\<lambda>a b. get b (ts_key s) = CNone \<or>
      (\<exists>m n. get a (ts_key s) = CNum m \<and> get b (ts_key s) = CNum n \<and> m * ts_dir s \<le> n * ts_dir s)) (table_sorted c s get rows) \<and>
    filter (\<lambda>r. get r (ts_key s) = k) (table_sorted c s get rows) = filter (\<lambda>r. get r (ts_key s) = k) rows \<and>
    (let s' = sort_toggle (ts_key s) s in ts_key s' = ts_key s \<and> (ts_dir s \<in> {1, -1} \<longrightarrow> ts_dir s' = - ts_dir s))"
proof (intro conjI)
  let ?cmp = "\<lambda>a b. cell_cmp c (ts_dir s) (get a (ts_key s)) (get b (ts_key s))"
  show m: "mset (table_sorted c s get rows) = mset rows"
    by (simp add: table_sorted_def numeric_cmp.mset_sort)
  have st: "set (table_sorted c s get rows) = set rows" using m by (metis set_mset_mset)
  have "sorted_wrt (\<lambda>a b. ?cmp a b \<le> 0) (table_sorted c s get rows)"
    unfolding table_sorted_def by (rule numeric_cmp.sorted_sort [where get = "\<lambda>r. get r (ts_key s)", OF assms])
  then show "sorted_wrt (\<lambda>a b. get b (ts_key s) = CNone \<or>
      (\<exists>m n. get a (ts_key s) = CNum m \<and> get b (ts_key s) = CNum n \<and> m * ts_dir s \<le> n * ts_dir s)) (table_sorted c s get rows)"
    by (rule sorted_wrt_mono_rel [rotated]) (use assms st in \<open>simp add: cmp_numeric_le\<close>)
  show "filter (\<lambda>r. get r (ts_key s) = k) (table_sorted c s get rows) = filter (\<lambda>r. get r (ts_key s) = k) rows"
  proof (cases "numeric_cell k")
    case True
    then have "?cmp a b \<le> 0" if "get a (ts_key s) = k" "get b (ts_key s) = k" for a b
      using that by (simp add: cmp_numeric_le) (cases k; simp add: numeric_cell_def)
    then show ?thesis
      unfolding table_sorted_def by (intro numeric_cmp.stable_sort [where get = "\<lambda>r. get r (ts_key s)"])
  next
    case False
    with assms st have "\<forall>r\<in>set rows. get r (ts_key s) \<noteq> k" by auto
    with st show ?thesis by (simp add: filter_False)
  qed
  show "let s' = sort_toggle (ts_key s) s in ts_key s' = ts_key s \<and> (ts_dir s \<in> {1, -1} \<longrightarrow> ts_dir s' = - ts_dir s)"
    by (auto simp: sort_toggle_def Let_def)
qed

lemma numeric_sort_correct_witness:
  "mset (table_sorted (\<lambda>_ _. 0) \<lparr>ts_key = ''n'', ts_dir = -1\<rparr> (\<lambda>r k. CNum r) [1, 3, 2]) = mset [1, 3, 2 :: int]"
  using numeric_sort_correct [of "[1, 3, 2 :: int]" "\<lambda>r k. CNum r" "\<lparr>ts_key = ''n'', ts_dir = -1\<rparr>" "\<lambda>_ _. 0" "CNum 1"]
  by (simp add: numeric_cell_def)

text \<open>The same for a column of texts, for any collation with the laws of \<open>localeCompare\<close>: the
  rows are a permutation, ordered by the collation in the chosen direction, empty cells last.\<close>

theorem text_sort_correct:
  assumes "lawful_collation c" and "ts_dir s \<in> {1, -1}" and "\<forall>r\<in>set rows. text_cell (get r (ts_key s))"
  shows "mset (table_sorted c s get rows) = mset rows \<and>
    sorted_wrt (\<lambda>a b. get b (ts_key s) = CNone \<or>
      (\<exists>x y. get a (ts_key s) = CStr x \<and> get b (ts_key s) = CStr y \<and> c x y * ts_dir s \<le> 0)) (table_sorted c s get rows)"
proof
  let ?cmp = "\<lambda>a b. cell_cmp c (ts_dir s) (get a (ts_key s)) (get b (ts_key s))"
  show m: "mset (table_sorted c s get rows) = mset rows"
    unfolding table_sorted_def by (rule text_cmp.mset_sort [where get = "\<lambda>r. get r (ts_key s)"])
  have st: "set (table_sorted c s get rows) = set rows" using m by (metis set_mset_mset)
  have "sorted_wrt (\<lambda>a b. ?cmp a b \<le> 0) (table_sorted c s get rows)"
    unfolding table_sorted_def by (rule text_cmp.sorted_sort [where get = "\<lambda>r. get r (ts_key s)"]) (use assms in blast)
  then show "sorted_wrt (\<lambda>a b. get b (ts_key s) = CNone \<or>
      (\<exists>x y. get a (ts_key s) = CStr x \<and> get b (ts_key s) = CStr y \<and> c x y * ts_dir s \<le> 0)) (table_sorted c s get rows)"
    by (rule sorted_wrt_mono_rel [rotated]) (use assms(3) st in \<open>simp add: cmp_text_le\<close>)
qed

definition length_collation :: "string \<Rightarrow> string \<Rightarrow> int" where
  "length_collation a b = int (length a) - int (length b)"

lemma text_sort_correct_witness:
  "mset (table_sorted length_collation \<lparr>ts_key = ''n'', ts_dir = 1\<rparr> (\<lambda>r k. CStr r) [''bb'', ''a'']) = mset [''bb'', ''a'']"
  using text_sort_correct [of length_collation "\<lparr>ts_key = ''n'', ts_dir = 1\<rparr>" "[''bb'', ''a'']" "\<lambda>r k. CStr r"]
  by (simp add: text_cell_def lawful_collation_def length_collation_def)

text \<open>A search for a word without spaces selects a row exactly when some searched field contains
  it, ignoring case: joining the fields with spaces creates no match across two fields.\<close>

theorem match_text_word:
  assumes "q \<noteq> []" and "CHR '' '' \<notin> set q"
  shows "match_text q fs \<longleftrightarrow> (\<exists>f\<in>set fs. sublist (to_lower q) (to_lower (cell_str f)))"
proof -
  have "to_lower q \<noteq> []" using assms(1) by (simp add: to_lower_def)
  then show ?thesis
    using assms by (simp add: match_text_def js_includes_sublist to_lower_join sublist_join to_lower_space)
qed

lemma match_text_word_witness:
  "match_text ''WEB'' [CNone, CStr ''web-01'', CNum 7]
     \<longleftrightarrow> (\<exists>f\<in>set [CNone, CStr ''web-01'', CNum 7]. sublist (to_lower ''WEB'') (to_lower (cell_str f)))"
  by (rule match_text_word) simp_all

end
