(* ===== verification/Api.thy ===== *)
theory Api
  imports Http
begin

section \<open>The console's API client and session\<close>

text \<open>
  Models \<open>web/src/api.ts\<close>. The session is the token in memory and the two \<open>sessionStorage\<close> keys.
  A request is built from the path, the method and the body (\<open>req_request\<close>); the reply is handled
  by \<open>req_done\<close>, which returns the new session, the effects and the promise's outcome. The bodies
  stay text here: the typed views of them are what the pages' models take.
\<close>

record session =
  sn_token :: "string option"
  sn_user :: "string option"
  sn_role :: "string option"

datatype api_effect = SendLogout | Reload

record api_call =
  ac_path :: string
  ac_method :: "string option"
  ac_body :: "string option"

datatype body_text = BodyJson string | BodyText string

definition get_token :: "session \<Rightarrow> string option" where
  "get_token s = sn_token s"

definition get_user :: "session \<Rightarrow> string option" where
  "get_user s = sn_user s"

definition get_role :: "session \<Rightarrow> string option" where
  "get_role s = sn_role s"

definition set_session :: "string \<Rightarrow> string \<Rightarrow> string \<Rightarrow> session" where
  "set_session token user role = \<lparr>sn_token = Some token, sn_user = Some user, sn_role = Some role\<rparr>"

definition clear_session :: "session \<Rightarrow> session \<times> api_effect list" where
  "clear_session s = (\<lparr>sn_token = None, sn_user = None, sn_role = None\<rparr>, [SendLogout])"

definition logout_request :: request where
  "logout_request = \<lparr>rq_method = ''POST'', rq_url = ''/api/v1/logout'', rq_headers = [], rq_body = None, rq_cache = None\<rparr>"

definition req_request :: "session \<Rightarrow> api_call \<Rightarrow> request" where
  "req_request s c =
     \<lparr>rq_method = str_or (ac_method c) ''GET'', rq_url = ac_path c,
      rq_headers = [(''Content-Type'', ''application/json'')] @
        (if truthy (get_token s) then [(''Authorization'', ''Bearer '' @ the (get_token s))] else []),
      rq_body = ac_body c, rq_cache = None\<rparr>"

definition req_done :: "string \<Rightarrow> response \<Rightarrow> session \<Rightarrow> session \<times> api_effect list \<times> (string + body_text)" where
  "req_done path r s =
     (if rs_status r = 401
      then (let (s', es) = clear_session s
            in (s', es @ (if ends_with path ''/login'' then [] else [Reload]), Inl ''unauthorized''))
      else if \<not> rs_ok r then (s, [], Inl (show_nat (rs_status r) @ '' '' @ rs_body r))
      else (s, [], Inr (if js_includes (str_or (rs_ctype r) []) ''json'' then BodyJson (rs_body r) else BodyText (rs_body r))))"

subsection \<open>The endpoints\<close>

definition get_call :: "string \<Rightarrow> api_call" where
  "get_call path = \<lparr>ac_path = path, ac_method = None, ac_body = None\<rparr>"

definition post_call :: "string \<Rightarrow> json \<Rightarrow> api_call" where
  "post_call path body = \<lparr>ac_path = path, ac_method = Some ''POST'', ac_body = Some (stringify body)\<rparr>"

definition api_login :: "string \<Rightarrow> string \<Rightarrow> api_call" where
  "api_login username password = post_call ''/api/v1/login'' (JObj [(''username'', JStr username), (''password'', JStr password)])"

definition api_overview :: api_call where
  "api_overview = get_call ''/api/v1/stats/overview''"

definition api_agents :: api_call where
  "api_agents = get_call ''/api/v1/agents''"

definition api_agent :: "string \<Rightarrow> api_call" where
  "api_agent i = get_call (''/api/v1/agents/'' @ i)"

definition api_events :: "(string \<times> string) list \<Rightarrow> api_call" where
  "api_events q = get_call (''/api/v1/events?'' @ search_params q)"

definition api_detections :: "(string \<times> string) list \<Rightarrow> api_call" where
  "api_detections q = get_call (''/api/v1/detections?'' @ search_params q)"

definition api_responses :: api_call where
  "api_responses = get_call ''/api/v1/responses''"

definition api_rules :: api_call where
  "api_rules = get_call ''/api/v1/rules''"

definition api_dlp_policies :: api_call where
  "api_dlp_policies = get_call ''/api/v1/dlp/policies''"

definition api_dlp_classifiers :: api_call where
  "api_dlp_classifiers = get_call ''/api/v1/dlp/classifiers''"

definition api_set_detection_status :: "string \<Rightarrow> string \<Rightarrow> api_call" where
  "api_set_detection_status i status =
     post_call (''/api/v1/detections/'' @ i @ ''/status'') (JObj [(''status'', JStr status)])"

definition api_triage_detection :: "string \<Rightarrow> api_call" where
  "api_triage_detection i =
     \<lparr>ac_path = ''/api/v1/detections/'' @ i @ ''/triage'', ac_method = Some ''POST'', ac_body = None\<rparr>"

record respond_body =
  rb_type :: string
  rb_agent_id :: string
  rb_target :: "json option"
  rb_reason :: "string option"
  rb_detection_id :: "string option"

definition api_respond :: "respond_body \<Rightarrow> api_call" where
  "api_respond b = post_call ''/api/v1/respond''
     (JObj ([(''type'', JStr (rb_type b)), (''agent_id'', JStr (rb_agent_id b))]
            @ field ''target'' (rb_target b) @ field ''reason'' (map_option JStr (rb_reason b))
            @ field ''detection_id'' (map_option JStr (rb_detection_id b))))"

definition api_cases :: "(string \<times> string) list \<Rightarrow> api_call" where
  "api_cases q = get_call (''/api/v1/cases?'' @ search_params q)"

definition api_case_detail :: "string \<Rightarrow> api_call" where
  "api_case_detail i = get_call (''/api/v1/cases/'' @ i)"

record new_case =
  nc_title :: string
  nc_severity :: "string option"
  nc_agent_id :: "string option"
  nc_hostname :: "string option"
  nc_detection_ids :: "string list option"

definition api_create_case :: "new_case \<Rightarrow> api_call" where
  "api_create_case b = post_call ''/api/v1/cases''
     (JObj ((''title'', JStr (nc_title b))
            # field ''severity'' (map_option JStr (nc_severity b)) @ field ''agent_id'' (map_option JStr (nc_agent_id b))
            @ field ''hostname'' (map_option JStr (nc_hostname b))
            @ field ''detection_ids'' (map_option (\<lambda>is. JArr (map JStr is)) (nc_detection_ids b))))"

record case_patch =
  cp_status :: "string option"
  cp_assigned_to :: "string option"
  cp_title :: "string option"

definition api_update_case :: "string \<Rightarrow> case_patch \<Rightarrow> api_call" where
  "api_update_case i b = post_call (''/api/v1/cases/'' @ i)
     (JObj (field ''status'' (map_option JStr (cp_status b)) @ field ''assigned_to'' (map_option JStr (cp_assigned_to b))
            @ field ''title'' (map_option JStr (cp_title b))))"

definition api_add_case_note :: "string \<Rightarrow> string \<Rightarrow> api_call" where
  "api_add_case_note i body = post_call (''/api/v1/cases/'' @ i @ ''/notes'') (JObj [(''body'', JStr body)])"

definition confined_call :: "api_call \<Rightarrow> bool" where
  "confined_call c = starts_with (ac_path c) ''/api/v1/''"

subsection \<open>Properties\<close>



text \<open>The filters of an event, detection or case query reach the server unchanged: the query
  string splits into exactly the pairs given, form-encoded, so no value can add or alter a
  parameter.\<close>

theorem api_query_roundtrip:
  assumes "q \<noteq> []"
  shows "query_pairs (drop (length ''/api/v1/events?'') (ac_path (api_events q))) = map (\<lambda>(k, v). (form_encode k, form_encode v)) q \<and>
    query_pairs (drop (length ''/api/v1/detections?'') (ac_path (api_detections q))) = map (\<lambda>(k, v). (form_encode k, form_encode v)) q \<and>
    query_pairs (drop (length ''/api/v1/cases?'') (ac_path (api_cases q))) = map (\<lambda>(k, v). (form_encode k, form_encode v)) q"
  using query_pairs_search_params [OF assms]
  by (simp add: api_events_def api_detections_def api_cases_def get_call_def)

lemma api_query_roundtrip_witness:
  "query_pairs (drop (length ''/api/v1/events?'') (ac_path (api_events [(''q'', ''a&b=c'')]))) =
     map (\<lambda>(k, v). (form_encode k, form_encode v)) [(''q'', ''a&b=c'')]"
  using api_query_roundtrip [of "[(''q'', ''a&b=c'')]"] by simp

end
