(* ===== verification/Store.thy ===== *)
theory Store
  imports Filters Api
begin

section \<open>The console's store\<close>

text \<open>
  Models \<open>web/src/store.tsx\<close>: the provider's state, what it fetches, how each live message changes
  the state, and the toasts. \<open>Math.random\<close> gives a toast its id and is an argument. A reply is a
  separate event; \<open>None\<close> in it is the \<open>null\<close> that Go writes for an empty slice. A failed fetch
  changes nothing and has no event.
\<close>

subsection \<open>State and operations\<close>

record toast =
  to_id :: string
  to_text :: string
  to_crit :: bool

record store =
  st_overview :: "overview option"
  st_agents :: "agent list"
  st_events :: "event list"
  st_detections :: "detection list"
  st_responses :: "response_action list"
  st_cases :: "case_rec list"
  st_toasts :: "toast list"
  st_seen_det :: "string set"

definition store0 :: store where
  "store0 = \<lparr>st_overview = None, st_agents = [], st_events = [], st_detections = [], st_responses = [],
     st_cases = [], st_toasts = [], st_seen_det = {}\<rparr>"

definition CAP :: nat where
  "CAP = 400"

datatype live_message =
    MEvent event
  | MDetection detection
  | MResponse response_action
  | MAgent agent
  | MStats
  | MCase case_rec

definition dismiss_toast :: "string \<Rightarrow> store \<Rightarrow> store" where
  "dismiss_toast i s = s\<lparr>st_toasts := filter (\<lambda>x. to_id x \<noteq> i) (st_toasts s)\<rparr>"

definition push_toast :: "string \<Rightarrow> string \<Rightarrow> bool \<Rightarrow> store \<Rightarrow> store" where
  \<comment> \<open>the six-second timer that dismisses it is a later event\<close>
  "push_toast i text crit s = s\<lparr>st_toasts := st_toasts s @ [\<lparr>to_id = i, to_text = text, to_crit = crit\<rparr>]\<rparr>"

definition upsert_detection :: "detection \<Rightarrow> detection list \<Rightarrow> detection list" where
  "upsert_detection d prev = take CAP (d # filter (\<lambda>x. de_id x \<noteq> de_id d) prev)"

definition upsert_response :: "response_action \<Rightarrow> response_action list \<Rightarrow> response_action list" where
  "upsert_response r prev = take CAP (r # filter (\<lambda>x. re_id x \<noteq> re_id r) prev)"

definition upsert_agent :: "(string \<Rightarrow> string \<Rightarrow> int) \<Rightarrow> agent \<Rightarrow> agent list \<Rightarrow> agent list" where
  "upsert_agent collate a prev =
     js_sort (\<lambda>x y. collate (ag_hostname x) (ag_hostname y)) (filter (\<lambda>x. ag_id x \<noteq> ag_id a) prev @ [a])"

definition upsert_case :: "case_rec \<Rightarrow> case_rec list \<Rightarrow> case_rec list" where
  "upsert_case c prev = c # filter (\<lambda>x. ca_id x \<noteq> ca_id c) prev"

definition alert_text :: "detection \<Rightarrow> string" where
  "alert_text d = to_upper (de_severity d) @ '' '' @ u_middot @ '' '' @ de_rule_name d @ '' @ '' @ de_hostname d"

definition done_text :: "response_action \<Rightarrow> string" where
  "done_text r = ''Response '' @ re_type r @ '' '' @ u_right @ '' '' @ re_hostname r @ '': done''"

fun store_message :: "(string \<Rightarrow> string \<Rightarrow> int) \<Rightarrow> string \<Rightarrow> live_message \<Rightarrow> store \<Rightarrow> store" where
  "store_message collate rnd (MEvent e) s = s\<lparr>st_events := take CAP (e # st_events s)\<rparr>"
| "store_message collate rnd (MDetection d) s =
     (let s1 = s\<lparr>st_detections := upsert_detection d (st_detections s)\<rparr>
      in if de_id d \<notin> st_seen_det s1 \<and> de_status d = ''open''
         then (let s2 = s1\<lparr>st_seen_det := insert (de_id d) (st_seen_det s1)\<rparr>
               in if de_severity d = ''critical'' \<or> de_severity d = ''high''
                  then push_toast rnd (alert_text d) (de_severity d = ''critical'') s2 else s2)
         else s1)"
| "store_message collate rnd (MResponse r) s =
     (let s1 = s\<lparr>st_responses := upsert_response r (st_responses s)\<rparr>
      in if re_status r = ''completed'' then push_toast rnd (done_text r) False s1 else s1)"
| "store_message collate rnd (MAgent a) s = s\<lparr>st_agents := upsert_agent collate a (st_agents s)\<rparr>"
| "store_message collate rnd MStats s = s"
| "store_message collate rnd (MCase c) s = s\<lparr>st_cases := upsert_case c (st_cases s)\<rparr>"

datatype store_event =
    SMessage string live_message
  | SOverview overview
  | SAgents "agent list option"
  | SDetections "detection list option"
  | SResponses "response_action list option"
  | SCases "case_rec list option"
  | SEvents "event list option"
  | SToast string string bool
  | SDismiss string

definition or_empty :: "'a list option \<Rightarrow> 'a list" where
  "or_empty x = (case x of None \<Rightarrow> [] | Some xs \<Rightarrow> xs)"

fun store_step :: "(string \<Rightarrow> string \<Rightarrow> int) \<Rightarrow> store_event \<Rightarrow> store \<Rightarrow> store" where
  "store_step collate (SMessage rnd m) s = store_message collate rnd m s"
| "store_step collate (SOverview v) s = s\<lparr>st_overview := Some v\<rparr>"
| "store_step collate (SAgents a) s = s\<lparr>st_agents := or_empty a\<rparr>"
| "store_step collate (SDetections d) s = s\<lparr>st_detections := or_empty d\<rparr>"
| "store_step collate (SResponses r) s = s\<lparr>st_responses := or_empty r\<rparr>"
| "store_step collate (SCases c) s = s\<lparr>st_cases := or_empty c\<rparr>"
| "store_step collate (SEvents e) s = s\<lparr>st_events := or_empty e\<rparr>"
| "store_step collate (SToast i text crit) s = push_toast i text crit s"
| "store_step collate (SDismiss i) s = dismiss_toast i s"

definition store_run :: "(string \<Rightarrow> string \<Rightarrow> int) \<Rightarrow> store_event list \<Rightarrow> store \<Rightarrow> store" where
  "store_run collate es s = fold (store_step collate) es s"

definition refresh_overview :: api_call where "refresh_overview = api_overview"
definition refresh_agents :: api_call where "refresh_agents = api_agents"
definition refresh_detections :: api_call where "refresh_detections = api_detections [(''limit'', ''200'')]"
definition refresh_responses :: api_call where "refresh_responses = api_responses"
definition refresh_cases :: api_call where "refresh_cases = api_cases [(''limit'', ''200'')]"

definition store_mount :: "api_call list" where
  "store_mount = [refresh_overview, refresh_agents, refresh_detections, refresh_responses, refresh_cases,
     api_events [(''limit'', ''200'')]]"

definition store_tick :: "api_call list" where
  \<comment> \<open>every eight seconds\<close>
  "store_tick = [refresh_overview, refresh_agents]"

subsection \<open>The contract of an upsert\<close>

text \<open>Detections, responses, agents and cases are kept by id. The locale states what the pages rely
  on when a message arrives, and gives the invariant once for all four.\<close>

locale keyed_upsert =
  fixes key :: "'a \<Rightarrow> string" and upsert :: "'a \<Rightarrow> 'a list \<Rightarrow> 'a list"
  assumes keeps_distinct: "distinct (map key xs) \<Longrightarrow> distinct (map key (upsert x xs))"
    and holds_new: "x \<in> set (upsert x xs)"
    and adds_nothing: "set (upsert x xs) \<subseteq> insert x {y \<in> set xs. key y \<noteq> key x}"
begin

lemma unique_row:
  assumes "distinct (map key xs)" and "y \<in> set (upsert x xs)" and "key y = key x"
  shows "y = x"
  using adds_nothing [of x xs] assms(2,3) by auto

lemma foreign_row: "y \<in> set (upsert x xs) \<Longrightarrow> y \<noteq> x \<Longrightarrow> y \<in> set xs \<and> key y \<noteq> key x"
  using adds_nothing [of x xs] by auto

end

lemma distinct_take_map: "distinct (map f xs) \<Longrightarrow> distinct (map f (take n xs))"
  by (metis distinct_take take_map)

interpretation det_upsert: keyed_upsert de_id upsert_detection
proof
  show "distinct (map de_id xs) \<Longrightarrow> distinct (map de_id (upsert_detection x xs))" for x xs
    unfolding upsert_detection_def by (rule distinct_take_map) auto
qed (auto simp: upsert_detection_def CAP_def dest: in_set_takeD)

interpretation resp_upsert: keyed_upsert re_id upsert_response
proof
  show "distinct (map re_id xs) \<Longrightarrow> distinct (map re_id (upsert_response x xs))" for x xs
    unfolding upsert_response_def by (rule distinct_take_map) auto
qed (auto simp: upsert_response_def CAP_def dest: in_set_takeD)

interpretation case_upsert: keyed_upsert ca_id upsert_case
  by unfold_locales (auto simp: upsert_case_def)

text \<open>A collation sorts nothing away: the multiset laws of \<open>comparator\<close> do not use its laws.\<close>

lemma mset_js_sort: "mset (js_sort cmp xs) = mset xs"
proof -
  have "mset (insert_by cmp x ys) = add_mset x (mset ys)" for x ys by (induction ys) auto
  then show ?thesis by (induction xs) (auto simp: js_sort_def)
qed

interpretation agent_upsert: keyed_upsert ag_id "upsert_agent collate" for collate
proof
  fix x :: agent and xs :: "agent list"
  let ?ys = "filter (\<lambda>y. ag_id y \<noteq> ag_id x) xs @ [x]"
  have m: "mset (upsert_agent collate x xs) = mset ?ys" by (simp add: upsert_agent_def mset_js_sort)
  then have st: "set (upsert_agent collate x xs) = set ?ys" by (metis set_mset_mset)
  show "distinct (map ag_id (upsert_agent collate x xs))" if "distinct (map ag_id xs)"
  proof -
    have "distinct (map ag_id ?ys)" using that by auto
    moreover have "mset (map ag_id (upsert_agent collate x xs)) = mset (map ag_id ?ys)" using m by simp
    ultimately show ?thesis using mset_eq_imp_distinct_iff by blast
  qed
  show "x \<in> set (upsert_agent collate x xs)" and
    "set (upsert_agent collate x xs) \<subseteq> insert x {y \<in> set xs. ag_id y \<noteq> ag_id x}"
    unfolding st by auto
qed

subsection \<open>The invariant of the store\<close>

definition store_inv :: "store \<Rightarrow> bool" where
  "store_inv s \<longleftrightarrow>
     distinct (map de_id (st_detections s)) \<and> distinct (map re_id (st_responses s)) \<and>
     distinct (map ag_id (st_agents s)) \<and> distinct (map ca_id (st_cases s)) \<and>
     length (st_events s) \<le> CAP \<and> length (st_detections s) \<le> CAP \<and> length (st_responses s) \<le> CAP"

fun served :: "store_event \<Rightarrow> bool" where
  \<comment> \<open>what the server promises of its lists: ids are keys, and at most \<open>limit\<close> rows\<close>
  "served (SAgents a) = distinct (map ag_id (or_empty a))"
| "served (SDetections d) = (distinct (map de_id (or_empty d)) \<and> length (or_empty d) \<le> CAP)"
| "served (SResponses r) = (distinct (map re_id (or_empty r)) \<and> length (or_empty r) \<le> CAP)"
| "served (SCases c) = distinct (map ca_id (or_empty c))"
| "served (SEvents e) = (length (or_empty e) \<le> CAP)"
| "served _ = True"

lemma store_inv_lists:
  assumes "st_detections s' = st_detections s" "st_responses s' = st_responses s" "st_agents s' = st_agents s"
    "st_cases s' = st_cases s" "st_events s' = st_events s"
  shows "store_inv s' = store_inv s"
  using assms by (simp add: store_inv_def)

lemma store_inv_message: "store_inv s \<Longrightarrow> store_inv (store_message collate rnd m s)"
proof (cases m)
  case (MDetection d)
  assume i: "store_inv s"
  have "store_inv (s\<lparr>st_detections := upsert_detection d (st_detections s)\<rparr>)"
    using i by (simp add: store_inv_def det_upsert.keeps_distinct) (simp add: upsert_detection_def)
  moreover have "store_inv (store_message collate rnd m s) = store_inv (s\<lparr>st_detections := upsert_detection d (st_detections s)\<rparr>)"
    by (rule store_inv_lists) (simp_all add: MDetection Let_def push_toast_def)
  ultimately show ?thesis by simp
next
  case (MResponse r)
  assume i: "store_inv s"
  have "store_inv (s\<lparr>st_responses := upsert_response r (st_responses s)\<rparr>)"
    using i by (simp add: store_inv_def resp_upsert.keeps_distinct) (simp add: upsert_response_def)
  moreover have "store_inv (store_message collate rnd m s) = store_inv (s\<lparr>st_responses := upsert_response r (st_responses s)\<rparr>)"
    by (rule store_inv_lists) (simp_all add: MResponse Let_def push_toast_def)
  ultimately show ?thesis by simp
qed (auto simp: store_inv_def agent_upsert.keeps_distinct case_upsert.keeps_distinct)

lemma store_inv_step: "served e \<Longrightarrow> store_inv s \<Longrightarrow> store_inv (store_step collate e s)"
  by (cases e) (auto simp: store_inv_message, auto simp: store_inv_def push_toast_def dismiss_toast_def)

lemma store_inv_run: "\<forall>e\<in>set es. served e \<Longrightarrow> store_inv s \<Longrightarrow> store_inv (store_run collate es s)"
  unfolding store_run_def by (induction es arbitrary: s) (auto simp: store_inv_step)

definition alerts :: "(string \<Rightarrow> string \<Rightarrow> int) \<Rightarrow> string \<Rightarrow> live_message \<Rightarrow> store \<Rightarrow> toast list" where
  \<comment> \<open>the toasts one message adds\<close>
  "alerts collate rnd m s = drop (length (st_toasts s)) (st_toasts (store_message collate rnd m s))"

lemma seen_mono: "st_seen_det s \<subseteq> st_seen_det (store_step collate e s)"
proof (cases e)
  case (SMessage rnd m)
  then show ?thesis by (cases m) (auto simp: Let_def push_toast_def)
qed (auto simp: push_toast_def dismiss_toast_def)

lemma seen_mono_run: "st_seen_det s \<subseteq> st_seen_det (store_run collate es s)"
proof (induction es arbitrary: s)
  case (Cons e es)
  have "store_run collate (e # es) s = store_run collate es (store_step collate e s)" by (simp add: store_run_def)
  with Cons [of "store_step collate e s"] seen_mono [of s collate e] show ?case by auto
qed (simp add: store_run_def)

lemma alert_iff:
  "alerts collate rnd (MDetection d) s =
     (if de_id d \<notin> st_seen_det s \<and> de_status d = ''open'' \<and> de_severity d \<in> {''critical'', ''high''}
      then [\<lparr>to_id = rnd, to_text = alert_text d, to_crit = (de_severity d = ''critical'')\<rparr>] else [])"
  by (simp add: alerts_def Let_def push_toast_def)

lemma seen_after_open:
  "de_status d = ''open'' \<Longrightarrow> de_id d \<in> st_seen_det (store_message collate rnd (MDetection d) s)"
  by (simp add: Let_def push_toast_def)

subsection \<open>Properties\<close>


definition sample_case :: "string \<Rightarrow> case_rec" where
  "sample_case i = \<lparr>ca_id = i, ca_title = ''t'', ca_severity = ''low'', ca_status = ''open'', ca_assigned_to = None,
     ca_agent_id = None, ca_hostname = None, ca_detection_ids = [], ca_mitre = None, ca_notes = None,
     ca_created_at = [], ca_updated_at = [], ca_created_by = None\<rparr>"


text \<open>A message about a detection is shown at once and replaces what was known of it: the
  detection is in the list, first, with no other row of its id, and no row of another id changes or
  appears; the same holds of responses and cases, and of endpoints up to the order of the list.\<close>

theorem message_is_shown:
  "hd (st_detections (store_message collate rnd (MDetection d) s)) = d \<and>
   (\<forall>x\<in>set (st_detections (store_message collate rnd (MDetection d) s)). x = d \<or> x \<in> set (st_detections s) \<and> de_id x \<noteq> de_id d) \<and>
   hd (st_responses (store_message collate rnd (MResponse r) s)) = r \<and>
   (\<forall>x\<in>set (st_responses (store_message collate rnd (MResponse r) s)). x = r \<or> x \<in> set (st_responses s) \<and> re_id x \<noteq> re_id r) \<and>
   st_cases (store_message collate rnd (MCase c) s) = c # filter (\<lambda>x. ca_id x \<noteq> ca_id c) (st_cases s) \<and>
   set (st_agents (store_message collate rnd (MAgent a) s)) = insert a {x \<in> set (st_agents s). ag_id x \<noteq> ag_id a}"
proof -
  have "set (upsert_agent collate a xs) = insert a {x \<in> set xs. ag_id x \<noteq> ag_id a}" for xs
  proof -
    have "set_mset (mset (upsert_agent collate a xs)) = set (filter (\<lambda>x. ag_id x \<noteq> ag_id a) xs @ [a])"
      unfolding upsert_agent_def mset_js_sort by simp
    then show ?thesis by auto
  qed
  moreover have "\<forall>x\<in>set (upsert_detection d xs). x = d \<or> x \<in> set xs \<and> de_id x \<noteq> de_id d" for xs
    using det_upsert.foreign_row by blast
  moreover have "\<forall>x\<in>set (upsert_response r xs). x = r \<or> x \<in> set xs \<and> re_id x \<noteq> re_id r" for xs
    using resp_upsert.foreign_row by blast
  moreover have "hd (upsert_detection d xs) = d" "hd (upsert_response r ys) = r" for xs ys
    by (simp_all add: upsert_detection_def upsert_response_def CAP_def)
  ultimately show ?thesis
    by (simp add: Let_def push_toast_def upsert_case_def)
qed

lemma message_is_shown_witness:
  "st_cases (store_message (\<lambda>_ _. 0) ''r'' (MCase (sample_case ''a'')) store0) = [sample_case ''a'']"
  using message_is_shown [of "\<lambda>_ _. 0" "''r''" _ store0 _ "sample_case ''a''"] by (simp add: store0_def)

text \<open>A detection raises its alert when it is first seen open, exactly if it is high or critical
  then, and never a second time, whatever else happens in between: updates and repeats of the same
  detection do not alert again.\<close>

theorem alert_once:
  assumes "de_status d = ''open''" and "de_id d' = de_id d"
  shows "(alerts collate rnd (MDetection d) s \<noteq> [] \<longleftrightarrow>
      de_id d \<notin> st_seen_det s \<and> de_severity d \<in> {''critical'', ''high''}) \<and>
    alerts collate rnd' (MDetection d') (store_run collate (SMessage rnd (MDetection d) # es) s) = []"
proof -
  have "de_id d \<in> st_seen_det (store_run collate es (store_message collate rnd (MDetection d) s))"
    using seen_mono_run [of _ collate es] seen_after_open [OF assms(1)] by blast
  moreover have "store_run collate (SMessage rnd (MDetection d) # es) s =
      store_run collate es (store_message collate rnd (MDetection d) s)" by (simp add: store_run_def)
  ultimately show ?thesis using assms by (simp add: alert_iff)
qed

definition sample_detection :: "string \<Rightarrow> string \<Rightarrow> detection" where
  "sample_detection i sev = \<lparr>de_id = i, de_ts = [], de_rule_id = [], de_rule_name = ''rule'', de_severity = sev,
     de_category = [], de_agent_id = [], de_hostname = ''web-01'', de_user = None, de_summary = [], de_mitre = None,
     de_tactic = None, de_status = ''open'', de_event_ids = None, de_engine = [], de_assigned_to = None\<rparr>"

lemma alert_once_witness:
  "alerts (\<lambda>_ _. 0) ''2'' (MDetection (sample_detection ''d1'' ''critical''))
     (store_run (\<lambda>_ _. 0) (SMessage ''1'' (MDetection (sample_detection ''d1'' ''high'')) # [SDismiss ''1'']) store0) = []"
  using alert_once [of "sample_detection ''d1'' ''high''" "sample_detection ''d1'' ''critical''"
      "\<lambda>_ _. 0" "''1''" store0 "''2''" "[SDismiss ''1'']"]
  by (simp add: sample_detection_def)

end
