(* ===== verification/ProcessTree.thy ===== *)
theory ProcessTree
  imports Ui Http
begin

section \<open>The process tree\<close>

text \<open>
  Models \<open>web/src/ProcessTree.tsx\<close>. The component's state is the focused event. The JavaScript
  \<open>Map\<close> from pid to event is the list of its entries in insertion order (setting a known key keeps
  its place). The upward walk is a loop with a set of visited pids; it is a recursive function whose
  termination is proved from the finitely many pids of the map.
\<close>

subsection \<open>The graph\<close>

definition pid_of :: "event \<Rightarrow> int option" where
  "pid_of e = Option.bind (ev_process e) pr_pid"

definition ppid_of :: "event \<Rightarrow> int option" where
  "ppid_of e = Option.bind (ev_process e) pr_ppid"

definition cmdline_of :: "event \<Rightarrow> string option" where
  "cmdline_of e = Option.bind (ev_process e) pr_cmdline"

definition scan_event :: "string \<Rightarrow> event \<Rightarrow> (int \<times> event) list \<Rightarrow> (int \<times> event) list" where
  \<comment> \<open>the body of the loop over the events\<close>
  "scan_event hostname e m =
     (if \<not> truthy_num (pid_of e) then m
      else if hostname \<noteq> [] \<and> ev_hostname e \<noteq> hostname then m
      else (case map_of m (the (pid_of e)) of
              None \<Rightarrow> obj_put (the (pid_of e)) e m
            | Some cur \<Rightarrow> if \<not> truthy (cmdline_of cur) \<and> truthy (cmdline_of e)
                          then obj_put (the (pid_of e)) e m else m))"

definition by_pid :: "event \<Rightarrow> event \<Rightarrow> event list \<Rightarrow> (int \<times> event) list" where
  "by_pid ev focus events =
     (let m = fold (scan_event (ev_hostname ev)) events [];
          m1 = (if truthy_num (pid_of focus) then obj_put (the (pid_of focus)) focus m else m)
      in if truthy_num (pid_of ev) \<and> map_of m1 (the (pid_of ev)) = None
         then obj_put (the (pid_of ev)) ev m1 else m1)"

function walk_up :: "(int \<times> event) list \<Rightarrow> int set \<Rightarrow> event list \<Rightarrow> event option \<Rightarrow> event list" where
  "walk_up m seen chain cur =
     (case cur of
        None \<Rightarrow> chain
      | Some e \<Rightarrow>
          if truthy_num (pid_of e) \<and> the (pid_of e) \<notin> seen
          then walk_up m (insert (the (pid_of e)) seen) (e # chain)
            (if truthy_num (ppid_of e) then map_of m (the (ppid_of e)) else None)
          else chain)"
  by pat_completeness auto

definition pids_left :: "(int \<times> event) list \<Rightarrow> int set \<Rightarrow> event option \<Rightarrow> int set" where
  "pids_left m seen cur =
     ((\<lambda>(k, e). the (pid_of e)) ` set m \<union> (case cur of None \<Rightarrow> {} | Some e \<Rightarrow> {the (pid_of e)})) - seen"

lemma pids_left_less:
  assumes "the (pid_of e) \<notin> seen"
  shows "card (pids_left m (insert (the (pid_of e)) seen) (if b then map_of m k else None)) < card (pids_left m seen (Some e))"
proof (rule psubset_card_mono)
  show "finite (pids_left m seen (Some e))" by (simp add: pids_left_def)
  have "(case (if b then map_of m k else None) of None \<Rightarrow> {} | Some e \<Rightarrow> {the (pid_of e)}) \<subseteq> (\<lambda>(k, e). the (pid_of e)) ` set m"
  proof (cases "if b then map_of m k else None")
    case (Some e')
    then have "(k, e') \<in> set m" by (auto split: if_splits dest: map_of_SomeD)
    with Some show ?thesis by force
  qed simp
  then have "pids_left m (insert (the (pid_of e)) seen) (if b then map_of m k else None) \<subseteq> pids_left m seen (Some e) - {the (pid_of e)}"
    unfolding pids_left_def by auto
  moreover have "the (pid_of e) \<in> pids_left m seen (Some e)" using assms by (simp add: pids_left_def)
  ultimately show "pids_left m (insert (the (pid_of e)) seen) (if b then map_of m k else None) \<subset> pids_left m seen (Some e)"
    by auto
qed

termination walk_up
  by (relation "measure (\<lambda>(m, seen, chain, cur). card (pids_left m seen cur))") (simp_all add: pids_left_less)

declare walk_up.simps [simp del]

definition ancestry :: "(int \<times> event) list \<Rightarrow> int option \<Rightarrow> event list" where
  "ancestry m focal = walk_up m {} [] (if truthy_num focal then map_of m (the focal) else None)"

definition children_of :: "(int \<times> event) list \<Rightarrow> int option \<Rightarrow> event list" where
  "children_of m focal =
     (if \<not> truthy_num focal then [] else filter (\<lambda>e. ppid_of e = focal \<and> pid_of e \<noteq> focal) (map snd m))"

subsection \<open>The view\<close>

definition base_name :: "string \<Rightarrow> string" where
  \<comment> \<open>\<open>exe.split("/").pop()\<close>\<close>
  "base_name s = last (split_on (CHR ''/'') s)"

definition proc_node :: "event \<Rightarrow> nat \<Rightarrow> bool \<Rightarrow> event node" where
  "proc_node e depth focal =
     (let p = the (ev_process e) in
      Elem ''div''
        [cls (''proc-node'' @ (if focal then '' focal'' else [])), sty (''padding-left: '' @ show_nat (6 + depth * 18) @ ''px''),
         (''title'', str_or (pr_cmdline p) (str_or (pr_exe p) []))]
        [On ''click'' e]
        [only_if (depth > 0) (el ''span'' [cls ''proc-branch''] [Txt [CHR 0xE2, CHR 0x94, CHR 0x94, CHR 0xE2, CHR 0x94, CHR 0x80]]),
         el ''span'' [cls ''proc-name''] [Txt (str_or (pr_name p) (str_or (map_option base_name (pr_exe p)) ''?''))],
         el ''span'' [cls ''proc-pid mono dim''] [Txt ''#'', (case pr_pid p of None \<Rightarrow> Null | Some n \<Rightarrow> num_txt n)],
         only_if (truthy (pr_user p)) (el ''span'' [cls ''chip''] [opt_txt (pr_user p)]),
         only_if (truthy (pr_cmdline p)) (el ''span'' [cls ''proc-cmd mono dim''] [opt_txt (pr_cmdline p)])])"

definition process_tree :: "event \<Rightarrow> event list \<Rightarrow> event \<Rightarrow> event node" where
  \<comment> \<open>the message is the new focus\<close>
  "process_tree ev events focus =
     (let m = by_pid ev focus events;
          focal = pid_of focus;
          anc = ancestry m focal;
          kids = children_of m focal;
          has_graph = (length anc > 1 \<or> length kids > 0);
          lineage = Option.bind (ev_process focus) pr_lineage
      in if \<not> truthy_num focal then Null
         else el ''div'' [cls ''proc-tree-wrap'']
           [el ''div'' [cls ''proc-tree-head'']
              [el ''span'' [cls ''page-kicker''] [Txt ''Process Tree''],
               only_if (focal \<noteq> pid_of ev)
                 (Elem ''button'' [cls ''btn btn-ghost btn-sm''] [On ''click'' ev] [Txt ([CHR 0xE2, CHR 0x86, CHR 0xA9] @ '' reset focus'')])],
            (if has_graph
             then el ''div'' [cls ''proc-tree'']
               (map (\<lambda>(i, e). proc_node e i (pid_of e = focal)) (enumerate 0 anc) @
                map (\<lambda>e. proc_node e (length anc) False) kids)
             else if truthy lineage then el ''div'' [cls ''proc-lineage mono''] [opt_txt lineage]
             else el ''div'' [cls ''dim'', sty ''font-size: 12px'']
               [Txt ''single process observed (no parent/child events in the live window)'']),
            only_if has_graph
              (el ''div'' [cls ''dim'', sty ''font-size: 11px; margin-top: 6px'']
                 [Txt (''click a process to re-focus the tree '' @ u_middot @ '' ''), num_txt (int (length m)), Txt '' processes in window''])])"

subsection \<open>Lemmas\<close>

definition pid_map :: "(int \<times> event) list \<Rightarrow> bool" where
  "pid_map m \<longleftrightarrow> (\<forall>k e. map_of m k = Some e \<longrightarrow> pid_of e = Some k \<and> k \<noteq> 0)"

lemma pid_map_put: "pid_map m \<Longrightarrow> truthy_num (pid_of e) \<Longrightarrow> pid_map (obj_put (the (pid_of e)) e m)"
  by (cases "pid_of e") (auto simp: pid_map_def map_of_obj_put)

lemma pid_map_scan: "pid_map m \<Longrightarrow> pid_map (scan_event h e m)"
  by (auto simp: scan_event_def pid_map_put split: option.splits)

lemma pid_map_fold: "pid_map m \<Longrightarrow> pid_map (fold (scan_event h) es m)"
  by (induction es arbitrary: m) (auto simp: pid_map_scan)

lemma pid_map_by_pid: "pid_map (by_pid ev focus events)"
proof -
  have "pid_map ([] :: (int \<times> event) list)" by (simp add: pid_map_def)
  then have "pid_map (fold (scan_event (ev_hostname ev)) events [])" by (rule pid_map_fold)
  then show ?thesis by (auto simp: by_pid_def Let_def pid_map_put)
qed

definition same_host :: "string \<Rightarrow> (int \<times> event) list \<Rightarrow> bool" where
  "same_host h m \<longleftrightarrow> (\<forall>k e. map_of m k = Some e \<longrightarrow> ev_hostname e = h)"

lemma same_host_put: "same_host h m \<Longrightarrow> ev_hostname e = h \<Longrightarrow> same_host h (obj_put k e m)"
  by (auto simp: same_host_def map_of_obj_put)

lemma same_host_fold: "h \<noteq> [] \<Longrightarrow> same_host h m \<Longrightarrow> same_host h (fold (scan_event h) es m)"
  by (induction es arbitrary: m) (auto simp: scan_event_def same_host_put split: option.splits)

text \<open>The walk keeps a chain in which each event is followed by one whose parent it is.\<close>

fun linked :: "event list \<Rightarrow> bool" where
  "linked (p # c # es) = (ppid_of c = pid_of p \<and> truthy_num (pid_of p) \<and> linked (c # es))"
| "linked _ = True"

definition stops :: "(int \<times> event) list \<Rightarrow> event list \<Rightarrow> bool" where
  \<comment> \<open>the first event has no known parent, or its parent is in the chain already\<close>
  "stops m chain = (case chain of
     [] \<Rightarrow> True
   | e # _ \<Rightarrow> \<not> truthy_num (ppid_of e) \<or> map_of m (the (ppid_of e)) = None \<or> the (ppid_of e) \<in> the ` pid_of ` set chain)"

lemma walk_up_spec:
  assumes "pid_map m" and "distinct (map pid_of chain)" and "linked chain" and "seen = the ` pid_of ` set chain"
    and "\<And>e. e \<in> set chain \<Longrightarrow> truthy_num (pid_of e)"
    and "chain \<noteq> [] \<Longrightarrow> cur = (if truthy_num (ppid_of (hd chain)) then map_of m (the (ppid_of (hd chain))) else None)"
    and "chain = [] \<Longrightarrow> \<exists>k. cur = map_of m k"
  shows "distinct (map pid_of (walk_up m seen chain cur)) \<and> linked (walk_up m seen chain cur) \<and>
    stops m (walk_up m seen chain cur) \<and> (\<exists>pre. walk_up m seen chain cur = pre @ chain)"
  using assms
proof (induction m seen chain cur rule: walk_up.induct)
  case (1 m seen chain cur)
  show ?case
  proof (cases "\<exists>e. cur = Some e \<and> truthy_num (pid_of e) \<and> the (pid_of e) \<notin> seen")
    case True
    then obtain e where e: "cur = Some e" "truthy_num (pid_of e)" "the (pid_of e) \<notin> seen" by blast
    let ?next = "if truthy_num (ppid_of e) then map_of m (the (ppid_of e)) else None"
    obtain k where k: "pid_of e = Some k" using e(2) by (cases "pid_of e") auto
    have w: "walk_up m seen chain cur = walk_up m (insert (the (pid_of e)) seen) (e # chain) ?next"
      using e by (subst walk_up.simps) simp
    have d: "distinct (map pid_of (e # chain))" using 1(3,5) e(3) by (auto simp: image_iff)
    have l: "linked (e # chain)"
    proof (cases chain)
      case (Cons c cs)
      then have "truthy_num (ppid_of c)" and "map_of m (the (ppid_of c)) = Some e"
        using 1(7) e(1) by (auto split: if_splits)
      then have "ppid_of c = pid_of e" using 1(2) by (cases "ppid_of c") (auto simp: pid_map_def)
      with Cons 1(4) e(2) show ?thesis by simp
    qed simp
    have "distinct (map pid_of (walk_up m (insert (the (pid_of e)) seen) (e # chain) ?next)) \<and>
        linked (walk_up m (insert (the (pid_of e)) seen) (e # chain) ?next) \<and>
        stops m (walk_up m (insert (the (pid_of e)) seen) (e # chain) ?next) \<and>
        (\<exists>pre. walk_up m (insert (the (pid_of e)) seen) (e # chain) ?next = pre @ e # chain)"
      by (rule 1(1) [OF e(1)]) (use e d l 1(2,5,6) in auto)
    then show ?thesis unfolding w by (metis append.assoc append_Cons append_Nil)
  next
    case False
    then have w: "walk_up m seen chain cur = chain"
      by (subst walk_up.simps) (auto split: option.splits)
    have "stops m chain"
    proof (cases chain)
      case (Cons c cs)
      have "the (ppid_of c) \<in> the ` pid_of ` set chain" if "truthy_num (ppid_of c)" "map_of m (the (ppid_of c)) = Some e" for e
      proof -
        have "cur = Some e" using 1(7) Cons that by simp
        moreover have "pid_of e = Some (the (ppid_of c)) \<and> the (ppid_of c) \<noteq> 0"
          using 1(2) that(2) by (auto simp: pid_map_def)
        ultimately show ?thesis using False 1(5) by auto
      qed
      then show ?thesis unfolding Cons stops_def by (cases "map_of m (the (ppid_of c))") auto
    qed (simp add: stops_def)
    with w 1(3,4) show ?thesis by auto
  qed
qed

subsection \<open>Properties\<close>

text \<open>C17: the ancestry shown is a chain of distinct processes in which each is the parent of the next
  and the last is the focused one; it stops only where the window knows no parent, or where the
  recorded parents form a cycle. The walk ends on every input, cyclic pid links included.\<close>

theorem ancestry_correct:
  assumes "truthy_num (pid_of focus)"
  shows "let m = by_pid ev focus events; anc = ancestry m (pid_of focus) in
    distinct (map pid_of anc) \<and> linked anc \<and> stops m anc \<and> anc \<noteq> [] \<and> pid_of (last anc) = pid_of focus"
proof -
  define m where "m = by_pid ev focus events"
  obtain k where k: "pid_of focus = Some k" "k \<noteq> 0" using assms(1) by (cases "pid_of focus") auto
  have pm: "pid_map m" unfolding m_def by (rule pid_map_by_pid)
  have "map_of m k \<noteq> None" using k by (auto simp: m_def by_pid_def Let_def map_of_obj_put)
  then obtain e where e: "map_of m k = Some e" by auto
  with pm have pe: "pid_of e = Some k" by (auto simp: pid_map_def)
  have w: "ancestry m (pid_of focus) = walk_up m {k} [e] (if truthy_num (ppid_of e) then map_of m (the (ppid_of e)) else None)"
  proof -
    have "walk_up m {} [] (Some e) = walk_up m {k} [e] (if truthy_num (ppid_of e) then map_of m (the (ppid_of e)) else None)"
      using k pe by (subst walk_up.simps) simp
    then show ?thesis using k e by (simp add: ancestry_def)
  qed
  let ?anc = "walk_up m {k} [e] (if truthy_num (ppid_of e) then map_of m (the (ppid_of e)) else None)"
  have s: "distinct (map pid_of ?anc) \<and> linked ?anc \<and> stops m ?anc \<and> (\<exists>pre. ?anc = pre @ [e])"
    by (rule walk_up_spec [OF pm]) (use k pe in simp_all)
  then obtain pre where "?anc = pre @ [e]" by blast
  then have "?anc \<noteq> []" and "pid_of (last ?anc) = pid_of focus" using k pe by simp_all
  with s show ?thesis unfolding Let_def m_def [symmetric] w by blast
qed

definition proc_event :: "string \<Rightarrow> int \<Rightarrow> int \<Rightarrow> event" where
  "proc_event i pid ppid = \<lparr>ev_id = i, ev_agent_id = [], ev_hostname = ''web-01'', ev_ts = [], ev_category = ''process'',
     ev_action = ''exec'', ev_severity = ''low'', ev_user = None, ev_message = None,
     ev_process = Some \<lparr>pr_pid = Some pid, pr_ppid = Some ppid, pr_name = None, pr_exe = None, pr_cmdline = None,
       pr_user = None, pr_parent = None, pr_lineage = None, pr_container = None, pr_hash = None, pr_uid = None\<rparr>,
     ev_file = None, ev_network = None, ev_usb = None, ev_auth = None, ev_dlp = None, ev_labels = None\<rparr>"

lemma proc_event_simps [simp]: "pid_of (proc_event i p q) = Some p" "ev_hostname (proc_event i p q) = ''web-01''"
  by (simp_all add: proc_event_def pid_of_def)

lemma ancestry_correct_witness:
  "distinct (map pid_of (ancestry (by_pid (proc_event ''a'' 5 4) (proc_event ''a'' 5 4) [proc_event ''b'' 4 5]) (Some 5)))"
  using ancestry_correct [of "proc_event ''a'' 5 4" "proc_event ''a'' 5 4" "[proc_event ''b'' 4 5]"]
  by (simp add: Let_def)

text \<open>With a host name on the event, no process of another host enters the tree, every entry is
  filed under its own pid, and the children shown are exactly the known processes whose parent is
  the focused one.\<close>

theorem tree_one_host:
  assumes "ev_hostname ev \<noteq> []" and "ev_hostname focus = ev_hostname ev"
  shows "(\<forall>k e. map_of (by_pid ev focus events) k = Some e \<longrightarrow> ev_hostname e = ev_hostname ev \<and> pid_of e = Some k) \<and>
    (truthy_num (pid_of focus) \<longrightarrow> set (children_of (by_pid ev focus events) (pid_of focus)) =
      {e \<in> snd ` set (by_pid ev focus events). ppid_of e = pid_of focus \<and> pid_of e \<noteq> pid_of focus})"
proof -
  have "same_host (ev_hostname ev) (fold (scan_event (ev_hostname ev)) events [])"
    by (rule same_host_fold [OF assms(1)]) (simp add: same_host_def)
  then have "same_host (ev_hostname ev) (by_pid ev focus events)"
    using assms(2) by (auto simp: by_pid_def Let_def same_host_put)
  then show ?thesis
    using pid_map_by_pid [of ev focus events] by (auto simp: same_host_def pid_map_def children_of_def)
qed

lemma tree_one_host_witness:
  "set (children_of (by_pid (proc_event ''a'' 5 4) (proc_event ''a'' 5 4) [proc_event ''b'' 6 5]) (Some 5)) =
     {e \<in> snd ` set (by_pid (proc_event ''a'' 5 4) (proc_event ''a'' 5 4) [proc_event ''b'' 6 5]). ppid_of e = Some 5 \<and> pid_of e \<noteq> Some 5}"
  using tree_one_host [of "proc_event ''a'' 5 4" "proc_event ''a'' 5 4" "[proc_event ''b'' 6 5]", THEN conjunct2]
  by simp

end
