(* ===== verification/Pages.thy ===== *)
theory Pages
  imports Store ProcessTree
begin

section \<open>What the pages share\<close>

text \<open>
  A page is a state, a type of messages its view can send, a view and an \<open>update\<close> that returns the
  new state and the effects in order. An effect is a call of the API client, a toast, or a refresh
  of the store. An \<open>async\<close> handler is cut at its \<open>await\<close>s: its first part is the update of the
  message that starts it, the rest the update of a message that brings the reply, either \<open>Inl\<close> of
  \<open>String(e)\<close> of the error thrown or \<open>Inr\<close> of the value. Messages that only replies bring are
  never in a view. \<open>role_can_act\<close> is the test the pages make of the stored role.
\<close>

datatype effect =
    Call api_call
  | ShowToast string bool
  | SetSession string string string
  | ClearSession
  | Download request string
  | GoTo string

definition role_can_act :: "session \<Rightarrow> bool" where
  \<comment> \<open>\<open>getRole() === "admin" || getRole() === "analyst"\<close>\<close>
  "role_can_act s = (get_role s = Some ''admin'' \<or> get_role s = Some ''analyst'')"

definition role_may_act :: "string option \<Rightarrow> bool" where
  \<comment> \<open>the specification: the roles that may act, as the server ranks them\<close>
  "role_may_act r = (r \<in> {Some ''admin'', Some ''analyst''})"

fun calls_of :: "effect list \<Rightarrow> api_call list" where
  "calls_of [] = []"
| "calls_of (Call c # es) = c # calls_of es"
| "calls_of (e # es) = calls_of es"

abbreviation td :: "(string \<times> string) list \<Rightarrow> 'm node list \<Rightarrow> 'm node" where
  "td as ns \<equiv> el ''td'' as ns"

abbreviation spanc :: "string \<Rightarrow> 'm node list \<Rightarrow> 'm node" where
  "spanc c ns \<equiv> el ''span'' [cls c] ns"

abbreviation divc :: "string \<Rightarrow> 'm node list \<Rightarrow> 'm node" where
  "divc c ns \<equiv> el ''div'' [cls c] ns"

definition dim_dash :: "'m node" where
  "dim_dash = spanc ''dim'' [Txt u_dash]"

definition or_dim_dash :: "string option \<Rightarrow> 'm node" where
  \<comment> \<open>\<open>x || <span className="dim">-</span>\<close>\<close>
  "or_dim_dash s = (if truthy s then opt_txt s else dim_dash)"

definition head_row :: "string list \<Rightarrow> 'm node" where
  "head_row ls = el ''thead'' [] [el ''tr'' [] (map (\<lambda>l. el ''th'' [] [Txt l]) ls)]"

definition note_span :: "string \<Rightarrow> 'm node" where
  "note_span s = el ''span'' [] [Txt s]"

definition flex_gap :: "'m node" where
  "flex_gap = el ''span'' [sty ''flex: 1''] []"

definition select_box :: "string \<Rightarrow> (string \<Rightarrow> 'm) \<Rightarrow> (string \<times> string) list \<Rightarrow> 'm node" where
  "select_box value on_change options =
     Elem ''select'' [cls ''input'', (''value'', value)] [OnValue ''change'' on_change]
       (map (\<lambda>(v, l). el ''option'' [(''value'', v)] [Txt l]) options)"

definition tree_node :: "event \<Rightarrow> event list \<Rightarrow> 'm node" where
  \<comment> \<open>\<open><ProcessTree event=\{e\} events=\{events\} />\<close>: a component with its own state\<close>
  "tree_node e events = Elem ''ProcessTree'' [(''event'', ev_id e)] [] []"

lemma set_node_helpers [simp]:
  "set_node (dim_dash :: 'm node) = {}" "set_node (or_dim_dash s :: 'm node) = {}" "set_node (head_row ls :: 'm node) = {}"
  "set_node (note_span t :: 'm node) = {}" "set_node (flex_gap :: 'm node) = {}" "set_node (tree_node e es :: 'm node) = {}"
  by (auto simp: dim_dash_def or_dim_dash_def head_row_def note_span_def flex_gap_def tree_node_def)

lemma set_node_select_box [simp]: "set_node (select_box v f opts) = range f"
  by (auto simp: select_box_def)

lemma set_node_search_input [simp]: "set_node (search_input v f p w) = range f"
  by (auto simp: search_input_def)

lemma set_node_segmented [simp]: "set_node (segmented v f opts) = f ` so_value ` set opts"
  by (auto simp: segmented_def split: option.splits if_splits)

lemma set_node_sort_header [simp]: "set_node (sort_header k l sk d f a) = {f k}"
  by (simp add: sort_header_def Let_def)

end
