(* ===== verification/EventsPage.thy ===== *)
theory EventsPage
  imports Pages
begin

section \<open>Page: event stream\<close>

text \<open>Models \<open>web/src/pages/Events.tsx\<close>: the filters, the table, the detail drawer.\<close>

definition CATS :: "string list" where
  "CATS = [[], ''process'', ''file'', ''network'', ''auth'', ''ssh'', ''usb'', ''package'', ''dlp'', ''system'']"

definition SEVS :: "string list" where
  "SEVS = [[], ''critical'', ''high'', ''medium'', ''low'', ''info'']"

definition u_down :: string where "u_down = [CHR 0xE2, CHR 0x86, CHR 0x93]"

definition drawer_items :: "env \<Rightarrow> event \<Rightarrow> (string \<times> 'm node option) list" where
  "drawer_items env e =
     [(''Time'', Some (Txt (en_datetime env (ev_ts e)))),
      (''Severity'', Some (sev_tag (ev_severity e))),
      (''Host'', Some (spanc ''mono'' [Txt (ev_hostname e)])),
      (''User'', kv_opt (ev_user e)),
      (''Message'', kv_opt (ev_message e))] @
     (case ev_process e of None \<Rightarrow> [] | Some p \<Rightarrow>
       [(''Process'', Some (spanc ''mono'' [opt_txt (pr_name p), Txt '' (pid '', (case pr_pid p of None \<Rightarrow> Null | Some n \<Rightarrow> num_txt n), Txt '')''])),
        (''Parent'', kv_opt (pr_parent p)),
        (''Command'', Some (el ''span'' [cls ''cmd'', sty ''white-space: normal''] [opt_txt (pr_cmdline p)]))]) @
     (case ev_file e of None \<Rightarrow> [] | Some f \<Rightarrow>
       [(''File'', Some (spanc ''mono'' [opt_txt (fi_path f)])),
        (''Operation'', kv_opt (fi_op f)),
        (''SHA-256'', Some (spanc ''mono dim'' [opt_txt (fi_hash f)]))]) @
     (case ev_network e of None \<Rightarrow> [] | Some n \<Rightarrow>
       [(''Domain'', kv_opt (ni_domain n)),
        (''Remote'', Some (spanc ''mono'' [opt_txt (ni_remote n)])),
        (''Category'', kv_opt (ni_category n)),
        (''Bytes'', Some (Txt (u_up @ '' '' @ bytes (ni_bytes_out n) @ '' '' @ u_middot @ '' '' @ u_down @ '' '' @ bytes (ni_bytes_in n))))]) @
     (case ev_usb e of None \<Rightarrow> [] | Some u \<Rightarrow>
       [(''Device'', Some (Txt (tpl (us_vendor u) @ '' '' @ tpl (us_product u)))),
        (''Serial'', Some (spanc ''mono'' [opt_txt (us_serial u)]))]) @
     (case ev_auth e of None \<Rightarrow> [] | Some a \<Rightarrow>
       [(''Method'', kv_opt (au_method a)), (''Source IP'', Some (spanc ''mono'' [opt_txt (au_source_ip a)])), (''Result'', kv_opt (au_result a))]) @
     (case ev_dlp e of None \<Rightarrow> [] | Some d \<Rightarrow>
       [(''Classifier'', kv_opt (dl_classifier d)),
        (''Channel'', kv_opt (dl_channel d)),
        (''Sample'', Some (spanc ''mono'' [opt_txt (dl_sample d)])),
        (''Verdict'', kv_opt (dl_verdict d))])"

definition event_drawer :: "env \<Rightarrow> event list \<Rightarrow> event \<Rightarrow> 'm \<Rightarrow> 'm node" where
  "event_drawer env events e on_close =
     drawer (ev_category e @ '' '' @ u_middot @ '' '' @ ev_action e) (Some ''event detail'') on_close
       [kv (drawer_items env e),
        only_if (truthy_num (pid_of e)) (el ''div'' [sty ''margin-top: 18px''] [tree_node e events])] None"

definition page_detail :: "event \<Rightarrow> string" where
  \<comment> \<open>the page's own \<open>detail\<close>, which spaces the upload differently from \<open>event_detail\<close>\<close>
  "page_detail e =
     (if truthy (cmdline_of e) then the (cmdline_of e)
      else if truthy (Option.bind (ev_file e) fi_path)
      then opt_str (fi_op (the (ev_file e))) @ '' '' @ the (fi_path (the (ev_file e)))
      else if truthy (Option.bind (ev_network e) ni_domain)
      then the (ni_domain (the (ev_network e))) @ '' '' @
           (if truthy_num (ni_bytes_out (the (ev_network e))) then u_up @ bytes (ni_bytes_out (the (ev_network e))) else [])
      else case ev_usb e of
        Some u \<Rightarrow> trim (opt_str (us_vendor u) @ '' '' @ opt_str (us_product u) @ '' '' @ opt_str (us_serial u))
      | None \<Rightarrow>
        (case ev_auth e of
           Some a \<Rightarrow> opt_str (au_method a) @ '' from '' @ str_or (au_source_ip a) ''local'' @ '' '' @ u_right @ '' '' @ opt_str (au_result a)
         | None \<Rightarrow>
           (case ev_dlp e of
              Some d \<Rightarrow> tpl (dl_classifier d) @ '' via '' @ tpl (dl_channel d)
            | None \<Rightarrow> opt_str (ev_message e))))"

record events_state =
  es_cat :: string
  es_sev :: string
  es_q :: string
  es_sel :: "event option"

datatype events_msg = EvCat string | EvSev string | EvQuery string | EvSelect "event option"

definition events0 :: events_state where
  "events0 = \<lparr>es_cat = [], es_sev = [], es_q = [], es_sel = None\<rparr>"

fun events_update :: "events_msg \<Rightarrow> events_state \<Rightarrow> events_state" where
  "events_update (EvCat c) s = s\<lparr>es_cat := c\<rparr>"
| "events_update (EvSev v) s = s\<lparr>es_sev := v\<rparr>"
| "events_update (EvQuery q) s = s\<lparr>es_q := q\<rparr>"
| "events_update (EvSelect e) s = s\<lparr>es_sel := e\<rparr>"

definition event_blob :: "event \<Rightarrow> string" where
  "event_blob e = to_lower (tpl (ev_message e) @ '' '' @ page_detail e @ '' '' @ tpl (ev_user e) @ '' '' @ ev_hostname e)"

definition event_matches :: "events_state \<Rightarrow> event \<Rightarrow> bool" where
  "event_matches s e =
     (if es_cat s \<noteq> [] \<and> ev_category e \<noteq> es_cat s then False
      else if es_sev s \<noteq> [] \<and> ev_severity e \<noteq> es_sev s then False
      else if es_q s \<noteq> [] then js_includes (event_blob e) (to_lower (es_q s))
      else True)"

definition event_rows :: "events_state \<Rightarrow> event list \<Rightarrow> event list" where
  "event_rows s events = filter (event_matches s) events"

definition event_row :: "env \<Rightarrow> event \<Rightarrow> events_msg node" where
  "event_row env e =
     Elem ''tr'' ([(''key'', ev_id e), cls ''row-enter''] @ row_click_attrs) (row_click (EvSelect (Some e)))
       [td [cls ''mono dim''] [Txt (en_time env (ev_ts e))],
        td [] [sev_tag (ev_severity e)],
        td [(''title'', ev_category e)] [Txt (cat_icon (ev_category e) [CHR 0xE2, CHR 0x80, CHR 0xA2] @ '' ''), spanc ''dim'' [Txt (ev_action e)]],
        td [cls ''mono''] [Txt (ev_hostname e)],
        td [] [or_dim_dash (ev_user e)],
        td [] [spanc ''cmd'' [Txt (page_detail e)]]]"

definition events_view :: "env \<Rightarrow> event list \<Rightarrow> events_state \<Rightarrow> events_msg node" where
  "events_view env events s =
     (let rows = event_rows s events in Frag
       [divc ''toolbar''
          [Elem ''input'' [cls ''input'', (''placeholder'', ''Search command, path, domain, user'' @ u_ellipsis), (''value'', es_q s), sty ''min-width: 300px'']
             [OnValue ''change'' EvQuery] [],
           select_box (es_cat s) EvCat (map (\<lambda>c. (c, if c \<noteq> [] then to_upper c else ''All Categories'')) CATS),
           select_box (es_sev s) EvSev (map (\<lambda>v. (v, if v \<noteq> [] then to_upper v else ''All Severities'')) SEVS),
           spanc ''chip lime'' [num_txt (int (length rows)), Txt ('' shown '' @ u_middot @ '' live'')]],
        panel (Some ''EVENT STREAM'') (Some ''real-time endpoint telemetry'') Null None
          [divc ''table-wrap scroll''
             [el ''table'' [cls ''table'']
                [head_row [''Time'', ''Sev'', ''Cat'', ''Host'', ''User'', ''Detail''],
                 el ''tbody'' [] (map (event_row env) (take 250 rows))],
              only_if (rows = []) (divc ''empty'' [Txt (''no events match '' @ u_dash @ '' telemetry will stream here live'')])]],
        (case es_sel s of None \<Rightarrow> Null | Some e \<Rightarrow> event_drawer env events e (EvSelect None))])"

subsection \<open>Lemmas\<close>

lemma event_rows_empty_query:
  "es_q s = [] \<Longrightarrow> event_rows s events =
     filter (\<lambda>e. (es_cat s = [] \<or> ev_category e = es_cat s) \<and> (es_sev s = [] \<or> ev_severity e = es_sev s)) events"
  unfolding event_rows_def by (rule filter_cong) (auto simp: event_matches_def)

subsection \<open>Properties\<close>

text \<open>A search hides no event for lack of a field: because an absent message or user is joined
  into the searched text as the word \<open>undefined\<close>, every event without a user (or message) that
  passes the drop-downs matches every search for a piece of that word, for example \<open>fine\<close>.\<close>

theorem event_search_undefined:
  assumes "ev_user e = None \<or> ev_message e = None" and "sublist (to_lower (es_q s)) ''undefined''"
    and "es_cat s \<in> {[], ev_category e}" and "es_sev s \<in> {[], ev_severity e}" and "e \<in> set events"
  shows "e \<in> set (event_rows s events)"
proof -
  have low: "to_lower ''undefined'' = ''undefined''" by code_simp
  have "sublist ''undefined'' (event_blob e)"
    using assms(1)
  proof
    assume "ev_user e = None"
    then have "event_blob e = to_lower (tpl (ev_message e) @ '' '' @ page_detail e @ '' '') @ to_lower ''undefined'' @ to_lower ('' '' @ ev_hostname e)"
      by (simp only: event_blob_def to_lower_append tpl_def option.case append_assoc)
    then show ?thesis unfolding low by (metis sublist_appendI)
  next
    assume "ev_message e = None"
    then have "event_blob e = [] @ to_lower ''undefined'' @ to_lower ('' '' @ page_detail e @ '' '' @ tpl (ev_user e) @ '' '' @ ev_hostname e)"
      by (simp only: event_blob_def to_lower_append tpl_def option.case append_assoc append_Nil)
    then show ?thesis unfolding low by (metis sublist_appendI)
  qed
  then have "sublist (to_lower (es_q s)) (event_blob e)"
    using assms(2) sublist_order.order_trans by blast
  then show ?thesis
    using assms(3-5) by (auto simp: event_rows_def event_matches_def js_includes_sublist)
qed

lemma event_search_undefined_witness:
  "proc_event ''a'' 5 4 \<in> set (event_rows (events0\<lparr>es_q := ''Fine''\<rparr>) [proc_event ''a'' 5 4])"
proof (rule event_search_undefined)
  have "to_lower ''Fine'' = ''fine''" by code_simp
  moreover have "''undefined'' = ''unde'' @ ''fine'' @ ''d''" by simp
  ultimately show "sublist (to_lower (es_q (events0\<lparr>es_q := ''Fine''\<rparr>))) ''undefined''"
    by (metis events_state.select_convs(3) events_state.update_convs(3) sublist_appendI events0_def)
qed (simp_all add: proc_event_def events0_def)

end
