(* ===== verification/EndpointsPage.thy ===== *)
theory EndpointsPage
  imports Pages
begin

section \<open>Page: endpoints\<close>

text \<open>Models \<open>web/src/pages/Endpoints.tsx\<close>: status tabs with counts, filter, sorting, the drawer and
  the containment actions.\<close>

record endpoints_state =
  ep_sel :: "agent option"
  ep_q :: string
  ep_status :: string
  ep_sort :: table_sort

datatype endpoints_msg =
    EpSelect "agent option"
  | EpQuery string
  | EpStatus string
  | EpSort string
  | EpAct agent string
  | EpActDone agent string "string + response_action"

definition endpoints0 :: endpoints_state where
  "endpoints0 = \<lparr>ep_sel = None, ep_q = [], ep_status = ''all'', ep_sort = \<lparr>ts_key = ''hostname'', ts_dir = 1\<rparr>\<rparr>"

definition bump :: "string \<Rightarrow> (string \<times> int) list \<Rightarrow> (string \<times> int) list" where
  \<comment> \<open>\<open>c[k] = (c[k] || 0) + 1\<close>\<close>
  "bump k m = obj_put k (num_or0 (map_of m k) + 1) m"

definition endpoint_counts :: "agent list \<Rightarrow> (string \<times> int) list" where
  "endpoint_counts agents =
     fold (\<lambda>a. bump (ag_status a)) agents
       [(''all'', int (length agents)), (''online'', 0), (''offline'', 0), (''isolated'', 0)]"

definition agent_cell :: "agent \<Rightarrow> string \<Rightarrow> cell" where
  "agent_cell a k =
     (if k = ''last_seen'' then (case date_parse (ag_last_seen a) of None \<Rightarrow> CNaN | Some n \<Rightarrow> CNum n)
      else if k = ''event_count'' then CNum (ag_event_count a)
      else case map_of [(''id'', ag_id a), (''hostname'', ag_hostname a), (''os'', ag_os a), (''kernel'', ag_kernel a),
                        (''arch'', ag_arch a), (''ip'', ag_ip a), (''mac'', ag_mac a), (''version'', ag_version a),
                        (''status'', ag_status a), (''enrolled_at'', ag_enrolled_at a)] k of
             None \<Rightarrow> CNone | Some v \<Rightarrow> CStr v)"

definition agent_fields :: "agent \<Rightarrow> cell list" where
  "agent_fields a = [CStr (ag_hostname a), CStr (ag_ip a), CStr (ag_mac a), CStr (ag_os a), CStr (ag_kernel a),
     CStr (ag_arch a), CStr (ag_id a), CStr (join '' '' (or_empty (ag_labels a)))]"

definition endpoint_rows :: "env \<Rightarrow> endpoints_state \<Rightarrow> agent list \<Rightarrow> agent list" where
  "endpoint_rows env s agents =
     (let r = (if ep_status s \<noteq> ''all'' then filter (\<lambda>a. ag_status a = ep_status s) agents else agents);
          r1 = filter (\<lambda>a. match_text (ep_q s) (agent_fields a)) r
      in table_sorted (en_collate env) (ep_sort s) agent_cell r1)"

definition manual_reason :: "string \<Rightarrow> string" where
  "manual_reason type = ''manual '' @ type @ '' from console''"

fun endpoints_update :: "endpoints_msg \<Rightarrow> endpoints_state \<Rightarrow> endpoints_state \<times> effect list" where
  "endpoints_update (EpSelect a) s = (s\<lparr>ep_sel := a\<rparr>, [])"
| "endpoints_update (EpQuery q) s = (s\<lparr>ep_q := q\<rparr>, [])"
| "endpoints_update (EpStatus v) s = (s\<lparr>ep_status := v\<rparr>, [])"
| "endpoints_update (EpSort k) s = (s\<lparr>ep_sort := sort_toggle k (ep_sort s)\<rparr>, [])"
| "endpoints_update (EpAct a type) s =
     (s, [Call (api_respond \<lparr>rb_type = type, rb_agent_id = ag_id a, rb_target = None,
            rb_reason = Some (manual_reason type), rb_detection_id = None\<rparr>)])"
| "endpoints_update (EpActDone a type r) s =
     (s, case r of
           Inr _ \<Rightarrow> [ShowToast (type @ '' dispatched to '' @ ag_hostname a) False, Call refresh_agents]
         | Inl e \<Rightarrow> [ShowToast (''action failed: '' @ e) True])"

definition highlight :: "string \<Rightarrow> string \<Rightarrow> 'm node" where
  "highlight text q =
     (if q = [] then Txt text
      else case index_of (to_lower text) (to_lower q) of
        None \<Rightarrow> Txt text
      | Some i \<Rightarrow> Frag [Txt (take i text), el ''mark'' [cls ''hl''] [Txt (slice i (i + length q) text)], Txt (drop (i + length q) text)])"

definition endpoint_row :: "env \<Rightarrow> string \<Rightarrow> agent \<Rightarrow> endpoints_msg node" where
  "endpoint_row env q a =
     Elem ''tr'' ((''key'', ag_id a) # row_click_attrs) (row_click (EpSelect (Some a)))
       [td [] [status_tag (ag_status a)],
        td [cls ''mono''] [highlight (ag_hostname a) q],
        td [] [Txt (str_or (Some (ag_os a)) u_dash @ '' ''), spanc ''dim'' [Txt (ag_kernel a)]],
        td [cls ''mono''] [highlight (str_or (Some (ag_ip a)) u_dash) q],
        td [cls ''mono dim''] [highlight (str_or (Some (ag_mac a)) u_dash) q],
        td [] [spanc ''chip'' [Txt (str_or (Some (ag_arch a)) u_dash)]],
        td [cls ''mono'', sty ''text-align: right''] [Txt (en_number env (ag_event_count a))],
        td [cls ''dim''] [Txt (ago (en_now env) (ag_last_seen a))]]"

definition endpoint_actions :: "agent \<Rightarrow> endpoints_msg node" where
  "endpoint_actions a =
     el ''div'' [sty ''display: flex; gap: 10px; flex-wrap: wrap'']
       [(if ag_status a \<noteq> ''isolated''
         then confirm_button (Some ''btn btn-danger'') ''Isolate'' (EpAct a ''isolate'') [Txt ([CHR 0xE2, CHR 0x8A, CHR 0x98] @ '' Isolate Endpoint'')]
         else Elem ''button'' [cls ''btn btn-primary''] [On ''click'' (EpAct a ''unisolate'')] [Txt ([CHR 0xE2, CHR 0x86, CHR 0xBA] @ '' Lift Isolation'')]),
        confirm_button (Some ''btn'') ''Block USB'' (EpAct a ''block_usb'') [Txt ([CHR 0xE2, CHR 0x9B, CHR 0x81] @ '' Block USB'')],
        confirm_button (Some ''btn'') ''Block Uploads'' (EpAct a ''block_upload'') [Txt ([CHR 0xE2, CHR 0x97, CHR 0x88] @ '' Block Uploads'')]]"

definition endpoint_drawer :: "env \<Rightarrow> bool \<Rightarrow> agent \<Rightarrow> endpoints_msg node" where
  "endpoint_drawer env can_act a =
     drawer (ag_hostname a) (Some (''endpoint '' @ u_middot @ '' '' @ ag_status a)) (EpSelect None)
       [kv [(''Agent ID'', Some (copy_text (Some (ag_id a)))),
            (''Status'', Some (status_tag (ag_status a))),
            (''Operating System'', Some (Txt (ag_os a))),
            (''Kernel'', Some (spanc ''mono'' [Txt (ag_kernel a)])),
            (''Architecture'', Some (spanc ''chip'' [Txt (ag_arch a)])),
            (''IP Address'', Some (copy_text (Some (ag_ip a)))),
            (''MAC Address'', Some (copy_text (Some (ag_mac a)))),
            (''Agent Version'', Some (Txt (ag_version a))),
            (''Labels'', Some (Frag (map (\<lambda>l. el ''span'' [(''key'', l), cls ''chip lime'', sty ''margin-right: 5px''] [Txt l]) (or_empty (ag_labels a))))),
            (''Events Reported'', Some (Txt (en_number env (ag_event_count a)))),
            (''Enrolled'', Some (Txt (en_datetime env (ag_enrolled_at a)))),
            (''Last Seen'', Some (Txt (ago (en_now env) (ag_last_seen a) @ '' ('' @ en_datetime env (ag_last_seen a) @ '')'')))]]
       (if can_act then Some (endpoint_actions a) else None)"

definition endpoint_head :: "table_sort \<Rightarrow> endpoints_msg node" where
  "endpoint_head ts =
     (let h = (\<lambda>k l. sort_header k l (ts_key ts) (ts_dir ts) EpSort None) in
      el ''thead'' [] [el ''tr'' []
        [h ''status'' ''Status'', h ''hostname'' ''Hostname'', h ''os'' ''OS / Kernel'', h ''ip'' ''IP'', h ''mac'' ''MAC'',
         el ''th'' [] [Txt ''Arch''],
         sort_header ''event_count'' ''Events'' (ts_key ts) (ts_dir ts) EpSort (Some ''right''),
         h ''last_seen'' ''Last Seen'']])"

definition endpoints_view :: "env \<Rightarrow> session \<Rightarrow> agent list \<Rightarrow> endpoints_state \<Rightarrow> endpoints_msg node" where
  "endpoints_view env ses agents s =
     (let counts = endpoint_counts agents; rows = endpoint_rows env s agents; can_act = role_can_act ses;
          n = (\<lambda>k. num_or0 (map_of counts k))
      in Frag
       [divc ''toolbar''
          [segmented (ep_status s) EpStatus
             [\<lparr>so_value = ''all'', so_label = ''All'', so_count = map_of counts ''all'', so_dot = None\<rparr>,
              \<lparr>so_value = ''online'', so_label = ''Online'', so_count = map_of counts ''online'', so_dot = Some ''st-online''\<rparr>,
              \<lparr>so_value = ''offline'', so_label = ''Offline'', so_count = map_of counts ''offline'', so_dot = Some ''st-offline''\<rparr>,
              \<lparr>so_value = ''isolated'', so_label = ''Isolated'', so_count = map_of counts ''isolated'', so_dot = Some ''st-isolated''\<rparr>],
           search_input (ep_q s) EpQuery (Some (''Filter by host, IP, MAC, OS, arch, label'' @ u_ellipsis)) (Some 320),
           flex_gap,
           spanc ''chip lime'' [num_txt (int (length rows)), Txt '' shown'']],
        panel (Some ''ENDPOINT FLEET'')
          (Some (show_nat (length agents) @ '' enrolled '' @ u_middot @ '' '' @ show_int (n ''online'') @ '' online'')) Null None
          [(if agents = [] then divc ''empty'' [Txt (''no endpoints enrolled '' @ u_dash @ '' start an agent to enroll'')]
            else divc ''table-wrap scroll''
              [el ''table'' [cls ''table''] [endpoint_head (ep_sort s), el ''tbody'' [] (map (endpoint_row env (ep_q s)) rows)],
               only_if (rows = []) (divc ''empty'' [Txt ''no endpoints match this filter''])])],
        (case ep_sel s of None \<Rightarrow> Null | Some a \<Rightarrow> endpoint_drawer env can_act a)])"

subsection \<open>Lemmas\<close>

lemma set_node_highlight [simp]: "set_node (highlight t q :: 'm node) = {}"
  by (auto simp: highlight_def split: option.splits)

lemma set_node_endpoint_row [simp]: "set_node (endpoint_row env q a) = {EpSelect (Some a)}"
  by (auto simp: endpoint_row_def row_click_def split: if_splits)

lemma set_node_endpoint_head: "set_node (endpoint_head ts) \<subseteq> range EpSort"
  by (auto simp: endpoint_head_def Let_def)

lemma set_node_endpoint_actions:
  "set_node (endpoint_actions a) = EpAct a ` ({if ag_status a \<noteq> ''isolated'' then ''isolate'' else ''unisolate''} \<union> {''block_usb'', ''block_upload''})"
  by (auto simp: endpoint_actions_def)

lemma set_node_endpoint_drawer:
  "set_node (endpoint_drawer env can_act a) = insert (EpSelect None) (if can_act then set_node (endpoint_actions a) else {})"
  by (auto simp: endpoint_drawer_def)

lemma endpoints_view_acts:
  "set_node (endpoints_view env ses agents s) \<inter> range (case_prod EpAct) =
     (case ep_sel s of None \<Rightarrow> {} | Some a \<Rightarrow> if role_can_act ses then set_node (endpoint_actions a) else {})"
proof -
  have "set_node (endpoint_actions a) \<subseteq> range (case_prod EpAct)" for a
    by (auto simp: set_node_endpoint_actions intro: range_eqI [of _ _ "(_, _)"])
  then show ?thesis
    using set_node_endpoint_head [of "ep_sort s"]
    by (auto simp: endpoints_view_def Let_def set_node_endpoint_drawer split: option.splits if_splits)
qed

lemma map_of_bump: "map_of (bump k m) j = (if j = k then Some (num_or0 (map_of m k) + 1) else map_of m j)"
  by (simp add: bump_def map_of_obj_put)

lemma fold_bump:
  "map_of m k = Some n \<Longrightarrow>
     map_of (fold (\<lambda>x. bump (f x)) xs m) k = Some (n + int (length (filter (\<lambda>x. f x = k) xs)))"
  by (induction xs arbitrary: m n) (auto simp: map_of_bump)

lemma index_slices:
  assumes "index_of s p = Some i"
  shows "i + length p \<le> length s"
  using index_of_Some [OF assms] by auto

subsection \<open>Properties\<close>

text \<open>The number on each status tab is the number of rows the tab shows under an empty filter,
  and with the server's three statuses the tabs add up to the whole fleet.\<close>

theorem endpoint_counts_correct:
  assumes "st \<in> {''online'', ''offline'', ''isolated''}" and "\<forall>a\<in>set agents. ag_status a \<in> {''online'', ''offline'', ''isolated''}"
  shows "map_of (endpoint_counts agents) st = Some (int (length (endpoint_rows env (s\<lparr>ep_status := st, ep_q := []\<rparr>) agents))) \<and>
    map_of (endpoint_counts agents) ''all'' = Some (int (length (endpoint_rows env (s\<lparr>ep_status := ''all'', ep_q := []\<rparr>) agents))) \<and>
    (\<Sum>k\<leftarrow>[''online'', ''offline'', ''isolated'']. num_or0 (map_of (endpoint_counts agents) k)) = int (length agents)"
proof -
  let ?m = "[(''all'', int (length agents)), (''online'', 0), (''offline'', 0), (''isolated'', 0)]"
  have len: "length (table_sorted c ts get rows) = length rows" for c ts get and rows :: "agent list"
    using mset_js_sort by (metis table_sorted_def size_mset)
  have c: "map_of (endpoint_counts agents) k = Some (int (length (filter (\<lambda>a. ag_status a = k) agents)))"
    if "k \<in> {''online'', ''offline'', ''isolated''}" for k
    unfolding endpoint_counts_def using that fold_bump [of ?m k 0 ag_status agents] by auto
  have "filter (\<lambda>a. ag_status a = ''all'') agents = []" using assms(2) by (auto simp: filter_empty_conv)
  then have all: "map_of (endpoint_counts agents) ''all'' = Some (int (length agents))"
    unfolding endpoint_counts_def using fold_bump [of ?m "''all''" "int (length agents)" ag_status agents] by simp
  have "length agents = length (filter (\<lambda>a. ag_status a = ''online'') agents) +
      length (filter (\<lambda>a. ag_status a = ''offline'') agents) + length (filter (\<lambda>a. ag_status a = ''isolated'') agents)"
    using assms(2) by (induction agents) auto
  with c all assms(1) show ?thesis
    by (auto simp: endpoint_rows_def len match_text_def Let_def)
qed

definition sample_agent :: "string \<Rightarrow> string \<Rightarrow> agent" where
  "sample_agent i st = \<lparr>ag_id = i, ag_hostname = ''web-'' @ i, ag_os = ''linux'', ag_kernel = ''6.1'', ag_arch = ''x86_64'',
     ag_ip = ''10.0.0.1'', ag_mac = [], ag_version = ''1.0'', ag_status = st, ag_labels = None, ag_enrolled_at = [],
     ag_last_seen = [], ag_event_count = 0\<rparr>"

lemma endpoint_counts_correct_witness:
  "map_of (endpoint_counts [sample_agent ''1'' ''online'', sample_agent ''2'' ''isolated'']) ''online'' =
     Some (int (length (endpoint_rows plain_env (endpoints0\<lparr>ep_status := ''online'', ep_q := []\<rparr>)
       [sample_agent ''1'' ''online'', sample_agent ''2'' ''isolated''])))"
  using endpoint_counts_correct [of "''online''" "[sample_agent ''1'' ''online'', sample_agent ''2'' ''isolated'']" plain_env endpoints0]
  by (simp add: sample_agent_def)

text \<open>Highlighting a search hit never changes what a cell says: the three pieces spell the
  original text, and the marked piece is the query up to case.\<close>

theorem highlight_keeps_text:
  "text_of (highlight text q) = text \<and>
   (\<forall>i. q \<noteq> [] \<and> index_of (to_lower text) (to_lower q) = Some i \<longrightarrow>
      i + length q \<le> length text \<and> to_lower (slice i (i + length q) text) = to_lower q)"
proof
  show "text_of (highlight text q) = text"
  proof (cases "q = [] \<or> index_of (to_lower text) (to_lower q) = None")
    case True
    then show ?thesis by (auto simp: highlight_def)
  next
    case False
    then obtain i where i: "index_of (to_lower text) (to_lower q) = Some i" and q: "q \<noteq> []" by auto
    have "drop i text = slice i (i + length q) text @ drop (i + length q) text"
    proof -
      have "drop (i + length q) text = drop (length q) (drop i text)" by (simp add: add.commute)
      then show ?thesis by (simp add: slice_def del: drop_drop)
    qed
    then have "take i text @ slice i (i + length q) text @ drop (i + length q) text = text"
      by (metis append_take_drop_id)
    with i q show ?thesis by (simp add: highlight_def)
  qed
next
  show "\<forall>i. q \<noteq> [] \<and> index_of (to_lower text) (to_lower q) = Some i \<longrightarrow>
      i + length q \<le> length text \<and> to_lower (slice i (i + length q) text) = to_lower q"
  proof (intro allI impI)
    fix i
    assume "q \<noteq> [] \<and> index_of (to_lower text) (to_lower q) = Some i"
    then obtain a b where ab: "to_lower text = a @ to_lower q @ b" "length a = i"
      using index_of_Some by blast
    have "length text = i + length q + length b" using arg_cong [OF ab(1), of length] ab(2) by simp
    moreover have "to_lower (slice i (i + length q) text) = slice i (i + length q) (to_lower text)"
      by (simp add: slice_def to_lower_def take_map drop_map)
    moreover have "slice i (i + length q) (to_lower text) = to_lower q" using ab by (simp add: slice_def)
    ultimately show "i + length q \<le> length text \<and> to_lower (slice i (i + length q) text) = to_lower q" by simp
  qed
qed

lemma highlight_keeps_text_witness: "text_of (highlight ''Web-01'' ''WEB'') = ''Web-01''"
  by (rule highlight_keeps_text [THEN conjunct1])

end
