(* ===== verification/DetectionsPage.thy ===== *)
theory DetectionsPage
  imports Pages
begin

section \<open>Page: detections\<close>

text \<open>
  Models \<open>web/src/pages/Detections.tsx\<close>: filters, table, the drawer with its response actions, and AI
  triage. \<open>select_detection\<close> includes the effect that clears the triage when the open detection's id
  changes.
\<close>

record detections_state =
  dt_status :: string
  dt_sev :: string
  dt_q :: string
  dt_sel :: "detection option"
  dt_triage :: "triage_result option"
  dt_triaging :: bool
  dt_triage_err :: string

datatype detections_msg =
    DtSelect "detection option"
  | DtStatus string
  | DtSev string
  | DtQuery string
  | DtSetStat detection string
  | DtSetStatDone detection string "string + detection"
  | DtRespond detection string "json option"
  | DtRespondDone detection string "string + response_action"
  | DtTriage detection
  | DtTriageDone detection "string + triage_result"

definition detections0 :: detections_state where
  "detections0 = \<lparr>dt_status = [], dt_sev = [], dt_q = [], dt_sel = None, dt_triage = None, dt_triaging = False, dt_triage_err = []\<rparr>"

definition select_detection :: "detection option \<Rightarrow> detections_state \<Rightarrow> detections_state" where
  "select_detection d s =
     (let s1 = s\<lparr>dt_sel := d\<rparr>
      in if map_option de_id d = map_option de_id (dt_sel s) then s1 else s1\<lparr>dt_triage := None, dt_triage_err := []\<rparr>)"

definition strip_error :: "string \<Rightarrow> string" where
  \<comment> \<open>\<open>String(e).replace(/^Error:\s*/, "")\<close>\<close>
  "strip_error e = (if starts_with e ''Error:'' then dropWhile is_space (drop 6 e) else e)"

definition detection_fields :: "detection \<Rightarrow> cell list" where
  "detection_fields d =
     (let opt = (\<lambda>x. case x of None \<Rightarrow> CNone | Some t \<Rightarrow> CStr t) in
      [CStr (de_hostname d), opt (de_user d), CStr (de_rule_name d), CStr (de_rule_id d), CStr (de_summary d),
       opt (de_tactic d), CStr (de_engine d)])"

definition detection_rows :: "detections_state \<Rightarrow> detection list \<Rightarrow> detection list" where
  "detection_rows s detections =
     filter (\<lambda>d. (dt_status s = [] \<or> de_status d = dt_status s) \<and> (dt_sev s = [] \<or> de_severity d = dt_sev s) \<and>
                 match_text (dt_q s) (detection_fields d)) detections"

definition find_event :: "event list \<Rightarrow> string option \<Rightarrow> event option" where
  "find_event events i = find (\<lambda>e. Some (ev_id e) = i) events"

definition related_pid :: "event list \<Rightarrow> detection \<Rightarrow> int option" where
  "related_pid events d =
     (let i = (case de_event_ids d of Some (x # _) \<Rightarrow> Some x | _ \<Rightarrow> None)
      in Option.bind (find_event events i) pid_of)"

fun first_with_pid :: "event list \<Rightarrow> string list \<Rightarrow> event option" where
  "first_with_pid events [] = None"
| "first_with_pid events (i # is) =
     (case find_event events (Some i) of
        Some e \<Rightarrow> if truthy_num (pid_of e) then Some e else first_with_pid events is
      | None \<Rightarrow> first_with_pid events is)"

definition related_event :: "event list \<Rightarrow> detection \<Rightarrow> event option" where
  "related_event events d = first_with_pid events (or_empty (de_event_ids d))"

fun detections_update :: "detections_msg \<Rightarrow> detections_state \<Rightarrow> detections_state \<times> effect list" where
  "detections_update (DtSelect d) s = (select_detection d s, [])"
| "detections_update (DtStatus v) s = (s\<lparr>dt_status := v\<rparr>, [])"
| "detections_update (DtSev v) s = (s\<lparr>dt_sev := v\<rparr>, [])"
| "detections_update (DtQuery v) s = (s\<lparr>dt_q := v\<rparr>, [])"
| "detections_update (DtSetStat d st) s = (s, [Call (api_set_detection_status (de_id d) st)])"
| "detections_update (DtSetStatDone d st r) s =
     (case r of
        Inr _ \<Rightarrow> (s\<lparr>dt_sel := map_option (\<lambda>cur. cur\<lparr>de_status := st\<rparr>) (dt_sel s)\<rparr>,
                   [ShowToast (''detection '' @ st) False, Call refresh_detections])
      | Inl e \<Rightarrow> (s, [ShowToast (''failed: '' @ e) True]))"
| "detections_update (DtRespond d type target) s =
     (s, [Call (api_respond \<lparr>rb_type = type, rb_agent_id = de_agent_id d, rb_target = target,
            rb_reason = Some (''from detection '' @ de_rule_id d), rb_detection_id = Some (de_id d)\<rparr>)])"
| "detections_update (DtRespondDone d type r) s =
     (s, case r of
           Inr _ \<Rightarrow> [ShowToast (type @ '' dispatched to '' @ de_hostname d) False]
         | Inl e \<Rightarrow> [ShowToast (''action failed: '' @ e) True])"
| "detections_update (DtTriage d) s =
     (s\<lparr>dt_triaging := True, dt_triage_err := []\<rparr>, [Call (api_triage_detection (de_id d))])"
| "detections_update (DtTriageDone d r) s =
     (case r of
        Inr t \<Rightarrow> (s\<lparr>dt_triage := Some t, dt_triaging := False\<rparr>, [])
      | Inl e \<Rightarrow> (s\<lparr>dt_triage_err := strip_error e, dt_triaging := False\<rparr>, []))"

definition detections_run :: "detections_msg list \<Rightarrow> detections_state \<Rightarrow> detections_state" where
  "detections_run ms s = fold (\<lambda>m s. fst (detections_update m s)) ms s"

subsection \<open>The view\<close>

definition chip_color :: "string \<Rightarrow> (string \<times> string) list" where
  "chip_color c = [cls ''chip'', sty (''color: '' @ c @ ''; border-color: '' @ c)]"

definition status_pill :: "string \<Rightarrow> 'm node" where
  "status_pill s =
     (let color = (if s = ''open'' then ''var(--high)'' else if s = ''acknowledged'' then ''var(--low)'' else ''var(--ink-faint)'')
      in el ''span'' (chip_color color) [Txt s])"

definition sparkles :: string where "sparkles = [CHR 0xE2, CHR 0x9C, CHR 0xA8]"

definition triage_card :: "triage_result \<Rightarrow> 'm node" where
  "triage_card t =
     (let conf = to_lower (tr_confidence t);
          conf_color = (if conf = ''high'' then ''var(--signal)'' else if conf = ''medium'' then ''var(--low)'' else ''var(--ink-faint)'')
      in divc ''ai-card''
        [divc ''ai-row''
           [spanc ''ai-badge'' [Txt (sparkles @ '' '' @ str_or (Some (tr_model t)) ''claude'')],
            only_if (tr_confidence t \<noteq> []) (el ''span'' (chip_color conf_color) [Txt (tr_confidence t @ '' confidence'')]),
            only_if (tr_cached t) (spanc ''chip'' [Txt ''cached''])],
         el ''p'' [cls ''ai-summary''] [Txt (tr_summary t)],
         only_if (tr_assessment t \<noteq> [])
           (Frag [divc ''ai-label'' [Txt ''Assessment''], el ''p'' [cls ''ai-text''] [Txt (tr_assessment t)]]),
         only_if (tr_recommended_actions t \<noteq> [])
           (Frag [divc ''ai-label'' [Txt ''Recommended actions''],
              el ''ol'' [cls ''ai-actions''] (map (\<lambda>a. el ''li'' [] [Txt a]) (tr_recommended_actions t))]),
         divc ''dim ai-foot'' [Txt (''AI-generated '' @ u_middot @ '' verify before acting'')]])"

definition detection_row :: "env \<Rightarrow> detection \<Rightarrow> detections_msg node" where
  "detection_row env d =
     Elem ''tr'' ([(''key'', de_id d), cls ''row-enter''] @ row_click_attrs) (row_click (DtSelect (Some d)))
       [td [] [sev_tag (de_severity d)],
        td [cls ''mono''] [Txt (de_rule_name d)],
        td [] [Txt (de_hostname d)],
        td [] [or_dim_dash (de_user d)],
        td [cls ''dim''] [Txt (str_or (de_tactic d) u_dash)],
        td [] [mitre (de_mitre d)],
        td [] [spanc ''chip'' [Txt (de_engine d)]],
        td [] [status_pill (de_status d)],
        td [cls ''dim''] [Txt (ago (en_now env) (de_ts d))]]"

definition detection_actions :: "bool \<Rightarrow> event list \<Rightarrow> detection \<Rightarrow> detections_msg node" where
  "detection_actions can_act events d =
     el ''div'' [sty ''display: flex; gap: 8px; flex-wrap: wrap'']
       [Elem ''button'' [cls ''btn btn-sm''] [On ''click'' (DtSetStat d ''acknowledged'')] [Txt ''Acknowledge''],
        Elem ''button'' [cls ''btn btn-sm''] [On ''click'' (DtSetStat d ''closed'')] [Txt ''Close''],
        only_if can_act (Frag
          [(case related_pid events d of
              None \<Rightarrow> Null
            | Some n \<Rightarrow> if n = 0 then num_txt 0
                else confirm_button (Some ''btn btn-danger btn-sm'') (''Kill '' @ show_int n)
                  (DtRespond d ''kill_process'' (Some (JObj [(''pid'', JNum n)]))) [Txt ''Kill PID '', num_txt n]),
           confirm_button (Some ''btn btn-danger btn-sm'') ''Isolate'' (DtRespond d ''isolate'' None) [Txt ''Isolate Host''],
           only_if (truthy (de_user d))
             (confirm_button (Some ''btn btn-sm'') (''Disable '' @ the (de_user d))
                (DtRespond d ''disable_account'' (Some (JObj [(''user'', JStr (the (de_user d)))])))
                [Txt ''Disable '', opt_txt (de_user d)])])]"

definition triage_section :: "detections_state \<Rightarrow> detection \<Rightarrow> detections_msg node" where
  "triage_section s d =
     el ''div'' [sty ''margin-top: 18px'']
       [el ''div'' [cls ''page-kicker'', sty ''margin-bottom: 8px; display: flex; align-items: center; gap: 10px'']
          [el ''span'' [] [Txt ''AI Triage''],
           only_if (dt_triage s = None)
             (Elem ''button'' ([cls ''btn btn-sm''] @ disabled_attr (dt_triaging s))
                (unless_disabled (dt_triaging s) [On ''click'' (DtTriage d)])
                [Txt (if dt_triaging s then ''Analyzing'' @ u_ellipsis else sparkles @ '' Analyze'')])],
        only_if (dt_triage_err s \<noteq> []) (divc ''ai-err'' [Txt (dt_triage_err s)]),
        (case dt_triage s of None \<Rightarrow> Null | Some t \<Rightarrow> triage_card t),
        only_if (dt_triage s = None \<and> dt_triage_err s = [] \<and> \<not> dt_triaging s)
          (el ''div'' [cls ''dim'', sty ''font-size: 12px''] [Txt ''Summarize this detection and suggest next actions.''])]"

definition detection_drawer :: "env \<Rightarrow> bool \<Rightarrow> event list \<Rightarrow> detections_state \<Rightarrow> detection \<Rightarrow> detections_msg node" where
  "detection_drawer env can_act events s d =
     drawer (de_rule_name d) (Some (de_severity d @ '' '' @ u_middot @ '' '' @ de_engine d @ '' engine'')) (DtSelect None)
       [kv [(''Rule'', Some (spanc ''mono'' [Txt (de_rule_id d)])),
            (''Severity'', Some (sev_tag (de_severity d))),
            (''Summary'', Some (Txt (de_summary d))),
            (''Host'', Some (spanc ''mono'' [Txt (de_hostname d)])),
            (''User'', kv_opt (de_user d)),
            (''Tactic'', kv_opt (de_tactic d)),
            (''ATT&CK'', Some (mitre (de_mitre d))),
            (''Engine'', Some (spanc ''chip'' [Txt (de_engine d)])),
            (''Status'', Some (status_pill (de_status d))),
            (''Assigned'', kv_opt (de_assigned_to d)),
            (''Detected'', Some (Txt (en_datetime env (de_ts d)))),
            (''Events'', Some (spanc ''mono dim'' [Txt (join '', '' (or_empty (de_event_ids d)))]))],
        (case related_event events d of
           None \<Rightarrow> Null
         | Some e \<Rightarrow> el ''div'' [sty ''margin-top: 18px''] [tree_node e events]),
        triage_section s d]
       (Some (detection_actions can_act events d))"

definition detections_view :: "env \<Rightarrow> session \<Rightarrow> detection list \<Rightarrow> event list \<Rightarrow> detections_state \<Rightarrow> detections_msg node" where
  "detections_view env ses detections events s =
     (let rows = detection_rows s detections; can_act = role_can_act ses in Frag
       [divc ''toolbar''
          [search_input (dt_q s) DtQuery (Some (''Filter by host, user, rule, tactic'' @ u_ellipsis)) (Some 300),
           select_box (dt_status s) DtStatus
             [([], ''All Statuses''), (''open'', ''Open''), (''acknowledged'', ''Acknowledged''), (''closed'', ''Closed'')],
           select_box (dt_sev s) DtSev
             (([], ''All Severities'') # map (\<lambda>v. (v, to_upper v)) [''critical'', ''high'', ''medium'', ''low'']),
           flex_gap,
           spanc ''chip'' [num_txt (int (length rows)), Txt '' detections'']],
        panel (Some ''THREAT DETECTIONS'') (Some (''Sigma '' @ u_middot @ '' behavioral '' @ u_middot @ '' DLP'')) Null None
          [divc ''table-wrap scroll''
             [el ''table'' [cls ''table'']
                [head_row [''Sev'', ''Detection'', ''Host'', ''User'', ''Tactic'', ''ATT&CK'', ''Engine'', ''Status'', ''When''],
                 el ''tbody'' [] (map (detection_row env) rows)],
              only_if (rows = []) (divc ''empty'' [Txt (''no detections '' @ u_dash @ '' run the agent scenario to generate threats'')])]],
        (case dt_sel s of None \<Rightarrow> Null | Some d \<Rightarrow> detection_drawer env can_act events s d)])"

subsection \<open>Lemmas\<close>

lemma find_event_SomeD: "find_event events i = Some e \<Longrightarrow> e \<in> set events \<and> Some (ev_id e) = i"
  by (auto simp: find_event_def find_Some_iff nth_mem)

lemma set_node_detection_row [simp]: "set_node (detection_row env d) = {DtSelect (Some d)}"
  by (auto simp: detection_row_def row_click_def status_pill_def split: if_splits)

lemma set_node_pill [simp]: "set_node (status_pill st :: 'm node) = {}"
  by (simp add: status_pill_def Let_def)

lemma set_node_card [simp]: "set_node (triage_card t :: 'm node) = {}"
  by (auto simp: triage_card_def Let_def split: if_splits)

lemma set_node_triage_section:
  "set_node (triage_section s d) = (if dt_triage s = None \<and> \<not> dt_triaging s then {DtTriage d} else {})"
  by (auto simp: triage_section_def split: option.splits if_splits)

lemma set_node_detection_drawer:
  "set_node (detection_drawer env can_act events s d) =
     {DtSelect None} \<union> set_node (triage_section s d) \<union> set_node (detection_actions can_act events d)"
  by (auto simp: detection_drawer_def kv_opt_def split: option.splits if_splits)

lemma set_node_detection_actions:
  "set_node (detection_actions can_act events d) =
     {DtSetStat d ''acknowledged'', DtSetStat d ''closed''} \<union>
     (if can_act then
        (case related_pid events d of None \<Rightarrow> {} | Some n \<Rightarrow>
           if n = 0 then {} else {DtRespond d ''kill_process'' (Some (JObj [(''pid'', JNum n)]))}) \<union>
        {DtRespond d ''isolate'' None} \<union>
        (if truthy (de_user d) then {DtRespond d ''disable_account'' (Some (JObj [(''user'', JStr (the (de_user d)))]))} else {})
      else {})"
  by (auto simp: detection_actions_def split: option.splits if_splits)

lemma detections_view_drawer:
  "m \<in> set_node (detections_view env ses detections events s) \<Longrightarrow>
     m \<in> range DtQuery \<union> range DtStatus \<union> range DtSev \<union> range DtSelect \<or>
     (\<exists>d. dt_sel s = Some d \<and> m \<in> set_node (detection_drawer env (role_can_act ses) events s d))"
  by (auto simp: detections_view_def Let_def split: option.splits if_splits)

lemma detections_view_open:
  "dt_sel s = Some d \<Longrightarrow> m \<in> set_node (detection_actions (role_can_act ses) events d) \<Longrightarrow>
     m \<in> set_node (detections_view env ses detections events s)"
  by (simp add: detections_view_def Let_def set_node_detection_drawer)

subsection \<open>Properties\<close>

text \<open>C12: a kill is offered only for the process recorded by the detection's own first event: the
  event is known to the console, carries that id, and its non-zero pid is the target sent; isolation
  and account actions name the detection's agent and user. Everything goes to the detection's own
  agent with its id.\<close>

theorem response_targets_detection:
  assumes "DtRespond d type target \<in> set_node (detections_view env ses detections events s)"
  shows "role_may_act (get_role ses) \<and> dt_sel s = Some d \<and>
    (type = ''kill_process'' \<and> (\<exists>e n i is. e \<in> set events \<and> de_event_ids d = Some (i # is) \<and> ev_id e = i \<and>
        pid_of e = Some n \<and> n \<noteq> 0 \<and> target = Some (JObj [(''pid'', JNum n)])) \<or>
     type = ''isolate'' \<and> target = None \<or>
     type = ''disable_account'' \<and> (\<exists>u. de_user d = Some u \<and> u \<noteq> [] \<and> target = Some (JObj [(''user'', JStr u)]))) \<and>
    snd (detections_update (DtRespond d type target) s) =
      [Call (api_respond \<lparr>rb_type = type, rb_agent_id = de_agent_id d, rb_target = target,
         rb_reason = Some (''from detection '' @ de_rule_id d), rb_detection_id = Some (de_id d)\<rparr>)]"
proof -
  obtain d' where sel: "dt_sel s = Some d'"
    and m: "DtRespond d type target \<in> set_node (detection_drawer env (role_can_act ses) events s d')"
    using detections_view_drawer [OF assms] by auto
  have act: "DtRespond d type target \<in> set_node (detection_actions (role_can_act ses) events d')"
    using m by (auto simp: set_node_detection_drawer set_node_triage_section split: if_splits)
  then have can: "role_can_act ses" and d: "d' = d"
    by (auto simp: set_node_detection_actions split: if_splits option.splits)
  have cases: "type = ''kill_process'' \<and> (\<exists>n. related_pid events d = Some n \<and> n \<noteq> 0 \<and> target = Some (JObj [(''pid'', JNum n)])) \<or>
      type = ''isolate'' \<and> target = None \<or>
      type = ''disable_account'' \<and> truthy (de_user d) \<and> target = Some (JObj [(''user'', JStr (the (de_user d)))])"
    using act can d by (auto simp: set_node_detection_actions split: if_splits option.splits)
  have kill: "\<exists>e i is. e \<in> set events \<and> de_event_ids d = Some (i # is) \<and> ev_id e = i \<and> pid_of e = Some n"
    if p: "related_pid events d = Some n" for n
  proof -
    from p obtain e where e: "find_event events (case de_event_ids d of Some (x # _) \<Rightarrow> Some x | _ \<Rightarrow> None) = Some e"
      "pid_of e = Some n" by (auto simp: related_pid_def Let_def bind_eq_Some_conv)
    from find_event_SomeD [OF e(1)] e(2) show ?thesis
      by (auto split: option.splits list.splits)
  qed
  have "type = ''kill_process'' \<and> (\<exists>e n i is. e \<in> set events \<and> de_event_ids d = Some (i # is) \<and> ev_id e = i \<and>
        pid_of e = Some n \<and> n \<noteq> 0 \<and> target = Some (JObj [(''pid'', JNum n)])) \<or>
     type = ''isolate'' \<and> target = None \<or>
     type = ''disable_account'' \<and> (\<exists>u. de_user d = Some u \<and> u \<noteq> [] \<and> target = Some (JObj [(''user'', JStr u)]))"
    using cases
  proof (elim disjE)
    assume "type = ''kill_process'' \<and> (\<exists>n. related_pid events d = Some n \<and> n \<noteq> 0 \<and> target = Some (JObj [(''pid'', JNum n)]))"
    then show ?thesis using kill by blast
  next
    assume "type = ''disable_account'' \<and> truthy (de_user d) \<and> target = Some (JObj [(''user'', JStr (the (de_user d)))])"
    then show ?thesis by (cases "de_user d") simp_all
  qed blast
  moreover have "role_may_act (get_role ses)" using can by (simp add: role_can_act_def role_may_act_def)
  ultimately show ?thesis using sel d by simp
qed

lemma response_targets_detection_witness:
  "role_may_act (get_role (set_session ''t'' ''u'' ''analyst'')) \<and>
   snd (detections_update (DtRespond (sample_detection ''d1'' ''high'') ''isolate'' None) detections0) =
     [Call (api_respond \<lparr>rb_type = ''isolate'', rb_agent_id = de_agent_id (sample_detection ''d1'' ''high''), rb_target = None,
        rb_reason = Some (''from detection '' @ de_rule_id (sample_detection ''d1'' ''high'')),
        rb_detection_id = Some (de_id (sample_detection ''d1'' ''high''))\<rparr>)]"
proof -
  let ?d = "sample_detection ''d1'' ''high''"
  let ?s = "detections0\<lparr>dt_sel := Some ?d\<rparr>"
  have "role_can_act (set_session ''t'' ''u'' ''analyst'')" by (simp add: role_can_act_def get_role_def set_session_def)
  then have "DtRespond ?d ''isolate'' None \<in> set_node (detection_actions (role_can_act (set_session ''t'' ''u'' ''analyst'')) [] ?d)"
    by (simp add: set_node_detection_actions)
  then have "DtRespond ?d ''isolate'' None \<in> set_node (detections_view plain_env (set_session ''t'' ''u'' ''analyst'') [] [] ?s)"
    by (intro detections_view_open) simp_all
  from response_targets_detection [OF this] show ?thesis by simp
qed

text \<open>A reply that comes back after the operator opened another detection is shown there: the
  status just set on the first detection appears on the second, and so does the AI triage of the
  first. Opening a detection does clear the triage of the one before.\<close>

theorem late_reply_hits_open_detection:
  assumes "de_id d \<noteq> de_id d'"
  shows "dt_sel (detections_run [DtSelect (Some d), DtSetStat d st, DtSelect (Some d'), DtSetStatDone d st (Inr d2)] s) =
      Some (d'\<lparr>de_status := st\<rparr>) \<and>
    dt_triage (detections_run [DtSelect (Some d), DtTriage d, DtSelect (Some d'), DtTriageDone d (Inr t)] s) = Some t \<and>
    dt_sel (detections_run [DtSelect (Some d), DtTriage d, DtSelect (Some d'), DtTriageDone d (Inr t)] s) = Some d' \<and>
    dt_triage (detections_run [DtSelect (Some d), DtTriage d, DtTriageDone d (Inr t), DtSelect (Some d')] s) = None"
  using assms by (cases "dt_sel s") (auto simp: detections_run_def select_detection_def Let_def)

lemma late_reply_hits_open_detection_witness:
  "dt_sel (detections_run [DtSelect (Some (sample_detection ''a'' ''low'')), DtSetStat (sample_detection ''a'' ''low'') ''closed'',
       DtSelect (Some (sample_detection ''b'' ''critical'')),
       DtSetStatDone (sample_detection ''a'' ''low'') ''closed'' (Inr (sample_detection ''a'' ''low''))] detections0) =
     Some ((sample_detection ''b'' ''critical'')\<lparr>de_status := ''closed''\<rparr>)"
  by (rule late_reply_hits_open_detection [THEN conjunct1]) (simp add: sample_detection_def)

end
