(* ===== verification/CasesPage.thy ===== *)
theory CasesPage
  imports Pages
begin

section \<open>Page: incident cases\<close>

text \<open>
  Models \<open>web/src/pages/Cases.tsx\<close>. The drawer is a component of its own: it is mounted when a case is
  opened and unmounted when the drawer closes, and keeps its state when only the case id changes.
  Each mount has a number, so that a reply to a drawer that is gone does not reach a later one;
  the effects it still has on the store are kept.
\<close>

definition STATUS_COLOR :: "(string \<times> string) list" where
  "STATUS_COLOR =
     [(''open'', ''var(--high)''), (''investigating'', ''var(--low)''), (''contained'', ''var(--cyan)''),
      (''closed'', ''var(--ink-faint)'')]"

definition case_status_pill :: "string \<Rightarrow> 'm node" where
  "case_status_pill s =
     (let c = (case map_of STATUS_COLOR s of None \<Rightarrow> ''var(--ink-dim)'' | Some c \<Rightarrow> c)
      in el ''span'' [cls ''chip'', sty (''color: '' @ c @ ''; border-color: '' @ c)] [Txt s])"

subsection \<open>State and handlers\<close>

record case_drawer =
  cw_mount :: nat
  cw_id :: string
  cw_case :: "case_detail option"
  cw_note :: string
  cw_busy :: bool

record cases_state =
  cs_q :: string
  cs_status :: string
  cs_sel :: "case_rec option"
  cs_drawer :: "case_drawer option"
  cs_mounts :: nat

datatype cases_msg =
    CaQuery string
  | CaStatus string
  | CaSelect "case_rec option"
  | CaLoaded nat "case_detail option"
  | CaUpdate case_patch
  | CaUpdateDone nat string "string option"
  | CaUpdateLoaded nat "case_detail option"
  | CaNote string
  | CaSubmitNote
  | CaNoteDone nat string "string option"
  | CaNoteLoaded nat "case_detail option"

definition cases0 :: cases_state where
  "cases0 = \<lparr>cs_q = [], cs_status = ''all'', cs_sel = None, cs_drawer = None, cs_mounts = 0\<rparr>"

definition case_counts :: "case_rec list \<Rightarrow> (string \<times> int) list" where
  "case_counts cases =
     fold (\<lambda>k m. obj_put (ca_status k) (num_or0 (map_of m (ca_status k)) + 1) m) cases
       [(''all'', int (length cases)), (''open'', 0), (''investigating'', 0), (''contained'', 0), (''closed'', 0)]"

definition case_fields :: "case_rec \<Rightarrow> cell list" where
  "case_fields c =
     (let opt = (\<lambda>x. case x of None \<Rightarrow> CNone | Some t \<Rightarrow> CStr t) in
      [CStr (ca_title c), opt (ca_hostname c), opt (ca_assigned_to c), CStr (ca_severity c), CStr (join '' '' (or_empty (ca_mitre c)))])"

definition case_rows :: "cases_state \<Rightarrow> case_rec list \<Rightarrow> case_rec list" where
  "case_rows s cases =
     (let r = (if cs_status s \<noteq> ''all'' then filter (\<lambda>c. ca_status c = cs_status s) cases else cases)
      in filter (\<lambda>c. match_text (cs_q s) (case_fields c)) r)"

definition on_mount :: "nat \<Rightarrow> (case_drawer \<Rightarrow> case_drawer) \<Rightarrow> cases_state \<Rightarrow> cases_state" where
  \<comment> \<open>a state setter of mount \<open>k\<close>: without effect once that drawer is unmounted\<close>
  "on_mount k f s =
     (case cs_drawer s of
        Some w \<Rightarrow> if cw_mount w = k then s\<lparr>cs_drawer := Some (f w)\<rparr> else s
      | None \<Rightarrow> s)"

definition set_case :: "case_detail option \<Rightarrow> case_drawer \<Rightarrow> case_drawer" where
  \<comment> \<open>\<open>load\<close> swallows a failure\<close>
  "set_case r w = (case r of None \<Rightarrow> w | Some c \<Rightarrow> w\<lparr>cw_case := Some c\<rparr>)"

definition open_case :: "case_rec option \<Rightarrow> cases_state \<Rightarrow> cases_state \<times> effect list" where
  \<comment> \<open>\<open>setSel\<close> and the drawer's mount, change of id or unmount that follow\<close>
  "open_case c s =
     (case c of
        None \<Rightarrow> (s\<lparr>cs_sel := None, cs_drawer := None\<rparr>, [])
      | Some k \<Rightarrow>
          (case cs_drawer s of
             None \<Rightarrow> (s\<lparr>cs_sel := c, cs_mounts := cs_mounts s + 1,
                       cs_drawer := Some \<lparr>cw_mount = cs_mounts s, cw_id = ca_id k, cw_case = None, cw_note = [], cw_busy = False\<rparr>\<rparr>,
                     [Call (api_case_detail (ca_id k))])
           | Some w \<Rightarrow>
               if cw_id w = ca_id k then (s\<lparr>cs_sel := c\<rparr>, [])
               else (s\<lparr>cs_sel := c, cs_drawer := Some (w\<lparr>cw_id := ca_id k\<rparr>)\<rparr>, [Call (api_case_detail (ca_id k))])))"

fun cases_update :: "cases_msg \<Rightarrow> cases_state \<Rightarrow> cases_state \<times> effect list" where
  "cases_update (CaQuery q) s = (s\<lparr>cs_q := q\<rparr>, [])"
| "cases_update (CaStatus v) s = (s\<lparr>cs_status := v\<rparr>, [])"
| "cases_update (CaSelect c) s = open_case c s"
| "cases_update (CaLoaded k r) s = (on_mount k (set_case r) s, [])"
| "cases_update (CaUpdate body) s =
     (case cs_drawer s of
        None \<Rightarrow> (s, [])
      | Some w \<Rightarrow> (s\<lparr>cs_drawer := Some (w\<lparr>cw_busy := True\<rparr>)\<rparr>, [Call (api_update_case (cw_id w) body)]))"
| "cases_update (CaUpdateDone k i r) s =
     (case r of
        None \<Rightarrow> (s, [Call (api_case_detail i)])
      | Some e \<Rightarrow> (on_mount k (\<lambda>w. w\<lparr>cw_busy := False\<rparr>) s, [ShowToast (''update failed: '' @ e) True]))"
| "cases_update (CaUpdateLoaded k r) s =
     (on_mount k (\<lambda>w. (set_case r w)\<lparr>cw_busy := False\<rparr>) s, [Call refresh_cases, ShowToast ''case updated'' False])"
| "cases_update (CaNote t) s =
     (case cs_drawer s of None \<Rightarrow> (s, []) | Some w \<Rightarrow> (s\<lparr>cs_drawer := Some (w\<lparr>cw_note := t\<rparr>)\<rparr>, []))"
| "cases_update CaSubmitNote s =
     (case cs_drawer s of
        None \<Rightarrow> (s, [])
      | Some w \<Rightarrow>
          if trim (cw_note w) = [] then (s, [])
          else (s\<lparr>cs_drawer := Some (w\<lparr>cw_busy := True\<rparr>)\<rparr>, [Call (api_add_case_note (cw_id w) (trim (cw_note w)))]))"
| "cases_update (CaNoteDone k i r) s =
     (case r of
        None \<Rightarrow> (on_mount k (\<lambda>w. w\<lparr>cw_note := []\<rparr>) s, [Call (api_case_detail i)])
      | Some e \<Rightarrow> (on_mount k (\<lambda>w. w\<lparr>cw_busy := False\<rparr>) s, [ShowToast (''note failed: '' @ e) True]))"
| "cases_update (CaNoteLoaded k r) s =
     (on_mount k (\<lambda>w. (set_case r w)\<lparr>cw_busy := False\<rparr>) s, [Call refresh_cases])"

definition cases_run :: "cases_msg list \<Rightarrow> cases_state \<Rightarrow> cases_state" where
  "cases_run ms s = fold (\<lambda>m s. fst (cases_update m s)) ms s"

subsection \<open>The timeline\<close>

record tl_item =
  tl_ts :: string
  tl_kind :: string
  tl_label :: string
  tl_sev :: "string option"

definition tl_cmp :: "tl_item \<Rightarrow> tl_item \<Rightarrow> int" where
  \<comment> \<open>the difference of two times; \<open>NaN\<close> counts as 0\<close>
  "tl_cmp a b =
     (case (date_parse (tl_ts a), date_parse (tl_ts b)) of (Some x, Some y) \<Rightarrow> x - y | _ \<Rightarrow> 0)"

definition tl_items :: "case_detail \<Rightarrow> tl_item list" where
  "tl_items c =
     [\<lparr>tl_ts = ca_created_at c, tl_kind = ''open'',
       tl_label = ''Case opened'' @ (if truthy (ca_created_by c) then '' by '' @ the (ca_created_by c) else []), tl_sev = None\<rparr>] @
     map (\<lambda>d. \<lparr>tl_ts = de_ts d, tl_kind = ''detection'', tl_label = de_rule_name d @ '' ('' @ de_engine d @ '')'',
                tl_sev = Some (de_severity d)\<rparr>) (cd_detections c) @
     map (\<lambda>n. \<lparr>tl_ts = cn_ts n, tl_kind = ''note'', tl_label = cn_author n @ '': '' @ cn_body n, tl_sev = None\<rparr>)
       (or_empty (ca_notes c))"

definition case_timeline :: "case_detail option \<Rightarrow> tl_item list" where
  "case_timeline c = (case c of None \<Rightarrow> [] | Some d \<Rightarrow> js_sort tl_cmp (tl_items d))"

subsection \<open>The views\<close>

definition case_row :: "env \<Rightarrow> case_rec \<Rightarrow> cases_msg node" where
  "case_row env c =
     Elem ''tr'' ([(''key'', ca_id c), cls ''row-enter''] @ row_click_attrs) (row_click (CaSelect (Some c)))
       [td [] [sev_tag (ca_severity c)],
        td [cls ''mono''] [Txt (ca_title c)],
        td [] [or_dim_dash (ca_hostname c)],
        td [] [case_status_pill (ca_status c)],
        td [cls ''mono''] [spanc ''chip'' [num_txt (int (length (ca_detection_ids c)))]],
        td [] [mitre (ca_mitre c)],
        td [cls ''dim''] [Txt (str_or (ca_assigned_to c) u_dash)],
        td [cls ''dim''] [Txt (ago (en_now env) (ca_updated_at c))]]"

definition patch_button :: "bool \<Rightarrow> case_patch \<Rightarrow> string \<Rightarrow> cases_msg node" where
  "patch_button busy body label =
     Elem ''button'' ([cls ''btn btn-sm''] @ disabled_attr busy) (unless_disabled busy [On ''click'' (CaUpdate body)]) [Txt label]"

definition status_patch :: "string \<Rightarrow> case_patch" where
  "status_patch st = \<lparr>cp_status = Some st, cp_assigned_to = None, cp_title = None\<rparr>"

definition case_actions :: "session \<Rightarrow> bool \<Rightarrow> case_detail \<Rightarrow> cases_msg node" where
  "case_actions ses busy c =
     el ''div'' [sty ''display: flex; gap: 8px; flex-wrap: wrap'']
       [patch_button busy \<lparr>cp_status = None, cp_assigned_to = Some (str_or (get_user ses) ''me''), cp_title = None\<rparr> ''Assign to me'',
        only_if (ca_status c \<noteq> ''investigating'') (patch_button busy (status_patch ''investigating'') ''Investigating''),
        only_if (ca_status c \<noteq> ''contained'') (patch_button busy (status_patch ''contained'') ''Contained''),
        only_if (ca_status c \<noteq> ''closed'') (patch_button busy (status_patch ''closed'') ''Close''),
        only_if (ca_status c = ''closed'') (patch_button busy (status_patch ''open'') ''Reopen'')]"

definition timeline_node :: "env \<Rightarrow> tl_item \<Rightarrow> 'm node" where
  "timeline_node env t =
     el ''li'' [cls (''tl-item tl-'' @ tl_kind t)]
       [spanc ''tl-dot'' [],
        spanc ''tl-time mono dim'' [Txt (en_datetime env (tl_ts t))],
        spanc ''tl-label'' [only_if (truthy (tl_sev t)) (sev_tag (the (tl_sev t))), Txt ('' '' @ tl_label t)]]"

definition note_box :: "bool \<Rightarrow> case_drawer \<Rightarrow> cases_msg node" where
  "note_box can_act w =
     (let off = (\<not> can_act \<or> cw_busy w); off_btn = (off \<or> trim (cw_note w) = [])
      in el ''div'' [sty ''display: flex; gap: 8px'']
        [Elem ''input'' ([cls ''input'', sty ''flex: 1'', (''placeholder'', ''Investigation note'' @ u_ellipsis), (''value'', cw_note w)] @ disabled_attr off)
           (unless_disabled off [OnValue ''change'' CaNote, OnKey (\<lambda>key. if key = ''Enter'' then Some CaSubmitNote else None)]) [],
         Elem ''button'' ([cls ''btn btn-primary btn-sm''] @ disabled_attr off_btn)
           (unless_disabled off_btn [On ''click'' CaSubmitNote]) [Txt ''Add'']])"

definition case_body :: "env \<Rightarrow> bool \<Rightarrow> case_drawer \<Rightarrow> case_detail \<Rightarrow> cases_msg node" where
  "case_body env can_act w c =
     (let tl = case_timeline (Some c) in
      el ''div'' [cls ''grid'', sty ''gap: 18px'']
        [divc ''case-meta''
           [el ''span'' [] [case_status_pill (ca_status c)],
            el ''span'' [] [sev_tag (ca_severity c)],
            only_if (truthy (ca_hostname c)) (spanc ''chip'' [opt_txt (ca_hostname c)]),
            only_if (truthy (ca_assigned_to c)) (spanc ''chip cyan'' [Txt ''@'', opt_txt (ca_assigned_to c)]),
            el ''span'' [cls ''dim'', sty ''font-size: 11px''] [Txt (''opened '' @ ago (en_now env) (ca_created_at c))]],
         only_if (or_empty (ca_mitre c) \<noteq> [])
           (el ''div'' [] [el ''div'' [cls ''page-kicker'', sty ''margin-bottom: 6px''] [Txt ''ATT&CK Techniques''], mitre (ca_mitre c)]),
         el ''div'' []
           [el ''div'' [cls ''page-kicker'', sty ''margin-bottom: 8px'']
              [Txt (''Incident Timeline '' @ u_middot @ '' ''), num_txt (int (length tl)), Txt '' events''],
            el ''ul'' [cls ''timeline''] (map (timeline_node env) tl)],
         el ''div'' []
           [el ''div'' [cls ''page-kicker'', sty ''margin-bottom: 8px''] [Txt ''Add Note''],
            note_box can_act w]])"

definition case_drawer_view :: "env \<Rightarrow> session \<Rightarrow> bool \<Rightarrow> case_drawer \<Rightarrow> cases_msg node" where
  "case_drawer_view env ses can_act w =
     drawer (str_or (map_option ca_title (cw_case w)) ''case'')
       (Some (case cw_case w of
                None \<Rightarrow> ''loading'' @ u_ellipsis
              | Some c \<Rightarrow> ''case '' @ u_middot @ '' '' @ ca_status c @ '' '' @ u_middot @ '' '' @ ca_severity c))
       (CaSelect None)
       [case cw_case w of
          None \<Rightarrow> divc ''empty'' [Txt (''loading case'' @ u_ellipsis)]
        | Some c \<Rightarrow> case_body env can_act w c]
       (case cw_case w of None \<Rightarrow> None | Some c \<Rightarrow> if can_act then Some (case_actions ses (cw_busy w) c) else None)"

definition cases_view :: "env \<Rightarrow> session \<Rightarrow> case_rec list \<Rightarrow> cases_state \<Rightarrow> cases_msg node" where
  "cases_view env ses cases s =
     (let counts = case_counts cases; rows = case_rows s cases; can_act = role_can_act ses;
          seg = (\<lambda>v l. \<lparr>so_value = v, so_label = l, so_count = map_of counts v, so_dot = None\<rparr>)
      in Frag
       [divc ''toolbar''
          [segmented (cs_status s) CaStatus
             [seg ''all'' ''All'', seg ''open'' ''Open'', seg ''investigating'' ''Investigating'', seg ''contained'' ''Contained'',
              seg ''closed'' ''Closed''],
           search_input (cs_q s) CaQuery (Some (''Filter by title, host, assignee, ATT&CK'' @ u_ellipsis)) (Some 300),
           flex_gap,
           spanc ''chip'' [num_txt (int (length rows)), Txt '' cases'']],
        panel (Some ''INCIDENT CASES'') (Some (''correlated detections '' @ u_right @ '' investigations'')) Null None
          [(if cases = [] then divc ''empty'' [Txt (''no cases yet '' @ u_dash @ '' correlated detections open cases automatically'')]
            else divc ''table-wrap scroll''
              [el ''table'' [cls ''table'']
                 [head_row [''Sev'', ''Title'', ''Host'', ''Status'', ''Detections'', ''ATT&CK'', ''Assigned'', ''Updated''],
                  el ''tbody'' [] (map (case_row env) rows)],
               only_if (rows = []) (divc ''empty'' [Txt ''no cases match this filter''])])],
        (case (cs_sel s, cs_drawer s) of
           (Some c, Some w) \<Rightarrow> case_drawer_view env ses can_act w
         | _ \<Rightarrow> Null)])"

subsection \<open>Lemmas\<close>

lemma set_node_case_pill [simp]: "set_node (case_status_pill st :: 'm node) = {}"
  by (simp add: case_status_pill_def Let_def)

lemma set_node_case_row [simp]: "set_node (case_row env c) = {CaSelect (Some c)}"
  by (auto simp: case_row_def row_click_def split: if_splits)

lemma set_node_patch_button [simp]: "set_node (patch_button busy b l) = (if busy then {} else {CaUpdate b})"
  by (auto simp: patch_button_def)

lemma set_node_timeline_node [simp]: "set_node (timeline_node env t :: 'm node) = {}"
  by (simp add: timeline_node_def)

lemma set_node_case_actions: "busy \<Longrightarrow> set_node (case_actions ses busy c) = {}" "set_node (case_actions ses busy c) \<subseteq> range CaUpdate"
  by (auto simp: case_actions_def)

lemma set_node_note_box:
  "set_node (note_box can_act w) \<subseteq> (if can_act \<and> \<not> cw_busy w then insert CaSubmitNote (range CaNote) else {})"
  by (auto simp: note_box_def Let_def unless_disabled_def split: if_splits)

lemma set_node_case_body:
  "set_node (case_body env can_act w c) = set_node (note_box can_act w)"
  by (auto simp: case_body_def Let_def)

lemma case_drawer_messages:
  "m \<in> set_node (case_drawer_view env ses can_act w) \<Longrightarrow>
     m = CaSelect None \<or> (can_act \<and> \<not> cw_busy w \<and> cw_case w \<noteq> None \<and> m \<in> range CaUpdate \<union> range CaNote \<union> {CaSubmitNote})"
proof (cases "cw_case w")
  case (Some c)
  assume "m \<in> set_node (case_drawer_view env ses can_act w)"
  then have "m = CaSelect None \<or> m \<in> set_node (note_box can_act w) \<or> (can_act \<and> m \<in> set_node (case_actions ses (cw_busy w) c))"
    by (auto simp: case_drawer_view_def Some set_node_case_body split: if_splits)
  then show ?thesis
    using set_node_note_box [of can_act w] set_node_case_actions(1) [of "cw_busy w" ses c] set_node_case_actions(2) [of ses "cw_busy w" c] Some
    by (auto split: if_splits)
qed (simp add: case_drawer_view_def)

lemma cases_view_messages:
  "m \<in> set_node (cases_view env ses cases s) \<Longrightarrow>
     m \<in> range CaQuery \<union> range CaStatus \<union> range CaSelect \<or>
     (\<exists>w. cs_drawer s = Some w \<and> m \<in> set_node (case_drawer_view env ses (role_can_act ses) w))"
  by (auto simp: cases_view_def Let_def split: option.splits if_splits)

interpretation tl_sort: comparator tl_cmp "\<lambda>a. date_parse (tl_ts a) \<noteq> None"
  by unfold_locales (auto simp: tl_cmp_def split: option.splits)

subsection \<open>Properties\<close>

text \<open>C34: the incident timeline shows the opening of the case, every detection and every note exactly
  once, and when all times are valid it is in chronological order.\<close>

theorem timeline_complete_and_ordered:
  "mset (case_timeline (Some c)) = mset (tl_items c) \<and>
   length (case_timeline (Some c)) = 1 + length (cd_detections c) + length (or_empty (ca_notes c)) \<and>
   ((\<forall>t\<in>set (tl_items c). date_parse (tl_ts t) \<noteq> None) \<longrightarrow>
      sorted_wrt (\<lambda>a b. the (date_parse (tl_ts a)) \<le> the (date_parse (tl_ts b))) (case_timeline (Some c)))"
proof (intro conjI impI)
  show m: "mset (case_timeline (Some c)) = mset (tl_items c)"
    by (simp add: case_timeline_def mset_js_sort)
  then have "length (case_timeline (Some c)) = length (tl_items c)" by (metis size_mset)
  then show "length (case_timeline (Some c)) = 1 + length (cd_detections c) + length (or_empty (ca_notes c))"
    by (simp add: tl_items_def)
  assume ok: "\<forall>t\<in>set (tl_items c). date_parse (tl_ts t) \<noteq> None"
  have st: "set (case_timeline (Some c)) = set (tl_items c)" using m by (metis set_mset_mset)
  have "sorted_wrt (\<lambda>a b. tl_cmp a b \<le> 0) (case_timeline (Some c))"
    unfolding case_timeline_def option.case by (rule tl_sort.sorted_sort [OF ok])
  then show "sorted_wrt (\<lambda>a b. the (date_parse (tl_ts a)) \<le> the (date_parse (tl_ts b))) (case_timeline (Some c))"
  proof (rule sorted_wrt_mono_rel [rotated])
    fix a b
    assume "a \<in> set (case_timeline (Some c))" "b \<in> set (case_timeline (Some c))" and le: "tl_cmp a b \<le> 0"
    then have "date_parse (tl_ts a) \<noteq> None" "date_parse (tl_ts b) \<noteq> None" using ok st by auto
    with le show "the (date_parse (tl_ts a)) \<le> the (date_parse (tl_ts b))" by (auto simp: tl_cmp_def)
  qed
qed

definition sample_detail :: "string \<Rightarrow> case_detail" where
  "sample_detail i = \<lparr>ca_id = i, ca_title = ''t'', ca_severity = ''low'', ca_status = ''open'', ca_assigned_to = None,
     ca_agent_id = None, ca_hostname = None, ca_detection_ids = [], ca_mitre = None, ca_notes = None,
     ca_created_at = ''1970-01-01T00:00:00Z'', ca_updated_at = [], ca_created_by = None, cd_detections = []\<rparr>"

lemma timeline_complete_and_ordered_witness:
  "sorted_wrt (\<lambda>a b. the (date_parse (tl_ts a)) \<le> the (date_parse (tl_ts b))) (case_timeline (Some (sample_detail ''c'')))"
  using timeline_complete_and_ordered [of "sample_detail ''c''", THEN conjunct2, THEN conjunct2]
  by (simp add: sample_detail_def tl_items_def or_empty_def date_parse_examples)

text \<open>When the case id changes while an older request is still out, the drawer can end up
  showing the first case while it acts on the second: replies are not matched to the id, so the
  late one wins, and the buttons below it update the case that is not shown.\<close>

theorem case_drawer_mismatch:
  assumes "ca_id a \<noteq> ca_id b" and "cs_drawer s = None"
  defines "k \<equiv> cs_mounts s"
  shows "\<exists>w. cs_drawer (cases_run [CaSelect (Some a), CaSelect (Some b), CaLoaded k (Some cb), CaLoaded k (Some c1)] s) = Some w \<and>
    cw_case w = Some c1 \<and> cw_id w = ca_id b \<and>
    snd (cases_update (CaUpdate body) (cases_run [CaSelect (Some a), CaSelect (Some b), CaLoaded k (Some cb), CaLoaded k (Some c1)] s)) =
      [Call (api_update_case (ca_id b) body)]"
  using assms by (simp add: cases_run_def open_case_def on_mount_def set_case_def)

lemma case_drawer_mismatch_witness:
  "\<exists>w. cs_drawer (cases_run [CaSelect (Some (sample_case ''a'')), CaSelect (Some (sample_case ''b'')),
       CaLoaded (cs_mounts cases0) (Some (sample_detail ''b'')), CaLoaded (cs_mounts cases0) (Some (sample_detail ''a''))] cases0) = Some w \<and>
     cw_case w = Some (sample_detail ''a'') \<and> cw_id w = ca_id (sample_case ''b'') \<and>
     snd (cases_update (CaUpdate (status_patch ''closed'')) (cases_run [CaSelect (Some (sample_case ''a'')), CaSelect (Some (sample_case ''b'')),
       CaLoaded (cs_mounts cases0) (Some (sample_detail ''b'')), CaLoaded (cs_mounts cases0) (Some (sample_detail ''a''))] cases0)) =
       [Call (api_update_case (ca_id (sample_case ''b'')) (status_patch ''closed''))]"
  by (rule case_drawer_mismatch) (simp_all add: sample_case_def cases0_def)

text \<open>A case can be changed from the page only by an operator who may act, only once the case
  is loaded, and not while a change is still in flight; an empty note is never sent.\<close>

theorem case_changes_guarded:
  assumes "m \<in> set_node (cases_view env ses cases s)" and "calls_of (snd (cases_update m s)) \<noteq> []"
  shows "(\<exists>c. m = CaSelect (Some c)) \<or>
    (role_may_act (get_role ses) \<and>
     (\<exists>w. cs_drawer s = Some w \<and> cw_case w \<noteq> None \<and> \<not> cw_busy w \<and>
        (m = CaSubmitNote \<longrightarrow> trim (cw_note w) \<noteq> [] \<and>
           snd (cases_update m s) = [Call (api_add_case_note (cw_id w) (trim (cw_note w)))])))"
proof -
  consider "m \<in> range CaQuery \<union> range CaStatus \<union> range CaSelect"
    | w where "cs_drawer s = Some w" "role_can_act ses" "\<not> cw_busy w" "cw_case w \<noteq> None"
        "m \<in> range CaUpdate \<union> range CaNote \<union> {CaSubmitNote}"
    using cases_view_messages [OF assms(1)] case_drawer_messages by fast
  then show ?thesis
  proof cases
    case 1
    then show ?thesis using assms(2) by (auto simp: open_case_def split: option.splits)
  next
    case 2
    then show ?thesis
      using assms(2) by (auto simp: role_can_act_def role_may_act_def split: if_splits)
  qed
qed

definition busy_free :: case_drawer where
  "busy_free = \<lparr>cw_mount = 0, cw_id = ''c'', cw_case = Some (sample_detail ''c''), cw_note = '' x '', cw_busy = False\<rparr>"

lemma case_changes_guarded_witness:
  "role_may_act (get_role (set_session ''t'' ''u'' ''admin''))"
proof -
  let ?ses = "set_session ''t'' ''u'' ''admin''"
  let ?s = "cases0\<lparr>cs_sel := Some (sample_case ''c''), cs_drawer := Some busy_free\<rparr>"
  have can: "role_can_act ?ses" by (simp add: role_can_act_def get_role_def set_session_def)
  have "CaSubmitNote \<in> set_node (note_box True busy_free)"
    by (simp add: note_box_def Let_def busy_free_def trim_def is_space_def)
  then have m: "CaSubmitNote \<in> set_node (cases_view plain_env ?ses [] ?s)"
    using can by (simp add: cases_view_def Let_def case_drawer_view_def set_node_case_body busy_free_def)
  have "calls_of (snd (cases_update CaSubmitNote ?s)) \<noteq> []"
    by (simp add: busy_free_def trim_def is_space_def)
  from case_changes_guarded [OF m this] show ?thesis by blast
qed

end
