(* ===== verification/ReportPages.thy ===== *)
theory ReportPages
  imports Pages
begin

section \<open>Pages: overview, data loss, internet activity\<close>

text \<open>
  Models \<open>web/src/pages/Overview.tsx\<close>, \<open>Dlp.tsx\<close> and \<open>Internet.tsx\<close>: the figures they compute from
  the store and the views that show them. A chart of the \<open>recharts\<close> library is the element the page
  writes, its data as JSON. Grouping objects are entry lists in insertion order.
\<close>

subsection \<open>Overview\<close>

definition SEV_COLORS :: "(string \<times> string) list" where
  "SEV_COLORS =
     [(''critical'', ''#ff3b54''), (''high'', ''#ff8a3d''), (''medium'', ''#ffd23d''), (''low'', ''#46a6ff''), (''info'', ''#6b7686'')]"

definition tip_style :: string where
  "tip_style = ''background: #0f141d; border: 1px solid rgba(140,170,210,0.28); border-radius: 10px; font-family: var(--mono); font-size: 12px; color: #e8edf5''"

definition ov_timeline_data :: "overview option \<Rightarrow> (string \<times> int) list" where
  "ov_timeline_data ov = (case ov of None \<Rightarrow> [] | Some v \<Rightarrow> map (\<lambda>t. (slice 11 16 (tb_hour t), tb_count t)) (ov_timeline v))"

definition ov_sev_data :: "overview option \<Rightarrow> (string \<times> int) list" where
  "ov_sev_data ov = (case ov of None \<Rightarrow> [] | Some v \<Rightarrow> filter (\<lambda>(k, n). n > 0) (ov_severity v))"

definition ov_cat_data :: "overview option \<Rightarrow> (string \<times> int) list" where
  "ov_cat_data ov = (case ov of None \<Rightarrow> [] | Some v \<Rightarrow> js_sort (\<lambda>a b. snd b - snd a) (ov_by_category v))"

definition ov_mitre_data :: "overview option \<Rightarrow> (string \<times> int) list" where
  "ov_mitre_data ov = (case ov of None \<Rightarrow> [] | Some v \<Rightarrow> map (\<lambda>m. (tc_tactic m, tc_count m)) (ov_top_mitre v))"

definition ov_count :: "overview option \<Rightarrow> string \<Rightarrow> int" where
  \<comment> \<open>\<open>c.x ?? 0\<close>\<close>
  "ov_count ov k = (case ov of None \<Rightarrow> 0 | Some v \<Rightarrow> num_or0 (map_of (ov_counts v) k))"

definition fmt :: "int \<Rightarrow> string" where
  "fmt n = (if n \<ge> 1000 then (let (m, s) = double_quot (nat n) 1000 in to_fixed1 (int m) (2 ^ s)) @ ''k'' else show_int n)"

definition points :: "string \<Rightarrow> string \<Rightarrow> (string \<times> int) list \<Rightarrow> string \<times> string" where
  "points kx ky d = (''data'', stringify (JArr (map (\<lambda>(a, b). JObj [(kx, JStr a), (ky, JNum b)]) d)))"

definition dim_sty :: "string \<Rightarrow> string \<times> string" where
  "dim_sty c = sty (''color: '' @ c)"

definition overview_stats :: "overview option \<Rightarrow> 'm node" where
  "overview_stats ov =
     divc ''grid cols-4''
       [divc ''reveal d1''
          [stat ''Endpoints'' (num_txt (ov_count ov ''agents_total''))
             (Some (Frag [el ''span'' [dim_sty ''var(--signal)''] [num_txt (ov_count ov ''agents_online''), Txt '' online''],
                          only_if (ov_count ov ''agents_isolated'' > 0)
                            (el ''span'' [dim_sty ''var(--crit)''] [Txt (u_middot @ '' ''), num_txt (ov_count ov ''agents_isolated''), Txt '' isolated''])]))
             False None],
        divc ''reveal d2''
          [stat ''Open Detections'' (num_txt (ov_count ov ''detections_open''))
             (Some (el ''span'' [dim_sty ''var(--crit)''] [num_txt (ov_count ov ''detections_critical''), Txt '' critical'']))
             (ov_count ov ''detections_critical'' > 0) None],
        divc ''reveal d3''
          [stat (''Events '' @ u_middot @ '' 24h'') (Txt (fmt (ov_count ov ''events_24h''))) (Some (note_span ''telemetry ingested'')) False (Some ''#34e3d4'')],
        divc ''reveal d4''
          [stat (''DLP Incidents '' @ u_middot @ '' 24h'') (num_txt (ov_count ov ''dlp_24h''))
             (Some (el ''span'' [] [num_txt (ov_count ov ''responses_total''), Txt '' responses issued''])) False (Some ''#8b7bff'')]]"

definition area_chart :: "(string \<times> int) list \<Rightarrow> 'm node" where
  "area_chart d =
     el ''ResponsiveContainer'' [(''width'', ''100%''), (''height'', ''240'')]
       [el ''AreaChart'' [points ''t'' ''count'' d, (''margin'', ''top: 6, right: 6, left: -18, bottom: 0'')]
          [el ''defs'' []
             [el ''linearGradient'' [(''id'', ''g''), (''x1'', ''0''), (''y1'', ''0''), (''x2'', ''0''), (''y2'', ''1'')]
                [el ''stop'' [(''offset'', ''0%''), (''stopColor'', ''#c6ff3a''), (''stopOpacity'', ''0.5'')] [],
                 el ''stop'' [(''offset'', ''100%''), (''stopColor'', ''#c6ff3a''), (''stopOpacity'', ''0'')] []]],
           el ''XAxis'' [(''dataKey'', ''t''), (''stroke'', ''#5f6c82''), (''tick'', ''fontSize: 10, fontFamily: var(--mono)''),
             (''tickLine'', ''false''), (''axisLine'', ''false''), (''interval'', ''preserveStartEnd'')] [],
           el ''YAxis'' [(''stroke'', ''#5f6c82''), (''tick'', ''fontSize: 10, fontFamily: var(--mono)''),
             (''tickLine'', ''false''), (''axisLine'', ''false''), (''width'', ''42'')] [],
           el ''Tooltip'' [(''contentStyle'', tip_style), (''cursor'', ''stroke: #c6ff3a, strokeOpacity: 0.3'')] [],
           el ''Area'' [(''type'', ''monotone''), (''dataKey'', ''count''), (''stroke'', ''#c6ff3a''), (''strokeWidth'', ''2''), (''fill'', ''url(#g)'')] []]]"

definition severity_pie :: "(string \<times> int) list \<Rightarrow> 'm node" where
  "severity_pie d = Frag
     [el ''ResponsiveContainer'' [(''width'', ''100%''), (''height'', ''180'')]
        [el ''PieChart'' []
           [el ''Pie'' [points ''name'' ''value'' d, (''dataKey'', ''value''), (''nameKey'', ''name''), (''innerRadius'', ''52''),
              (''outerRadius'', ''80''), (''paddingAngle'', ''3''), (''stroke'', ''none'')]
              (map (\<lambda>(n, v). el ''Cell'' [(''key'', n), (''fill'', str_or (map_of SEV_COLORS n) ''#6b7686'')] []) d),
            el ''Tooltip'' [(''contentStyle'', tip_style)] []]],
      el ''div'' [cls ''legend'', sty ''justify-content: center; margin-top: 6px'']
        (map (\<lambda>(n, v). el ''span'' [(''key'', n)]
           [el ''i'' (case map_of SEV_COLORS n of None \<Rightarrow> [] | Some c \<Rightarrow> [sty (''background: '' @ c)]) [],
            Txt (n @ '' '' @ u_middot @ '' ''), num_txt v]) d)]"

definition bar_chart :: "(string \<times> int) list \<Rightarrow> string \<Rightarrow> string \<Rightarrow> string \<Rightarrow> string \<Rightarrow> 'm node" where
  "bar_chart d left font width fill =
     el ''ResponsiveContainer'' [(''width'', ''100%''), (''height'', ''210'')]
       [el ''BarChart'' [points ''name'' ''value'' d, (''layout'', ''vertical''), (''margin'', ''left: '' @ left @ '', right: 16, top: 4, bottom: 4'')]
          [el ''XAxis'' [(''type'', ''number''), (''hide'', [])] [],
           el ''YAxis'' [(''type'', ''category''), (''dataKey'', ''name''), (''stroke'', ''#9aa7bb''),
             (''tick'', ''fontSize: '' @ font @ '', fontFamily: var(--mono)''), (''tickLine'', ''false''), (''axisLine'', ''false''), (''width'', width)] [],
           el ''Tooltip'' [(''contentStyle'', tip_style), (''cursor'', ''fill: rgba(255,255,255,0.04)'')] [],
           el ''Bar'' [(''dataKey'', ''value''), (''radius'', ''0,5,5,0''), (''barSize'', ''14''), (''fill'', fill)] []]]"

definition latest_row :: "env \<Rightarrow> detection \<Rightarrow> 'm node" where
  "latest_row env d =
     el ''tr'' [(''key'', de_id d)]
       [td [] [sev_tag (de_severity d)], td [cls ''mono''] [Txt (de_rule_name d)], td [] [Txt (de_hostname d)],
        td [] [mitre (de_mitre d)], td [] [spanc ''chip'' [Txt (de_engine d)]], td [cls ''dim''] [Txt (ago (en_now env) (de_ts d))]]"

definition overview_view :: "env \<Rightarrow> overview option \<Rightarrow> detection list \<Rightarrow> 'm node" where
  "overview_view env ov detections =
     (let recent = take 8 detections in
      el ''div'' [cls ''grid'', sty ''gap: 18px'']
        [overview_stats ov,
         divc ''grid cols-3''
           [divc ''span-2 reveal d2'' [panel (Some ''EVENT VOLUME'') (Some ''last 24 hours'') Null None [area_chart (ov_timeline_data ov)]],
            divc ''reveal d3''
              [panel (Some ''DETECTIONS BY SEVERITY'') (Some ''active'') Null None
                 [if ov_sev_data ov = [] then divc ''empty'' [Txt ''no active detections''] else severity_pie (ov_sev_data ov)]]],
         divc ''grid cols-2''
           [divc ''reveal d3''
              [panel (Some ''EVENTS BY DOMAIN'') (Some ''24h by category'') Null None [bar_chart (ov_cat_data ov) ''18'' ''11'' ''78'' ''#34e3d4'']],
            divc ''reveal d4''
              [panel (Some ''ATT&CK TACTICS'') (Some ''most observed'') Null None
                 [if ov_mitre_data ov = [] then divc ''empty'' [Txt ''no tactics observed yet'']
                  else bar_chart (ov_mitre_data ov) ''30'' ''10.5'' ''120'' ''#8b7bff'']]],
         divc ''reveal d5''
           [panel (Some ''LATEST DETECTIONS'') (Some ''real-time'') Null None
              [if recent = [] then divc ''empty'' [Txt (''awaiting telemetry'' @ u_ellipsis)]
               else el ''table'' [cls ''table'']
                 [head_row [''Severity'', ''Detection'', ''Host'', ''ATT&CK'', ''Engine'', ''When''],
                  el ''tbody'' [] (map (latest_row env) recent)]]]])"

subsection \<open>Data loss\<close>

record classifier =
  cf_name :: string
  cf_label :: string
  cf_severity :: string

record dlp_policy =
  dp_Classifier :: string
  dp_Channel :: string
  dp_Verdict :: string

record dlp_state =
  ds_q :: string
  ds_classifiers :: "classifier list"
  ds_policies :: "dlp_policy list"

datatype dlp_msg = DlQuery string | DlClassifiers "classifier list" | DlPolicies "dlp_policy list"

definition dlp_mount :: "api_call list" where
  "dlp_mount = [api_dlp_classifiers, api_dlp_policies]"

fun dlp_update :: "dlp_msg \<Rightarrow> dlp_state \<Rightarrow> dlp_state" where
  "dlp_update (DlQuery q) s = s\<lparr>ds_q := q\<rparr>"
| "dlp_update (DlClassifiers c) s = s\<lparr>ds_classifiers := c\<rparr>"
| "dlp_update (DlPolicies p) s = s\<lparr>ds_policies := p\<rparr>"

definition all_dlp :: "event list \<Rightarrow> event list" where
  "all_dlp events = filter (\<lambda>e. ev_category e = ''dlp'' \<or> ev_dlp e \<noteq> None) events"

definition dlp_get :: "(dlp_info \<Rightarrow> string option) \<Rightarrow> event \<Rightarrow> string option" where
  "dlp_get f e = Option.bind (ev_dlp e) f"

definition opt_cell :: "string option \<Rightarrow> cell" where
  "opt_cell x = (case x of None \<Rightarrow> CNone | Some t \<Rightarrow> CStr t)"

definition dlp_events :: "string \<Rightarrow> event list \<Rightarrow> event list" where
  "dlp_events q events =
     filter (\<lambda>e. match_text q [CStr (ev_hostname e), opt_cell (ev_user e), opt_cell (dlp_get dl_classifier e),
       opt_cell (dlp_get dl_channel e), opt_cell (dlp_get dl_sample e), opt_cell (dlp_get dl_verdict e)]) (all_dlp events)"

definition dlp_class :: "event \<Rightarrow> string" where
  "dlp_class e = str_or (dlp_get dl_classifier e) ''unknown''"

definition by_class :: "event list \<Rightarrow> (string \<times> int) list" where
  "by_class es = fold (\<lambda>e m. obj_put (dlp_class e) (num_or0 (map_of m (dlp_class e)) + 1) m) es []"

definition dlp_blocked :: "event list \<Rightarrow> nat" where
  "dlp_blocked es = length (filter (\<lambda>e. dlp_get dl_verdict e = Some ''block'') es)"

definition verdict :: "string option \<Rightarrow> 'm node" where
  "verdict v =
     (if \<not> truthy v then spanc ''dim'' [Txt u_dash]
      else (let c = (if v = Some ''block'' then ''var(--crit)'' else if v = Some ''alert'' then ''var(--high)'' else ''var(--ink-dim)'')
            in el ''span'' [cls ''chip'', sty (''color: '' @ c @ ''; border-color: '' @ c)] [opt_txt v]))"

definition dlp_row :: "env \<Rightarrow> event \<Rightarrow> 'm node" where
  "dlp_row env e =
     el ''tr'' [(''key'', ev_id e), cls ''row-enter'']
       [td [] [sev_tag (ev_severity e)],
        td [cls ''mono''] [opt_txt (dlp_get dl_classifier e)],
        td [] [spanc ''chip'' [opt_txt (dlp_get dl_channel e)]],
        td [] [Txt (ev_hostname e)],
        td [] [or_dim_dash (ev_user e)],
        td [cls ''mono dim''] [opt_txt (dlp_get dl_sample e)],
        td [] [verdict (dlp_get dl_verdict e)],
        td [cls ''dim''] [Txt (ago (en_now env) (ev_ts e))]]"

definition dlp_view :: "env \<Rightarrow> event list \<Rightarrow> dlp_state \<Rightarrow> dlp_msg node" where
  "dlp_view env events s =
     (let every = all_dlp events; shown = dlp_events (ds_q s) events; classes = by_class every; blocked = dlp_blocked every in
      el ''div'' [cls ''grid'', sty ''gap: 18px'']
        [divc ''grid cols-4''
           [stat ''DLP Incidents'' (num_txt (int (length every))) (Some (note_span ''live session'')) False (Some ''#8b7bff''),
            stat ''Blocked Transfers'' (num_txt (int blocked)) (Some (note_span ''policy enforced'')) (blocked > 0) None,
            stat ''Classifiers'' (num_txt (int (length (ds_classifiers s)))) (Some (note_span ''active patterns'')) False (Some ''#34e3d4''),
            stat ''Policies'' (num_txt (int (length (ds_policies s)))) (Some (note_span ''channel rules'')) False (Some ''#c6ff3a'')],
         panel (Some ''DLP INCIDENTS'') (Some ''sensitive data movement'')
           (search_input (ds_q s) DlQuery (Some (''Filter by host, user, classifier, channel'' @ u_ellipsis)) (Some 300)) None
           [divc ''table-wrap scroll''
              [el ''table'' [cls ''table'']
                 [head_row [''Sev'', ''Classifier'', ''Channel'', ''Host'', ''User'', ''Sample'', ''Verdict'', ''When''],
                  el ''tbody'' [] (map (dlp_row env) shown)],
               only_if (shown = []) (divc ''empty'' [Txt ''no DLP incidents in this session''])]],
         divc ''grid cols-2''
           [panel (Some ''CLASSIFIERS'') (Some ''content patterns'') Null None
              [el ''table'' [cls ''table'']
                 [head_row [''Name'', ''Detects'', ''Severity'', ''Hits''],
                  el ''tbody'' [] (map (\<lambda>c. el ''tr'' [(''key'', cf_name c)]
                    [td [cls ''mono''] [Txt (cf_name c)], td [] [Txt (cf_label c)], td [] [sev_tag (cf_severity c)],
                     td [cls ''mono''] [num_txt (num_or0 (map_of classes (cf_name c)))]]) (ds_classifiers s))]],
            panel (Some ''ENFORCEMENT POLICIES'') (Some (''classifier '' @ [CHR 0xC3, CHR 0x97] @ '' channel '' @ u_right @ '' verdict'')) Null None
              [el ''table'' [cls ''table'']
                 [head_row [''Classifier'', ''Channel'', ''Verdict''],
                  el ''tbody'' [] (map (\<lambda>p. el ''tr'' []
                    [td [cls ''mono''] [Txt (dp_Classifier p)], td [] [spanc ''chip'' [Txt (dp_Channel p)]], td [] [verdict (Some (dp_Verdict p))]])
                    (ds_policies s))]]]])"

subsection \<open>Internet activity\<close>

definition net_events :: "event list \<Rightarrow> event list" where
  "net_events events = filter (\<lambda>e. ev_category e = ''network'' \<and> ev_network e \<noteq> None) events"

definition net_of :: "event \<Rightarrow> net_info" where
  "net_of e = the (ev_network e)"

record dest_sum =
  dn_hits :: int
  dn_out :: int
  dn_cat :: string

definition dest_of :: "event \<Rightarrow> string" where
  "dest_of e = str_or (ni_domain (net_of e)) (str_or (ni_remote (net_of e)) ''unknown'')"

definition add_dest :: "event \<Rightarrow> (string \<times> dest_sum) list \<Rightarrow> (string \<times> dest_sum) list" where
  "add_dest e m =
     (let d = dest_of e;
          cur = (case map_of m d of Some v \<Rightarrow> v
                 | None \<Rightarrow> \<lparr>dn_hits = 0, dn_out = 0, dn_cat = str_or (ni_category (net_of e)) ''web''\<rparr>)
      in obj_put d (cur\<lparr>dn_hits := dn_hits cur + 1, dn_out := dn_out cur + num_or0 (ni_bytes_out (net_of e))\<rparr>) m)"

definition dest_table :: "event list \<Rightarrow> (string \<times> dest_sum) list" where
  "dest_table net = fold add_dest net []"

definition top_domains :: "event list \<Rightarrow> (string \<times> dest_sum) list" where
  "top_domains net = take 12 (js_sort (\<lambda>a b. dn_out (snd b) - dn_out (snd a)) (dest_table net))"

definition total_out :: "event list \<Rightarrow> int" where
  "total_out net = foldl (\<lambda>s e. s + num_or0 (ni_bytes_out (net_of e))) 0 net"

definition cat_count :: "string \<Rightarrow> event list \<Rightarrow> nat" where
  "cat_count c net = length (filter (\<lambda>e. ni_category (net_of e) = Some c) net)"

definition web_row :: "env \<Rightarrow> event \<Rightarrow> 'm node" where
  "web_row env e =
     el ''tr'' [(''key'', ev_id e), cls ''row-enter'']
       [td [cls ''mono dim''] [Txt (ago (en_now env) (ev_ts e))],
        td [] [Txt (ev_hostname e)],
        td [] [or_dim_dash (ev_user e)],
        td [cls ''mono''] [if truthy (ni_domain (net_of e)) then opt_txt (ni_domain (net_of e)) else opt_txt (ni_remote (net_of e))],
        td [] [spanc ''chip'' [Txt (str_or (ni_category (net_of e)) ''web'')]],
        td [cls ''mono''] [Txt (bytes (ni_bytes_out (net_of e)))],
        td [cls ''mono dim''] [Txt (bytes (ni_bytes_in (net_of e)))],
        td [] [only_if (ni_blocked (net_of e) = Some True)
          (el ''span'' [cls ''chip'', sty ''color: var(--crit); border-color: var(--crit)''] [Txt ''blocked''])]]"

definition internet_view :: "env \<Rightarrow> event list \<Rightarrow> 'm node" where
  "internet_view env events =
     (let net = net_events events; top = top_domains net in
      el ''div'' [cls ''grid'', sty ''gap: 18px'']
        [divc ''grid cols-4''
           [stat ''Connections'' (num_txt (int (length net))) (Some (note_span ''live session'')) False (Some ''#34e3d4''),
            stat ''Data Uploaded'' (Txt (bytes (Some (total_out net)))) (Some (note_span ''outbound total'')) False (Some ''#c6ff3a''),
            stat ''Cloud Storage'' (num_txt (int (cat_count ''cloud_storage'' net))) (Some (note_span ''uploads observed'')) False (Some ''#8b7bff''),
            stat ''Webmail'' (num_txt (int (cat_count ''webmail'' net))) (Some (note_span ''sessions'')) False None],
         panel (Some ''TOP DESTINATIONS'') (Some ''by upload volume'') Null None
           [el ''table'' [cls ''table'']
              [head_row [''Domain'', ''Category'', ''Connections'', ''Uploaded''],
               el ''tbody'' [] (map (\<lambda>(d, v). el ''tr'' [(''key'', d)]
                 [td [cls ''mono''] [Txt d], td [] [spanc ''chip cyan'' [Txt (dn_cat v)]], td [cls ''mono''] [num_txt (dn_hits v)],
                  td [cls ''mono''] [Txt (bytes (Some (dn_out v)))]]) top)],
            only_if (top = []) (divc ''empty'' [Txt ''no internet activity captured yet''])],
         panel (Some ''WEB ACTIVITY'') (Some ''recent connections'') Null None
           [divc ''table-wrap scroll''
              [el ''table'' [cls ''table'']
                 [head_row [''Time'', ''Host'', ''User'', ''Domain'', ''Category'', u_up @ '' Out'', [CHR 0xE2, CHR 0x86, CHR 0x93] @ '' In'', []],
                  el ''tbody'' [] (map (web_row env) (take 150 net))]]]])"

subsection \<open>Lemmas\<close>

lemma fmt_compact: "0 \<le> n \<Longrightarrow> fmt n = compact (nat n)"
proof -
  assume n: "0 \<le> n"
  then have "1000 \<le> n \<longleftrightarrow> 1000 \<le> nat n" by linarith
  with n show ?thesis by (simp only: fmt_def compact_def show_int_def) simp
qed

lemma sum_obj_put:
  assumes "distinct (map fst m)"
  shows "(\<Sum>(k, v)\<leftarrow>obj_put d x m. f v) = (\<Sum>(k, v)\<leftarrow>m. f v) - (case map_of m d of None \<Rightarrow> 0 | Some v \<Rightarrow> f v) + (f x :: int)"
  using assms by (induction d x m rule: obj_put.induct) (auto simp: dom_map_of_conv_image_fst map_of_eq_None_iff split: option.splits)

lemma keys_obj_put: "fst ` set (obj_put d x m) = insert d (fst ` set m)"
  by (induction d x m rule: obj_put.induct) auto

lemma distinct_obj_put: "distinct (map fst m) \<Longrightarrow> distinct (map fst (obj_put d x m))"
  by (induction d x m rule: obj_put.induct) (auto simp: keys_obj_put)

lemma dest_table_sums:
  assumes "distinct (map fst m)"
  shows "distinct (map fst (fold add_dest net m)) \<and>
    (\<Sum>(k, v)\<leftarrow>fold add_dest net m. dn_hits v) = (\<Sum>(k, v)\<leftarrow>m. dn_hits v) + int (length net) \<and>
    (\<Sum>(k, v)\<leftarrow>fold add_dest net m. dn_out v) = (\<Sum>(k, v)\<leftarrow>m. dn_out v) + (\<Sum>e\<leftarrow>net. num_or0 (ni_bytes_out (net_of e)))"
  using assms
proof (induction net arbitrary: m)
  case (Cons e net)
  have d: "distinct (map fst (add_dest e m))"
    using Cons.prems by (simp add: add_dest_def Let_def distinct_obj_put)
  have h: "(\<Sum>(k, v)\<leftarrow>add_dest e m. dn_hits v) = (\<Sum>(k, v)\<leftarrow>m. dn_hits v) + 1"
    and o: "(\<Sum>(k, v)\<leftarrow>add_dest e m. dn_out v) = (\<Sum>(k, v)\<leftarrow>m. dn_out v) + num_or0 (ni_bytes_out (net_of e))"
    unfolding add_dest_def Let_def sum_obj_put [OF Cons.prems] by (simp_all split: option.splits)
  from Cons.IH [OF d] h o show ?case by simp
qed simp

lemma foldl_sum: "foldl (\<lambda>s e. s + f e) a xs = a + (\<Sum>e\<leftarrow>xs. (f e :: int))"
  by (induction xs arbitrary: a) auto

lemma insert_by_sorted_desc:
  "sorted_wrt (\<lambda>a b. g b \<le> (g a :: int)) ys \<Longrightarrow> sorted_wrt (\<lambda>a b. g b \<le> g a) (insert_by (\<lambda>a b. g b - g a) x ys)"
proof (induction ys)
  case (Cons y ys)
  have "set (insert_by cmp x ys) = insert x (set ys)" for cmp by (induction ys) auto
  with Cons show ?case by auto
qed simp

lemma js_sort_desc: "sorted_wrt (\<lambda>a b. g b \<le> (g a :: int)) (js_sort (\<lambda>a b. g b - g a) xs)"
  by (induction xs) (simp_all add: js_sort_def insert_by_sorted_desc)

subsection \<open>Properties\<close>

text \<open>The destination table accounts for all traffic: over all destinations the connections add
  up to the number of network events and the uploads to the total shown, each destination has one
  row, and the twelve shown are the largest, in descending order.\<close>

theorem destinations_account_for_traffic:
  "(\<Sum>(d, v)\<leftarrow>dest_table net. dn_hits v) = int (length net) \<and>
   (\<Sum>(d, v)\<leftarrow>dest_table net. dn_out v) = total_out net \<and>
   distinct (map fst (dest_table net)) \<and> length (top_domains net) \<le> 12 \<and>
   sorted_wrt (\<lambda>a b. dn_out (snd b) \<le> dn_out (snd a)) (top_domains net) \<and>
   (\<exists>rest. mset (top_domains net) + mset rest = mset (dest_table net) \<and>
      (\<forall>a\<in>set (top_domains net). \<forall>b\<in>set rest. dn_out (snd b) \<le> dn_out (snd a)))"
proof -
  define s where "s = js_sort (\<lambda>a b. dn_out (snd b) - dn_out (snd a)) (dest_table net)"
  have top: "top_domains net = take 12 s" by (simp add: top_domains_def s_def)
  have "sorted_wrt (\<lambda>a b. dn_out (snd b) \<le> dn_out (snd a)) s" unfolding s_def by (rule js_sort_desc)
  then have "sorted_wrt (\<lambda>a b. dn_out (snd b) \<le> dn_out (snd a)) (take 12 s @ drop 12 s)" by simp
  then have "\<forall>a\<in>set (top_domains net). \<forall>b\<in>set (drop 12 s). dn_out (snd b) \<le> dn_out (snd a)"
    and "sorted_wrt (\<lambda>a b. dn_out (snd b) \<le> dn_out (snd a)) (top_domains net)"
    unfolding top sorted_wrt_append by blast+
  moreover have "mset (top_domains net) + mset (drop 12 s) = mset (dest_table net)"
    unfolding top mset_append [symmetric] append_take_drop_id by (simp add: s_def mset_js_sort)
  moreover have "length (top_domains net) \<le> 12" by (simp add: top_domains_def)
  moreover have "(\<Sum>(d, v)\<leftarrow>dest_table net. dn_hits v) = int (length net)"
    and "(\<Sum>(d, v)\<leftarrow>dest_table net. dn_out v) = total_out net" and "distinct (map fst (dest_table net))"
    using dest_table_sums [of "[]" net] by (simp_all add: dest_table_def total_out_def foldl_sum)
  ultimately show ?thesis by blast
qed

lemma destinations_account_for_traffic_witness:
  "distinct (map fst (dest_table [proc_event ''a'' 1 0, proc_event ''b'' 2 1]))"
  using destinations_account_for_traffic [of "[proc_event ''a'' 1 0, proc_event ''b'' 2 1]"] by blast

text \<open>In the classifier table the hits of a classifier are the number of incidents of that
  classifier in the live session, so the numbers add up to the incidents shown.\<close>

theorem classifier_hits:
  "num_or0 (map_of (by_class es) c) = int (length (filter (\<lambda>e. dlp_class e = c) es)) \<and>
   (\<Sum>(k, n)\<leftarrow>by_class es. n) = int (length es)"
proof -
  have "num_or0 (map_of (fold (\<lambda>e m. obj_put (dlp_class e) (num_or0 (map_of m (dlp_class e)) + 1) m) es m) c) =
      num_or0 (map_of m c) + int (length (filter (\<lambda>e. dlp_class e = c) es))" for m
    by (induction es arbitrary: m) (auto simp: map_of_obj_put)
  moreover have "distinct (map fst m) \<Longrightarrow>
      (\<Sum>(k, n)\<leftarrow>fold (\<lambda>e m. obj_put (dlp_class e) (num_or0 (map_of m (dlp_class e)) + 1) m) es m. n) =
      (\<Sum>(k, n)\<leftarrow>m. n) + int (length es)" for m
  proof (induction es arbitrary: m)
    case (Cons e es)
    have "(\<Sum>(k, n)\<leftarrow>obj_put (dlp_class e) (num_or0 (map_of m (dlp_class e)) + 1) m. n) = (\<Sum>(k, n)\<leftarrow>m. n) + 1"
      unfolding sum_obj_put [OF Cons.prems, where f = "\<lambda>n. n"] by (simp split: option.splits)
    with Cons.IH [OF distinct_obj_put [OF Cons.prems]] show ?case by simp
  qed simp
  ultimately show ?thesis by (simp add: by_class_def)
qed

end
