(* ===== verification/ControlPages.thy ===== *)
theory ControlPages
  imports Pages
begin

section \<open>Pages: response actions, detection rules, settings\<close>

text \<open>Models \<open>web/src/pages/Responses.tsx\<close>, \<open>Rules.tsx\<close> and \<open>Settings.tsx\<close>.\<close>

subsection \<open>Responses\<close>

definition TYPE_LABEL :: "(string \<times> string) list" where
  "TYPE_LABEL =
     [(''kill_process'', ''Kill Process''), (''isolate'', ''Isolate Endpoint''), (''unisolate'', ''Lift Isolation''),
      (''disable_account'', ''Disable Account''), (''block_upload'', ''Block Upload''), (''block_usb'', ''Block USB'')]"

record responses_state =
  rs_q :: string
  rs_src :: string

datatype responses_msg = RpQuery string | RpSrc string

definition responses0 :: responses_state where
  "responses0 = \<lparr>rs_q = [], rs_src = ''all''\<rparr>"

fun responses_update :: "responses_msg \<Rightarrow> responses_state \<Rightarrow> responses_state" where
  "responses_update (RpQuery q) s = s\<lparr>rs_q := q\<rparr>"
| "responses_update (RpSrc v) s = s\<lparr>rs_src := v\<rparr>"

fun js_show :: "json \<Rightarrow> string" where
  \<comment> \<open>a JSON value inside a template literal\<close>
  "js_show JNull = ''null''"
| "js_show (JBool b) = (if b then ''true'' else ''false'')"
| "js_show (JNum n) = show_int n"
| "js_show (JStr s) = s"
| "js_show (JArr xs) = join '','' (map (\<lambda>x. case x of JNull \<Rightarrow> [] | y \<Rightarrow> js_show y) xs)"
| "js_show (JObj ps) = ''[object Object]''"

definition target_str :: "(string \<times> json) list option \<Rightarrow> string" where
  "target_str t = (case t of None \<Rightarrow> u_dash | Some ps \<Rightarrow> str_or (Some (join '' '' (map (\<lambda>(k, v). k @ ''='' @ js_show v) ps))) u_dash)"

definition opt_field :: "string option \<Rightarrow> cell" where
  "opt_field x = (case x of None \<Rightarrow> CNone | Some t \<Rightarrow> CStr t)"

definition response_rows :: "responses_state \<Rightarrow> response_action list \<Rightarrow> response_action list" where
  "response_rows s responses =
     filter (\<lambda>r. (rs_src s = ''all'' \<or> (if rs_src s = ''auto'' then re_automated r else \<not> re_automated r)) \<and>
       match_text (rs_q s) [CStr (re_hostname r), CStr (re_type r), opt_field (map_of TYPE_LABEL (re_type r)), CStr (re_issued_by r),
         CStr (re_reason r), opt_field (re_result r), CStr (target_str (re_target r))]) responses"

definition auto_count :: "response_action list \<Rightarrow> nat" where
  "auto_count rs = length (filter re_automated rs)"

definition status_count :: "string \<Rightarrow> response_action list \<Rightarrow> nat" where
  "status_count st rs = length (filter (\<lambda>r. re_status r = st) rs)"

definition resp_status :: "string \<Rightarrow> 'm node" where
  "resp_status s =
     (let c = (if s = ''completed'' then ''var(--signal)'' else if s = ''failed'' then ''var(--crit)''
               else if s = ''pending'' then ''var(--med)'' else ''var(--ink-dim)'')
      in el ''span'' [cls ''chip'', sty (''color: '' @ c @ ''; border-color: '' @ c)] [Txt s])"

definition response_row :: "env \<Rightarrow> response_action \<Rightarrow> 'm node" where
  "response_row env r =
     el ''tr'' [(''key'', re_id r), cls ''row-enter'']
       [td [cls ''mono dim''] [Txt (ago (en_now env) (re_ts r))],
        td [cls ''mono''] [Txt (str_or (map_of TYPE_LABEL (re_type r)) (re_type r))],
        td [cls ''mono dim''] [Txt (target_str (re_target r))],
        td [] [Txt (re_hostname r)],
        td [] [if re_automated r then spanc ''chip lime'' [Txt ''auto''] else spanc ''chip'' [Txt ''manual'']],
        td [cls ''dim''] [Txt (re_issued_by r)],
        td [] [resp_status (re_status r)],
        td ([cls ''dim'', sty ''max-width: 280px; white-space: nowrap; overflow: hidden; text-overflow: ellipsis''] @ opt_attr ''title'' (re_result r))
          [opt_txt (re_result r)]]"

definition responses_view :: "env \<Rightarrow> response_action list \<Rightarrow> responses_state \<Rightarrow> responses_msg node" where
  "responses_view env responses s =
     (let auto = auto_count responses; completed = status_count ''completed'' responses; failed = status_count ''failed'' responses;
          rows = response_rows s responses
      in el ''div'' [cls ''grid'', sty ''gap: 18px'']
        [divc ''grid cols-4''
           [stat ''Total Responses'' (num_txt (int (length responses))) (Some (note_span ''this session'')) False (Some ''#c6ff3a''),
            stat ''Automated'' (num_txt (int auto)) (Some (note_span ''rule-triggered'')) False (Some ''#34e3d4''),
            stat ''Completed'' (num_txt (int completed)) (Some (note_span ''acknowledged by agent'')) False None,
            stat ''Failed'' (num_txt (int failed)) (Some (note_span ''need attention'')) (failed > 0) None],
         divc ''toolbar''
           [segmented (rs_src s) RpSrc
              [\<lparr>so_value = ''all'', so_label = ''All'', so_count = Some (int (length responses)), so_dot = None\<rparr>,
               \<lparr>so_value = ''auto'', so_label = ''Automated'', so_count = Some (int auto), so_dot = None\<rparr>,
               \<lparr>so_value = ''manual'', so_label = ''Manual'', so_count = Some (int (length responses) - int auto), so_dot = None\<rparr>],
            search_input (rs_q s) RpQuery (Some (''Filter by host, action, issuer, result'' @ u_ellipsis)) (Some 300),
            flex_gap,
            spanc ''chip'' [num_txt (int (length rows)), Txt '' shown'']],
         panel (Some ''RESPONSE ACTIONS'')
           (Some (''Monitor '' @ u_right @ '' Detect '' @ u_right @ '' Prevent '' @ u_right @ '' Respond'')) Null None
           [divc ''table-wrap scroll''
              [el ''table'' [cls ''table'']
                 [head_row [''Time'', ''Action'', ''Target'', ''Host'', ''Source'', ''Issued By'', ''Status'', ''Result''],
                  el ''tbody'' [] (map (response_row env) rows)],
               only_if (rows = [])
                 (divc ''empty'' [Txt (if responses = [] then ''no response actions yet'' else ''no actions match this filter'')])]]])"

subsection \<open>Rules\<close>

record rules_state =
  rl_rules :: "rule list"
  rl_q :: string

datatype rules_msg = RuQuery string | RuLoaded "rule list option"

definition rules_mount :: api_call where
  "rules_mount = api_rules"

fun rules_update :: "rules_msg \<Rightarrow> rules_state \<Rightarrow> rules_state" where
  "rules_update (RuQuery q) s = s\<lparr>rl_q := q\<rparr>"
| "rules_update (RuLoaded r) s = s\<lparr>rl_rules := or_empty r\<rparr>"

definition rule_text :: "rule \<Rightarrow> string" where
  "rule_text r = ru_Title r @ '' '' @ ru_ID r @ '' '' @ ru_Tactic r @ '' '' @ join '' '' (or_empty (ru_MITRE r))"

definition rule_rows :: "rules_state \<Rightarrow> rule list" where
  "rule_rows s = filter (\<lambda>r. rl_q s = [] \<or> js_includes (to_lower (rule_text r)) (to_lower (rl_q s))) (rl_rules s)"

definition rules_with_response :: "rule list \<Rightarrow> nat" where
  "rules_with_response rs = length (filter (\<lambda>r. ru_AutoRespond r \<noteq> []) rs)"

definition tactic_count_of :: "rule list \<Rightarrow> nat" where
  \<comment> \<open>\<open>new Set(...).size\<close> of the non-empty tactics\<close>
  "tactic_count_of rs = length (remdups (filter (\<lambda>t. t \<noteq> []) (map ru_Tactic rs)))"

definition rule_row :: "rule \<Rightarrow> 'm node" where
  "rule_row r =
     el ''tr'' [(''key'', ru_ID r)]
       [td [] [sev_tag (ru_Severity r)],
        td [] [divc ''mono'' [Txt (ru_Title r)], el ''div'' [cls ''dim'', sty ''font-size: 11px''] [Txt (ru_ID r)]],
        td [] [spanc ''chip'' [Txt (ru_Category r)]],
        td [cls ''dim''] [Txt (str_or (Some (ru_Tactic r)) u_dash)],
        td [] [mitre (ru_MITRE r)],
        td [] [if ru_AutoRespond r \<noteq> [] then spanc ''chip lime'' [Txt (ru_AutoRespond r)] else dim_dash]]"

definition rules_view :: "rules_state \<Rightarrow> rules_msg node" where
  "rules_view s =
     (let rows = rule_rows s; rules = rl_rules s in
      el ''div'' [cls ''grid'', sty ''gap: 18px'']
        [divc ''grid cols-4''
           [stat ''Detection Rules'' (num_txt (int (length rules))) (Some (note_span ''Sigma-style'')) False (Some ''#c6ff3a''),
            stat ''ATT&CK Tactics'' (num_txt (int (tactic_count_of rules))) (Some (note_span ''covered'')) False (Some ''#8b7bff''),
            stat ''Auto-Response'' (num_txt (int (rules_with_response rules))) (Some (note_span ''rules with actions'')) False (Some ''#34e3d4''),
            stat ''Behavioral'' (num_txt 4) (Some (note_span ''correlation rules'')) False None],
         divc ''toolbar''
           [Elem ''input'' [cls ''input'', (''placeholder'', ''Search rules, tactics, technique IDs'' @ u_ellipsis), (''value'', rl_q s), sty ''min-width: 320px'']
              [OnValue ''change'' RuQuery] [],
            spanc ''chip'' [num_txt (int (length rows)), Txt '' rules'']],
         panel (Some ''DETECTION RULE CATALOG'') (Some (''log-source agnostic '' @ u_middot @ '' MITRE ATT&CK mapped'')) Null None
           [divc ''table-wrap scroll''
              [el ''table'' [cls ''table'']
                 [head_row [''Sev'', ''Rule'', ''Category'', ''Tactic'', ''ATT&CK'', ''Auto-Response''],
                  el ''tbody'' [] (map rule_row rows)]]]])"

subsection \<open>Settings\<close>

datatype settings_msg =
    StDownload string string string
  | StDownloaded string "string + nat"

definition export_request :: "session \<Rightarrow> string \<Rightarrow> string \<Rightarrow> request" where
  "export_request s kind format =
     \<lparr>rq_method = ''GET'', rq_url = ''/api/v1/siem/export?kind='' @ kind @ ''&format='' @ format,
      rq_headers = (if truthy (get_token s) then [(''Authorization'', ''Bearer '' @ the (get_token s))] else []),
      rq_body = None, rq_cache = None\<rparr>"

fun settings_update :: "session \<Rightarrow> settings_msg \<Rightarrow> effect list" where
  \<comment> \<open>\<open>Download\<close> is the request; a 2xx reply is saved under the name by the browser\<close>
  "settings_update ses (StDownload kind format filename) = [Download (export_request ses kind format) filename]"
| "settings_update ses (StDownloaded filename r) =
     (case r of
        Inl e \<Rightarrow> [ShowToast (''export failed: '' @ e) True]
      | Inr st \<Rightarrow>
          if 200 \<le> st \<and> st < 300 then [ShowToast (''exported '' @ filename) False]
          else [ShowToast (''export failed: Error: HTTP '' @ show_nat st) True])"

definition arch_card :: "string \<Rightarrow> string \<Rightarrow> 'm node" where
  "arch_card title body =
     el ''div'' [sty ''background: var(--bg-2); border: 1px solid var(--line); border-radius: 10px; padding: 16px'']
       [el ''div'' [sty ''font-family: var(--mono); font-size: 12px; color: var(--signal); letter-spacing: 0.08em; margin-bottom: 8px''] [Txt title],
        el ''div'' [sty ''font-size: 12.5px; color: var(--ink-dim); line-height: 1.55''] [Txt body]]"

definition export_button :: "string \<Rightarrow> string \<Rightarrow> string \<Rightarrow> string \<Rightarrow> settings_msg node" where
  "export_button kind format filename label =
     Elem ''button'' [cls ''btn''] [On ''click'' (StDownload kind format filename)] [Txt ([CHR 0xE2, CHR 0x86, CHR 0xA7] @ '' '' @ label)]"

definition settings_view :: "session \<Rightarrow> settings_msg node" where
  "settings_view ses =
     el ''div'' [cls ''grid cols-2'', sty ''gap: 18px'']
       [panel (Some ''SIEM INTEGRATION'') (Some (''forward to Splunk '' @ u_middot @ '' Elastic '' @ u_middot @ '' QRadar'')) Null None
          [el ''p'' [sty ''color: var(--ink-dim); font-size: 13px; margin-top: 0'']
             [Txt ''Export normalized telemetry in standard formats for cross-source correlation in your enterprise SIEM.''],
           el ''div'' [sty ''display: flex; flex-direction: column; gap: 10px'']
             [export_button ''events'' ''cef'' ''sentinel-events.cef'' (''Events '' @ u_dash @ '' ArcSight CEF (syslog)''),
              export_button ''events'' ''ecs'' ''sentinel-events-ecs.ndjson'' (''Events '' @ u_dash @ '' Elastic Common Schema (ECS)''),
              export_button ''detections'' ''cef'' ''sentinel-detections.cef'' (''Detections '' @ u_dash @ '' ArcSight CEF'')],
           el ''p'' [sty ''color: var(--ink-faint); font-size: 11px; margin-top: 16px; font-family: var(--mono)'']
             [Txt ''Production forwarders should run from the exported CEF/ECS stream or a dedicated syslog/Kafka worker.'']],
        panel (Some ''SESSION'') (Some ''current operator'') Null None
          [el ''dl'' [cls ''kv'']
             [el ''dt'' [] [Txt ''Operator''], el ''dd'' [] [opt_txt (get_user ses)],
              el ''dt'' [] [Txt ''Role''], el ''dd'' [] [spanc ''chip lime'' [opt_txt (get_role ses)]],
              el ''dt'' [] [Txt ''Console''], el ''dd'' [] [Txt ''Sentinel v1.0''],
              el ''dt'' [] [Txt ''Auth''], el ''dd'' [] [Txt (''JWT '' @ u_middot @ '' HS256 '' @ u_middot @ '' 12h'')]]],
        panel (Some ''PLATFORM ARCHITECTURE'') (Some ''how it scales'') Null (Some ''span-2'')
          [el ''div'' [cls ''grid cols-3'', sty ''gap: 14px'']
             [arch_card ''Ingest Tier'' ''Stateless Go API behind a load balancer. Validates per-agent HMAC, publishes to NATS JetStream. Scale horizontally.'',
              arch_card ''Processing Tier'' ''Workers consume the durable bus: Sigma detection, DLP content inspection, behavioral correlation, auto-response.'',
              arch_card ''Storage Tier'' (''TimescaleDB hypertables '' @ u_dash @ '' time-partitioned, compressed, 90-day retention. Built for billions of events.''),
              arch_card ''Endpoint Agent'' ''Rust. Low-overhead collectors, local DLP, AES-256-GCM offline spool that replays on reconnect.'',
              arch_card ''Control Mesh'' (''NATS core routes containment commands to the gateway holding each agent'' @ [CHR 0x27] @ ''s WebSocket. mTLS-ready.''),
              arch_card ''Response'' (''Kill process '' @ u_middot @ '' isolate endpoint '' @ u_middot @ '' disable account '' @ u_middot @ '' block upload/USB '' @ u_dash @ '' automated or analyst-issued.'')]]]"

subsection \<open>Properties\<close>

text \<open>The three source tabs split the response log: with an empty filter the automated and the
  manual tab together show every action once, and each tab's count is the number of its rows.\<close>

theorem response_tabs_partition:
  "(\<forall>r. count (mset (response_rows \<lparr>rs_q = [], rs_src = ''auto''\<rparr> rs)) r + count (mset (response_rows \<lparr>rs_q = [], rs_src = ''manual''\<rparr> rs)) r =
      count (mset rs) r) \<and>
   response_rows \<lparr>rs_q = [], rs_src = ''all''\<rparr> rs = rs \<and>
   int (length (response_rows \<lparr>rs_q = [], rs_src = ''auto''\<rparr> rs)) = int (auto_count rs) \<and>
   int (length (response_rows \<lparr>rs_q = [], rs_src = ''manual''\<rparr> rs)) = int (length rs) - int (auto_count rs)"
proof -
  have a: "response_rows \<lparr>rs_q = [], rs_src = ''auto''\<rparr> rs = filter re_automated rs"
    and m: "response_rows \<lparr>rs_q = [], rs_src = ''manual''\<rparr> rs = filter (\<lambda>r. \<not> re_automated r) rs"
    and l: "response_rows \<lparr>rs_q = [], rs_src = ''all''\<rparr> rs = rs"
    by (simp_all add: response_rows_def match_text_def)
  have "length rs = length (filter re_automated rs) + length (filter (\<lambda>r. \<not> re_automated r) rs)"
    by (rule sum_length_filter_compl [symmetric])
  moreover have "count (mset (filter re_automated rs)) r + count (mset (filter (\<lambda>r. \<not> re_automated r) rs)) r = count (mset rs) r" for r
    by (induction rs) auto
  ultimately show ?thesis unfolding a m l by (simp add: auto_count_def)
qed

text \<open>A settings download asks only for the export endpoint, with the session's own token and
  nothing when there is none, and every outcome tells the operator whether a file was saved.\<close>

theorem export_is_authenticated:
  assumes "StDownload kind format filename \<in> set_node (settings_view ses)"
  shows "settings_update ses (StDownload kind format filename) = [Download (export_request ses kind format) filename] \<and>
    query_pairs (drop (length ''/api/v1/siem/export?'') (rq_url (export_request ses kind format))) = [(''kind'', kind), (''format'', format)] \<and>
    map_of (rq_headers (export_request ses kind format)) ''Authorization'' =
      (if truthy (sn_token ses) then Some (''Bearer '' @ the (sn_token ses)) else None) \<and>
    (\<forall>r. \<exists>t crit. settings_update ses (StDownloaded filename r) = [ShowToast t crit] \<and>
      (\<not> crit \<longleftrightarrow> (\<exists>st. r = Inr st \<and> 200 \<le> st \<and> st < 300)))"
proof -
  have o: "(kind, format) \<in> {(''events'', ''cef''), (''events'', ''ecs''), (''detections'', ''cef'')}"
    using assms by (auto simp: settings_view_def export_button_def arch_card_def)
  have "query_pairs (''kind='' @ kind @ ''&format='' @ format) = [(''kind'', kind), (''format'', format)]"
    using o by (auto simp: query_pairs_def)
  then show ?thesis
    by (auto simp: export_request_def get_token_def split: sum.splits)
qed

lemma export_is_authenticated_witness:
  "settings_update (set_session ''t'' ''u'' ''viewer'') (StDownload ''events'' ''cef'' ''sentinel-events.cef'') =
     [Download (export_request (set_session ''t'' ''u'' ''viewer'') ''events'' ''cef'') ''sentinel-events.cef'']"
  by (rule export_is_authenticated [THEN conjunct1]) (simp add: settings_view_def export_button_def)

end
