(* ===== verification/Ws.thy ===== *)
theory Ws
  imports Api
begin

section \<open>The live feed over WebSocket\<close>

text \<open>
  Models \<open>web/src/ws.ts\<close>. The hook's state: the socket it opened last and that socket's phase, the
  flag \<open>closed\<close>, whether the retry timer is pending, what \<open>connected\<close> shows, and how many sockets
  were opened. The platform's events are the messages of a step relation given as a function; an
  event that cannot happen in a state leaves it unchanged. \<open>close()\<close> moves a socket to the closing
  phase, and its \<open>onclose\<close> comes later, once.
\<close>

datatype sock_phase = NoSocket | Connecting | Open | Closing | Gone

record feed =
  fd_sock :: sock_phase
  fd_closed :: bool
  fd_retry :: bool
  fd_connected :: bool
  fd_opened :: nat

datatype 'm feed_event =
    FOpen
  | FClose
  | FError
  | FMessage "'m option"
  | FRetry
  | FUnmount

definition feed_url :: "bool \<Rightarrow> string \<Rightarrow> string" where
  "feed_url https host = (if https then ''wss'' else ''ws'') @ ''://'' @ host @ ''/ws''"

definition feed_protocols :: "session \<Rightarrow> string list" where
  "feed_protocols s = (if truthy (get_token s) then [''bearer'', the (get_token s)] else [])"

definition feed_connect :: "feed \<Rightarrow> feed" where
  "feed_connect f = f\<lparr>fd_sock := Connecting, fd_opened := fd_opened f + 1\<rparr>"

definition feed0 :: feed where
  "feed0 = feed_connect \<lparr>fd_sock = NoSocket, fd_closed = False, fd_retry = False, fd_connected = False, fd_opened = 0\<rparr>"

definition feed_close_socket :: "feed \<Rightarrow> feed" where
  "feed_close_socket f = (if fd_sock f \<in> {Connecting, Open} then f\<lparr>fd_sock := Closing\<rparr> else f)"

fun feed_step :: "'m feed_event \<Rightarrow> feed \<Rightarrow> feed \<times> 'm option" where
  "feed_step FOpen f = (if fd_sock f = Connecting then f\<lparr>fd_sock := Open, fd_connected := True\<rparr> else f, None)"
| "feed_step FClose f =
     (if fd_sock f \<in> {Connecting, Open, Closing}
      then f\<lparr>fd_sock := Gone, fd_connected := False, fd_retry := (if fd_closed f then fd_retry f else True)\<rparr>
      else f, None)"
| "feed_step FError f = (feed_close_socket f, None)"
| "feed_step (FMessage m) f = (f, if fd_sock f = Open then m else None)"
| "feed_step FRetry f = (if fd_retry f then feed_connect (f\<lparr>fd_retry := False\<rparr>) else f, None)"
| "feed_step FUnmount f = (feed_close_socket (f\<lparr>fd_closed := True, fd_retry := False\<rparr>), None)"

definition feed_run :: "'m feed_event list \<Rightarrow> feed \<Rightarrow> feed" where
  "feed_run es f = fold (\<lambda>e f. fst (feed_step e f)) es f"

definition feed_inv :: "feed \<Rightarrow> bool" where
  "feed_inv f \<longleftrightarrow>
     (fd_retry f \<longrightarrow> fd_sock f = Gone \<and> \<not> fd_closed f) \<and>
     (\<not> fd_closed f \<longrightarrow> fd_retry f \<or> fd_sock f \<in> {Connecting, Open, Closing}) \<and>
     (fd_closed f \<longrightarrow> fd_sock f \<in> {Closing, Gone}) \<and>
     (fd_connected f \<longrightarrow> fd_sock f \<in> {Open, Closing})"

lemma feed_inv_step: "feed_inv f \<Longrightarrow> feed_inv (fst (feed_step e f))"
  by (cases e; cases "fd_sock f") (auto simp: feed_inv_def feed_connect_def feed_close_socket_def)

lemma feed_inv_run: "feed_inv f \<Longrightarrow> feed_inv (feed_run es f)"
  unfolding feed_run_def by (induction es arbitrary: f) (simp_all add: feed_inv_step)

lemma feed_inv_init: "feed_inv feed0"
  by (simp add: feed_inv_def feed0_def feed_connect_def)

lemma closed_step: "feed_inv f \<Longrightarrow> fd_closed f \<Longrightarrow> fd_closed (fst (feed_step e f)) \<and> fd_opened (fst (feed_step e f)) = fd_opened f"
  by (cases e) (auto simp: feed_inv_def feed_close_socket_def)

lemma closed_run: "feed_inv f \<Longrightarrow> fd_closed f \<Longrightarrow> fd_closed (feed_run es f) \<and> fd_opened (feed_run es f) = fd_opened f"
proof (induction es arbitrary: f)
  case (Cons e es)
  with closed_step [of f e] feed_inv_step [of f e] show ?case by (simp add: feed_run_def)
qed (simp add: feed_run_def)

lemma feed_run_append: "feed_run (es @ fs) f = feed_run fs (feed_run es f)"
  by (simp add: feed_run_def)

subsection \<open>Properties\<close>

text \<open>C40: while the console is mounted the feed never gives up: in every history either a socket is
  alive or closing, or a retry is pending, and never both, so there is at most one connection; it
  is shown as connected only while its socket is not gone; and after unmounting no socket is ever
  opened again.\<close>

theorem feed_always_reconnects:
  fixes es fs :: "'m feed_event list"
  shows "(\<not> fd_closed (feed_run es feed0) \<longrightarrow>
      (fd_retry (feed_run es feed0) \<longleftrightarrow> fd_sock (feed_run es feed0) = Gone)) \<and>
   (fd_connected (feed_run es feed0) \<longrightarrow> fd_sock (feed_run es feed0) \<in> {Open, Closing}) \<and>
   fd_opened (feed_run (es @ FUnmount # fs) feed0) = fd_opened (feed_run es feed0) \<and>
   \<not> fd_retry (feed_run (es @ FUnmount # fs) feed0)"
proof -
  let ?f = "feed_run es feed0"
  have i: "feed_inv ?f" by (rule feed_inv_run [OF feed_inv_init])
  let ?u = "fst (feed_step (FUnmount :: 'm feed_event) ?f)"
  have u: "feed_inv ?u" "fd_closed ?u" "fd_opened ?u = fd_opened ?f"
    using feed_inv_step [OF i, of "FUnmount :: 'm feed_event"] by (simp_all add: feed_close_socket_def)
  have r: "feed_run (es @ FUnmount # fs) feed0 = feed_run fs ?u" by (simp add: feed_run_def)
  have "fd_opened (feed_run fs ?u) = fd_opened ?f" and c: "fd_closed (feed_run fs ?u)"
    using closed_run [OF u(1,2)] u(3) by auto
  moreover have "\<not> fd_retry (feed_run fs ?u)"
    using c feed_inv_run [OF u(1)] by (auto simp: feed_inv_def)
  ultimately show ?thesis
    unfolding r using i by (auto simp: feed_inv_def)
qed

lemma feed_always_reconnects_witness:
  "fd_retry (feed_run [FOpen, FError, FClose :: bool feed_event] feed0) \<longleftrightarrow>
     fd_sock (feed_run [FOpen, FError, FClose :: bool feed_event] feed0) = Gone"
proof -
  have "\<not> fd_closed (feed_run [FOpen, FError, FClose :: bool feed_event] feed0)"
    by (simp add: feed_run_def feed0_def feed_connect_def feed_close_socket_def)
  with feed_always_reconnects [of "[FOpen, FError, FClose :: bool feed_event]" "[]"] show ?thesis by blast
qed

end
