(* ===== verification/Shell.thy ===== *)
theory Shell
  imports EventsPage EndpointsPage DetectionsPage CasesPage ReportPages ControlPages Ws
begin

section \<open>The application: sign-in, routes, layout\<close>

text \<open>
  Models \<open>web/src/App.tsx\<close> and \<open>web/src/Layout.tsx\<close>: which screen is shown, the sign-in form, the
  navigation with its badges, the top bar, the toasts and the \<open>/\<close> shortcut. The page inside the
  layout is a tree of its own message type; a route names it.
\<close>

subsection \<open>Sign-in\<close>

record login_state =
  lg_user :: string
  lg_pass :: string
  lg_err :: string
  lg_busy :: bool

datatype login_msg =
    LgUser string
  | LgPass string
  | LgSubmit
  | LgDone "string + string \<times> string \<times> string"

definition login0 :: login_state where
  "login0 = \<lparr>lg_user = ''admin'', lg_pass = [], lg_err = [], lg_busy = False\<rparr>"

definition login_failed :: string where
  "login_failed = ''Authentication failed. Check credentials.''"

fun login_update :: "login_msg \<Rightarrow> login_state \<Rightarrow> login_state \<times> effect list \<times> bool" where
  \<comment> \<open>the last component: \<open>onAuthed\<close> is called\<close>
  "login_update (LgUser u) s = (s\<lparr>lg_user := u\<rparr>, [], False)"
| "login_update (LgPass p) s = (s\<lparr>lg_pass := p\<rparr>, [], False)"
| "login_update LgSubmit s =
     (s\<lparr>lg_busy := True, lg_err := []\<rparr>, [Call (api_login (lg_user s) (lg_pass s))], False)"
| "login_update (LgDone r) s =
     (case r of
        Inr (token, user, role) \<Rightarrow> (s\<lparr>lg_busy := False\<rparr>, [SetSession token user role], True)
      | Inl e \<Rightarrow> (s\<lparr>lg_err := login_failed, lg_busy := False\<rparr>, [], False))"

definition brand :: "string \<Rightarrow> (string \<times> string) list \<Rightarrow> 'm node" where
  "brand sub as =
     el ''div'' (cls ''brand'' # as)
       [divc ''brand-mark'' [Txt ''S''],
        el ''div'' [] [divc ''brand-name'' [Txt ''SENTINEL''], divc ''brand-sub'' [Txt sub]]]"

definition login_view :: "login_state \<Rightarrow> login_msg node" where
  "login_view s = Frag
     [divc ''app-bg'' [],
      divc ''login-wrap''
        [divc ''panel login-card''
           [brand (''EDR '' @ u_middot @ '' DLP '' @ u_middot @ '' XDR'') [sty ''padding: 0''],
            el ''h1'' [] [Txt ''Operator Sign-In''],
            el ''p'' [] [Txt ''Linux Endpoint Monitoring & Response Console''],
            Elem ''form'' [] [On ''submit'' LgSubmit]
              [divc ''field''
                 [el ''label'' [] [Txt ''Operator''],
                  Elem ''input'' [cls ''input'', (''value'', lg_user s), (''autoFocus'', [])] [OnValue ''change'' LgUser] []],
               divc ''field''
                 [el ''label'' [] [Txt ''Passphrase''],
                  Elem ''input'' [cls ''input'', (''type'', ''password''), (''value'', lg_pass s),
                    (''placeholder'', concat (replicate 8 [CHR 0xE2, CHR 0x80, CHR 0xA2]))] [OnValue ''change'' LgPass] []],
               el ''button'' ([cls ''btn btn-primary'', sty ''width: 100%; justify-content: center; margin-top: 8px''] @ disabled_attr (lg_busy s))
                 [Txt (if lg_busy s then ''Authenticating'' @ u_ellipsis else ''Enter Console '' @ u_right)],
               only_if (lg_err s \<noteq> []) (divc ''login-err'' [Txt (lg_err s)])]]]]"

subsection \<open>Routes and screens\<close>

datatype page = POverview | PEndpoints | PEvents | PDetections | PCases | PDlp | PInternet | PResponses | PRules | PSettings

definition routes :: "(string \<times> page) list" where
  "routes =
     [(''/'', POverview), (''/endpoints'', PEndpoints), (''/events'', PEvents), (''/detections'', PDetections),
      (''/cases'', PCases), (''/dlp'', PDlp), (''/internet'', PInternet), (''/responses'', PResponses),
      (''/rules'', PRules), (''/settings'', PSettings)]"

definition route :: "string \<Rightarrow> page + string" where
  \<comment> \<open>\<open>Inr\<close> is a redirect\<close>
  "route path = (case map_of routes path of Some p \<Rightarrow> Inl p | None \<Rightarrow> Inr ''/'')"

datatype screen = ShowLogin | ShowConsole "page + string"

definition app_start :: "session \<Rightarrow> bool" where
  "app_start ses = truthy (get_user ses)"

definition app_screen :: "bool \<Rightarrow> string \<Rightarrow> screen" where
  "app_screen authed path = (if \<not> authed then ShowLogin else ShowConsole (route path))"

subsection \<open>Layout\<close>

record nav_item =
  nv_to :: string
  nv_icon :: string
  nv_label :: string
  nv_section :: "string option"

definition NAV :: "nav_item list" where
  "NAV =
     [\<lparr>nv_to = ''/'', nv_icon = [CHR 0xE2, CHR 0x97, CHR 0x8E], nv_label = ''Overview'', nv_section = Some ''Operations''\<rparr>,
      \<lparr>nv_to = ''/endpoints'', nv_icon = [CHR 0xE2, CHR 0x9B, CHR 0x82], nv_label = ''Endpoints'', nv_section = None\<rparr>,
      \<lparr>nv_to = ''/events'', nv_icon = [CHR 0xE2, CHR 0x89, CHR 0xA1], nv_label = ''Event Stream'', nv_section = None\<rparr>,
      \<lparr>nv_to = ''/detections'', nv_icon = [CHR 0xE2, CHR 0x9A, CHR 0xA0], nv_label = ''Detections'', nv_section = Some ''Threat''\<rparr>,
      \<lparr>nv_to = ''/cases'', nv_icon = [CHR 0xE2, CHR 0x96, CHR 0xA4], nv_label = ''Cases'', nv_section = None\<rparr>,
      \<lparr>nv_to = ''/dlp'', nv_icon = [CHR 0xE2, CHR 0x9C, CHR 0xA6], nv_label = ''Data Loss (DLP)'', nv_section = None\<rparr>,
      \<lparr>nv_to = ''/internet'', nv_icon = [CHR 0xE2, CHR 0x97, CHR 0x88], nv_label = ''Internet / Web'', nv_section = None\<rparr>,
      \<lparr>nv_to = ''/responses'', nv_icon = [CHR 0xE2, CHR 0x8A, CHR 0x98], nv_label = ''Response'', nv_section = Some ''Control''\<rparr>,
      \<lparr>nv_to = ''/rules'', nv_icon = [CHR 0xE2, CHR 0x9D, CHR 0x96], nv_label = ''Detection Rules'', nv_section = None\<rparr>,
      \<lparr>nv_to = ''/settings'', nv_icon = [CHR 0xE2, CHR 0x9A, CHR 0x99], nv_label = ''SIEM / Settings'', nv_section = None\<rparr>]"

datatype shell_msg = ShNav string | ShDismiss string | ShLogout

definition open_crit :: "detection list \<Rightarrow> nat" where
  "open_crit ds = length (filter (\<lambda>d. de_status d = ''open'' \<and> (de_severity d = ''critical'' \<or> de_severity d = ''high'')) ds)"

definition open_cases :: "case_rec list \<Rightarrow> nat" where
  "open_cases cs = length (filter (\<lambda>c. ca_status c \<noteq> ''closed'') cs)"

definition nav_active :: "string \<Rightarrow> string \<Rightarrow> bool" where
  \<comment> \<open>\<open>NavLink\<close>: an exact match, or a prefix segment except for the root link\<close>
  "nav_active to path = (path = to \<or> (to \<noteq> ''/'' \<and> starts_with path (to @ ''/'')))"

definition nav_node :: "string \<Rightarrow> nat \<Rightarrow> nat \<Rightarrow> nav_item \<Rightarrow> shell_msg node" where
  "nav_node path crit cases n =
     el ''div'' [(''key'', nv_to n)]
       [only_if (truthy (nv_section n)) (divc ''nav-section'' [opt_txt (nv_section n)]),
        Elem ''NavLink'' [(''to'', nv_to n), cls (''nav-item'' @ (if nav_active (nv_to n) path then '' active'' else []))]
          [On ''click'' (ShNav (nv_to n))]
          [spanc ''ico'' [Txt (nv_icon n)],
           Txt (nv_label n),
           only_if (nv_to n = ''/detections'' \<and> crit > 0) (spanc ''nav-badge'' [num_txt (int crit)]),
           only_if (nv_to n = ''/cases'' \<and> cases > 0) (spanc ''nav-badge'' [num_txt (int cases)])]]"

definition topbar :: "int \<Rightarrow> bool \<Rightarrow> string \<Rightarrow> string \<Rightarrow> shell_msg node" where
  "topbar now connected user role =
     divc ''topbar''
       [el ''div'' []
          [divc ''page-kicker'' [Txt ''Security Operations Center''],
           el ''h1'' [cls ''page-title''] [Txt ''Command Console'']],
        divc ''topbar-spacer'' [],
        spanc ''live-pill''
          [spanc (''dot'' @ (if connected then '' on'' else [])) [],
           Txt (if connected then ''Live'' else ''Offline'')],
        spanc ''clock'' [Txt (utc_clock now @ '' UTC'')],
        divc ''user-chip''
          [divc ''avatar'' [Txt (to_upper (slice 0 1 user))],
           el ''div'' []
             [el ''div'' [sty ''color: var(--ink)''] [Txt user],
              el ''div'' [sty ''font-size: 10px; color: var(--ink-faint); font-family: var(--mono); text-transform: uppercase; letter-spacing: 0.12em'']
                [Txt role]],
           Elem ''button'' [cls ''btn btn-ghost btn-sm'', sty ''margin-left: 8px''] [On ''click'' ShLogout] [Txt ''Exit'']]]"

definition toast_node :: "toast \<Rightarrow> shell_msg node" where
  "toast_node t =
     el ''div'' [(''key'', to_id t), cls (''toast'' @ (if to_crit t then '' crit'' else []))]
       [spanc ''dot on'' [],
        el ''span'' [sty ''flex: 1''] [Txt (to_text t)],
        Elem ''button'' [cls ''toast-close'', (''title'', ''Dismiss''), (''aria-label'', ''Dismiss'')] [On ''click'' (ShDismiss (to_id t))] [Txt u_cross]]"

definition layout_view :: "int \<Rightarrow> string \<Rightarrow> session \<Rightarrow> bool \<Rightarrow> store \<Rightarrow> shell_msg node \<Rightarrow> shell_msg node" where
  "layout_view now path ses connected st children =
     (let crit = open_crit (st_detections st); cases = open_cases (st_cases st);
          user = str_or (get_user ses) ''operator''; role = str_or (get_role ses) ''viewer''
      in Frag
       [divc ''app-bg'' [],
        divc ''shell''
          [el ''aside'' [cls ''sidebar scroll'']
             ([brand (''EDR '' @ u_middot @ '' DLP'') []] @ map (nav_node path crit cases) NAV @
              [divc ''sidebar-foot'' [Txt (''v1.0 '' @ u_middot @ '' '' @ (if connected then ''stream live'' else ''reconnecting'' @ u_ellipsis))]]),
           el ''main'' [cls ''main scroll'']
             [topbar now connected user role, divc ''content'' [children]]],
        divc ''toasts'' (map toast_node (st_toasts st))])"

fun shell_update :: "shell_msg \<Rightarrow> store \<Rightarrow> store \<times> effect list \<times> bool" where
  \<comment> \<open>the last component: \<open>onLogout\<close> is called\<close>
  "shell_update (ShNav p) st = (st, [GoTo p], False)"
| "shell_update (ShDismiss i) st = (dismiss_toast i st, [], False)"
| "shell_update ShLogout st = (st, [ClearSession], True)"

definition slash_key :: "string \<Rightarrow> bool \<Rightarrow> string option \<Rightarrow> bool \<Rightarrow> bool" where
  \<comment> \<open>whether the shortcut focuses the filter box: the key, any modifier, the target's tag, a box exists\<close>
  "slash_key key modifier tag box =
     (if key \<noteq> ''/'' \<or> modifier then False
      else if (case tag of None \<Rightarrow> False | Some t \<Rightarrow> t \<in> {''INPUT'', ''TEXTAREA'', ''SELECT''}) then False
      else box)"

subsection \<open>The application as a whole\<close>

record app =
  ap_session :: session
  ap_authed :: bool
  ap_login :: login_state
  ap_store :: store

datatype app_event =
    ALogin login_msg
  | AShell shell_msg
  | AReply string response
  | AReload

fun app_effect :: "effect \<Rightarrow> app \<Rightarrow> app" where
  "app_effect (SetSession t u r) a = a\<lparr>ap_session := set_session t u r\<rparr>"
| "app_effect ClearSession a = a\<lparr>ap_session := fst (clear_session (ap_session a))\<rparr>"
| "app_effect _ a = a"

fun app_step :: "app_event \<Rightarrow> app \<Rightarrow> app" where
  \<comment> \<open>a reply to any request of the pages goes through \<open>req_done\<close>; a reload starts over from the
    stored user, without the token that was only in memory\<close>
  "app_step (ALogin m) a =
     (if ap_authed a then a
      else (let (s, es, ok) = login_update m (ap_login a) in
        (fold app_effect es (a\<lparr>ap_login := s\<rparr>))\<lparr>ap_authed := ok\<rparr>))"
| "app_step (AShell m) a =
     (if \<not> ap_authed a then a
      else (let (st, es, out) = shell_update m (ap_store a) in
        (fold app_effect es (a\<lparr>ap_store := st\<rparr>))\<lparr>ap_authed := \<not> out\<rparr>))"
| "app_step (AReply path r) a = a\<lparr>ap_session := fst (req_done path r (ap_session a))\<rparr>"
| "app_step AReload a =
     (let ses = (ap_session a)\<lparr>sn_token := None\<rparr>
      in a\<lparr>ap_session := ses, ap_authed := app_start ses, ap_login := login0, ap_store := store0\<rparr>)"

definition app_run :: "app_event list \<Rightarrow> app \<Rightarrow> app" where
  "app_run es a = fold app_step es a"

definition app0 :: app where
  "app0 = \<lparr>ap_session = \<lparr>sn_token = None, sn_user = None, sn_role = None\<rparr>, ap_authed = False, ap_login = login0, ap_store = store0\<rparr>"

definition good_login :: "app_event \<Rightarrow> bool" where
  "good_login e = (\<exists>t u r. e = ALogin (LgDone (Inr (t, u, r))))"

subsection \<open>Lemmas\<close>

lemma app_step_locked:
  assumes "\<not> good_login e" and "\<not> ap_authed a" and "\<not> truthy (sn_user (ap_session a))"
  shows "\<not> ap_authed (app_step e a) \<and> \<not> truthy (sn_user (ap_session (app_step e a)))"
proof (cases e)
  case (ALogin m)
  then show ?thesis
    using assms by (cases m) (auto simp: good_login_def split: sum.splits)
next
  case (AReply path r)
  then show ?thesis using assms by (auto simp: req_done_def clear_session_def Let_def)
qed (use assms in \<open>auto simp: app_start_def get_user_def\<close>)

lemma app_locked:
  assumes "\<forall>e\<in>set es. \<not> good_login e" and "\<not> ap_authed a" and "\<not> truthy (sn_user (ap_session a))"
  shows "\<not> ap_authed (app_run es a)"
  using assms
proof (induction es arbitrary: a)
  case (Cons e es)
  from app_step_locked [of e a] Cons.prems have "\<not> ap_authed (app_step e a)" "\<not> truthy (sn_user (ap_session (app_step e a)))"
    by auto
  with Cons.IH [of "app_step e a"] Cons.prems(1) show ?case by (simp add: app_run_def)
qed (simp add: app_run_def)

lemma app_run_Nil [simp]: "app_run [] a = a"
  and app_run_Cons [simp]: "app_run (e # es) a = app_run es (app_step e a)"
  and app_run_append: "app_run (es @ fs) a = app_run fs (app_run es a)"
  by (simp_all add: app_run_def)

definition user_means_authed :: "app \<Rightarrow> bool" where
  "user_means_authed a \<longleftrightarrow> (truthy (sn_user (ap_session a)) \<longrightarrow> ap_authed a)"

lemma user_means_authed_step: "user_means_authed a \<Longrightarrow> user_means_authed (app_step e a)"
proof (cases e)
  case (ALogin m)
  assume "user_means_authed a"
  with ALogin show ?thesis by (cases m) (auto simp: user_means_authed_def split: sum.splits)
next
  case (AShell m)
  assume "user_means_authed a"
  with AShell show ?thesis by (cases m) (auto simp: user_means_authed_def clear_session_def)
qed (auto simp: user_means_authed_def req_done_def clear_session_def app_start_def get_user_def Let_def)

lemma user_means_authed_run: "user_means_authed a \<Longrightarrow> user_means_authed (app_run es a)"
  by (induction es arbitrary: a) (simp_all add: user_means_authed_step)

lemma logout_locks:
  assumes "user_means_authed a"
  shows "\<not> ap_authed (app_step (AShell ShLogout) a) \<and> \<not> truthy (sn_user (ap_session (app_step (AShell ShLogout) a)))"
  using assms by (auto simp: user_means_authed_def clear_session_def)

lemma reload_after_401_locks:
  assumes "rs_status r = 401"
  shows "\<not> ap_authed (app_step AReload (app_step (AReply p r) a)) \<and>
    \<not> truthy (sn_user (ap_session (app_step AReload (app_step (AReply p r) a))))"
  using assms by (simp add: req_done_def clear_session_def app_start_def get_user_def Let_def)

lemma nav_matches_routes: "map nv_to NAV = map fst routes"
  by (simp add: NAV_def routes_def)

subsection \<open>Properties\<close>

text \<open>C8: the console is shown only after a sign-in the server accepted: from a fresh tab no sequence
  of clicks, replies and reloads without one leaves the sign-in screen, and after Exit, or after a
  401 and the reload it causes, the sign-in screen is back whatever came before.\<close>

theorem console_needs_login:
  assumes "\<forall>e\<in>set es. \<not> good_login e" and "rs_status r = 401"
  shows "app_screen (ap_authed (app_run es app0)) path = ShowLogin \<and>
    app_screen (ap_authed (app_run (fs @ [AShell ShLogout] @ es) app0)) path = ShowLogin \<and>
    app_screen (ap_authed (app_run (fs @ [AReply p r, AReload] @ es) app0)) path = ShowLogin"
proof -
  have fresh: "\<not> ap_authed (app_run es app0)" by (rule app_locked [OF assms(1)]) (simp_all add: app0_def)
  have "user_means_authed (app_run fs app0)"
    by (rule user_means_authed_run) (simp add: user_means_authed_def app0_def)
  from logout_locks [OF this] have out: "\<not> ap_authed (app_run es (app_step (AShell ShLogout) (app_run fs app0)))"
    by (intro app_locked [OF assms(1)]) blast+
  have expired: "\<not> ap_authed (app_run es (app_step AReload (app_step (AReply p r) (app_run fs app0))))"
    using reload_after_401_locks [OF assms(2)] by (intro app_locked [OF assms(1)]) blast+
  show ?thesis
    unfolding app_screen_def app_run_append app_run_Cons app_run_Nil using fresh out expired by simp
qed

lemma console_needs_login_witness:
  "app_screen (ap_authed (app_run ([ALogin (LgDone (Inr (''t'', ''admin'', ''admin'')))] @
     [AReply ''/api/v1/agents'' \<lparr>rs_status = 401, rs_ctype = None, rs_body = []\<rparr>, AReload] @ [ALogin LgSubmit]) app0)) ''/'' = ShowLogin"
  by (rule console_needs_login [THEN conjunct2, THEN conjunct2]) (simp_all add: good_login_def)

end
