(* ===== verification/Investigate.thy ===== *)
theory Investigate
  imports Pages MitreDb LiveData Dates Filters
begin

section \<open>Investigation components of the Next.js console\<close>

text \<open>
  Models the presentational components under \<open>dashboard/components/\<close>: \<open>severity.tsx\<close>,
  \<open>mitre.tsx\<close>, \<open>lineage-tree.tsx\<close>, \<open>incident-summary.tsx\<close>, \<open>attack-story.tsx\<close>,
  \<open>page-title.tsx\<close> and \<open>sparkline.tsx\<close>. They keep no state: each is a function from its
  properties to a tree, whose messages are what the component hands to its callbacks. Class names
  that only choose an appearance are kept where the code computes them from the data. Icons of the
  icon library are elements of their own name.
\<close>

subsection \<open>Severity, status and chips\<close>

definition badge :: "(string \<times> string) list \<Rightarrow> 'm node list \<Rightarrow> 'm node" where
  "badge as ns = el ''Badge'' ((''variant'', ''outline'') # as) ns"

definition oklch_mix :: "string \<Rightarrow> string \<Rightarrow> string \<Rightarrow> string" where
  "oklch_mix c pc base = ''color-mix(in oklch, '' @ c @ '' '' @ pc @ '', '' @ base @ '')''"

definition dash_sev :: "string \<Rightarrow> 'm node" where
  "dash_sev s =
     (let c = sev_color s
      in badge [cls ''gap-1.5 font-mono text-[10px] uppercase tracking-wider'',
                sty (''color: '' @ oklch_mix c ''58%'' ''var(--foreground)'' @
                     ''; border-color: '' @ oklch_mix c ''40%'' ''transparent'' @
                     ''; background: '' @ oklch_mix c ''12%'' ''transparent'')]
           [el ''span'' [cls ''size-1.5 rounded-[2px]'', sty (''background: '' @ c)] [], Txt s])"

definition STATUS_DOT_COLOR :: "(string \<times> string) list" where
  "STATUS_DOT_COLOR =
     [(''online'', ''var(--signal)''),
      (''offline'', ''var(--sev-info)''),
      (''isolated'', ''var(--sev-critical)'')]"

definition status_dot :: "string \<Rightarrow> 'm node" where
  "status_dot status =
     (let c = str_or (map_of STATUS_DOT_COLOR status) ''var(--sev-info)''
      in spanc ''inline-flex items-center gap-2 font-mono text-xs capitalize''
           [el ''span'' [cls ''size-2 rounded-full'', sty (''background: '' @ c)] [], Txt status])"

definition chip :: "'m node list \<Rightarrow> string option \<Rightarrow> 'm node" where
  "chip children color =
     badge (cls ''font-mono text-[10px]'' #
        (if truthy color
         then [sty (''color: '' @ oklch_mix (the color) ''58%'' ''var(--foreground)'' @
                    ''; border-color: '' @ oklch_mix (the color) ''40%'' ''transparent'')]
         else []))
       children"

definition muted_dash :: "'m node" where
  "muted_dash = spanc ''text-muted-foreground'' [Txt u_dash]"

subsection \<open>Technique chips and the kill chain\<close>

definition mitre_title :: "string \<Rightarrow> string" where
  "mitre_title i =
     i @ '' '' @ u_middot @ '' '' @ technique_name i @
     (if truthy (technique_tactic i) then '' ('' @ the (technique_tactic i) @ '')'' else [])"

definition shown_chips :: "string list \<Rightarrow> nat option \<Rightarrow> string list" where
  \<comment> \<open>\<open>max ? list.slice(0, max) : list\<close>; \<open>max\<close> is a count, never negative\<close>
  "shown_chips tids mx = (case mx of None \<Rightarrow> tids | Some k \<Rightarrow> if k = 0 then tids else slice 0 k tids)"

definition mitre_chip :: "string \<Rightarrow> 'm node" where
  \<comment> \<open>the click handler only stops the propagation of the click\<close>
  "mitre_chip i =
     el ''a'' [(''href'', attack_url i), (''target'', ''_blank''), (''rel'', ''noreferrer''), (''title'', mitre_title i)]
       [badge [cls ''gap-1 font-mono text-[10px]'',
               sty (''color: '' @ oklch_mix ''var(--signal)'' ''58%'' ''var(--foreground)'' @
                    ''; border-color: '' @ oklch_mix ''var(--signal)'' ''40%'' ''transparent'')]
          [Txt i, spanc ''hidden font-sans text-muted-foreground sm:inline'' [Txt (technique_name i)]]]"

definition mitre_chips :: "string list option \<Rightarrow> nat option \<Rightarrow> 'm node" where
  "mitre_chips tids mx =
     (let xs = (case tids of None \<Rightarrow> [] | Some l \<Rightarrow> l)
      in if xs = [] then muted_dash
         else divc ''flex flex-wrap gap-1''
           [Frag (map mitre_chip (shown_chips xs mx)),
            (case mx of
               None \<Rightarrow> Null
             | Some k \<Rightarrow> if k = 0 then Null
                 else only_if (length xs > k)
                        (badge [cls ''font-mono text-[10px]''] [Txt (''+'' @ show_nat (length xs - k))]))])"

fun find_index :: "('a \<Rightarrow> bool) \<Rightarrow> 'a list \<Rightarrow> int" where
  "find_index P [] = -1"
| "find_index P (x # xs) =
     (if P x then 0 else let k = find_index P xs in if k = -1 then -1 else k + 1)"

definition observed_tactics :: "string list option \<Rightarrow> string option \<Rightarrow> string list" where
  \<comment> \<open>a \<open>Set\<close> of tactics in insertion order; the server's own tactic is matched without regard to case\<close>
  "observed_tactics tids stage =
     (let s = tactics_from_techniques (case tids of None \<Rightarrow> [] | Some l \<Rightarrow> l)
      in if truthy stage
         then (case find (\<lambda>t. to_lower t = to_lower (the stage)) TACTICS of
                 None \<Rightarrow> s
               | Some t \<Rightarrow> if t \<in> set s then s else s @ [t])
         else s)"

definition kill_window :: "string list \<Rightarrow> string list" where
  "kill_window observed =
     (let first = find_index (\<lambda>t. t \<in> set observed) TACTICS;
          last' = int (length TACTICS) - 1 - find_index (\<lambda>t. t \<in> set observed) (rev TACTICS);
          start = max 0 (first - 1);
          stop = Orderings.min (int (length TACTICS)) (last' + 2)
      in slice (nat start) (nat stop) TACTICS)"

definition kill_stage :: "string list \<Rightarrow> nat \<times> string \<Rightarrow> 'm node" where
  "kill_stage observed = (\<lambda>(i, t).
     Frag [only_if (i > 0) (spanc ''text-muted-foreground/40'' [Txt [CHR 0xE2, CHR 0x80, CHR 0xBA]]),
           el ''span''
             [(''title'', t),
              cls (if t \<in> set observed then ''font-semibold text-[var(--signal)]'' else ''text-muted-foreground/60'')]
             [opt_txt (map_of TACTIC_SHORT t)]])"

definition kill_chain_strip :: "string list option \<Rightarrow> string option \<Rightarrow> 'm node" where
  "kill_chain_strip tids stage =
     (let observed = observed_tactics tids stage
      in if observed = [] then Null
         else el ''div'' [cls ''flex flex-wrap items-center gap-1'', (''aria-label'', ''ATT&CK kill chain progress'')]
                (map (kill_stage observed) (List.enumerate 0 (kill_window observed))))"

subsection \<open>Process lineage\<close>

function split_str :: "string \<Rightarrow> string \<Rightarrow> string list" where
  \<comment> \<open>\<open>s.split(p)\<close> for a non-empty \<open>p\<close>\<close>
  "split_str p s =
     (case index_of s p of
        None \<Rightarrow> [s]
      | Some i \<Rightarrow> if p = [] then [s] else take i s # split_str p (drop (i + length p) s))"
  by pat_completeness auto
termination
  by (relation "measure (\<lambda>(p, s). length s)")
     (auto dest!: index_of_Some)

declare split_str.simps [simp del]

definition lineage_nodes :: "string \<Rightarrow> string list" where
  "lineage_nodes lineage = filter (\<lambda>n. n \<noteq> []) (map trim (split_str u_right lineage))"

definition lineage_node :: "nat \<Rightarrow> nat \<times> string \<Rightarrow> 'm node" where
  "lineage_node n = (\<lambda>(i, t).
     el ''div'' [cls ''flex items-center'', sty (''padding-left: '' @ show_nat (i * 14) @ ''px'')]
       [only_if (i > 0) (el ''CornerDownRight'' [] []),
        spanc (if i = n - 1 then ''rounded bg-primary/15 px-1.5 py-0.5 font-semibold text-primary''
               else ''text-muted-foreground'') [Txt t]])"

definition lineage_tree :: "string option \<Rightarrow> 'm node" where
  "lineage_tree lineage =
     (if \<not> truthy lineage then muted_dash
      else (let ns = lineage_nodes (the lineage)
            in if ns = [] then muted_dash
               else divc ''space-y-0.5 font-mono text-xs'' (map (lineage_node (length ns)) (List.enumerate 0 ns))))"

subsection \<open>Incident summary\<close>

record incident =
  in_severity :: string
  in_hostname :: "string option"
  in_agent_id :: "string option"
  in_user :: "string option"
  in_rule_name :: "string option"
  in_summary :: "string option"
  in_engine :: "string option"
  in_tactic :: "string option"
  in_mitre :: "string list option"
  in_detection_count :: "int option"
  in_event_count :: "int option"

datatype recommendation =
    Isolate string
  | DisableAccount string string
  | Escalate string

fun rec_label :: "recommendation \<Rightarrow> string" where
  "rec_label (Isolate l) = l"
| "rec_label (DisableAccount l u) = l"
| "rec_label (Escalate l) = l"

fun rec_destructive :: "recommendation \<Rightarrow> bool" where
  \<comment> \<open>\<open>"destructive" in r \<and> r.destructive\<close>\<close>
  "rec_destructive (Isolate l) = True"
| "rec_destructive (DisableAccount l u) = True"
| "rec_destructive (Escalate l) = False"

fun rec_icon :: "recommendation \<Rightarrow> 'm node" where
  "rec_icon (Isolate l) = el ''ShieldOff'' [] []"
| "rec_icon (DisableAccount l u) = el ''UserX'' [] []"
| "rec_icon (Escalate l) = el ''FolderPlus'' [] []"

definition curly :: "string \<Rightarrow> string" where
  "curly s = [CHR 0xE2, CHR 0x80, CHR 0x9C] @ s @ [CHR 0xE2, CHR 0x80, CHR 0x9D]"

definition narrative :: "incident \<Rightarrow> string" where
  "narrative x =
     (let sev = (case in_severity x of [] \<Rightarrow> ''A'' | c # cs \<Rightarrow> upper_char c # cs);
          what = (if truthy (in_rule_name x) then curly (the (in_rule_name x)) else ''activity'');
          techs = map technique_name (case in_mitre x of None \<Rightarrow> [] | Some l \<Rightarrow> l);
          parts =
            [sev @ ''-severity '' @ what @
             (if truthy (in_hostname x) then '' on '' @ the (in_hostname x) else []) @
             (if truthy (in_user x) then '' attributed to '' @ the (in_user x) else []) @ ''.''] @
            (if truthy (in_summary x)
             then [if ends_with (the (in_summary x)) ''.'' then the (in_summary x) else the (in_summary x) @ ''.''] else []) @
            (if techs \<noteq> []
             then [''Maps to '' @ join '', '' (slice 0 4 techs) @
                   (if length techs > 4 then '', +'' @ show_nat (length techs - 4) @ '' more'' else []) @ ''.''] else []) @
            (if truthy (in_tactic x) then [''Kill-chain stage: '' @ the (in_tactic x) @ ''.''] else []) @
            (if truthy_num (in_detection_count x)
             then [''Correlates '' @ show_int (the (in_detection_count x)) @ '' detection'' @
                   (if in_detection_count x = Some 1 then [] else ''s'') @ ''.''] else []) @
            (if truthy (in_engine x) then [''Surfaced by the '' @ the (in_engine x) @ '' engine.''] else [])
      in join '' '' parts)"

definition recommendations :: "incident \<Rightarrow> recommendation list" where
  "recommendations x =
     (if truthy (in_hostname x) \<or> truthy (in_agent_id x)
      then [Isolate (''Isolate '' @ str_or (in_hostname x) ''host'')] else []) @
     (if truthy (in_user x) \<and> in_user x \<noteq> Some ''root''
      then [DisableAccount (''Disable '' @ the (in_user x)) (the (in_user x))] else []) @
     [Escalate ''Escalate to case'']"

definition rec_button :: "(recommendation \<Rightarrow> 'm) \<Rightarrow> recommendation \<Rightarrow> 'm node" where
  "rec_button on_recommend r =
     Elem ''Button''
       [(''size'', ''sm''), (''variant'', ''outline''),
        cls (if rec_destructive r
             then ''border-destructive/40 text-destructive hover:bg-destructive/10 hover:text-destructive'' else [])]
       [On ''click'' (on_recommend r)] [rec_icon r, Txt (rec_label r)]"

definition incident_summary :: "(recommendation \<Rightarrow> 'm) option \<Rightarrow> incident \<Rightarrow> 'm node" where
  "incident_summary on_recommend x =
     divc ''rounded-lg border bg-muted/20 p-3''
       [el ''h4'' [] [el ''Sparkles'' [] [], Txt ''Summary''],
        el ''p'' [cls ''text-sm leading-relaxed''] [Txt (narrative x)],
        (case on_recommend of
           None \<Rightarrow> Null
         | Some f \<Rightarrow>
             only_if (length (recommendations x) > 0)
               (Frag [el ''div'' [] [Txt ''Recommended actions''],
                      divc ''flex flex-wrap gap-2'' (map (rec_button f) (recommendations x))]))]"

subsection \<open>Attack story\<close>

text \<open>The component polls the host's recent events with \<open>useData\<close>; \<open>data\<close> and \<open>live\<close> are what the
  hook returns.\<close>

definition story_path :: "string option \<Rightarrow> nat \<Rightarrow> string" where
  "story_path agent limit =
     (if truthy agent
      then ''events?agent_id='' @ encode_uri_component (the agent) @ ''&limit='' @ show_nat limit
      else ''events?agent_id=__none__&limit=1'')"

definition SEV_RANK :: "(string \<times> int) list" where
  "SEV_RANK = [(''critical'', 5), (''high'', 4), (''medium'', 3), (''low'', 2), (''info'', 1)]"

definition sev_rank :: "string \<Rightarrow> int" where
  "sev_rank s = num_or0 (map_of SEV_RANK s)"

definition story_lineage :: "event \<Rightarrow> string option" where
  \<comment> \<open>\<open>e.process?.lineage || e.process?.parent\<close>\<close>
  "story_lineage e =
     (let l = Option.bind (ev_process e) pr_lineage
      in if truthy l then l else Option.bind (ev_process e) pr_parent)"

definition rank_cmp :: "event \<Rightarrow> event \<Rightarrow> int" where
  "rank_cmp a b = sev_rank (ev_severity b) - sev_rank (ev_severity a)"

definition lineage_src :: "string set \<Rightarrow> event list \<Rightarrow> event list" where
  "lineage_src hot_ids events =
     (let with_lineage = filter (\<lambda>e. truthy (story_lineage e)) events;
          linked_with = filter (\<lambda>e. ev_id e \<in> hot_ids) with_lineage
      in slice 0 3 (js_sort rank_cmp (if linked_with \<noteq> [] then linked_with else with_lineage)))"

definition time_cmp :: "event \<Rightarrow> event \<Rightarrow> int" where
  \<comment> \<open>a difference with \<open>NaN\<close> sorts as equal\<close>
  "time_cmp a b =
     (case (date_parse (ev_ts a), date_parse (ev_ts b)) of (Some x, Some y) \<Rightarrow> x - y | _ \<Rightarrow> 0)"

definition story_timeline :: "event list \<Rightarrow> event list" where
  "story_timeline events = js_sort time_cmp events"

definition select_handler :: "(event \<Rightarrow> 'm) option \<Rightarrow> event \<Rightarrow> 'm handler list" where
  \<comment> \<open>\<open>onClick=\{() => onSelectEvent?.(e)\}\<close>\<close>
  "select_handler on_select e = (case on_select of None \<Rightarrow> [] | Some f \<Rightarrow> [On ''click'' (f e)])"

definition story_source :: "(event \<Rightarrow> 'm) option \<Rightarrow> event \<Rightarrow> 'm node" where
  "story_source on_select e =
     divc ''space-y-1''
       [lineage_tree (story_lineage e),
        (let c = Option.bind (ev_process e) pr_cmdline
         in if truthy c
            then Elem ''button'' [(''title'', the c)] (select_handler on_select e) [Txt (''$ '' @ the c)]
            else Null)]"

definition story_row :: "(string \<Rightarrow> string) \<Rightarrow> string set \<Rightarrow> (event \<Rightarrow> 'm) option \<Rightarrow> event \<Rightarrow> 'm node" where
  "story_row short_time hot_ids on_select e =
     (let hot = (ev_id e \<in> hot_ids)
      in el ''li'' []
           [Elem ''button'' [cls (if hot then ''bg-primary/[0.06]'' else [])] (select_handler on_select e)
              [el ''span'' [cls (if hot then ''bg-[var(--sev-critical)]'' else ''bg-muted-foreground/50'')] [],
               spanc ''w-16 shrink-0 font-mono text-[11px] text-muted-foreground'' [Txt (short_time (ev_ts e))],
               dash_sev (ev_severity e),
               chip [Txt (ev_category e)] None,
               el ''span'' [(''title'', event_detail e)] [Txt (event_detail e)],
               only_if hot (spanc ''shrink-0 font-mono text-[10px] uppercase tracking-wide text-primary'' [Txt ''linked''])]])"

definition attack_story ::
  "(string \<Rightarrow> string) \<Rightarrow> string option \<Rightarrow> string list option \<Rightarrow> (event \<Rightarrow> 'm) option \<Rightarrow> event list option \<Rightarrow> bool \<Rightarrow> 'm node" where
  "attack_story short_time agent event_ids on_select data live =
     (let hot_ids = set (case event_ids of None \<Rightarrow> [] | Some l \<Rightarrow> l);
          events = (case data of None \<Rightarrow> [] | Some l \<Rightarrow> l)
      in if \<not> truthy agent
         then el ''p'' [cls ''text-sm text-muted-foreground''] [Txt ''No endpoint associated with this finding.'']
         else if data = None \<and> \<not> live
         then divc ''flex items-center gap-2 py-6 text-sm text-muted-foreground''
                [el ''Loader2'' [] [], Txt (''Reconstructing activity'' @ u_ellipsis)]
         else (let src = lineage_src hot_ids events; tl = story_timeline events
           in divc ''space-y-5''
             [only_if (length src > 0)
                (el ''section'' [cls ''space-y-2'']
                   [el ''h4'' [] [el ''GitBranch'' [] [], Txt ''Process lineage''],
                    divc ''space-y-3 rounded-lg border bg-muted/20 p-3'' (map (story_source on_select) src)]),
              el ''section'' [cls ''space-y-2'']
                [el ''h4'' []
                   [el ''ListTree'' [] [], Txt ''Activity timeline'',
                    spanc ''ml-auto normal-case tracking-normal opacity-70''
                      [Txt (show_nat (length tl) @ '' events '' @ u_middot @ '' oldest '' @ u_right @ '' newest'')]],
                 (if tl = []
                  then el ''p'' [cls ''px-1 py-4 text-sm text-muted-foreground''] [Txt ''No recent telemetry for this host.'']
                  else el ''ol'' [cls ''relative ml-1.5 space-y-0.5 border-l pl-3''] (map (story_row short_time hot_ids on_select) tl)),
                 el ''p'' [cls ''px-1 pt-1 text-[11px] text-muted-foreground''] [Txt (''Live '' @ u_middot @ '' scoped to this host'')]]]))"

subsection \<open>Lemmas\<close>

lemma find_index_eq:
  "\<exists>x\<in>set xs. P x \<Longrightarrow> find_index P xs = int (length (takeWhile (\<lambda>x. \<not> P x) xs))"
proof (induction xs)
  case (Cons x xs)
  show ?case
  proof (cases "P x")
    case False
    with Cons.prems have "\<exists>y\<in>set xs. P y" by auto
    from Cons.IH [OF this] False show ?thesis by simp
  qed simp
qed simp

lemma window_split:
  assumes "\<exists>x\<in>set xs. P x"
  obtains ys zs ws where "xs = ys @ zs @ ws" and "zs \<noteq> []" and "P (hd zs)" and "P (last zs)"
    and "\<forall>x\<in>set ys \<union> set ws. \<not> P x"
    and "find_index P xs = int (length ys)" and "find_index P (rev xs) = int (length ws)"
proof -
  define ys where "ys = takeWhile (\<lambda>x. \<not> P x) xs"
  define r where "r = dropWhile (\<lambda>x. \<not> P x) xs"
  define ws where "ws = rev (takeWhile (\<lambda>x. \<not> P x) (rev r))"
  define zs where "zs = rev (dropWhile (\<lambda>x. \<not> P x) (rev r))"
  have xs: "xs = ys @ r" by (simp add: ys_def r_def)
  have rz: "r = zs @ ws" by (simp add: zs_def ws_def flip: rev_append)
  have rne: "r \<noteq> []" using assms by (auto simp: r_def dropWhile_eq_Nil_conv)
  then have hr: "P (hd r)" using hd_dropWhile [of "\<lambda>x. \<not> P x" xs] by (simp add: r_def)
  then have ex: "\<exists>x\<in>set (rev r). P x" using rne by (metis list.set_sel(1) set_rev)
  then have dne: "dropWhile (\<lambda>x. \<not> P x) (rev r) \<noteq> []" by (auto simp: dropWhile_eq_Nil_conv)
  then have zne: "zs \<noteq> []" by (simp add: zs_def)
  have lz: "P (last zs)" using hd_dropWhile [OF dne] dne by (simp add: zs_def last_rev)
  have hz: "P (hd zs)" using hr rz zne by simp
  have nP: "\<forall>x\<in>set ys \<union> set ws. \<not> P x" by (auto simp: ys_def ws_def dest: set_takeWhileD)
  have i1: "find_index P xs = int (length ys)" using find_index_eq [OF assms] by (simp add: ys_def)
  have "takeWhile (\<lambda>x. \<not> P x) (rev xs) = rev ws"
    using ex by (auto simp: xs ws_def)
  then have i2: "find_index P (rev xs) = int (length ws)"
    using find_index_eq [of "rev xs" P] assms by simp
  show thesis using that [of ys zs ws] xs rz zne hz lz nP i1 i2 by simp
qed

lemma kill_window_shape:
  assumes "\<exists>t\<in>set TACTICS. t \<in> set obs"
  obtains ys zs ws where "TACTICS = ys @ zs @ ws" and "zs \<noteq> []" and "hd zs \<in> set obs" and "last zs \<in> set obs"
    and "\<forall>x\<in>set ys \<union> set ws. x \<notin> set obs"
    and "kill_window obs = drop (length ys - 1) ys @ zs @ take 1 ws"
proof -
  obtain ys zs ws where sp: "TACTICS = ys @ zs @ ws" "zs \<noteq> []" "hd zs \<in> set obs" "last zs \<in> set obs"
    "\<forall>x\<in>set ys \<union> set ws. x \<notin> set obs"
    and i: "find_index (\<lambda>t. t \<in> set obs) TACTICS = int (length ys)"
    "find_index (\<lambda>t. t \<in> set obs) (rev TACTICS) = int (length ws)"
    using window_split [OF assms] by metis
  have l: "length TACTICS = length ys + length zs + length ws"
    using arg_cong [OF sp(1), of length] by (simp only: length_append)
  have a: "nat (max 0 (int (length ys) - 1)) = length ys - 1" by simp
  have b: "nat (Orderings.min (int (length TACTICS)) (int (length TACTICS) - 1 - int (length ws) + 2)) =
    length ys + length zs + Orderings.min (length ws) 1"
    using l by (auto simp: min_def)
  have c: "length ys + length zs + Orderings.min (length ws) 1 - (length ys - 1) =
      length (drop (length ys - 1) ys) + length zs + Orderings.min (length ws) 1"
    by (cases ys) auto
  have "kill_window obs = slice (length ys - 1) (length ys + length zs + Orderings.min (length ws) 1) TACTICS"
    unfolding kill_window_def Let_def i a b ..
  also have "\<dots> = drop (length ys - 1) ys @ zs @ take 1 ws"
    unfolding slice_def c sp(1) by (cases ws) (auto simp: min_def)
  finally show thesis using that sp by blast
qed

lemma set_observed:
  "set (observed_tactics tids stage) =
     {t. \<exists>i\<in>set (case tids of None \<Rightarrow> [] | Some l \<Rightarrow> l). technique_tactic i = Some t} \<union>
     {t \<in> set TACTICS. truthy stage \<and> to_lower t = to_lower (the stage)}"
proof -
  have inj: "t = u" if "t \<in> set TACTICS" "u \<in> set TACTICS" "to_lower t = to_lower u" for t u
  proof -
    have "distinct (map to_lower TACTICS)" by code_simp
    with that show ?thesis by (simp add: distinct_map inj_on_def)
  qed
  let ?l = "case tids of None \<Rightarrow> [] | Some l \<Rightarrow> l"
  have s: "set (tactics_from_techniques ?l) = {t. \<exists>i\<in>set ?l. technique_tactic i = Some t}"
    using technique_tactic_in by (auto simp: tactics_from_techniques_def fold_seen)
  show ?thesis
  proof (cases "truthy stage \<and> find (\<lambda>t. to_lower t = to_lower (the stage)) TACTICS \<noteq> None")
    case True
    then obtain t where t: "find (\<lambda>t. to_lower t = to_lower (the stage)) TACTICS = Some t" by blast
    then have tt: "t \<in> set TACTICS" "to_lower t = to_lower (the stage)" by (auto simp: find_Some_iff)
    then have "{t \<in> set TACTICS. truthy stage \<and> to_lower t = to_lower (the stage)} = {t}"
      using inj True by auto
    then show ?thesis using True t s unfolding observed_tactics_def Let_def by auto
  next
    case False
    then have "{t \<in> set TACTICS. truthy stage \<and> to_lower t = to_lower (the stage)} = {}"
      by (auto simp: find_None_iff)
    then show ?thesis using False s unfolding observed_tactics_def Let_def by auto
  qed
qed

lemma observed_in_chain: "set (observed_tactics tids stage) \<subseteq> set TACTICS"
  using technique_tactic_in by (auto simp: set_observed)

interpretation rank_sort: comparator rank_cmp "\<lambda>_. True"
  by unfold_locales (auto simp: rank_cmp_def)

interpretation time_sort: comparator time_cmp "\<lambda>e. date_parse (ev_ts e) \<noteq> None"
  by unfold_locales (auto simp: time_cmp_def split: option.splits)

lemma mset_timeline [simp]: "mset (story_timeline es) = mset es"
  by (simp add: story_timeline_def mset_js_sort)

lemma set_timeline [simp]: "set (story_timeline es) = set es"
  by (metis mset_timeline set_mset_mset)

lemma lineage_src_subset:
  "e \<in> set (lineage_src hot es) \<Longrightarrow> e \<in> set es \<and> truthy (story_lineage e) \<and>
     ((\<exists>d\<in>set es. truthy (story_lineage d) \<and> ev_id d \<in> hot) \<longrightarrow> ev_id e \<in> hot)"
proof -
  assume e: "e \<in> set (lineage_src hot es)"
  let ?w = "filter (\<lambda>e. truthy (story_lineage e)) es"
  let ?l = "filter (\<lambda>e. ev_id e \<in> hot) ?w"
  from e have "e \<in> set (js_sort rank_cmp (if ?l \<noteq> [] then ?l else ?w))"
    by (auto simp: lineage_src_def Let_def slice_def dest: in_set_takeD)
  then have m: "e \<in> set (if ?l \<noteq> [] then ?l else ?w)" by (metis mset_js_sort set_mset_mset)
  show ?thesis
  proof (cases "?l = []")
    case True
    with m have "e \<in> set ?w" by (simp only: if_False simp_thms)
    moreover from True have "\<not> (\<exists>d\<in>set es. truthy (story_lineage d) \<and> ev_id d \<in> hot)"
      by (auto simp: filter_empty_conv)
    ultimately show ?thesis by simp
  next
    case False
    with m have "e \<in> set ?l" by (simp only: if_True simp_thms)
    then show ?thesis by simp
  qed
qed

lemma set_node_badge [simp]: "set_node (badge as ns) = \<Union> (set_node ` set ns)"
  by (simp add: badge_def)

lemma set_node_investigate [simp]:
  "set_node (dash_sev t :: 'm node) = {}" "set_node (status_dot t :: 'm node) = {}"
  "set_node (chip ns c :: 'm node) = \<Union> (set_node ` set ns)" "set_node (muted_dash :: 'm node) = {}"
  "set_node (mitre_chip i :: 'm node) = {}"
  by (auto simp: dash_sev_def status_dot_def chip_def muted_dash_def mitre_chip_def Let_def)

lemma set_node_mitre_chips [simp]: "set_node (mitre_chips tids mx :: 'm node) = {}"
  by (auto simp: mitre_chips_def Let_def split: option.splits)

lemma set_node_lineage_tree [simp]: "set_node (lineage_tree l :: 'm node) = {}"
  by (auto simp: lineage_tree_def lineage_node_def Let_def split: prod.splits)

lemma set_node_kill_chain [simp]: "set_node (kill_chain_strip tids stage :: 'm node) = {}"
  by (auto simp: kill_chain_strip_def kill_stage_def Let_def split: prod.splits)

lemma set_select_handler: "set (select_handler (Some f) e) = {On ''click'' (f e)}"
  by (simp add: select_handler_def)

lemma set_node_story_row: "set_node (story_row st hot (Some f) e) = {f e}"
  by (simp add: story_row_def Let_def set_select_handler)

lemma set_node_story_source: "set_node (story_source (Some f) e) \<subseteq> {f e}"
  by (auto simp: story_source_def Let_def set_select_handler)

subsection \<open>Properties\<close>

text \<open>The kill-chain strip shows nothing when no stage was observed; otherwise a contiguous part of the
  chain that holds every observed stage, with at most one stage of context before the first and after
  the last one. A stage is observed when a technique belongs to it or the tactic the server sent names
  it in any letter case.\<close>

theorem kill_chain_shows_all:
  "(observed_tactics tids stage = [] \<longleftrightarrow> kill_chain_strip tids stage = (Null :: 'm node)) \<and>
   set (observed_tactics tids stage) =
     {t. \<exists>i\<in>set (case tids of None \<Rightarrow> [] | Some l \<Rightarrow> l). technique_tactic i = Some t} \<union>
     {t \<in> set TACTICS. truthy stage \<and> to_lower t = to_lower (the stage)} \<and>
   (observed_tactics tids stage \<noteq> [] \<longrightarrow>
      sublist (kill_window (observed_tactics tids stage)) TACTICS \<and>
      (\<exists>before zs after. kill_window (observed_tactics tids stage) = before @ zs @ after \<and>
         length before \<le> 1 \<and> length after \<le> 1 \<and> zs \<noteq> [] \<and>
         {hd zs, last zs} \<subseteq> set (observed_tactics tids stage) \<and>
         set (observed_tactics tids stage) \<subseteq> set zs))"
proof -
  let ?o = "observed_tactics tids stage"
  have v: "?o = [] \<longleftrightarrow> kill_chain_strip tids stage = (Null :: 'm node)"
    by (simp add: kill_chain_strip_def Let_def)
  have "sublist (kill_window ?o) TACTICS \<and>
      (\<exists>before zs after. kill_window ?o = before @ zs @ after \<and> length before \<le> 1 \<and> length after \<le> 1 \<and> zs \<noteq> [] \<and>
         {hd zs, last zs} \<subseteq> set ?o \<and> set ?o \<subseteq> set zs)" if ne: "?o \<noteq> []"
  proof -
    have "\<exists>t\<in>set TACTICS. t \<in> set ?o" using ne observed_in_chain by (metis list.set_sel(1) subsetD)
    then obtain ys zs ws where sp: "TACTICS = ys @ zs @ ws" "zs \<noteq> []" "hd zs \<in> set ?o" "last zs \<in> set ?o"
      "\<forall>x\<in>set ys \<union> set ws. x \<notin> set ?o" and w: "kill_window ?o = drop (length ys - 1) ys @ zs @ take 1 ws"
      by (rule kill_window_shape)
    have "TACTICS = (take (length ys - 1) ys @ drop (length ys - 1) ys) @ zs @ (take 1 ws @ drop 1 ws)"
      by (simp only: append_take_drop_id sp(1))
    then have "TACTICS = take (length ys - 1) ys @ kill_window ?o @ drop 1 ws"
      by (simp only: w append_assoc)
    then have "sublist (kill_window ?o) TACTICS" by (metis sublist_appendI)
    moreover have "set TACTICS = set ys \<union> set zs \<union> set ws" by (simp only: sp(1) set_append Un_assoc)
    then have "set ?o \<subseteq> set zs" using observed_in_chain [of tids stage] sp(5) by blast
    moreover have "length (drop (length ys - 1) ys) \<le> 1" "length (take 1 ws) \<le> 1" by simp_all
    ultimately show ?thesis using w sp(2-4) \<open>set ?o \<subseteq> set zs\<close> by blast
  qed
  with v set_observed show ?thesis by blast
qed

lemma kill_chain_shows_all_witness:
  "kill_window (observed_tactics (Some [''T1059'']) (Some ''command and control'')) \<noteq> [] \<and>
   set (observed_tactics (Some [''T1059'']) (Some ''command and control'')) = {''Execution'', ''Command and Control''}"
proof -
  let ?o = "observed_tactics (Some [''T1059'']) (Some ''command and control'')"
  have o: "?o = [''Execution'', ''Command and Control'']" by code_simp
  then have "?o \<noteq> []" by simp
  then have "kill_window ?o \<noteq> []"
    using kill_chain_shows_all [of "Some [''T1059'']" "Some ''command and control''", where 'm = nat] by force
  then show ?thesis using o by simp
qed

text \<open>C35: the recommended actions follow from the finding: isolation exactly when a host or agent is
  known, disabling exactly the account the finding names and never an empty one or root, escalation
  always and last. The component sends exactly these, and nothing without a callback.\<close>

theorem recommendations_safe:
  "set_node (incident_summary (Some f) x) = f ` set (recommendations x) \<and>
   set_node (incident_summary None x :: 'm node) = {} \<and>
   ((\<exists>l. Isolate l \<in> set (recommendations x)) \<longleftrightarrow> truthy (in_hostname x) \<or> truthy (in_agent_id x)) \<and>
   (\<forall>u. (\<exists>l. DisableAccount l u \<in> set (recommendations x)) \<longleftrightarrow> in_user x = Some u \<and> u \<noteq> [] \<and> u \<noteq> ''root'') \<and>
   last (recommendations x) = Escalate ''Escalate to case'' \<and>
   (\<forall>r\<in>set (recommendations x). rec_destructive r \<longleftrightarrow> r \<noteq> last (recommendations x))"
proof (intro conjI)
  show "set_node (incident_summary (Some f) x) = f ` set (recommendations x)"
    by (auto simp: incident_summary_def rec_button_def recommendations_def)
  show "set_node (incident_summary None x :: 'm node) = {}"
    by (simp add: incident_summary_def)
  show "\<forall>u. (\<exists>l. DisableAccount l u \<in> set (recommendations x)) \<longleftrightarrow> in_user x = Some u \<and> u \<noteq> [] \<and> u \<noteq> ''root''"
    by (cases "in_user x") (auto simp: recommendations_def)
qed (auto simp: recommendations_def)

lemma recommendations_safe_witness:
  "set_node (incident_summary (Some (\<lambda>r. r))
     \<lparr>in_severity = ''high'', in_hostname = Some ''web-1'', in_agent_id = None, in_user = Some ''root'',
      in_rule_name = None, in_summary = None, in_engine = None, in_tactic = None, in_mitre = None,
      in_detection_count = None, in_event_count = None\<rparr>) =
   {Isolate ''Isolate web-1'', Escalate ''Escalate to case''}"
proof -
  let ?x = "\<lparr>in_severity = ''high'', in_hostname = Some ''web-1'', in_agent_id = None, in_user = Some ''root'',
      in_rule_name = None, in_summary = None, in_engine = None, in_tactic = None, in_mitre = None,
      in_detection_count = None, in_event_count = None\<rparr>"
  have "set_node (incident_summary (Some (\<lambda>r. r)) ?x) = (\<lambda>r. r) ` set (recommendations ?x)"
    by (rule conjunct1 [OF recommendations_safe])
  also have "\<dots> = {Isolate ''Isolate web-1'', Escalate ''Escalate to case''}"
    by (simp add: recommendations_def)
  finally show ?thesis .
qed

text \<open>The attack story loses nothing of the host's activity: for a known host its timeline is the
  received events, each once, the oldest first when their times can be read, and every event can be
  opened from it. The lineages shown are at most three, of received events that have one; as soon as
  a triggering event has one only triggering events are shown.\<close>

theorem story_complete:
  assumes "truthy agent"
  shows "set_node (attack_story st agent hot (Some f) (Some es) live) = f ` set es \<and>
    mset (story_timeline es) = mset es \<and>
    ((\<forall>e\<in>set es. date_parse (ev_ts e) \<noteq> None) \<longrightarrow>
       sorted_wrt (\<lambda>a b. the (date_parse (ev_ts a)) \<le> the (date_parse (ev_ts b))) (story_timeline es)) \<and>
    length (lineage_src ids' es) \<le> 3 \<and>
    (\<forall>e\<in>set (lineage_src ids' es). e \<in> set es \<and> truthy (story_lineage e) \<and>
       ((\<exists>d\<in>set es. truthy (story_lineage d) \<and> ev_id d \<in> ids') \<longrightarrow> ev_id e \<in> ids'))"
proof (intro conjI)
  let ?l = "set (case hot of None \<Rightarrow> [] | Some l \<Rightarrow> l)"
  have src: "(\<Union>e\<in>set (lineage_src ?l es). set_node (story_source (Some f) e)) \<subseteq> f ` set es"
    using set_node_story_source lineage_src_subset by fast
  have tl: "story_timeline es = [] \<longleftrightarrow> es = []"
    by (metis mset_timeline mset_zero_iff)
  have "set_node (attack_story st agent hot (Some f) (Some es) live) =
      (if lineage_src ?l es = [] then {} else \<Union>e\<in>set (lineage_src ?l es). set_node (story_source (Some f) e)) \<union> f ` set es"
    unfolding attack_story_def Let_def using assms by (simp add: tl set_node_story_row UNION_singleton_eq_range)
  also have "\<dots> = f ` set es" using src by (simp split: if_splits) blast
  finally show "set_node (attack_story st agent hot (Some f) (Some es) live) = f ` set es" .
  show "(\<forall>e\<in>set es. date_parse (ev_ts e) \<noteq> None) \<longrightarrow>
     sorted_wrt (\<lambda>a b. the (date_parse (ev_ts a)) \<le> the (date_parse (ev_ts b))) (story_timeline es)"
  proof
    assume d: "\<forall>e\<in>set es. date_parse (ev_ts e) \<noteq> None"
    then have "sorted_wrt (\<lambda>a b. time_cmp a b \<le> 0) (story_timeline es)"
      unfolding story_timeline_def by (rule time_sort.sorted_sort)
    then show "sorted_wrt (\<lambda>a b. the (date_parse (ev_ts a)) \<le> the (date_parse (ev_ts b))) (story_timeline es)"
      by (rule sorted_wrt_mono_rel [rotated]) (use d in \<open>auto simp: time_cmp_def split: option.splits\<close>)
  qed
  show "length (lineage_src ids' es) \<le> 3" by (simp add: lineage_src_def Let_def slice_def)
qed (use lineage_src_subset in \<open>simp_all\<close>)

definition story_event :: "string \<Rightarrow> string \<Rightarrow> event" where
  \<comment> \<open>an event of one host, for examples\<close>
  "story_event i ts = \<lparr>ev_id = i, ev_agent_id = ''a1'', ev_hostname = ''web-1'', ev_ts = ts,
     ev_category = ''auth'', ev_action = ''login'', ev_severity = ''low'', ev_user = None, ev_message = None,
     ev_process = None, ev_file = None, ev_network = None, ev_usb = None, ev_auth = None, ev_dlp = None, ev_labels = None\<rparr>"

lemma story_complete_witness:
  "set_node (attack_story (\<lambda>t. t) (Some ''a1'') None (Some ev_id)
     (Some [story_event ''e2'' ''2024-01-01T10:00:00Z'', story_event ''e1'' ''2024-01-01T09:00:00Z'']) True) = {''e2'', ''e1''}"
proof -
  let ?es = "[story_event ''e2'' ''2024-01-01T10:00:00Z'', story_event ''e1'' ''2024-01-01T09:00:00Z'']"
  have "set_node (attack_story (\<lambda>t. t) (Some ''a1'') None (Some ev_id) (Some ?es) True) = ev_id ` set ?es"
    using story_complete [of "Some ''a1''" "\<lambda>t. t" None ev_id ?es True] by simp
  then show ?thesis by (simp add: story_event_def)
qed

end
