(* ===== verification/DashShell.thy ===== *)
theory DashShell
  imports Vdom Stream Http Types
begin

section \<open>The frame of the Next.js console\<close>

text \<open>
  Models \<open>dashboard/components/page-title.tsx\<close>, \<open>live-announcer.tsx\<close> and \<open>sparkline.tsx\<close>: the
  header's title of the current route, the two ARIA live regions with the module-level set of
  listeners behind them, and the small chart of the metric cards.

  A listener is the number of the \<open>LiveAnnouncer\<close> that registered it; \<open>requestAnimationFrame\<close>
  queues its callback, and \<open>frame\<close> runs the oldest one queued.
\<close>

subsection \<open>Effects of the console's components\<close>

datatype dash_effect =
    Send request
  | Toast bool string
  | CopyToClipboard string
  | Navigate string
  | Refetch
  | LoadOlder
  | ClearSelection

fun sent :: "dash_effect list \<Rightarrow> request list" where
  "sent [] = []"
| "sent (Send r # es) = r # sent es"
| "sent (e # es) = sent es"

subsection \<open>Page title\<close>

record route_info =
  ro_title :: string
  ro_desc :: string

definition ROUTES :: "(string \<times> route_info) list" where
  "ROUTES =
     [(''/'', \<lparr>ro_title = ''Overview'', ro_desc = ''Live security posture across the fleet''\<rparr>),
      (''/endpoints'', \<lparr>ro_title = ''Endpoints'', ro_desc = ''Enrolled Linux hosts and their status''\<rparr>),
      (''/events'', \<lparr>ro_title = ''Events'', ro_desc = ''Real-time endpoint telemetry''\<rparr>),
      (''/detections'', \<lparr>ro_title = ''Detections'', ro_desc = ''Triggered rules and behavioral alerts''\<rparr>),
      (''/cases'', \<lparr>ro_title = ''Cases'', ro_desc = ''Investigations and incident tracking''\<rparr>),
      (''/dlp'', \<lparr>ro_title = ''Data Loss Prevention'', ro_desc = ''Sensitive-data policy and incidents''\<rparr>),
      (''/internet'', \<lparr>ro_title = ''Network'', ro_desc = ''Outbound connections and domains''\<rparr>),
      (''/responses'', \<lparr>ro_title = ''Response'', ro_desc = ''Containment actions and history''\<rparr>),
      (''/rules'', \<lparr>ro_title = ''Rules'', ro_desc = ''Detection rule catalog''\<rparr>),
      (''/settings'', \<lparr>ro_title = ''Settings'', ro_desc = ''Integrations, SIEM export and account''\<rparr>)]"

definition route_match :: "string \<Rightarrow> route_info option" where
  "route_match pathname =
     (case map_of ROUTES pathname of
        Some r \<Rightarrow> Some r
      | None \<Rightarrow>
          map_of ROUTES (case find (\<lambda>r. r \<noteq> ''/'' \<and> starts_with pathname r) (map fst ROUTES) of
                           None \<Rightarrow> ''/'' | Some r \<Rightarrow> r))"

definition page_title :: "string \<Rightarrow> 'm node" where
  "page_title pathname =
     (let m = the (route_match pathname)
      in el ''div'' [cls ''min-w-0 leading-tight'']
           [el ''h1'' [cls ''truncate text-sm font-medium tracking-tight''] [Txt (ro_title m)],
            el ''p'' [cls ''hidden truncate text-xs text-muted-foreground sm:block''] [Txt (ro_desc m)]])"

subsection \<open>Live announcer\<close>

datatype politeness = Polite | Assertive

record announcer =
  an_polite :: string
  an_assertive :: string
  an_frames :: "(politeness \<times> string) list"

definition announcer0 :: announcer where
  "announcer0 = \<lparr>an_polite = [], an_assertive = [], an_frames = []\<rparr>"

definition announcer_mount :: "nat \<Rightarrow> nat list \<Rightarrow> nat list" where
  "announcer_mount l listeners = set_add l listeners"

definition announcer_unmount :: "nat \<Rightarrow> nat list \<Rightarrow> nat list" where
  "announcer_unmount l listeners = set_delete l listeners"

definition announce :: "nat list \<Rightarrow> string \<Rightarrow> bool option \<Rightarrow> (nat \<times> string \<times> politeness) list" where
  \<comment> \<open>the calls of the listeners, in the set's order\<close>
  "announce listeners msg assertive =
     (let level = (if assertive = Some True then Assertive else Polite)
      in map (\<lambda>l. (l, msg, level)) listeners)"

definition set_region :: "politeness \<Rightarrow> string \<Rightarrow> announcer \<Rightarrow> announcer" where
  "set_region level msg a =
     (case level of Assertive \<Rightarrow> a\<lparr>an_assertive := msg\<rparr> | Polite \<Rightarrow> a\<lparr>an_polite := msg\<rparr>)"

definition hear :: "string \<Rightarrow> politeness \<Rightarrow> announcer \<Rightarrow> announcer" where
  \<comment> \<open>empty first, so that a repeated message is announced again\<close>
  "hear msg level a = (set_region level [] a)\<lparr>an_frames := an_frames a @ [(level, msg)]\<rparr>"

fun frame :: "announcer \<Rightarrow> announcer" where
  "frame a = (case an_frames a of [] \<Rightarrow> a | (level, msg) # fs \<Rightarrow> set_region level msg (a\<lparr>an_frames := fs\<rparr>))"

definition live_announcer :: "announcer \<Rightarrow> 'm node" where
  "live_announcer a =
     Frag [el ''div'' [cls ''sr-only'', (''role'', ''status''), (''aria-live'', ''polite''), (''aria-atomic'', ''true'')]
             [Txt (an_polite a)],
           el ''div'' [cls ''sr-only'', (''role'', ''alert''), (''aria-live'', ''assertive''), (''aria-atomic'', ''true'')]
             [Txt (an_assertive a)]]"

definition detection_voice :: "detection option \<Rightarrow> (string \<times> bool) option" where
  \<comment> \<open>the announcement a pushed detection causes, and whether it interrupts\<close>
  "detection_voice raw =
     (case raw of
        None \<Rightarrow> None
      | Some d \<Rightarrow>
          if de_severity d = [] then None
          else if de_severity d = ''critical'' \<or> de_severity d = ''high''
          then Some (''New '' @ de_severity d @ '' detection: '' @ str_or (Some (de_rule_name d)) ''rule'' @
                     '' on '' @ str_or (Some (de_hostname d)) ''a host'', de_severity d = ''critical'')
          else None)"

definition detection_announcer :: "nat list \<Rightarrow> detection option \<Rightarrow> (nat \<times> string \<times> politeness) list" where
  "detection_announcer listeners raw =
     (case detection_voice raw of None \<Rightarrow> [] | Some (msg, a) \<Rightarrow> announce listeners msg (Some a))"

subsection \<open>Sparkline\<close>

definition sparkline :: "string \<Rightarrow> int list \<Rightarrow> string \<Rightarrow> nat \<Rightarrow> 'm node" where
  \<comment> \<open>\<open>use_id\<close> is the identifier React gives; the chart is the chart library's\<close>
  "sparkline use_id data color height =
     (let sid = filter (\<lambda>c. c \<noteq> CHR '':'') use_id;
          d = map (\<lambda>(i, v). JObj [(''i'', JNum (int i)), (''v'', JNum v)]) (List.enumerate 0 data)
      in el ''ResponsiveContainer'' [(''width'', ''100%''), (''height'', show_nat height)]
           [el ''AreaChart'' [(''data'', stringify (JArr d))]
              [el ''defs'' []
                 [el ''linearGradient'' [(''id'', ''sp-'' @ sid), (''x1'', ''0''), (''y1'', ''0''), (''x2'', ''0''), (''y2'', ''1'')]
                    [el ''stop'' [(''offset'', ''0%''), (''stopColor'', color), (''stopOpacity'', ''0.4'')] [],
                     el ''stop'' [(''offset'', ''100%''), (''stopColor'', color), (''stopOpacity'', ''0'')] []]],
               el ''Area'' [(''type'', ''monotone''), (''dataKey'', ''v''), (''stroke'', color), (''strokeWidth'', ''1.75''),
                 (''fill'', ''url(#sp-'' @ sid @ '')''), (''animationDuration'', ''500''), (''dot'', ''false'')] []]])"

subsection \<open>Lemmas\<close>

lemma route_match_total: "route_match p \<noteq> None"
  by (auto simp: route_match_def ROUTES_def split: option.splits dest!: find_Some_iff [THEN iffD1])

fun frames :: "nat \<Rightarrow> announcer \<Rightarrow> announcer" where
  "frames 0 a = a"
| "frames (Suc n) a = frames n (frame a)"

fun region :: "politeness \<Rightarrow> announcer \<Rightarrow> string" where
  "region Polite a = an_polite a"
| "region Assertive a = an_assertive a"

lemma region_set_region [simp]:
  "region l (set_region k m a) = (if l = k then m else region l a)"
  "an_frames (set_region k m a) = an_frames a"
  by (cases l; cases k; simp add: set_region_def)+

lemma region_frames_upd [simp]: "region l (a\<lparr>an_frames := fs\<rparr>) = region l a"
  by (cases l) auto

lemma frames_drain:
  "an_frames (frames (length (an_frames a)) a) = [] \<and>
   region l (frames (length (an_frames a)) a) =
     (case filter (\<lambda>f. fst f = l) (an_frames a) of [] \<Rightarrow> region l a | fs \<Rightarrow> snd (last fs))"
proof (induction "an_frames a" arbitrary: a)
  case Nil
  then show ?case by (metis filter.simps(1) frames.simps(1) list.case(1) list.size(3))
next
  case (Cons f fs)
  obtain k m where f: "f = (k, m)" by (cases f)
  define b where "b = frame a"
  have b: "b = set_region k m (a\<lparr>an_frames := fs\<rparr>)"
    using Cons.hyps(2) f by (simp add: b_def flip: Cons.hyps(2))
  then have bf: "an_frames b = fs" by simp
  have rb: "region l b = (if l = k then m else region l a)" by (simp add: b)
  have st: "frames (length (an_frames a)) a = frames (length (an_frames b)) b"
    using Cons.hyps(2) bf by (metis b_def frames.simps(2) length_Cons)
  have "an_frames a = (k, m) # fs" using Cons.hyps(2) f by simp
  with Cons.hyps(1) [OF bf [symmetric]] st bf rb show ?case
    by (auto split: list.splits)
qed

subsection \<open>Properties\<close>

text \<open>A message announced is what its region shows once the frames queued before and by it have
  run, also when it is the text the region shows already; until then that region is empty, and the
  other region is not touched by it.\<close>

theorem announcement_reaches_region:
  "region level (hear msg level a) = [] \<and>
   region level (frames (length (an_frames (hear msg level a))) (hear msg level a)) = msg \<and>
   an_frames (frames (length (an_frames (hear msg level a))) (hear msg level a)) = [] \<and>
   (\<forall>other. other \<noteq> level \<longrightarrow>
      region other (frames (length (an_frames (hear msg level a))) (hear msg level a)) =
      region other (frames (length (an_frames a)) a))"
proof -
  let ?h = "hear msg level a"
  have f: "an_frames ?h = an_frames a @ [(level, msg)]" by (simp add: hear_def)
  have o: "region other ?h = (if other = level then [] else region other a)" for other
    by (simp add: hear_def)
  have snoc: "(case fs @ [(level, msg)] of [] \<Rightarrow> z | gs \<Rightarrow> snd (last gs)) = msg" for fs :: "(politeness \<times> string) list" and z
    by (cases fs) auto
  have "region level (frames (length (an_frames ?h)) ?h) = msg"
    using frames_drain [of ?h level] snoc by (simp add: f)
  moreover have "region other (frames (length (an_frames ?h)) ?h) = region other (frames (length (an_frames a)) a)"
    if "other \<noteq> level" for other
  proof -
    have fl: "filter (\<lambda>x. fst x = other) (an_frames ?h) = filter (\<lambda>x. fst x = other) (an_frames a)"
      using that by (simp add: f)
    have r: "region other ?h = region other a" using that o by simp
    show ?thesis
      unfolding conjunct2 [OF frames_drain [of ?h other]] conjunct2 [OF frames_drain [of a other]] fl r ..
  qed
  ultimately show ?thesis using frames_drain [of ?h level] o by simp
qed

text \<open>A pushed detection is voiced exactly when it is high or critical, to every mounted announcer
  once, interrupting exactly when critical.\<close>

theorem detection_voiced:
  "detection_announcer ls raw =
     (case raw of
        Some d \<Rightarrow> (if de_severity d \<in> {''critical'', ''high''}
                   then map (\<lambda>l. (l, fst (the (detection_voice raw)),
                                  if de_severity d = ''critical'' then Assertive else Polite)) ls
                   else [])
      | None \<Rightarrow> [])"
  by (auto simp: detection_announcer_def detection_voice_def announce_def split: option.splits)

lemma announcement_reaches_region_witness:
  "region Assertive (frames (length (an_frames (hear ''x'' Assertive announcer0))) (hear ''x'' Assertive announcer0)) = ''x''"
  using announcement_reaches_region [of Assertive "''x''" announcer0] by blast

end
