(* ===== verification/PolicyPanel.thy ===== *)
theory PolicyPanel
  imports DashShell LiveData
begin

section \<open>Policy and update panel of an endpoint\<close>

text \<open>
  Models \<open>dashboard/components/policy-panel.tsx\<close>. The state is the component's \<open>useState\<close> values;
  \<open>pushPolicy\<close> and \<open>pushUpdate\<close> are cut at their \<open>await\<close>s, so the reply of \<open>post\<close> is a message of
  its own. \<open>parse_int\<close> is \<open>parseInt(s, 10)\<close>: it reads the longest prefix that is a number.
\<close>

subsection \<open>Reading the fields\<close>

definition parse_int :: "string \<Rightarrow> int option" where
  \<comment> \<open>\<open>None\<close> is \<open>NaN\<close>\<close>
  "parse_int s =
     (let t = dropWhile is_space s;
          (neg, u) = (case t of c # cs \<Rightarrow> if c = CHR ''-'' then (True, cs) else if c = CHR ''+'' then (False, cs) else (False, t)
                              | [] \<Rightarrow> (False, []));
          ds = takeWhile is_digit u
      in if ds = [] then None else Some ((if neg then - 1 else 1) * int (read_nat ds)))"

definition is_hex :: "char \<Rightarrow> bool" where
  "is_hex c = (is_digit c \<or> (let n = of_char c :: nat in (97 \<le> n \<and> n \<le> 102) \<or> (65 \<le> n \<and> n \<le> 70)))"

definition sha256_ok :: "string \<Rightarrow> bool" where
  \<comment> \<open>\<open>/^[0-9a-fA-F]\{64\}$/\<close>\<close>
  "sha256_ok s = (length s = 64 \<and> list_all is_hex s)"

definition watch_dirs :: "string \<Rightarrow> string list" where
  "watch_dirs watch = filter (\<lambda>s. starts_with s ''/'') (map trim (split_on (CHR 0x0A) watch))"

subsection \<open>State and messages\<close>

record policy_panel =
  pp_enforce :: bool
  pp_dlp :: bool
  pp_paused :: bool
  pp_interval :: string
  pp_watch :: string
  pp_busy :: bool
  pp_ver :: string
  pp_url :: string
  pp_sha :: string
  pp_up_busy :: bool

definition policy_panel0 :: policy_panel where
  "policy_panel0 = \<lparr>pp_enforce = True, pp_dlp = True, pp_paused = False, pp_interval = ''5'', pp_watch = [],
     pp_busy = False, pp_ver = [], pp_url = [], pp_sha = [], pp_up_busy = False\<rparr>"

datatype push_reply =
    PushThrows
  | PushStatus nat "string option"
    \<comment> \<open>the status, and the \<open>status\<close> member of a JSON body that has one\<close>

datatype policy_msg =
    PpEnforce bool
  | PpDlp bool
  | PpPaused bool
  | PpInterval string
  | PpWatch string
  | PpPush
  | PpPushed push_reply
  | PpVer string
  | PpUrl string
  | PpSha string
  | PpUpdate
  | PpUpdated string push_reply
    \<comment> \<open>with the \<open>ver\<close> the pending call closed over\<close>

definition policy_body :: "int \<Rightarrow> policy_panel \<Rightarrow> json" where
  "policy_body n s =
     JObj ([(''enforce'', JBool (pp_enforce s)), (''dlp_enabled'', JBool (pp_dlp s)), (''paused'', JBool (pp_paused s)),
            (''interval'', JNum n), (''reason'', JStr ''policy push from console'')] @
           (if watch_dirs (pp_watch s) \<noteq> [] then [(''watch'', JArr (map JStr (watch_dirs (pp_watch s))))] else []))"

definition update_body :: "policy_panel \<Rightarrow> json" where
  "update_body s =
     JObj [(''version'', JStr (trim (pp_ver s))), (''url'', JStr (trim (pp_url s))),
           (''sha256'', JStr (trim (pp_sha s))), (''reason'', JStr ''upgrade from console'')]"

definition status_ok :: "nat \<Rightarrow> bool" where
  "status_ok st = (200 \<le> st \<and> st < 300)"

definition not_saved :: string where
  "not_saved = ''Network error '' @ u_dash @ '' not saved''"

definition push_policy :: "agent \<Rightarrow> policy_panel \<Rightarrow> policy_panel \<times> dash_effect list" where
  "push_policy a s =
     (case parse_int (pp_interval s) of
        None \<Rightarrow> (s, [Toast False (''Interval must be 1'' @ [CHR 0xE2, CHR 0x80, CHR 0x93] @ ''3600 seconds'')])
      | Some n \<Rightarrow>
          if n < 1 \<or> n > 3600
          then (s, [Toast False (''Interval must be 1'' @ [CHR 0xE2, CHR 0x80, CHR 0x93] @ ''3600 seconds'')])
          else (s\<lparr>pp_busy := True\<rparr>, [Send (post_request (''agents/'' @ ag_id a @ ''/policy'') (policy_body n s))]))"

definition push_policy_done :: "agent \<Rightarrow> push_reply \<Rightarrow> policy_panel \<Rightarrow> policy_panel \<times> dash_effect list" where
  "push_policy_done a r s =
     (s\<lparr>pp_busy := False\<rparr>,
      [case r of
         PushThrows \<Rightarrow> Toast False not_saved
       | PushStatus st _ \<Rightarrow>
           if status_ok st then Toast True (''Policy pushed to '' @ ag_hostname a)
           else Toast False (''Policy push failed ('' @ show_nat st @ '')'')])"

definition push_update :: "agent \<Rightarrow> policy_panel \<Rightarrow> policy_panel \<times> dash_effect list" where
  "push_update a s =
     (if trim (pp_ver s) = [] then (s, [Toast False ''Enter a target version''])
      else if \<not> starts_with (pp_url s) ''https://'' then (s, [Toast False ''URL must be https''])
      else if \<not> sha256_ok (pp_sha s) then (s, [Toast False ''SHA-256 must be 64 hex chars''])
      else (s\<lparr>pp_up_busy := True\<rparr>, [Send (post_request (''agents/'' @ ag_id a @ ''/upgrade'') (update_body s))]))"

definition push_update_done :: "agent \<Rightarrow> string \<Rightarrow> push_reply \<Rightarrow> policy_panel \<Rightarrow> policy_panel \<times> dash_effect list" where
  \<comment> \<open>\<open>ver\<close> is the one the pending call closed over\<close>
  "push_update_done a ver r s =
     (s\<lparr>pp_up_busy := False\<rparr>,
      [case r of
         PushThrows \<Rightarrow> Toast False not_saved
       | PushStatus st js \<Rightarrow>
           if status_ok st
           then Toast True (if js = Some ''up-to-date'' then ag_hostname a @ '' already on '' @ ver
                            else ''Update dispatched to '' @ ag_hostname a)
           else Toast False (''Upgrade failed ('' @ show_nat st @ '')'')])"

subsection \<open>View\<close>

definition panel_row :: "'m node \<Rightarrow> string \<Rightarrow> string \<Rightarrow> 'm node list \<Rightarrow> 'm node" where
  "panel_row icon title hint children =
     el ''div'' [cls ''flex items-center justify-between gap-4 py-1.5'']
       ([el ''div'' [cls ''flex items-start gap-2.5'']
          [el ''span'' [cls ''mt-0.5 text-muted-foreground''] [icon],
           el ''div'' [cls ''space-y-0.5'']
             [el ''div'' [cls ''text-sm font-medium leading-none''] [Txt title],
              el ''div'' [cls ''text-xs text-muted-foreground''] [Txt hint]]]] @ children)"

definition switch :: "bool \<Rightarrow> (bool \<Rightarrow> 'm) \<Rightarrow> 'm node" where
  \<comment> \<open>the switch of the interface kit: a click sends the opposite of what it shows\<close>
  "switch checked on_change =
     Elem ''Switch'' [(''checked'', if checked then ''true'' else ''false'')] [On ''checkedChange'' (on_change (\<not> checked))] []"

definition text_input :: "string \<Rightarrow> (string \<Rightarrow> 'm) \<Rightarrow> (string \<times> string) list \<Rightarrow> 'm node" where
  "text_input value on_change as = Elem ''Input'' ((''value'', value) # as) [OnValue ''change'' on_change] []"

definition policy_view :: "agent \<Rightarrow> policy_panel \<Rightarrow> policy_msg node" where
  "policy_view a s =
     el ''div'' [cls ''space-y-3'']
       [el ''div'' []
          [el ''div'' [cls ''mb-1 text-sm font-medium text-muted-foreground''] [Txt ''Collection policy''],
           panel_row (el ''ShieldCheck'' [] []) ''Enforcement'' ''Permit isolate / disable / quarantine / self-update''
             [switch (pp_enforce s) PpEnforce],
           panel_row (el ''ScanText'' [] []) ''DLP inspection'' ''Scan watched files for secrets / PII''
             [switch (pp_dlp s) PpDlp],
           panel_row (el ''Pause'' [] []) ''Pause telemetry'' ''Stop events; keep heartbeat (stays online)''
             [switch (pp_paused s) PpPaused],
           panel_row (el ''RefreshCw'' [] []) ''Interval'' (''Collection cadence in seconds (1'' @ [CHR 0xE2, CHR 0x80, CHR 0x93] @ ''3600)'')
             [text_input (pp_interval s) PpInterval [(''inputMode'', ''numeric'')]],
           el ''div'' [cls ''mt-2 space-y-1.5'']
             [el ''Label'' [] [Txt (''Watch directories '' @ u_dash @ '' one absolute path per line (blank = leave unchanged)'')],
              Elem ''Textarea'' [(''value'', pp_watch s), (''rows'', ''3'')] [OnValue ''change'' PpWatch] []],
           Elem ''Button'' ((''size'', ''sm'') # disabled_attr (pp_busy s)) (unless_disabled (pp_busy s) [On ''click'' PpPush])
             [Txt (if pp_busy s then ''Pushing'' @ u_ellipsis else ''Push policy'')]],
        el ''Separator'' [] [],
        el ''div'' []
          [el ''div'' [cls ''mb-1 text-sm font-medium text-muted-foreground''] [Txt ''Agent update''],
           el ''div'' [cls ''mb-2 text-xs text-muted-foreground'']
             [Txt ''Current: '', el ''span'' [cls ''font-mono''] [Txt (str_or (Some (ag_version a)) ''unknown'')]],
           el ''div'' [cls ''grid grid-cols-1 gap-2'']
             [text_input (pp_ver s) PpVer [(''placeholder'', ''target version e.g. 0.4.0'')],
              text_input (pp_url s) PpUrl [(''placeholder'', ''https://'' @ u_ellipsis @ ''/sentinel-agent-<arch>'')],
              text_input (pp_sha s) PpSha [(''placeholder'', ''sha256 (64 hex)'')]],
           Elem ''Button'' ([(''size'', ''sm''), (''variant'', ''outline'')] @ disabled_attr (pp_up_busy s))
             (unless_disabled (pp_up_busy s) [On ''click'' PpUpdate])
             [el ''DownloadCloud'' [] [], Txt (if pp_up_busy s then ''Dispatching'' @ u_ellipsis else ''Push update'')]]]"

subsection \<open>Steps\<close>

fun policy_update :: "agent \<Rightarrow> policy_msg \<Rightarrow> policy_panel \<Rightarrow> policy_panel \<times> dash_effect list" where
  "policy_update a (PpEnforce b) s = (s\<lparr>pp_enforce := b\<rparr>, [])"
| "policy_update a (PpDlp b) s = (s\<lparr>pp_dlp := b\<rparr>, [])"
| "policy_update a (PpPaused b) s = (s\<lparr>pp_paused := b\<rparr>, [])"
| "policy_update a (PpInterval t) s = (s\<lparr>pp_interval := t\<rparr>, [])"
| "policy_update a (PpWatch t) s = (s\<lparr>pp_watch := t\<rparr>, [])"
| "policy_update a PpPush s = push_policy a s"
| "policy_update a (PpPushed r) s = push_policy_done a r s"
| "policy_update a (PpVer t) s = (s\<lparr>pp_ver := t\<rparr>, [])"
| "policy_update a (PpUrl t) s = (s\<lparr>pp_url := t\<rparr>, [])"
| "policy_update a (PpSha t) s = (s\<lparr>pp_sha := t\<rparr>, [])"
| "policy_update a PpUpdate s = push_update a s"
| "policy_update a (PpUpdated ver r) s = push_update_done a ver r s"

subsection \<open>Lemmas\<close>

lemma hex_not_space: "is_hex c \<Longrightarrow> \<not> is_space c"
  by (auto simp: is_hex_def is_digit_def is_space_def Let_def)

lemma drop_no_space: "\<forall>c\<in>set s. \<not> is_space c \<Longrightarrow> dropWhile is_space s = s"
  by (cases s) auto

lemma trim_no_space: "\<forall>c\<in>set s. \<not> is_space c \<Longrightarrow> trim s = s"
  using drop_no_space [of s] drop_no_space [of "rev s"] by (simp add: trim_def)

lemma trim_keeps_prefix:
  assumes "p \<noteq> []" and "\<forall>c\<in>set p. \<not> is_space c"
  shows "\<exists>u. trim (p @ t) = p @ u"
proof -
  have "dropWhile is_space (p @ t) = p @ t" using assms by (cases p) auto
  moreover have "dropWhile is_space (rev t @ rev p) = dropWhile is_space (rev t) @ rev p"
  proof -
    have "dropWhile is_space (rev p) = rev p"
      using assms by (metis dropWhile_eq_self_iff list.set_sel(1) rev_is_Nil_conv set_rev)
    then show ?thesis by (simp add: dropWhile_append dropWhile_eq_Nil_conv)
  qed
  ultimately show ?thesis by (simp add: trim_def)
qed

lemma trim_idem [simp]: "trim (trim s) = trim s"
proof -
  define t where "t = dropWhile is_space s"
  define u where "u = dropWhile is_space (rev t)"
  have ts: "trim s = rev u" by (simp add: trim_def t_def u_def)
  show ?thesis
  proof (cases "u = []")
    case False
    then have "rev u \<noteq> []" by simp
    obtain v where v: "t = rev u @ v"
      unfolding u_def by (metis append_take_drop_id rev_append rev_rev_ident takeWhile_dropWhile_id)
    then have "t \<noteq> []" using False by auto
    then have "\<not> is_space (hd t)" unfolding t_def by (rule hd_dropWhile)
    then have "\<not> is_space (hd (rev u))" using v False by (cases "rev u") auto
    then have a: "dropWhile is_space (rev u) = rev u" using False by (metis dropWhile_eq_self_iff)
    have "\<not> is_space (hd u)" using False unfolding u_def by (rule hd_dropWhile)
    then have "dropWhile is_space u = u" by (metis dropWhile_eq_self_iff)
    with a ts show ?thesis by (simp add: trim_def)
  qed (simp add: ts, simp add: trim_def)
qed

lemma set_trim: "set (trim s) \<subseteq> set s"
  by (auto simp: trim_def dest!: set_dropWhileD)

lemma trim_nonspace: "trim s \<noteq> [] \<Longrightarrow> \<exists>c\<in>set s. \<not> is_space c"
  by (auto simp: trim_def dropWhile_eq_Nil_conv dest: set_dropWhileD)

lemma watch_dirs_absolute:
  "w \<in> set (watch_dirs t) \<Longrightarrow> starts_with w ''/'' \<and> trim w = w \<and> CHR 0x0A \<notin> set w"
  using set_trim split_on_parts by (fastforce simp: watch_dirs_def)

lemma set_node_switch [simp]: "set_node (switch b f) = {f (\<not> b)}"
  by (simp add: switch_def)

lemma set_node_text_input [simp]: "set_node (text_input v f as) = range f"
  by (auto simp: text_input_def)

lemma set_node_panel_row [simp]: "set_node (panel_row i t h ns) = set_node i \<union> \<Union> (set_node ` set ns)"
  by (simp add: panel_row_def)

subsection \<open>Properties\<close>

text \<open>C9: the panel sends nothing but a policy whose interval lies between one second and one hour and
  whose watch list, if present, holds absolute paths only, or an update with a version, an https URL
  and a SHA-256 digest of 64 hexadecimal digits, as the fields show them.\<close>

theorem policy_requests_valid:
  assumes "r \<in> set (sent (snd (policy_update a msg s)))"
  shows "(msg = PpPush \<and> (\<exists>n. parse_int (pp_interval s) = Some n \<and> 1 \<le> n \<and> n \<le> 3600 \<and>
            r = post_request (''agents/'' @ ag_id a @ ''/policy'') (policy_body n s)) \<and>
            (\<forall>w\<in>set (watch_dirs (pp_watch s)). starts_with w ''/'' \<and> trim w = w \<and> CHR 0x0A \<notin> set w)) \<or>
         (msg = PpUpdate \<and> trim (pp_ver s) \<noteq> [] \<and> starts_with (trim (pp_url s)) ''https://'' \<and>
            sha256_ok (pp_sha s) \<and> trim (pp_sha s) = pp_sha s \<and>
            r = post_request (''agents/'' @ ag_id a @ ''/upgrade'') (update_body s))"
proof (cases msg)
  case PpPush
  with assms show ?thesis
    using watch_dirs_absolute by (auto simp: push_policy_def split: option.splits if_splits)
next
  case PpUpdate
  with assms have g: "trim (pp_ver s) \<noteq> []" "starts_with (pp_url s) ''https://''" "sha256_ok (pp_sha s)"
    and r: "r = post_request (''agents/'' @ ag_id a @ ''/upgrade'') (update_body s)"
    by (auto simp: push_update_def split: if_splits)
  obtain t where "pp_url s = ''https://'' @ t" using g(2) by (auto simp: starts_with_iff)
  then have "starts_with (trim (pp_url s)) ''https://''"
    using trim_keeps_prefix [of "''https://''" t] by (auto simp: starts_with_iff is_space_def)
  moreover have "trim (pp_sha s) = pp_sha s"
    using g(3) hex_not_space by (intro trim_no_space) (auto simp: sha256_ok_def list_all_iff)
  ultimately show ?thesis using PpUpdate g r by simp
qed (use assms in \<open>auto simp: push_policy_done_def push_update_done_def split: push_reply.splits if_splits\<close>)

definition example_agent :: agent where
  "example_agent = \<lparr>ag_id = ''a1'', ag_hostname = ''web-1'', ag_os = ''linux'', ag_kernel = [], ag_arch = [],
     ag_ip = [], ag_mac = [], ag_version = ''0.4.0'', ag_status = ''online'', ag_labels = None,
     ag_enrolled_at = [], ag_last_seen = [], ag_event_count = 0\<rparr>"

lemma policy_requests_valid_witness:
  "\<exists>n. parse_int ''5'' = Some n \<and> 1 \<le> n \<and> n \<le> 3600 \<and>
     sent (snd (policy_update example_agent PpPush policy_panel0)) =
       [post_request ''agents/a1/policy'' (policy_body n policy_panel0)]"
proof -
  let ?r = "post_request ''agents/a1/policy'' (policy_body 5 policy_panel0)"
  have p: "parse_int ''5'' = Some 5" by code_simp
  have s: "sent (snd (policy_update example_agent PpPush policy_panel0)) = [?r]"
    by (simp add: push_policy_def policy_panel0_def p example_agent_def)
  then have "?r \<in> set (sent (snd (policy_update example_agent PpPush policy_panel0)))" by simp
  from policy_requests_valid [OF this] obtain n where
    "parse_int (pp_interval policy_panel0) = Some n" "1 \<le> n" "n \<le> 3600"
    "?r = post_request (''agents/'' @ ag_id example_agent @ ''/policy'') (policy_body n policy_panel0)" by auto
  with s show ?thesis by (intro exI [of _ n]) (simp add: policy_panel0_def example_agent_def)
qed

text \<open>A policy request that was sent ends in exactly one toast and an idle button, which is
  a success exactly for a 2xx reply.\<close>

theorem policy_reply_reported:
  "(\<exists>ok t. policy_update a (PpPushed r) s = (s\<lparr>pp_busy := False\<rparr>, [Toast ok t]) \<and>
      (ok \<longleftrightarrow> (\<exists>st js. r = PushStatus st js \<and> status_ok st))) \<and>
   (\<exists>ok t. policy_update a (PpUpdated ver r) s = (s\<lparr>pp_up_busy := False\<rparr>, [Toast ok t]) \<and>
      (ok \<longleftrightarrow> (\<exists>st js. r = PushStatus st js \<and> status_ok st)))"
  by (cases r) (auto simp: push_policy_done_def push_update_done_def)

text \<open>Neither button can be pressed while its own request is pending.\<close>

lemma policy_buttons:
  "(PpPush \<in> set_node (policy_view a s) \<longleftrightarrow> \<not> pp_busy s) \<and> (PpUpdate \<in> set_node (policy_view a s) \<longleftrightarrow> \<not> pp_up_busy s)"
  by (auto simp: policy_view_def)

text \<open>A text of watch directories without an absolute path is sent as if it were blank, and an
  interval is read up to its first character that is no digit.\<close>

lemma relative_watch_ignored:
  "policy_body n (s\<lparr>pp_watch := ''etc, root''\<rparr>) = policy_body n (s\<lparr>pp_watch := []\<rparr>)"
proof -
  have "watch_dirs ''etc, root'' = []" "watch_dirs [] = []" by code_simp+
  then show ?thesis by (simp add: policy_body_def)
qed

lemma interval_prefix_accepted: "parse_int ''1e3'' = Some 1" "parse_int ''90m'' = Some 90"
  by code_simp+

end
