(* ===== verification/TwoFactor.thy ===== *)
theory TwoFactor
  imports PolicyPanel
begin

section \<open>Two-factor enrolment\<close>

text \<open>
  Models \<open>dashboard/components/two-factor.tsx\<close>: the card that turns TOTP on and off. Whether it is on
  is a fact of the session, an argument here. The authentication client is a library: its calls are
  effects and their replies messages, \<open>TfThrows\<close> where the call's promise is rejected, which the
  handlers do not catch. The history of a card is the inductive relation \<open>tf_run\<close>: at each step the
  user sends a message of the present view, or a reply arrives, of a request of any time.
\<close>

datatype tf_step = Idle | Password | Verify | Disable

record two_factor =
  tf_step :: tf_step
  tf_password :: string
  tf_code :: string
  tf_uri :: string
  tf_backup :: "string list"
  tf_busy :: bool

definition two_factor0 :: two_factor where
  "two_factor0 = \<lparr>tf_step = Idle, tf_password = [], tf_code = [], tf_uri = [], tf_backup = [], tf_busy = False\<rparr>"

datatype 'd tf_reply =
    TfThrows
  | TfError "string option"
  | TfData 'd

record totp_data =
  td_uri :: "string option"
  td_codes :: "string list option"

datatype tf_msg =
    TfGo tf_step
  | TfReset
  | TfPassword string
  | TfCode string
  | TfSubmitEnable
  | TfEnabled "totp_data option tf_reply"
  | TfSubmitVerify
  | TfVerified "unit tf_reply"
  | TfSubmitDisable
  | TfDisabled "unit tf_reply"
  | TfCopy

datatype tf_effect =
    AuthEnable string
  | AuthVerify string
  | AuthDisable string
  | TfToast bool string
  | TfRefetch
  | TfClipboard string

definition tf_reset :: "two_factor \<Rightarrow> two_factor" where
  "tf_reset s = s\<lparr>tf_step := Idle, tf_password := [], tf_code := [], tf_uri := [], tf_backup := [], tf_busy := False\<rparr>"

definition start_enable :: "two_factor \<Rightarrow> two_factor \<times> tf_effect list" where
  "start_enable s = (s\<lparr>tf_busy := True\<rparr>, [AuthEnable (tf_password s)])"

definition enable_done :: "totp_data option tf_reply \<Rightarrow> two_factor \<Rightarrow> two_factor \<times> tf_effect list" where
  "enable_done r s =
     (case r of
        TfThrows \<Rightarrow> (s, [])
      | TfError e \<Rightarrow> (s\<lparr>tf_busy := False\<rparr>, [TfToast False (str_or e ''Incorrect password'')])
      | TfData d \<Rightarrow>
          (s\<lparr>tf_busy := False, tf_uri := opt_str (Option.bind d td_uri),
             tf_backup := (case Option.bind d td_codes of None \<Rightarrow> [] | Some l \<Rightarrow> l), tf_step := Verify\<rparr>, []))"

definition start_verify :: "two_factor \<Rightarrow> two_factor \<times> tf_effect list" where
  "start_verify s = (s\<lparr>tf_busy := True\<rparr>, [AuthVerify (tf_code s)])"

definition verify_done :: "unit tf_reply \<Rightarrow> two_factor \<Rightarrow> two_factor \<times> tf_effect list" where
  "verify_done r s =
     (case r of
        TfThrows \<Rightarrow> (s, [])
      | TfError e \<Rightarrow> (s\<lparr>tf_busy := False\<rparr>, [TfToast False (str_or e ''Invalid code'')])
      | TfData d \<Rightarrow> (tf_reset s, [TfToast True ''Two-factor authentication enabled'', TfRefetch]))"

definition start_disable :: "two_factor \<Rightarrow> two_factor \<times> tf_effect list" where
  "start_disable s = (s\<lparr>tf_busy := True\<rparr>, [AuthDisable (tf_password s)])"

definition disable_done :: "unit tf_reply \<Rightarrow> two_factor \<Rightarrow> two_factor \<times> tf_effect list" where
  "disable_done r s =
     (case r of
        TfThrows \<Rightarrow> (s, [])
      | TfError e \<Rightarrow> (s\<lparr>tf_busy := False\<rparr>, [TfToast False (str_or e ''Incorrect password'')])
      | TfData d \<Rightarrow> (tf_reset s, [TfToast True ''Two-factor authentication disabled'', TfRefetch]))"

fun tf_update :: "tf_msg \<Rightarrow> two_factor \<Rightarrow> two_factor \<times> tf_effect list" where
  "tf_update (TfGo st) s = (s\<lparr>tf_step := st\<rparr>, [])"
| "tf_update TfReset s = (tf_reset s, [])"
| "tf_update (TfPassword p) s = (s\<lparr>tf_password := p\<rparr>, [])"
| "tf_update (TfCode c) s = (s\<lparr>tf_code := c\<rparr>, [])"
| "tf_update TfSubmitEnable s = start_enable s"
| "tf_update (TfEnabled r) s = enable_done r s"
| "tf_update TfSubmitVerify s = start_verify s"
| "tf_update (TfVerified r) s = verify_done r s"
| "tf_update TfSubmitDisable s = start_disable s"
| "tf_update (TfDisabled r) s = disable_done r s"
| "tf_update TfCopy s = (s, [TfClipboard (join [CHR 0x0A] (tf_backup s)), TfToast True ''Backup codes copied''])"

subsection \<open>View\<close>

definition submit_row :: "bool \<Rightarrow> string \<Rightarrow> (string \<times> string) list \<Rightarrow> tf_msg node" where
  "submit_row busy label as =
     el ''div'' [cls ''flex gap-2'']
       [el ''Button'' ((''type'', ''submit'') # as @ disabled_attr busy) [if busy then el ''Loader2'' [] [] else Txt label],
        Elem ''Button'' [(''type'', ''button''), (''variant'', ''ghost'')] [On ''click'' TfReset] [Txt ''Cancel'']]"

definition password_form :: "tf_msg \<Rightarrow> string \<Rightarrow> string \<Rightarrow> (string \<times> string) list \<Rightarrow> two_factor \<Rightarrow> tf_msg node" where
  "password_form submit label button as s =
     Elem ''form'' [cls ''grid max-w-sm gap-3''] [On ''submit'' submit]
       [el ''Label'' [cls ''text-xs text-muted-foreground''] [Txt label],
        Elem ''Input'' [(''type'', ''password''), (''value'', tf_password s), (''required'', [])] [OnValue ''change'' TfPassword] [],
        submit_row (tf_busy s) button as]"

definition verify_form :: "two_factor \<Rightarrow> tf_msg node" where
  "verify_form s =
     el ''div'' [cls ''grid gap-5 md:grid-cols-[auto_1fr]'']
       [el ''div'' [cls ''space-y-2'']
          [el ''div'' [cls ''rounded-lg bg-white p-3 w-fit'']
             [if tf_uri s \<noteq> [] then el ''QRCodeSVG'' [(''value'', tf_uri s), (''size'', ''168'')] [] else Null],
           el ''p'' [] [Txt ''Scan with Google Authenticator, 1Password, Authy, etc.'']],
        el ''div'' [cls ''space-y-4'']
          [only_if (length (tf_backup s) > 0)
             (el ''div'' []
                [el ''div'' [cls ''mb-1 flex items-center justify-between'']
                   [el ''Label'' [] [Txt ''Backup codes (store safely)''],
                    Elem ''Button'' [(''size'', ''sm''), (''variant'', ''ghost'')] [On ''click'' TfCopy] [el ''Copy'' [] [], Txt ''Copy'']],
                 el ''div'' [cls ''grid grid-cols-2 gap-1 rounded-lg border bg-secondary/40 p-3 font-mono text-xs'']
                   (map (\<lambda>b. el ''span'' [(''key'', b)] [Txt b]) (tf_backup s))]),
           Elem ''form'' [cls ''grid max-w-xs gap-2''] [On ''submit'' TfSubmitVerify]
             [el ''Label'' [] [Txt ''Enter the 6-digit code to confirm''],
              Elem ''Input'' [(''inputMode'', ''numeric''), (''autoComplete'', ''one-time-code''), (''value'', tf_code s),
                (''placeholder'', ''123456''), (''required'', [])] [OnValue ''change'' TfCode] [],
              submit_row (tf_busy s) ''Verify & enable'' []]]]"

definition tf_view :: "bool \<Rightarrow> two_factor \<Rightarrow> tf_msg node" where
  "tf_view enabled s =
     el ''Card'' []
       [el ''CardHeader'' []
          [el ''div'' [cls ''flex items-center justify-between gap-3'']
             [el ''div'' []
                [el ''CardTitle'' [] [Txt ''Two-factor authentication''],
                 el ''CardDescription'' [] [Txt ''Adds a one-time code from your authenticator app (TOTP) at sign-in.'']],
              (if enabled then el ''Badge'' [] [el ''ShieldCheck'' [] [], Txt ''Enabled'']
               else el ''Badge'' [(''variant'', ''outline'')] [el ''ShieldAlert'' [] [], Txt ''Disabled''])]],
        el ''CardContent'' []
          [only_if (enabled \<and> tf_step s = Idle)
             (Elem ''Button'' [(''variant'', ''outline'')] [On ''click'' (TfGo Disable)] [Txt ''Disable 2FA'']),
           only_if (enabled \<and> tf_step s = Disable)
             (password_form TfSubmitDisable ''Confirm password to disable'' ''Disable'' [(''variant'', ''destructive'')] s),
           only_if (\<not> enabled \<and> tf_step s = Idle)
             (Elem ''Button'' [] [On ''click'' (TfGo Password)] [el ''ShieldCheck'' [] [], Txt ''Enable 2FA'']),
           only_if (\<not> enabled \<and> tf_step s = Password)
             (password_form TfSubmitEnable ''Confirm your password to begin'' ''Continue'' [] s),
           only_if (\<not> enabled \<and> tf_step s = Verify) (verify_form s)]]"

subsection \<open>Histories\<close>

definition is_reply :: "tf_msg \<Rightarrow> bool" where
  "is_reply m = (case m of TfEnabled r \<Rightarrow> True | TfVerified r \<Rightarrow> True | TfDisabled r \<Rightarrow> True | _ \<Rightarrow> False)"

inductive tf_run :: "two_factor \<Rightarrow> tf_effect list \<Rightarrow> bool" where
  tf_start: "tf_run two_factor0 []"
| tf_user: "tf_run s es \<Longrightarrow> m \<in> set_node (tf_view enabled s) \<Longrightarrow> tf_update m s = (s', es') \<Longrightarrow> tf_run s' (es @ es')"
| tf_reply: "tf_run s es \<Longrightarrow> is_reply m \<Longrightarrow> tf_update m s = (s', es') \<Longrightarrow> tf_run s' (es @ es')"

inductive_cases tf_runE: "tf_run s es"
inductive_simps tf_run_Nil: "tf_run s []"

subsection \<open>Lemmas\<close>

lemma set_node_submit_row [simp]: "set_node (submit_row b l as) = {TfReset}"
  by (simp add: submit_row_def)

lemma set_node_password_form [simp]: "set_node (password_form m l b as s) = {m, TfReset} \<union> range TfPassword"
  by (auto simp: password_form_def)

lemma set_node_verify_form [simp]:
  "set_node (verify_form s) = {TfSubmitVerify, TfReset} \<union> range TfCode \<union> (if tf_backup s \<noteq> [] then {TfCopy} else {})"
  by (auto simp: verify_form_def)

lemma set_node_tf_view:
  "set_node (tf_view enabled s) =
     (case tf_step s of
        Idle \<Rightarrow> {TfGo (if enabled then Disable else Password)}
      | Disable \<Rightarrow> if enabled then {TfSubmitDisable, TfReset} \<union> range TfPassword else {}
      | Password \<Rightarrow> if enabled then {} else {TfSubmitEnable, TfReset} \<union> range TfPassword
      | Verify \<Rightarrow> if enabled then {} else set_node (verify_form s))"
  by (cases "tf_step s") (simp_all add: tf_view_def)

definition no_secrets :: "two_factor \<Rightarrow> bool" where
  "no_secrets s = (tf_password s = [] \<and> tf_code s = [] \<and> tf_uri s = [] \<and> tf_backup s = [])"

lemma tf_reply_secrets:
  assumes "is_reply m" and "tf_update m s = (s', es)" and "tf_step s = Idle \<longrightarrow> no_secrets s" and "tf_step s' = Idle"
  shows "no_secrets s'"
  using assms
  by (cases m) (auto simp: is_reply_def enable_done_def verify_done_def disable_done_def tf_reset_def no_secrets_def
      split: tf_reply.splits)

lemma tf_user_secrets:
  assumes "m \<in> set_node (tf_view enabled s)" and "tf_update m s = (s', es)" and "tf_step s' = Idle"
  shows "no_secrets s'"
proof (cases m)
  case (TfGo st)
  with assms show ?thesis by (auto simp: set_node_tf_view split: tf_step.splits if_splits)
next
  case TfReset
  with assms show ?thesis by (auto simp: tf_reset_def no_secrets_def)
qed (use assms in \<open>auto simp: set_node_tf_view start_enable_def start_verify_def start_disable_def split: tf_step.splits if_splits\<close>)

subsection \<open>Properties\<close>

text \<open>C18: in every history, with replies arriving in any order and however late, a card at rest holds no
  password, code, enrolment link or backup code; whoever can see a secret or a field for one can also
  cancel, which erases them all; and the card offers nothing to press exactly when its step does not
  belong to the session's present state.\<close>

theorem two_factor_secrets:
  assumes "tf_run s es"
  shows "(tf_step s = Idle \<longrightarrow> no_secrets s) \<and>
    (\<not> no_secrets s \<longrightarrow> TfReset \<in> set_node (tf_view enabled s) \<or> set_node (tf_view enabled s) = {}) \<and>
    no_secrets (fst (tf_update TfReset s)) \<and> tf_step (fst (tf_update TfReset s)) = Idle \<and>
    (set_node (tf_view enabled s) = {} \<longleftrightarrow> (if enabled then tf_step s \<in> {Password, Verify} else tf_step s = Disable))"
proof -
  have idle: "tf_step s = Idle \<longrightarrow> no_secrets s"
    using assms
  proof (induction rule: tf_run.induct)
    case tf_start
    then show ?case by (simp add: two_factor0_def no_secrets_def)
  next
    case (tf_user s es m enabled s' es')
    then show ?case using tf_user_secrets by blast
  next
    case (tf_reply s es m s' es')
    then show ?case using tf_reply_secrets by blast
  qed
  moreover have "set_node (tf_view enabled s) = {} \<longleftrightarrow> (if enabled then tf_step s \<in> {Password, Verify} else tf_step s = Disable)"
    by (cases "tf_step s") (simp_all add: set_node_tf_view)
  moreover have "no_secrets (fst (tf_update TfReset s)) \<and> tf_step (fst (tf_update TfReset s)) = Idle"
    by (simp add: tf_reset_def no_secrets_def)
  moreover have "tf_step s \<noteq> Idle \<Longrightarrow> TfReset \<in> set_node (tf_view enabled s) \<or> set_node (tf_view enabled s) = {}"
    by (cases "tf_step s") (simp_all add: set_node_tf_view)
  ultimately show ?thesis by argo
qed

lemma tf_password_run: "tf_run (two_factor0\<lparr>tf_step := Password, tf_password := ''pw''\<rparr>) []"
proof -
  let ?s = "two_factor0\<lparr>tf_step := Password\<rparr>"
  have "tf_run ?s ([] @ [])"
    by (rule tf_user [OF tf_start, where m = "TfGo Password" and enabled = False])
       (simp_all add: set_node_tf_view two_factor0_def)
  then have "tf_run ?s []" by simp
  then have "tf_run (?s\<lparr>tf_password := ''pw''\<rparr>) ([] @ [])"
    by (rule tf_user [where m = "TfPassword ''pw''" and enabled = False])
       (simp add: set_node_tf_view two_factor0_def, simp)
  then show ?thesis by simp
qed

lemma two_factor_secrets_witness:
  "TfReset \<in> set_node (tf_view False (two_factor0\<lparr>tf_step := Password, tf_password := ''pw''\<rparr>))"
  using two_factor_secrets [OF tf_password_run, of False]
  by (simp add: no_secrets_def two_factor0_def) blast

text \<open>Cancel does not withdraw a request: when the reply to an enrolment arrives after Cancel, the card
  opens the verification step with the link and the backup codes, and when the session has
  two-factor on meanwhile, it then offers nothing at all.\<close>

theorem cancelled_enrolment_reopens:
  "tf_step (fst (tf_update (TfEnabled (TfData d)) (fst (tf_update TfReset s)))) = Verify \<and>
   set_node (tf_view True (fst (tf_update (TfEnabled (TfData d)) (fst (tf_update TfReset s))))) = {}"
  by (simp add: tf_reset_def enable_done_def set_node_tf_view)

end
