(* ===== verification/Query.thy ===== *)
theory Query
  imports Http
begin

section \<open>Reading a query string\<close>

text \<open>
  \<open>new URLSearchParams(search)\<close> and \<open>get\<close>, which the pages of the Next.js console use to take their
  filters from the address: a leading question mark is dropped, the rest is cut at \<open>&\<close>, empty pieces are
  skipped, a plus is a space, a percent sign followed by two hexadecimal digits is a byte and any other
  one stands for itself. The lemmas show that it undoes both encoders the code uses.
\<close>

definition hex_digit_val :: "char \<Rightarrow> nat option" where
  "hex_digit_val c =
     (let n = of_char c :: nat
      in if 48 \<le> n \<and> n \<le> 57 then Some (n - 48)
         else if 65 \<le> n \<and> n \<le> 70 then Some (n - 55)
         else if 97 \<le> n \<and> n \<le> 102 then Some (n - 87) else None)"

definition plus_space :: "char \<Rightarrow> char" where
  "plus_space c = (if c = CHR ''+'' then CHR '' '' else c)"

fun url_decode :: "string \<Rightarrow> string" where
  "url_decode (p # a # b # s) =
     (if p = CHR ''%''
      then (case (hex_digit_val a, hex_digit_val b) of
              (Some x, Some y) \<Rightarrow> char_of (16 * x + y) # url_decode s
            | _ \<Rightarrow> p # url_decode (a # b # s))
      else plus_space p # url_decode (a # b # s))"
| "url_decode s = map plus_space s"

definition parse_pair :: "string \<Rightarrow> string \<times> string" where
  "parse_pair w = (url_decode (takeWhile (\<lambda>c. c \<noteq> CHR ''='') w), url_decode (tl (dropWhile (\<lambda>c. c \<noteq> CHR ''='') w)))"

definition parse_search :: "string \<Rightarrow> (string \<times> string) list" where
  "parse_search s =
     (let q = (case s of c # cs \<Rightarrow> if c = CHR ''?'' then cs else s | [] \<Rightarrow> [])
      in map parse_pair (filter (\<lambda>w. w \<noteq> []) (split_on (CHR ''&'') q)))"

definition search_get :: "string \<Rightarrow> string \<Rightarrow> string option" where
  "search_get s k = map_of (parse_search s) k"

subsection \<open>Lemmas\<close>

lemma hex_digit_val_hex_char [simp]: "n < 16 \<Longrightarrow> hex_digit_val (hex_char n) = Some n"
  by (auto simp: hex_digit_val_def hex_char_def Let_def)

lemma url_decode_pct [simp]: "url_decode (pct c @ s) = c # url_decode s"
proof -
  have "(of_char c :: nat) div 16 < 16" using of_char_less [of c] by (simp add: less_mult_imp_div_less)
  then show ?thesis by (simp add: pct_def)
qed

lemma url_decode_plain: "p \<noteq> CHR ''%'' \<Longrightarrow> url_decode (p # s) = plus_space p # url_decode s"
  by (cases s; cases "tl s") auto

lemma url_decode_encode_uri: "url_decode (encode_uri_component s) = s"
proof (induction s)
  case Nil
  then show ?case by (simp add: encode_uri_component_def)
next
  case (Cons c s)
  have e: "encode_uri_component (c # s) = (if uri_unreserved c then [c] else pct c) @ encode_uri_component s"
    by (simp add: encode_uri_component_def)
  have "uri_unreserved c \<Longrightarrow> c \<noteq> CHR ''+''" by (auto simp: uri_unreserved_def is_alpha_def is_digit_def)
  then show ?case
    using Cons.IH unreserved_not_pct [of c] by (auto simp: e url_decode_plain plus_space_def)
qed

lemma url_decode_form_encode: "url_decode (form_encode s) = s"
proof (induction s)
  case Nil
  then show ?case by (simp add: form_encode_def)
next
  case (Cons c s)
  have e: "form_encode (c # s) =
      (if c = CHR '' '' then ''+'' else if form_unreserved c then [c] else pct c) @ form_encode s"
    by (simp add: form_encode_def)
  have "form_unreserved c \<Longrightarrow> c \<noteq> CHR ''+'' \<and> c \<noteq> CHR ''%''" by (auto simp: form_unreserved_def is_alpha_def is_digit_def)
  then show ?case
    using Cons.IH by (auto simp: e url_decode_plain plus_space_def)
qed

lemma plain_key_decode:
  assumes "\<forall>c\<in>set k. is_alpha c \<or> is_digit c \<or> c = CHR ''_''"
  shows "url_decode k = k"
  using assms
proof (induction k)
  case (Cons c k)
  then have "c \<noteq> CHR ''%''" "c \<noteq> CHR ''+''" by (auto simp: is_alpha_def is_digit_def)
  with Cons show ?case by (simp add: url_decode_plain plus_space_def)
qed simp

lemma parse_search_single:
  assumes "\<forall>c\<in>set k. is_alpha c \<or> is_digit c \<or> c = CHR ''_''" and "k \<noteq> []"
  shows "parse_search (''?'' @ k @ ''='' @ encode_uri_component v) = [(k, v)]"
proof -
  have ne: "CHR ''='' \<notin> set k" "CHR ''&'' \<notin> set k" using assms(1) by (auto simp: is_alpha_def is_digit_def)
  have "CHR ''&'' \<notin> set (k @ CHR ''='' # encode_uri_component v)"
    using ne encode_uri_safe [of "CHR ''&''" v] by simp
  then have sp: "split_on (CHR ''&'') (k @ CHR ''='' # encode_uri_component v) = [k @ CHR ''='' # encode_uri_component v]"
    by (rule split_on_single)
  show ?thesis
    using ne by (simp add: parse_search_def parse_pair_def sp takeWhile_neq_append dropWhile_neq_append plain_key_decode [OF assms(1)] url_decode_encode_uri)
qed

lemma filter_id_nonempty: "\<forall>x\<in>set xs. x \<noteq> [] \<Longrightarrow> filter (\<lambda>x. x \<noteq> []) xs = xs"
  by (induction xs) auto

text \<open>Reading back what \<open>URLSearchParams\<close> wrote gives the pairs that were put in, in order.\<close>

lemma parse_search_params:
  assumes "\<forall>(k, v)\<in>set q. k \<noteq> []"
  shows "parse_search (''?'' @ search_params q) = q"
proof (cases "q = []")
  case True
  then show ?thesis by (simp add: parse_search_def search_params_def)
next
  case False
  let ?w = "\<lambda>(k, v). form_encode k @ ''='' @ form_encode v"
  have sp: "split_on (CHR ''&'') (search_params q) = map ?w q"
    unfolding search_params_def by (rule split_on_join) (use False form_encode_safe [of "CHR ''&''"] in auto)
  have ne: "\<forall>x\<in>set (map ?w q). x \<noteq> []" by auto
  have d: "parse_pair (?w p) = p" for p
    using form_encode_safe [of "CHR ''=''"]
    by (cases p) (simp add: parse_pair_def takeWhile_neq_append dropWhile_neq_append url_decode_form_encode)
  have "parse_search (''?'' @ search_params q) = map parse_pair (filter (\<lambda>w. w \<noteq> []) (map ?w q))"
    by (simp add: parse_search_def sp)
  also have "\<dots> = map parse_pair (map ?w q)" by (simp only: filter_id_nonempty [OF ne])
  also have "\<dots> = q" by (rule nth_equalityI, simp, simp only: nth_map length_map d)
  finally show ?thesis .
qed

end
