(* ===== verification/DashKit.thy ===== *)
theory DashKit
  imports Investigate PolicyPanel
begin

section \<open>Shared components of the Next.js console\<close>

text \<open>
  Models \<open>info-sheet.tsx\<close>, \<open>inspect.tsx\<close>, \<open>confirm-dialog.tsx\<close>, \<open>empty-state.tsx\<close>,
  \<open>live-status.tsx\<close>, \<open>theme-toggle.tsx\<close> and \<open>metric.tsx\<close> of \<open>dashboard/components/\<close>. The dialog and
  the sheet of the interface kit show their content while they are open and report every way of closing
  them (Escape, the cross, the overlay, Cancel) as one call of \<open>onOpenChange(false)\<close>.
\<close>

subsection \<open>Detail sheet\<close>

record 'm sheet_field =
  fl_label :: string
  fl_value :: "'m node option"
  fl_mono :: bool
  fl_wrap :: bool

definition fld :: "string \<Rightarrow> 'm node option \<Rightarrow> 'm sheet_field" where
  "fld l v = \<lparr>fl_label = l, fl_value = v, fl_mono = False, fl_wrap = False\<rparr>"

definition fld_mono :: "string \<Rightarrow> 'm node option \<Rightarrow> 'm sheet_field" where
  "fld_mono l v = \<lparr>fl_label = l, fl_value = v, fl_mono = True, fl_wrap = False\<rparr>"

definition fld_wrap :: "string \<Rightarrow> 'm node option \<Rightarrow> 'm sheet_field" where
  "fld_wrap l v = \<lparr>fl_label = l, fl_value = v, fl_mono = False, fl_wrap = True\<rparr>"

definition fld_mono_wrap :: "string \<Rightarrow> 'm node option \<Rightarrow> 'm sheet_field" where
  "fld_mono_wrap l v = \<lparr>fl_label = l, fl_value = v, fl_mono = True, fl_wrap = True\<rparr>"

definition vtxt :: "string \<Rightarrow> 'm node option" where
  "vtxt t = Some (Txt t)"

definition vtxt_opt :: "string option \<Rightarrow> 'm node option" where
  "vtxt_opt t = map_option Txt t"

definition field_shown :: "'m sheet_field \<Rightarrow> bool" where
  \<comment> \<open>\<open>f.value !== undefined \&\& f.value !== null \&\& f.value !== ""\<close>\<close>
  "field_shown f = (case fl_value f of None \<Rightarrow> False | Some (Txt t) \<Rightarrow> t \<noteq> [] | Some n \<Rightarrow> True)"

definition sheet_row :: "'m sheet_field \<Rightarrow> 'm node" where
  "sheet_row f =
     el ''div'' []
       [el ''dt'' [] [Txt (fl_label f)],
        el ''dd'' [cls (''min-w-0 '' @ (if fl_mono f then ''font-mono text-xs'' else []) @ '' '' @
                        (if fl_wrap f then ''break-words'' else ''truncate''))]
          [case fl_value f of None \<Rightarrow> Null | Some n \<Rightarrow> n]]"

definition info_sheet ::
  "bool \<Rightarrow> 'm \<Rightarrow> string \<Rightarrow> string option \<Rightarrow> 'm node option \<Rightarrow> 'm sheet_field list \<Rightarrow> 'm node option \<Rightarrow> 'm node option \<Rightarrow> 'm node" where
  "info_sheet is_open closed title sub' badge' fs children footer =
     (let shown = filter field_shown fs
      in if \<not> is_open then Null
         else Elem ''Sheet'' [] [On ''openChange'' closed]
           [el ''SheetHeader'' []
              [only_if (truthy sub') (el ''SheetDescription'' [] [opt_txt sub']),
               el ''SheetTitle'' [] [Txt title],
               (case badge' of None \<Rightarrow> Null | Some b \<Rightarrow> el ''div'' [cls ''pt-1''] [b])],
            el ''div'' [cls ''min-h-0 flex-1 overflow-y-auto overflow-x-hidden overscroll-contain'']
              [(if shown = [] \<and> children = None
                then el ''p'' [] [Txt ''No details available.'']
                else el ''dl'' [cls ''divide-y''] (map sheet_row shown)),
               (case children of None \<Rightarrow> Null | Some n \<Rightarrow> Frag [el ''Separator'' [] [], el ''div'' [cls ''p-4 sm:p-5''] [n]])],
            (case footer of None \<Rightarrow> Null | Some n \<Rightarrow> el ''div'' [cls ''shrink-0 border-t''] [n])])"

subsection \<open>Inspect button, confirmation, empty state\<close>

definition inspect :: "'m \<Rightarrow> string \<Rightarrow> 'm node" where
  "inspect on_click label =
     Elem ''Button'' [(''variant'', ''ghost''), (''size'', ''icon-sm''), (''title'', label), (''aria-label'', label)]
       [On ''click'' on_click] [el ''Eye'' [] []]"

definition confirm_dialog :: "bool \<Rightarrow> 'm \<Rightarrow> string \<Rightarrow> string option \<Rightarrow> string option \<Rightarrow> bool \<Rightarrow> 'm \<Rightarrow> 'm node" where
  "confirm_dialog is_open closed title description label destructive confirm =
     (if \<not> is_open then Null
      else Elem ''AlertDialog'' [] [On ''openChange'' closed]
        [el ''AlertDialogHeader'' []
           [el ''AlertDialogTitle'' [] [Txt title],
            only_if (truthy description) (el ''AlertDialogDescription'' [] [opt_txt description])],
         el ''AlertDialogFooter'' []
           [el ''AlertDialogCancel'' [] [Txt ''Cancel''],
            Elem ''AlertDialogAction'' [cls (if destructive then ''bg-destructive text-white hover:bg-destructive/90 focus-visible:ring-destructive/30'' else [])]
              [On ''click'' confirm] [Txt (case label of None \<Rightarrow> ''Confirm'' | Some l \<Rightarrow> l)]]])"

datatype 'm empty_action = NoAction | ActionNode "'m node" | ActionButton string 'm

definition empty_state :: "'m node option \<Rightarrow> string \<Rightarrow> 'm node option \<Rightarrow> 'm empty_action \<Rightarrow> string option \<Rightarrow> 'm node" where
  "empty_state icon title description action extra =
     el ''div'' [cls (''flex flex-col items-center justify-center gap-2 px-6 py-14 text-center '' @ (case extra of None \<Rightarrow> [] | Some c \<Rightarrow> c))]
       [el ''span'' [] [case icon of None \<Rightarrow> el ''Inbox'' [] [] | Some i \<Rightarrow> i],
        el ''p'' [cls ''text-sm font-medium''] [Txt title],
        (case description of None \<Rightarrow> Null | Some d \<Rightarrow> el ''p'' [cls ''max-w-sm text-sm text-muted-foreground''] [d]),
        (case action of
           NoAction \<Rightarrow> Null
         | ActionNode n \<Rightarrow> el ''div'' [cls ''mt-2''] [n]
         | ActionButton label m \<Rightarrow> Elem ''Button'' [(''variant'', ''outline''), (''size'', ''sm'')] [On ''click'' m] [Txt label])]"

subsection \<open>Live status and theme\<close>

text \<open>The clock is the text of the last tick, none before the component is mounted; ticks come once a
  second from an interval that unmounting clears.\<close>

definition clock_tick :: "int \<Rightarrow> string" where
  "clock_tick now = utc_clock now"

definition live_status :: "bool \<Rightarrow> string \<Rightarrow> 'm node" where
  "live_status live now =
     el ''div'' [cls ''flex items-center gap-3'']
       [el ''span''
          [(''role'', ''status''), (''aria-live'', ''polite''),
           (''aria-label'', if live then ''Live: connected to the control plane'' else ''Reconnecting to the control plane''),
           cls (if live then ''border-[color-mix(in_oklch,var(--signal)_45%,transparent)] text-[var(--signal)]'' else ''text-muted-foreground'')]
          [(if live then spanc ''live-dot size-2'' [] else spanc ''size-2 rounded-full bg-[var(--sev-info)]'' []),
           Txt (if live then ''Live'' else ''Reconnecting'')],
        el ''span'' [] [el ''Eye'' [] [], Txt (now @ '' UTC'')]]"

definition next_theme :: "string option \<Rightarrow> string" where
  "next_theme theme = (if theme = Some ''dark'' then ''light'' else ''dark'')"

definition theme_toggle :: "string option \<Rightarrow> bool \<Rightarrow> (string \<Rightarrow> 'm) \<Rightarrow> 'm node" where
  "theme_toggle theme mounted set_theme =
     Elem ''Button'' [(''variant'', ''ghost''), (''size'', ''icon''), (''aria-label'', ''Toggle theme'')]
       [On ''click'' (set_theme (next_theme theme))]
       [if mounted \<and> theme = Some ''dark'' then el ''Moon'' [] [] else el ''Sun'' [] []]"

subsection \<open>Metric\<close>

text \<open>The state of \<open>useCountUp\<close>: the value shown, the value the last finished animation ended at, and
  the running animation (its start, end and starting time). A frame at time \<open>t\<close> shows the target once
  the duration is over; before that it shows the rounded eased value, a double the model leaves open
  (\<open>mid\<close>). Starting an animation cancels the running one.\<close>

record count_up =
  cu_shown :: int
  cu_from :: int
  cu_anim :: "(int \<times> int) option"

definition count_up0 :: "int \<Rightarrow> count_up" where
  "count_up0 target = \<lparr>cu_shown = target, cu_from = target, cu_anim = None\<rparr>"

definition count_target :: "bool \<Rightarrow> int \<Rightarrow> int \<Rightarrow> count_up \<Rightarrow> count_up" where
  \<comment> \<open>the effect of a new target at time \<open>now\<close>\<close>
  "count_target reduced now target s =
     (let s1 = s\<lparr>cu_anim := None\<rparr>
      in if target - cu_from s1 = 0 then s1
         else if reduced then s1\<lparr>cu_from := target, cu_shown := target\<rparr>
         else s1\<lparr>cu_anim := Some (target, now)\<rparr>)"

definition count_frame :: "int \<Rightarrow> (int \<Rightarrow> int) \<Rightarrow> int \<Rightarrow> count_up \<Rightarrow> count_up" where
  "count_frame ms mid t s =
     (case cu_anim s of
        None \<Rightarrow> s
      | Some (target, start) \<Rightarrow>
          if t - start \<ge> ms then s\<lparr>cu_shown := target, cu_from := target, cu_anim := None\<rparr>
          else s\<lparr>cu_shown := mid t\<rparr>)"

datatype metric_value = MNum int | MText string

definition metric ::
  "(int \<Rightarrow> string) \<Rightarrow> count_up \<Rightarrow> string \<Rightarrow> string \<Rightarrow> metric_value \<Rightarrow> 'm node option \<Rightarrow> string option \<Rightarrow> int list option \<Rightarrow> 'm node option \<Rightarrow> bool \<Rightarrow> 'm node" where
  "metric show_number counted use_id label value icon accent spark sub' emphasize =
     (let ac = (case accent of None \<Rightarrow> ''var(--primary)'' | Some a \<Rightarrow> a)
      in el ''Card'' [cls ''panel relative overflow-hidden py-0'']
        [el ''span'' [sty (''background: '' @ ac @ ''; opacity: '' @ (if emphasize then ''1'' else ''0.35''))] [],
         el ''CardContent'' [cls ''p-5'']
           [el ''div'' [] [el ''span'' [] [Txt label], (case icon of None \<Rightarrow> Null | Some i \<Rightarrow> i)],
            el ''div'' [] [Txt (case value of MNum n \<Rightarrow> show_number (cu_shown counted) | MText t \<Rightarrow> t)],
            (case sub' of None \<Rightarrow> Null | Some n \<Rightarrow> el ''div'' [cls ''mt-2 text-xs text-muted-foreground''] [n]),
            (case spark of
               None \<Rightarrow> Null
             | Some d \<Rightarrow> only_if (length d > 1) (el ''div'' [cls ''-mx-1 mt-3''] [sparkline use_id d ac 38]))]])"

subsection \<open>Lemmas\<close>

lemma set_node_info_sheet:
  "set_node (info_sheet op cl t sb b fs ch ft) =
     (if op then {cl} \<union> (case b of None \<Rightarrow> {} | Some n \<Rightarrow> set_node n) \<union>
        (\<Union>f\<in>{f \<in> set fs. field_shown f}. case fl_value f of None \<Rightarrow> {} | Some n \<Rightarrow> set_node n) \<union>
        (case ch of None \<Rightarrow> {} | Some n \<Rightarrow> set_node n) \<union> (case ft of None \<Rightarrow> {} | Some n \<Rightarrow> set_node n)
      else {})"
proof -
  have r: "set_node (sheet_row f) = (case fl_value f of None \<Rightarrow> {} | Some n \<Rightarrow> set_node n)" for f :: "'a sheet_field"
    by (simp add: sheet_row_def split: option.splits)
  show ?thesis
    by (cases b; cases ch; cases ft) (auto simp: info_sheet_def Let_def r filter_empty_conv)
qed

lemma set_node_inspect [simp]: "set_node (inspect m l) = {m}"
  by (simp add: inspect_def)

lemma set_node_confirm_dialog [simp]:
  "set_node (confirm_dialog op cl t d l ds cf) = (if op then {cl, cf} else {})"
  by (auto simp: confirm_dialog_def)

lemma set_node_live_status [simp]: "set_node (live_status l n :: 'm node) = {}"
  by (simp add: live_status_def)

lemma set_node_sparkline [simp]: "set_node (sparkline i d c h :: 'm node) = {}"
  by (auto simp: sparkline_def Let_def)

lemma set_node_metric [simp]:
  "set_node (metric sn c i l v ic ac sp sb em) =
     (case ic of None \<Rightarrow> {} | Some n \<Rightarrow> set_node n) \<union> (case sb of None \<Rightarrow> {} | Some n \<Rightarrow> set_node n)"
  by (auto simp: metric_def Let_def split: option.splits)

subsection \<open>Properties\<close>

text \<open>A counter in motion is at its target, exactly, with the first frame after its duration, whatever
  the intermediate frames showed; with reduced motion it is there at once.\<close>

theorem count_up_arrives:
  assumes "target \<noteq> cu_from s" and "now + ms \<le> t"
  shows "cu_shown (count_frame ms mid t (fold (count_frame ms mid) earlier (count_target False now target s))) = target \<and>
    cu_shown (count_target True now target s) = target"
proof -
  have d: "target - cu_from s \<noteq> 0" using assms(1) by simp
  have inv: "(cu_anim s' = Some (target, now)) \<or> (cu_anim s' = None \<and> cu_shown s' = target)"
    if "s' = fold (count_frame ms mid) earlier (count_target False now target s)" for s'
    using that
  proof (induction earlier arbitrary: s' rule: rev_induct)
    case Nil
    then show ?case using d by (simp add: count_target_def Let_def)
  next
    case (snoc u us)
    define b where "b = fold (count_frame ms mid) us (count_target False now target s)"
    from snoc.IH [OF b_def] have c: "(cu_anim b = Some (target, now)) \<or> (cu_anim b = None \<and> cu_shown b = target)" .
    from snoc.prems have "s' = count_frame ms mid u b" by (simp add: b_def)
    then show ?case using c by (auto simp: count_frame_def split: if_splits)
  qed
  from inv [OF refl] show ?thesis
    using assms(2) d by (auto simp: count_frame_def count_target_def Let_def)
qed

text \<open>A target that changes back to the value the last finished animation ended at stops the running
  animation where it is: the counter then shows an intermediate value for good.\<close>

theorem count_up_sticks:
  assumes "cu_anim s = Some (t1, start)" and "cu_from s = f0"
  shows "fold (count_frame ms mid) later (count_target reduced now f0 s) = s\<lparr>cu_anim := None\<rparr>"
proof -
  have s1: "count_target reduced now f0 s = s\<lparr>cu_anim := None\<rparr>"
    using assms by (simp add: count_target_def Let_def)
  show ?thesis unfolding s1 by (induction later) (simp_all add: count_frame_def)
qed

lemma count_up_arrives_witness:
  "cu_shown (count_frame 650 (\<lambda>t. 7) 700 (fold (count_frame 650 (\<lambda>t. 7)) [16, 33] (count_target False 0 9 (count_up0 3)))) = 9"
  using count_up_arrives [of 9 "count_up0 3" 0 650 700 "\<lambda>t. 7" "[16, 33]"] by (simp add: count_up0_def)

lemma count_up_sticks_witness:
  "cu_shown (fold (count_frame 650 (\<lambda>t. 4)) [700, 1400] (count_target False 50 3
     (count_frame 650 (\<lambda>t. 4) 20 (count_target False 0 9 (count_up0 3))))) = 4"
proof -
  let ?s = "count_frame 650 (\<lambda>t. 4) 20 (count_target False 0 9 (count_up0 3))"
  have s: "?s = \<lparr>cu_shown = 4, cu_from = 3, cu_anim = Some (9, 0)\<rparr>"
    by (simp add: count_up0_def count_target_def count_frame_def Let_def)
  show ?thesis
    using count_up_sticks [of ?s 9 0 3 650 "\<lambda>t. 4" "[700, 1400]" False 50] by (simp add: s)
qed

end
