(* ===== verification/DataTable.thy ===== *)
theory DataTable
  imports DashKit
begin

section \<open>The data table of the Next.js console\<close>

text \<open>
  Models \<open>dashboard/components/data-table.tsx\<close>. Sorting, filtering, paging and selecting rows is the
  work of a library (TanStack Table): the component calls it (\<open>grid_call\<close>), holds the state the
  library hands back, and renders what the library answers. \<open>grid\<close> is one such answer: the rows of
  the page in order, the visible columns, the selected rows. The component's own work is here: the
  view saved in and restored from the browser's storage, the selection column, the bulk bar, which
  rows are new, and the table it renders.

  Saved values are JSON values, since the component restores what it reads without looking into it.
  \<open>json_parse\<close> is \<open>JSON.parse\<close>, \<open>None\<close> where it throws.
\<close>

subsection \<open>Columns, properties, state\<close>

datatype column_header = HNone | HText string | HSort string

record ('r, 'm) column =
  co_id :: string
  co_header :: column_header
  co_hiding :: bool
  co_cell :: "'r \<Rightarrow> 'm node"

definition col :: "string \<Rightarrow> column_header \<Rightarrow> ('r \<Rightarrow> 'm node) \<Rightarrow> ('r, 'm) column" where
  "col i h c = \<lparr>co_id = i, co_header = h, co_hiding = True, co_cell = c\<rparr>"

definition fixed_col :: "string \<Rightarrow> column_header \<Rightarrow> ('r \<Rightarrow> 'm node) \<Rightarrow> ('r, 'm) column" where
  \<comment> \<open>\<open>enableHiding: false\<close>\<close>
  "fixed_col i h c = \<lparr>co_id = i, co_header = h, co_hiding = False, co_cell = c\<rparr>"

record ('r, 'm) table_props =
  tp_columns :: "('r, 'm) column list"
  tp_row_click :: "('r \<Rightarrow> 'm) option"
  tp_placeholder :: "string option"
  tp_page_size :: "nat option"
  tp_toolbar :: "'m node option"
  tp_initial_sort :: "(string \<times> bool) list"
  tp_empty :: "'m node option"
  tp_loading :: bool
  tp_row_id :: bool
  tp_table_id :: "string option"
  tp_selection :: bool
  tp_bulk :: "('r list \<Rightarrow> 'm node) option"
  tp_density :: bool

datatype density = Comfortable | Compact

definition density_text :: "density \<Rightarrow> string" where
  "density_text d = (case d of Comfortable \<Rightarrow> ''comfortable'' | Compact \<Rightarrow> ''compact'')"

record table_view =
  tv_sorting :: "json list"
  tv_filter :: string
  tv_visibility :: json
  tv_selection :: "(string \<times> bool) list"
  tv_density :: density
  tv_restored :: bool
  tv_prev_ids :: "string list option"
  tv_reduced :: bool

definition sort_json :: "string \<times> bool \<Rightarrow> json" where
  "sort_json = (\<lambda>(i, desc). JObj [(''id'', JStr i), (''desc'', JBool desc)])"

definition table_view0 :: "(string \<times> bool) list \<Rightarrow> table_view" where
  "table_view0 initial = \<lparr>tv_sorting = map sort_json initial, tv_filter = [], tv_visibility = JObj [], tv_selection = [],
     tv_density = Comfortable, tv_restored = False, tv_prev_ids = None, tv_reduced = False\<rparr>"

subsection \<open>The saved view\<close>

fun json_get :: "json \<Rightarrow> string \<Rightarrow> json option" where
  \<comment> \<open>reading a property of a parsed value other than \<open>null\<close>\<close>
  "json_get (JObj ps) k = map_of ps k"
| "json_get _ k = None"

fun json_object :: "json \<Rightarrow> bool" where
  \<comment> \<open>\<open>x \&\& typeof x === "object"\<close>\<close>
  "json_object (JObj ps) = True"
| "json_object (JArr xs) = True"
| "json_object _ = False"

definition apply_view :: "json \<Rightarrow> table_view \<Rightarrow> table_view" where
  "apply_view v s =
     (let s1 = (case json_get v ''sorting'' of Some (JArr xs) \<Rightarrow> s\<lparr>tv_sorting := xs\<rparr> | _ \<Rightarrow> s);
          s2 = (case json_get v ''columnVisibility'' of Some c \<Rightarrow> if json_object c then s1\<lparr>tv_visibility := c\<rparr> else s1 | None \<Rightarrow> s1)
      in case json_get v ''density'' of
           Some (JStr d) \<Rightarrow> if d = ''compact'' then s2\<lparr>tv_density := Compact\<rparr>
             else if d = ''comfortable'' then s2\<lparr>tv_density := Comfortable\<rparr> else s2
         | _ \<Rightarrow> s2)"

definition restore_view :: "(string \<Rightarrow> json option) \<Rightarrow> string option \<Rightarrow> string option \<Rightarrow> table_view \<Rightarrow> table_view" where
  \<comment> \<open>the effect that runs when the table is mounted; \<open>raw\<close> is what the storage holds under its key\<close>
  "restore_view json_parse table_id raw s =
     (if \<not> truthy table_id \<or> tv_restored s then s
      else (let s1 = s\<lparr>tv_restored := True\<rparr>
            in if \<not> truthy raw then s1
               else (case json_parse (the raw) of
                       None \<Rightarrow> s1
                     | Some JNull \<Rightarrow> s1
                     | Some v \<Rightarrow> apply_view v s1)))"

definition view_json :: "table_view \<Rightarrow> json" where
  "view_json s = JObj [(''sorting'', JArr (tv_sorting s)), (''columnVisibility'', tv_visibility s),
                       (''density'', JStr (density_text (tv_density s)))]"

definition save_view :: "string option \<Rightarrow> table_view \<Rightarrow> (string \<times> string) option" where
  \<comment> \<open>the key and value written to the storage\<close>
  "save_view table_id s =
     (if \<not> truthy table_id \<or> \<not> tv_restored s then None
      else Some (''dt:'' @ the table_id, stringify (view_json s)))"

subsection \<open>Steps\<close>

datatype grid_call =
    ToggleSorting string bool
  | ToggleAllPage bool
  | ToggleRow string bool
  | ToggleVisibility string bool
  | ResetSelection
  | PreviousPage
  | NextPage

datatype grid_msg =
    GFilter string
  | GDensity
  | GCall grid_call
  | GSorting "json list"
  | GVisibility json
  | GSelection "(string \<times> bool) list"
  | GReduced bool
  | GRendered "string list"

fun grid_update :: "bool \<Rightarrow> grid_msg \<Rightarrow> table_view \<Rightarrow> table_view \<times> grid_call list" where
  \<comment> \<open>\<open>GRendered\<close> is the effect after a render, with the ids of the rows on the page\<close>
  "grid_update row_id (GFilter t) s = (s\<lparr>tv_filter := t\<rparr>, [])"
| "grid_update row_id GDensity s = (s\<lparr>tv_density := (case tv_density s of Compact \<Rightarrow> Comfortable | Comfortable \<Rightarrow> Compact)\<rparr>, [])"
| "grid_update row_id (GCall c) s = (s, [c])"
| "grid_update row_id (GSorting x) s = (s\<lparr>tv_sorting := x\<rparr>, [])"
| "grid_update row_id (GVisibility v) s = (s\<lparr>tv_visibility := v\<rparr>, [])"
| "grid_update row_id (GSelection x) s = (s\<lparr>tv_selection := x\<rparr>, [])"
| "grid_update row_id (GReduced b) s = (s\<lparr>tv_reduced := b\<rparr>, [])"
| "grid_update row_id (GRendered xs) s = (if row_id then (s\<lparr>tv_prev_ids := Some xs\<rparr>, []) else (s, []))"

definition is_new :: "bool \<Rightarrow> table_view \<Rightarrow> string \<Rightarrow> bool" where
  "is_new row_id s i = (\<not> tv_reduced s \<and> row_id \<and> (case tv_prev_ids s of None \<Rightarrow> False | Some xs \<Rightarrow> i \<notin> set xs))"

subsection \<open>View\<close>

record 'r grid =
  gr_rows :: "(string \<times> 'r \<times> bool) list"
  gr_total :: nat
  gr_columns :: "string list"
  gr_hideable :: "(string \<times> bool) list"
  gr_selected :: "'r list"
  gr_sorted :: "string \<Rightarrow> bool option"
  gr_can_sort :: "string \<Rightarrow> bool"
  gr_width :: "string \<Rightarrow> nat"
  gr_all_page :: bool
  gr_some_page :: bool
  gr_page :: nat
  gr_pages :: nat
  gr_can_prev :: bool
  gr_can_next :: bool

definition sort_button :: "'r grid \<Rightarrow> (grid_msg \<Rightarrow> 'm) \<Rightarrow> string \<Rightarrow> string \<Rightarrow> 'm node" where
  \<comment> \<open>\<open>SortHeader\<close>\<close>
  "sort_button g wrap i title =
     (if \<not> gr_can_sort g i then el ''span'' [] [Txt title]
      else Elem ''button'' [] [On ''click'' (wrap (GCall (ToggleSorting i (gr_sorted g i = Some False))))]
        [Txt title,
         (case gr_sorted g i of Some False \<Rightarrow> el ''ArrowUp'' [] [] | Some True \<Rightarrow> el ''ArrowDown'' [] []
          | None \<Rightarrow> el ''ChevronsUpDown'' [] [])])"

definition select_all_box :: "'r grid \<Rightarrow> (grid_msg \<Rightarrow> 'm) \<Rightarrow> 'm node" where
  "select_all_box g wrap =
     Elem ''Checkbox'' [(''aria-label'', ''Select all rows''),
         (''checked'', if gr_all_page g then ''true'' else if gr_some_page g then ''indeterminate'' else ''false'')]
       [On ''check'' (wrap (GCall (ToggleAllPage (\<not> gr_all_page g))))] []"

definition select_box_cell :: "(grid_msg \<Rightarrow> 'm) \<Rightarrow> string \<Rightarrow> bool \<Rightarrow> 'm node" where
  "select_box_cell wrap i sel =
     Elem ''Checkbox'' [(''aria-label'', ''Select row''), (''checked'', if sel then ''true'' else ''false'')]
       [On ''check'' (wrap (GCall (ToggleRow i (\<not> sel))))] []"

definition column_of :: "('r, 'm) table_props \<Rightarrow> string \<Rightarrow> ('r, 'm) column option" where
  "column_of p i = find (\<lambda>c. co_id c = i) (tp_columns p)"

definition head_cell :: "('r, 'm) table_props \<Rightarrow> 'r grid \<Rightarrow> (grid_msg \<Rightarrow> 'm) \<Rightarrow> string \<Rightarrow> 'm node" where
  "head_cell p g wrap i =
     el ''TableHead''
       ((case gr_sorted g i of Some False \<Rightarrow> [(''aria-sort'', ''ascending'')] | Some True \<Rightarrow> [(''aria-sort'', ''descending'')] | None \<Rightarrow> []) @
        (if gr_width g i \<noteq> 150 then [sty (''width: '' @ show_nat (gr_width g i) @ ''px'')] else []))
       [if tp_selection p \<and> i = ''__select'' then select_all_box g wrap
        else (case column_of p i of
                None \<Rightarrow> Null
              | Some c \<Rightarrow> (case co_header c of HNone \<Rightarrow> Null | HText t \<Rightarrow> Txt t | HSort t \<Rightarrow> sort_button g wrap i t))]"

definition body_cell :: "('r, 'm) table_props \<Rightarrow> (grid_msg \<Rightarrow> 'm) \<Rightarrow> string \<times> 'r \<times> bool \<Rightarrow> string \<Rightarrow> 'm node" where
  "body_cell p wrap = (\<lambda>(rid, r, sel) i.
     el ''TableCell'' []
       [if tp_selection p \<and> i = ''__select'' then select_box_cell wrap rid sel
        else (case column_of p i of None \<Rightarrow> Null | Some c \<Rightarrow> co_cell c r)])"

definition row_handlers :: "('r \<Rightarrow> 'm) option \<Rightarrow> 'r \<Rightarrow> 'm handler list" where
  "row_handlers on_click r =
     (case on_click of
        None \<Rightarrow> []
      | Some f \<Rightarrow> [On ''click'' (f r), OnKey (\<lambda>k. if k = ''Enter'' \<or> k = '' '' then Some (f r) else None)])"

definition body_row :: "('r, 'm) table_props \<Rightarrow> 'r grid \<Rightarrow> table_view \<Rightarrow> (grid_msg \<Rightarrow> 'm) \<Rightarrow> string \<times> 'r \<times> bool \<Rightarrow> 'm node" where
  "body_row p g s wrap = (\<lambda>(rid, r, sel).
     Elem (if is_new (tp_row_id p) s rid then ''motion.tr'' else ''tr'')
       ((if \<not> Option.is_none (tp_row_click p) then [(''tabIndex'', ''0''), (''role'', ''button'')] else []) @
        [(''data-slot'', ''table-row'')] @ (if sel then [(''data-state'', ''selected'')] else []))
       (row_handlers (tp_row_click p) r)
       (map (body_cell p wrap (rid, r, sel)) (gr_columns g)))"

definition table_toolbar :: "('r, 'm) table_props \<Rightarrow> 'r grid \<Rightarrow> table_view \<Rightarrow> (grid_msg \<Rightarrow> 'm) \<Rightarrow> 'm node" where
  "table_toolbar p g s wrap =
     el ''div'' [cls ''flex flex-wrap items-center gap-2'']
       [(case tp_toolbar p of None \<Rightarrow> Null | Some n \<Rightarrow> n),
        only_if (truthy (tp_placeholder p))
          (Elem ''Input'' ([(''value'', tv_filter s)] @ opt_attr ''placeholder'' (tp_placeholder p) @ opt_attr ''aria-label'' (tp_placeholder p))
             [OnValue ''change'' (\<lambda>t. wrap (GFilter t))] []),
        el ''div'' [cls ''ml-auto flex items-center gap-2'']
          [only_if (tp_density p)
             (Elem ''Button''
                [(''variant'', ''outline''), (''size'', ''sm''),
                 (''aria-label'', if tv_density s = Compact then ''Switch to comfortable density'' else ''Switch to compact density''),
                 (''title'', if tv_density s = Compact then ''Comfortable rows'' else ''Compact rows'')]
                [On ''click'' (wrap GDensity)]
                [if tv_density s = Compact then el ''Rows4'' [] [] else el ''Rows3'' [] []]),
           only_if (length (gr_hideable g) > 0)
             (el ''DropdownMenu'' []
                ([el ''Button'' [] [Txt ''Columns '', el ''Columns3'' [] []], el ''DropdownMenuLabel'' [] [Txt ''Visible columns''],
                  el ''DropdownMenuSeparator'' [] []] @
                 map (\<lambda>(i, v). Elem ''DropdownMenuCheckboxItem'' [(''checked'', if v then ''true'' else ''false'')]
                        [On ''check'' (wrap (GCall (ToggleVisibility i (\<not> v))))] [Txt i]) (gr_hideable g)))]]"

definition bulk_bar :: "('r, 'm) table_props \<Rightarrow> 'r grid \<Rightarrow> (grid_msg \<Rightarrow> 'm) \<Rightarrow> 'm node" where
  "bulk_bar p g wrap =
     (case tp_bulk p of
        None \<Rightarrow> Null
      | Some f \<Rightarrow>
          only_if (tp_selection p \<and> length (gr_selected g) > 0)
            (el ''div'' [cls ''flex flex-wrap items-center gap-2 rounded-lg border'']
               [el ''span'' [] [Txt (show_nat (length (gr_selected g)) @ '' selected'')],
                Elem ''Button'' [(''variant'', ''ghost''), (''size'', ''sm'')] [On ''click'' (wrap (GCall ResetSelection))]
                  [el ''X'' [] [], Txt '' Clear''],
                el ''div'' [cls ''ml-auto flex flex-wrap items-center gap-2''] [f (gr_selected g)]]))"

definition skeleton_rows :: "nat \<Rightarrow> nat \<Rightarrow> 'm node" where
  "skeleton_rows n cols =
     Frag (replicate n (el ''tr'' [cls ''border-b'']
       (replicate cols (el ''TableCell'' [] [el ''div'' [cls ''shimmer h-4 w-full max-w-[12rem] rounded bg-muted''] []]))))"

definition no_rows :: "('r, 'm) table_props \<Rightarrow> 'r grid \<Rightarrow> table_view \<Rightarrow> (grid_msg \<Rightarrow> 'm) \<Rightarrow> 'm node" where
  "no_rows p g s wrap =
     el ''tr'' []
       [el ''td'' [(''colSpan'', show_nat (length (gr_columns g)))]
          [if length (trim (tv_filter s)) > 0
           then el ''div'' []
             [el ''span'' [] [Txt (''No records match '' @ curly (tv_filter s) @ ''.'')],
              Elem ''Button'' [(''variant'', ''outline''), (''size'', ''sm'')] [On ''click'' (wrap (GFilter []))] [Txt ''Clear filters'']]
           else (case tp_empty p of None \<Rightarrow> Txt ''No records'' | Some n \<Rightarrow> n)]]"

definition pager :: "'r grid \<Rightarrow> (grid_msg \<Rightarrow> 'm) \<Rightarrow> 'm node" where
  "pager g wrap =
     el ''div'' [cls ''flex items-center justify-between px-1'']
       [el ''span'' [] [Txt (show_nat (gr_total g) @ '' rows '' @ u_middot @ '' page '' @ show_nat (gr_page g + 1) @ ''/'' @ show_nat (gr_pages g))],
        el ''div'' []
          [Elem ''Button'' (disabled_attr (\<not> gr_can_prev g)) (unless_disabled (\<not> gr_can_prev g) [On ''click'' (wrap (GCall PreviousPage))]) [Txt ''Prev''],
           Elem ''Button'' (disabled_attr (\<not> gr_can_next g)) (unless_disabled (\<not> gr_can_next g) [On ''click'' (wrap (GCall NextPage))]) [Txt ''Next'']]]"

definition data_table :: "('r, 'm) table_props \<Rightarrow> 'r grid \<Rightarrow> table_view \<Rightarrow> (grid_msg \<Rightarrow> 'm) \<Rightarrow> 'm node" where
  "data_table p g s wrap =
     el ''div'' [cls ''space-y-3'']
       [only_if (truthy (tp_placeholder p) \<or> \<not> Option.is_none (tp_toolbar p) \<or> length (gr_hideable g) > 0 \<or> tp_density p) (table_toolbar p g s wrap),
        bulk_bar p g wrap,
        el ''div'' ([cls (''overflow-hidden rounded-xl border bg-card '' @ (if tv_density s = Compact then ''[&_td]:py-1 [&_th]:py-1.5'' else []))] @
                    (if tp_loading p then [(''aria-busy'', ''true'')] else []))
          [el ''Table'' [(''aria-rowcount'', show_nat (gr_total g))]
             [el ''TableHeader'' [] [el ''TableRow'' [] (map (head_cell p g wrap) (gr_columns g))],
              el ''tbody'' [(''data-slot'', ''table-body'')]
                [if tp_loading p \<and> gr_rows g = [] then skeleton_rows 6 (length (gr_columns g))
                 else if gr_rows g = [] then no_rows p g s wrap
                 else Frag (map (body_row p g s wrap) (gr_rows g))]]],
        only_if (tp_page_size p \<notin> {None, Some 0} \<and> length (gr_rows g) > 0) (pager g wrap)]"

subsection \<open>Lemmas\<close>

definition grid_rows :: "'r grid \<Rightarrow> 'r set" where
  "grid_rows g = (fst \<circ> snd) ` set (gr_rows g)"

definition bulk_messages :: "('r, 'm) table_props \<Rightarrow> 'r grid \<Rightarrow> 'm set" where
  "bulk_messages p g =
     (case tp_bulk p of None \<Rightarrow> {} | Some f \<Rightarrow> if tp_selection p \<and> gr_selected g \<noteq> [] then set_node (f (gr_selected g)) else {})"

definition click_messages :: "('r, 'm) table_props \<Rightarrow> 'r grid \<Rightarrow> 'm set" where
  "click_messages p g = (case tp_row_click p of None \<Rightarrow> {} | Some f \<Rightarrow> f ` grid_rows g)"

definition cell_messages :: "('r, 'm) table_props \<Rightarrow> 'r grid \<Rightarrow> 'm set" where
  "cell_messages p g = (\<Union>c\<in>set (tp_columns p). \<Union>r\<in>grid_rows g. set_node (co_cell c r))"

definition node_messages :: "'m node option \<Rightarrow> 'm set" where
  "node_messages n = (case n of None \<Rightarrow> {} | Some x \<Rightarrow> set_node x)"

lemma node_messages_simps [simp]: "node_messages None = {}" "node_messages (Some n) = set_node n"
  by (simp_all add: node_messages_def)

lemma column_ofD: "column_of p i = Some c \<Longrightarrow> c \<in> set (tp_columns p)"
  unfolding column_of_def by (auto simp: find_Some_iff)

lemma set_sort_button: "set_node (sort_button g wrap i t) \<subseteq> range wrap"
  by (auto simp: sort_button_def split: option.splits bool.splits)

lemma set_head_cell: "set_node (head_cell p g wrap i) \<subseteq> range wrap"
proof -
  have "set_node (select_all_box g wrap) \<subseteq> range wrap" by (simp add: select_all_box_def)
  then show ?thesis
    using set_sort_button [of g wrap i] unfolding head_cell_def
    by (simp split: option.split column_header.split)
qed

lemma grid_rowsI: "(rid, r, sel) \<in> set (gr_rows g) \<Longrightarrow> r \<in> grid_rows g"
  by (force simp: grid_rows_def)

lemma cell_messagesI: "column_of p i = Some c \<Longrightarrow> r \<in> grid_rows g \<Longrightarrow> set_node (co_cell c r) \<subseteq> cell_messages p g"
  using column_ofD unfolding cell_messages_def by fast

lemma set_body_cell:
  assumes "(rid, r, sel) \<in> set (gr_rows g)"
  shows "set_node (body_cell p wrap (rid, r, sel) i) \<subseteq> range wrap \<union> cell_messages p g"
proof -
  have b: "set_node (select_box_cell wrap rid sel) \<subseteq> range wrap" by (simp add: select_box_cell_def)
  show ?thesis
  proof (cases "tp_selection p \<and> i = ''__select''")
    case True
    then show ?thesis using b by (simp add: body_cell_def le_supI1)
  next
    case False
    then show ?thesis
      using cell_messagesI [of p i _ r g] grid_rowsI [OF assms]
      by (cases "column_of p i") (auto simp: body_cell_def)
  qed
qed

lemma set_body_row:
  assumes "x \<in> set (gr_rows g)"
  shows "set_node (body_row p g s wrap x) \<subseteq> range wrap \<union> cell_messages p g \<union> click_messages p g"
proof -
  obtain rid r sel where x: "x = (rid, r, sel)" by (cases x)
  have h: "\<Union> (set_handler ` set (row_handlers (tp_row_click p) r)) \<subseteq> click_messages p g"
    using grid_rowsI [OF assms [unfolded x]]
    by (cases "tp_row_click p") (auto simp: row_handlers_def click_messages_def split: if_splits)
  have c: "\<Union> (set_node ` set (map (body_cell p wrap x) (gr_columns g))) \<subseteq> range wrap \<union> cell_messages p g"
  proof (rule Union_least)
    fix X
    assume "X \<in> set_node ` set (map (body_cell p wrap x) (gr_columns g))"
    then obtain i where "X = set_node (body_cell p wrap (rid, r, sel) i)" by (auto simp: x)
    then show "X \<subseteq> range wrap \<union> cell_messages p g" using set_body_cell [OF assms [unfolded x]] by simp
  qed
  have "set_node (body_row p g s wrap x) =
      \<Union> (set_handler ` set (row_handlers (tp_row_click p) r)) \<union> \<Union> (set_node ` set (map (body_cell p wrap x) (gr_columns g)))"
    by (simp add: x body_row_def)
  then show ?thesis using Un_least [OF le_supI2 [OF h] le_supI1 [OF c]] by (simp only:)
qed

lemma set_table_toolbar: "set_node (table_toolbar p g s wrap) \<subseteq> range wrap \<union> node_messages (tp_toolbar p)"
proof -
  have c: "set_node (if tv_density s = Compact then el ''Rows4'' [] [] else el ''Rows3'' [] []) = {}" by simp
  have "range (\<lambda>t. wrap (GFilter t)) \<subseteq> range wrap" by blast
  then show ?thesis
    unfolding table_toolbar_def by (cases "tp_toolbar p") (simp_all add: c split_beta image_subset_iff le_supI1, auto)
qed

lemma set_bulk_bar: "set_node (bulk_bar p g wrap) \<subseteq> range wrap \<union> bulk_messages p g"
  by (auto simp: bulk_bar_def bulk_messages_def split: option.splits)

lemma set_no_rows: "set_node (no_rows p g s wrap) \<subseteq> range wrap \<union> node_messages (tp_empty p)"
  by (auto simp: no_rows_def split: option.splits)

lemma set_skeleton [simp]: "set_node (skeleton_rows n k :: 'm node) = {}"
  by (auto simp: skeleton_rows_def)

lemma set_pager: "set_node (pager g wrap) \<subseteq> range wrap"
  by (auto simp: pager_def)

text \<open>What the user can send from a table: the table's own messages and what its toolbar, bulk bar,
  rows, cells and empty note send.\<close>

lemma data_table_messages:
  "set_node (data_table p g s wrap) \<subseteq>
     range wrap \<union> node_messages (tp_toolbar p) \<union> bulk_messages p g \<union> click_messages p g \<union> cell_messages p g \<union>
     node_messages (tp_empty p)"
proof -
  have b: "(\<Union>x\<in>set (gr_rows g). set_node (body_row p g s wrap x)) \<subseteq> range wrap \<union> cell_messages p g \<union> click_messages p g"
    using set_body_row by fast
  have h: "(\<Union>i\<in>set (gr_columns g). set_node (head_cell p g wrap i)) \<subseteq> range wrap"
    using set_head_cell by fast
  show ?thesis
    using set_table_toolbar [of p g s wrap] set_bulk_bar [of p g wrap] set_no_rows [of p g s wrap] set_pager [of g wrap] b h
    unfolding data_table_def by (simp del: Un_subset_iff split: if_splits) blast
qed

subsection \<open>Properties\<close>



text \<open>Whatever the storage holds, restoring never fails and never touches the filter, the selection or
  the rows known; text that is no JSON, JSON that is no object, and objects without usable members leave
  the whole view as it was.\<close>

theorem corrupt_view_harmless:
  "(let s' = restore_view json_parse table_id raw s
    in tv_filter s' = tv_filter s \<and> tv_selection s' = tv_selection s \<and> tv_prev_ids s' = tv_prev_ids s \<and> tv_reduced s' = tv_reduced s) \<and>
   (case raw of
      None \<Rightarrow> True
    | Some t \<Rightarrow> (case json_parse t of Some (JObj ps) \<Rightarrow>
          set (map fst ps) \<inter> {''sorting'', ''columnVisibility'', ''density''} = {} \<longrightarrow>
            restore_view json_parse table_id raw s = (if truthy table_id then s\<lparr>tv_restored := True\<rparr> else s)
        | _ \<Rightarrow> restore_view json_parse table_id raw s = (if truthy table_id then s\<lparr>tv_restored := True\<rparr> else s)))"
proof -
  have f: "tv_filter (apply_view v u) = tv_filter u \<and> tv_selection (apply_view v u) = tv_selection u \<and>
      tv_prev_ids (apply_view v u) = tv_prev_ids u \<and> tv_reduced (apply_view v u) = tv_reduced u" for v u
    by (simp add: apply_view_def Let_def split: option.splits json.splits)
  have n: "apply_view v u = u" if "\<And>k. k \<in> {''sorting'', ''columnVisibility'', ''density''} \<Longrightarrow> json_get v k = None" for v u
    using that by (simp add: apply_view_def)
  have id: "s\<lparr>tv_restored := True\<rparr> = s" if "tv_restored s" using that by (cases s) simp
  have m: "json_get (JObj ps) k = None" if "set (map fst ps) \<inter> K = {}" "k \<in> K" for ps k K
    using that by (auto simp: map_of_eq_None_iff)
  show ?thesis
    using f n id m [where K = "{''sorting'', ''columnVisibility'', ''density''}"]
    by (auto simp: restore_view_def Let_def split: option.splits json.splits)
qed

end
