(* ===== verification/DashPages.thy ===== *)
theory DashPages
  imports Query LiveData DataTable
begin

section \<open>What the pages of the Next.js console share\<close>

text \<open>
  The select box and the second drawer of the pages, the toast that reports the reply to an action,
  and the shape all pages have: a state, a view that offers messages, an update that returns the new
  state and the effects. \<open>page_run\<close> is the histories of a page: each message is one the page could
  receive in the state it was in, and what was sent is recorded.

  The locale \<open>confirm_flow\<close> is the contract of the pages with a confirmation dialog: a response can
  become pending only if the page offered it, and everything a page sends is the pending response or
  one of the requests it is free to send at once.
\<close>

subsection \<open>Components\<close>

fun cap :: "string \<Rightarrow> string" where
  "cap [] = []"
| "cap (c # cs) = upper_char c # cs"

definition tpl_num :: "int option \<Rightarrow> string" where
  \<comment> \<open>an optional number inside a template literal\<close>
  "tpl_num n = (case n of None \<Rightarrow> ''undefined'' | Some k \<Rightarrow> show_int k)"

definition dash_select :: "string \<Rightarrow> (string \<Rightarrow> 'm) \<Rightarrow> (string \<times> string) list \<Rightarrow> 'm node" where
  \<comment> \<open>the select box of the interface kit reports a choice only when it is another value\<close>
  "dash_select v on_change opts =
     el ''Select'' [(''value'', v)] (map (\<lambda>(x, l). Elem ''SelectItem'' [(''value'', x)] (if x = v then [] else [On ''select'' (on_change x)]) [Txt l]) opts)"

definition button :: "string \<Rightarrow> 'm \<Rightarrow> 'm node list \<Rightarrow> 'm node" where
  "button variant m ns = Elem ''Button'' [(''size'', ''sm''), (''variant'', variant)] [On ''click'' m] ns"

definition link_button :: "'m \<Rightarrow> string \<Rightarrow> 'm node" where
  "link_button m t = Elem ''button'' [] [On ''click'' m] [Txt t]"

definition menu_item :: "bool \<Rightarrow> 'm \<Rightarrow> 'm node list \<Rightarrow> 'm node" where
  "menu_item destructive m ns =
     Elem ''DropdownMenuItem'' (if destructive then [(''variant'', ''destructive'')] else []) [On ''click'' m] ns"

definition muted :: "string \<Rightarrow> 'm node" where
  "muted t = spanc ''text-muted-foreground'' [Txt t]"

definition mono :: "string \<Rightarrow> 'm node" where
  "mono t = spanc ''font-mono'' [Txt t]"

definition or_dash :: "string option \<Rightarrow> string" where
  \<comment> \<open>\<open>x || \<dots>\<close> with a dash\<close>
  "or_dash s = str_or s u_dash"

definition metric_card :: "env \<Rightarrow> (string \<Rightarrow> count_up) \<Rightarrow> string \<Rightarrow> metric_value \<Rightarrow> string \<Rightarrow> string option \<Rightarrow> bool \<Rightarrow> 'm node" where
  \<comment> \<open>a metric without chart or note; \<open>counters\<close> is the state of each metric's counter\<close>
  "metric_card env counters label value icon accent emphasize =
     metric (en_number env) (counters label) label label value (Some (el icon [] [])) accent None None emphasize"

definition reply_toast :: "string \<Rightarrow> string \<Rightarrow> action_result \<Rightarrow> dash_effect" where
  "reply_toast good bad r =
     (if ar_ok r then Toast True good
      else Toast False (str_or (ar_error r) (bad @ '' (HTTP '' @ show_nat (ar_status r) @ '')'')))"

definition event_link :: "string \<Rightarrow> string \<Rightarrow> string" where
  \<comment> \<open>the address of the event page with one filter set\<close>
  "event_link key v = ''/events?'' @ key @ ''='' @ encode_uri_component v"

definition detection_link :: "string \<Rightarrow> string" where
  \<comment> \<open>the address of the detection page with a detection to open; the identifier is not encoded\<close>
  "detection_link i = ''/detections?id='' @ i"

definition event_sheet :: "env \<Rightarrow> bool \<Rightarrow> bool \<Rightarrow> (event \<Rightarrow> 'm node) \<Rightarrow> 'm \<Rightarrow> event option \<Rightarrow> 'm node" where
  \<comment> \<open>the drawer of an event picked from an attack story\<close>
  "event_sheet env host hash badge' closed sel =
     (case sel of
        None \<Rightarrow> info_sheet False closed [] (Some ''Event detail'') None [] None None
      | Some e \<Rightarrow>
          info_sheet True closed (ev_category e @ '' '' @ u_middot @ '' '' @ ev_action e) (Some ''Event detail'') (Some (badge' e))
            ([fld_mono ''Time'' (vtxt (en_datetime env (ev_ts e)))] @
             (if host then [fld_mono ''Host'' (vtxt (ev_hostname e))] else []) @
             [fld ''User'' (vtxt_opt (ev_user e)),
              fld_wrap ''Message'' (vtxt_opt (ev_message e)),
              fld_mono_wrap ''Command'' (vtxt_opt (Option.bind (ev_process e) pr_cmdline)),
              fld_mono_wrap ''File'' (vtxt_opt (Option.bind (ev_file e) fi_path))] @
             (if hash then [fld_mono_wrap ''SHA-256'' (vtxt_opt (Option.bind (ev_file e) fi_hash))] else []) @
             [fld_mono ''Remote'' (vtxt_opt (Option.bind (ev_network e) ni_remote)),
              fld_mono ''Domain'' (vtxt_opt (Option.bind (ev_network e) ni_domain))])
            None None)"

subsection \<open>Histories of a page\<close>

inductive page_run ::
  "('d \<Rightarrow> 's \<Rightarrow> 'm set) \<Rightarrow> ('m \<Rightarrow> 's \<Rightarrow> 's \<times> dash_effect list) \<Rightarrow> 's \<Rightarrow> request list \<Rightarrow> 's \<Rightarrow> bool"
  for offers update start where
  start: "page_run offers update start [] start"
| step: "page_run offers update start rs s \<Longrightarrow> m \<in> offers d s \<Longrightarrow> update m s = (t, es) \<Longrightarrow>
    page_run offers update start (rs @ sent es) t"

inductive_cases page_run_cases: "page_run offers update start rs s"

lemma page_run_step:
  "page_run offers update start rs s \<Longrightarrow> m \<in> offers d s \<Longrightarrow>
   page_run offers update start (rs @ sent (snd (update m s))) (fst (update m s))"
  by (rule page_run.step) simp_all

lemma page_run_invariant:
  assumes "page_run offers update start rs s" and "keeps start"
    and "\<And>d s m. keeps s \<Longrightarrow> m \<in> offers d s \<Longrightarrow> keeps (fst (update m s))"
    and "\<And>d s m r. keeps s \<Longrightarrow> m \<in> offers d s \<Longrightarrow> r \<in> set (sent (snd (update m s))) \<Longrightarrow> good r"
  shows "keeps s \<and> (\<forall>r\<in>set rs. good r)"
  using assms(1,2)
proof (induction rule: page_run.induct)
  case (step rs s m d t es)
  then have s: "keeps s" "\<forall>r\<in>set rs. good r" by blast+
  show ?case
    using assms(3) [OF s(1) step.hyps(2)] assms(4) [OF s(1) step.hyps(2)] s(2) step.hyps(3) by auto
qed simp

subsection \<open>The confirmation flow\<close>

locale confirm_flow =
  fixes offers :: "'d \<Rightarrow> 's \<Rightarrow> 'm set"
    and update :: "'m \<Rightarrow> 's \<Rightarrow> 's \<times> dash_effect list"
    and pending :: "'s \<Rightarrow> 'p option"
    and request_of :: "'p \<Rightarrow> request"
    and offered :: "'p \<Rightarrow> bool"
    and free :: "request \<Rightarrow> bool"
  assumes asks_offered: "m \<in> offers d s \<Longrightarrow> pending (fst (update m s)) = Some p \<Longrightarrow> pending s = Some p \<or> offered p"
    and sends_pending: "m \<in> offers d s \<Longrightarrow> r \<in> set (sent (snd (update m s))) \<Longrightarrow>
      free r \<or> (\<exists>p. pending s = Some p \<and> r = request_of p)"
begin

lemma run_offered:
  assumes "page_run offers update start rs s" and "pending start = None"
  shows "(\<forall>p. pending s = Some p \<longrightarrow> offered p) \<and> (\<forall>r\<in>set rs. free r \<or> (\<exists>p. offered p \<and> r = request_of p))"
  using assms
proof (induction rule: page_run.induct)
  case start
  then show ?case by simp
next
  case (step rs s m d t es)
  then have IH: "\<forall>p. pending s = Some p \<longrightarrow> offered p" "\<forall>r\<in>set rs. free r \<or> (\<exists>p. offered p \<and> r = request_of p)"
    by blast+
  have t: "fst (update m s) = t" "snd (update m s) = es" using step.hyps(3) by simp_all
  have a: "\<forall>p. pending t = Some p \<longrightarrow> offered p"
    using asks_offered [OF step.hyps(2)] IH(1) t(1) by blast
  have b: "free r \<or> (\<exists>p. offered p \<and> r = request_of p)" if "r \<in> set (sent es)" for r
    using sends_pending [OF step.hyps(2), of r] that IH(1) t(2) by blast
  show ?case using a b IH(2) by auto
qed

lemma run_sends:
  "page_run offers update start rs s \<Longrightarrow> pending start = None \<Longrightarrow> r \<in> set rs \<Longrightarrow>
   free r \<or> (\<exists>p. offered p \<and> r = request_of p)"
  using run_offered by blast

end

subsection \<open>Lemmas\<close>

lemma sent_map_Send [simp]: "sent (map (\<lambda>a. Send (f a)) xs) = map f xs"
  by (induction xs) auto

lemma set_node_dash_select [simp]: "set_node (dash_select v f opts) = f ` (fst ` set opts - {v})"
  by (force simp: dash_select_def image_iff split: if_splits)

lemma set_node_buttons [simp]:
  "set_node (button v m ns) = insert m (\<Union> (set_node ` set ns))"
  "set_node (link_button m t) = {m}"
  "set_node (menu_item ds m ns) = insert m (\<Union> (set_node ` set ns))"
  "set_node (muted t :: 'm node) = {}" "set_node (mono t :: 'm node) = {}"
  by (auto simp: button_def link_button_def menu_item_def muted_def mono_def)

lemma set_node_metric_card [simp]: "set_node (metric_card env cs l v i a em :: 'm node) = {}"
  by (simp add: metric_card_def)

lemma fl_value_simps [simp]:
  "fl_value (fld l v) = v" "fl_value (fld_mono l v) = v" "fl_value (fld_wrap l v) = v" "fl_value (fld_mono_wrap l v) = v"
  by (simp_all add: fld_def fld_mono_def fld_wrap_def fld_mono_wrap_def)

definition value_messages :: "'m sheet_field \<Rightarrow> 'm set" where
  "value_messages f = node_messages (fl_value f)"

lemma value_messages_simps [simp]:
  "value_messages (fld l v) = node_messages v" "value_messages (fld_mono l v) = node_messages v"
  "value_messages (fld_wrap l v) = node_messages v" "value_messages (fld_mono_wrap l v) = node_messages v"
  "node_messages (vtxt t) = {}" "node_messages (vtxt_opt t') = {}"
  by (simp_all add: value_messages_def vtxt_def vtxt_opt_def node_messages_def split: option.split)

definition fields_messages :: "'m sheet_field list \<Rightarrow> 'm set" where
  "fields_messages fs = \<Union> (value_messages ` set fs)"

lemma fields_messages_simps [simp]:
  "fields_messages [] = {}"
  "fields_messages (f # fs) = value_messages f \<union> fields_messages fs"
  "fields_messages (fs @ gs) = fields_messages fs \<union> fields_messages gs"
  "fields_messages (case x of None \<Rightarrow> [] | Some y \<Rightarrow> h y) = (case x of None \<Rightarrow> {} | Some y \<Rightarrow> fields_messages (h y))"
  by (auto simp: fields_messages_def split: option.splits)

text \<open>A sheet sends its close message and what its fields, badge, body and footer send.\<close>

lemma info_sheet_messages:
  "set_node (info_sheet op cl t sb b fs ch ft) \<subseteq>
     insert cl (node_messages b \<union> fields_messages fs \<union> node_messages ch \<union> node_messages ft)"
  unfolding set_node_info_sheet node_messages_def value_messages_def fields_messages_def by (simp split: option.split) blast

lemma set_node_event_sheet:
  assumes "\<And>e. set_node (badge' e) = {}"
  shows "set_node (event_sheet env host hash badge' closed sel) \<subseteq> {closed}"
proof (cases sel)
  case None
  then show ?thesis by (simp add: event_sheet_def info_sheet_def)
next
  case (Some e)
  show ?thesis
    using assms unfolding event_sheet_def Some option.case
    by (intro subset_trans [OF info_sheet_messages]) simp
qed

lemma set_node_attack_story: "set_node (attack_story st a hot (Some f) data live) \<subseteq> range f"
proof -
  have a: "(\<Union>e\<in>X. set_node (story_source (Some f) e)) \<subseteq> range f" for X
    using set_node_story_source by (fastforce simp: image_subset_iff)
  have b: "(\<Union>e\<in>X. set_node (story_row st h (Some f) e)) \<subseteq> range f" for X h
    by (auto simp: set_node_story_row)
  show ?thesis unfolding attack_story_def by (simp add: Let_def a b)
qed

lemma bulk_messages_le: "(\<And>rows. set_node (f rows) \<subseteq> M) \<Longrightarrow> tp_bulk p = Some f \<Longrightarrow> bulk_messages p g \<subseteq> M"
  by (simp add: bulk_messages_def)

lemma click_messages_le: "(\<And>r. f r \<in> M) \<Longrightarrow> tp_row_click p = Some f \<Longrightarrow> click_messages p g \<subseteq> M"
  by (auto simp: click_messages_def)

lemma cell_messages_le:
  assumes "\<And>c r. c \<in> set (tp_columns p) \<Longrightarrow> set_node (co_cell c r) \<subseteq> M"
  shows "cell_messages p g \<subseteq> M"
  using assms unfolding cell_messages_def by (intro UN_least)

lemma column_simps [simp]: "co_cell (col i h f) = f" "co_cell (fixed_col i h f) = f" "co_id (col i h f) = i"
  "co_id (fixed_col i h f) = i" "co_header (col i h f) = h" "co_header (fixed_col i h f) = h"
  by (simp_all add: col_def fixed_col_def)

lemma row_clickable:
  assumes "(i, r, sel) \<in> set (gr_rows g)" and "tp_row_click p = Some f"
  shows "f r \<in> set_node (data_table p g s wrap)"
proof -
  have "f r \<in> set_node (body_row p g s wrap (i, r, sel))" using assms(2) by (simp add: body_row_def row_handlers_def)
  then have "f r \<in> set_node (Frag (map (body_row p g s wrap) (gr_rows g)))" using assms(1) by auto
  moreover have "gr_rows g \<noteq> []" using assms(1) by auto
  ultimately show ?thesis by (simp add: data_table_def)
qed

lemma bulk_usable:
  assumes "tp_bulk p = Some f" and "tp_selection p" and "gr_selected g \<noteq> []" and "m \<in> set_node (f (gr_selected g))"
  shows "m \<in> set_node (data_table p g s wrap)"
proof -
  have "m \<in> set_node (bulk_bar p g wrap)" using assms by (simp add: bulk_bar_def)
  then show ?thesis by (simp add: data_table_def)
qed

definition grid_of :: "(string \<times> 'r \<times> bool) list \<Rightarrow> 'r list \<Rightarrow> 'r grid" where
  \<comment> \<open>one page without sorting, for examples\<close>
  "grid_of rows selected = \<lparr>gr_rows = rows, gr_total = length rows, gr_columns = [], gr_hideable = [], gr_selected = selected,
     gr_sorted = (\<lambda>i. None), gr_can_sort = (\<lambda>i. True), gr_width = (\<lambda>i. 150), gr_all_page = False, gr_some_page = False,
     gr_page = 0, gr_pages = 1, gr_can_prev = False, gr_can_next = False\<rparr>"

lemma event_link_roundtrip:
  assumes "\<forall>c\<in>set key. is_alpha c \<or> is_digit c \<or> c = CHR ''_''" and "key \<noteq> []"
  shows "search_get (drop 7 (event_link key v)) key = Some v"
  using parse_search_single [OF assms, of v] by (simp add: search_get_def event_link_def)

end
