(* ===== verification/DashTraffic.thy ===== *)
theory DashTraffic
  imports DashPages ReportPages
begin

section \<open>Data loss and network pages of the Next.js console\<close>

text \<open>
  Models \<open>dashboard/app/(app)/dlp/page.tsx\<close> and \<open>internet/page.tsx\<close>: the figures, the tables with
  their columns, the detail sheets and their links to the event page. The state of either page is the
  event its sheet shows. Grouping objects are entry lists in insertion order; the rows of the network
  page are the events that carry network data, the only ones the code reads it from.
\<close>

subsection \<open>Data loss page\<close>

datatype dash_dlp_msg =
    DzSelect event
  | DzClose
  | DzGrid grid_msg
  | DzClassGrid grid_msg
  | DzPolicyGrid grid_msg

fun dash_dlp_update :: "dash_dlp_msg \<Rightarrow> event option \<Rightarrow> event option" where
  "dash_dlp_update (DzSelect e) s = Some e"
| "dash_dlp_update DzClose s = None"
| "dash_dlp_update (DzGrid m) s = s"
| "dash_dlp_update (DzClassGrid m) s = s"
| "dash_dlp_update (DzPolicyGrid m) s = s"

definition verdict_color :: "string option \<Rightarrow> string" where
  "verdict_color v =
     (if v = Some ''block'' then ''var(--sev-critical)''
      else if v = Some ''alert'' then ''var(--sev-high)'' else ''var(--muted-foreground)'')"

definition verdict_chip :: "string option \<Rightarrow> 'm node" where
  "verdict_chip v = chip [Txt (or_dash v)] (Some (verdict_color v))"

definition cap_opt :: "string option \<Rightarrow> string option" where
  \<comment> \<open>the page's \<open>cap\<close>, which passes an absent or empty text through\<close>
  "cap_opt s = (if truthy s then map_option cap s else s)"

definition incident_columns :: "env \<Rightarrow> (event, dash_dlp_msg) column list" where
  "incident_columns env =
     [col ''severity'' (HSort ''Sev'') (\<lambda>e. dash_sev (ev_severity e)),
      col ''classifier'' (HSort ''Classifier'') (\<lambda>e. spanc ''font-mono'' [opt_txt (dlp_get dl_classifier e)]),
      col ''channel'' (HText ''Channel'') (\<lambda>e. chip [opt_txt (dlp_get dl_channel e)] None),
      col ''hostname'' (HSort ''Host'') (\<lambda>e. muted (ev_hostname e)),
      col ''user'' (HText ''User'') (\<lambda>e. if truthy (ev_user e) then opt_txt (ev_user e) else muted u_dash),
      col ''sample'' (HText ''Sample'') (\<lambda>e. spanc ''font-mono text-muted-foreground'' [opt_txt (dlp_get dl_sample e)]),
      col ''verdict'' (HSort ''Verdict'') (\<lambda>e. verdict_chip (dlp_get dl_verdict e)),
      col ''ts'' (HSort ''When'') (\<lambda>e. muted (ago (en_now env) (ev_ts e))),
      fixed_col ''actions'' HNone (\<lambda>e. divc ''text-right'' [inspect (DzSelect e) ''Inspect''])]"

definition classifier_columns :: "(classifier, dash_dlp_msg) column list" where
  "classifier_columns =
     [col ''name'' (HText ''Name'') (\<lambda>c. mono (cf_name c)),
      col ''label'' (HText ''Detects'') (\<lambda>c. muted (cf_label c)),
      col ''severity'' (HText ''Severity'') (\<lambda>c. dash_sev (cf_severity c))]"

definition policy_columns :: "(dlp_policy, dash_dlp_msg) column list" where
  "policy_columns =
     [col ''Classifier'' (HText ''Classifier'') (\<lambda>p. mono (dp_Classifier p)),
      col ''Channel'' (HText ''Channel'') (\<lambda>p. chip [Txt (dp_Channel p)] None),
      col ''Verdict'' (HText ''Verdict'') (\<lambda>p. chip [Txt (dp_Verdict p)] (Some (verdict_color (Some (dp_Verdict p)))))]"

definition incident_fields :: "env \<Rightarrow> event \<Rightarrow> dash_dlp_msg sheet_field list" where
  "incident_fields env e =
     [fld_mono ''Time'' (vtxt (en_datetime env (ev_ts e))),
      fld ''Severity'' (Some (dash_sev (ev_severity e))),
      fld_mono ''Classifier'' (vtxt_opt (dlp_get dl_classifier e)),
      fld ''Channel'' (Some (chip [opt_txt (dlp_get dl_channel e)] None)),
      fld ''Verdict'' (Some (verdict_chip (dlp_get dl_verdict e))),
      fld_mono ''Matches'' (vtxt (case Option.bind (ev_dlp e) dl_matches of None \<Rightarrow> [] | Some n \<Rightarrow> show_int n)),
      fld_mono ''Sample'' (vtxt_opt (dlp_get dl_sample e)),
      fld_mono ''Host'' (vtxt (ev_hostname e)),
      fld ''User'' (vtxt_opt (ev_user e)),
      fld_mono_wrap ''File'' (vtxt_opt (Option.bind (ev_file e) fi_path)),
      fld_wrap ''Message'' (vtxt_opt (ev_message e))]"

definition plain_table :: "('r, 'm) column list \<Rightarrow> nat option \<Rightarrow> string \<Rightarrow> bool \<Rightarrow> ('r, 'm) table_props" where
  \<comment> \<open>a table without search, selection or saved view\<close>
  "plain_table cols per none loading =
     \<lparr>tp_columns = cols, tp_row_click = None, tp_placeholder = None, tp_page_size = per, tp_toolbar = None,
      tp_initial_sort = [], tp_empty = Some (Txt none), tp_loading = loading, tp_row_id = True, tp_table_id = None,
      tp_selection = False, tp_bulk = None, tp_density = True\<rparr>"

definition search_table ::
  "('r, 'm) column list \<Rightarrow> ('r \<Rightarrow> 'm) \<Rightarrow> string \<Rightarrow> nat \<Rightarrow> string \<times> bool \<Rightarrow> string \<Rightarrow> bool \<Rightarrow> ('r, 'm) table_props" where
  \<comment> \<open>a table with search whose rows can be clicked\<close>
  "search_table cols click placeholder per order none loading =
     \<lparr>tp_columns = cols, tp_row_click = Some click, tp_placeholder = Some placeholder, tp_page_size = Some per,
      tp_toolbar = None, tp_initial_sort = [order], tp_empty = Some (Txt none), tp_loading = loading, tp_row_id = True,
      tp_table_id = None, tp_selection = False, tp_bulk = None, tp_density = True\<rparr>"

definition titled_card :: "'m node list \<Rightarrow> 'm node \<Rightarrow> 'm node" where
  "titled_card title body =
     el ''Card'' [cls ''panel overflow-hidden''] [el ''CardHeader'' [] [el ''CardTitle'' [] title], el ''CardContent'' [] [body]]"

definition incident_sheet :: "env \<Rightarrow> event option \<Rightarrow> dash_dlp_msg node" where
  "incident_sheet env sel =
     (case sel of
        None \<Rightarrow> info_sheet False DzClose ''DLP incident'' (Some []) None [] None None
      | Some e \<Rightarrow>
          info_sheet True DzClose (str_or (dlp_get dl_classifier e) ''DLP incident'')
            (Some (str_or (cap_opt (dlp_get dl_channel e)) ''Unknown channel'' @ '' '' @ u_middot @ '' '' @
                   str_or (cap_opt (dlp_get dl_verdict e)) ''Audit''))
            (Some (dash_sev (ev_severity e))) (incident_fields env e) None None)"

record dash_dlp_data =
  zd_env :: env
  zd_events :: "event list option"
  zd_classifiers :: "classifier list option"
  zd_policies :: "dlp_policy list option"
  zd_counters :: "string \<Rightarrow> count_up"
  zd_grid :: "event grid"
  zd_table :: table_view
  zd_class_grid :: "classifier grid"
  zd_class_table :: table_view
  zd_policy_grid :: "dlp_policy grid"
  zd_policy_table :: table_view

definition opt_list :: "'a list option \<Rightarrow> 'a list" where
  "opt_list xs = (case xs of None \<Rightarrow> [] | Some l \<Rightarrow> l)"

definition dash_dlp_view :: "dash_dlp_data \<Rightarrow> event option \<Rightarrow> dash_dlp_msg node" where
  "dash_dlp_view d sel =
     (let dlp = opt_list (zd_events d); blocked = dlp_blocked dlp; card = metric_card (zd_env d) (zd_counters d)
      in divc ''reveal space-y-5''
        [divc ''grid gap-4 sm:grid-cols-2 xl:grid-cols-4''
           [card ''DLP incidents'' (MNum (int (length dlp))) ''FileLock2'' None False,
            card ''Blocked transfers'' (MNum (int blocked)) ''ShieldX'' (Some ''var(--sev-critical)'') (blocked > 0),
            card ''Classifiers'' (MNum (int (length (opt_list (zd_classifiers d))))) ''ScanText'' (Some ''var(--signal)'') False,
            card ''Policies'' (MNum (int (length (opt_list (zd_policies d))))) ''ScrollText'' (Some ''var(--signal)'') False],
         titled_card [spanc ''live-dot size-1.5'' [], Txt '' DLP incidents'']
           (data_table (search_table (incident_columns (zd_env d)) DzSelect (''Filter classifier, host, user'' @ u_ellipsis) 15
              (''ts'', True) ''No DLP incidents'' (zd_events d = None)) (zd_grid d) (zd_table d) DzGrid),
         divc ''grid gap-4 lg:grid-cols-2''
           [titled_card [Txt ''Classifiers'']
              (data_table (plain_table classifier_columns None ''No classifiers'' (zd_classifiers d = None))
                (zd_class_grid d) (zd_class_table d) DzClassGrid),
            titled_card [Txt ''Enforcement policies'']
              (data_table (plain_table policy_columns (Some 10) ''No enforcement policies'' (zd_policies d = None))
                (zd_policy_grid d) (zd_policy_table d) DzPolicyGrid)],
         incident_sheet (zd_env d) sel])"

subsection \<open>Network page: computations\<close>

definition last_index_of :: "char \<Rightarrow> string \<Rightarrow> nat option" where
  "last_index_of c s = (if c \<in> set s then Some (length s - 1 - length (takeWhile (\<lambda>x. x \<noteq> c) (rev s))) else None)"

definition host_of :: "string option \<Rightarrow> string" where
  "host_of remote =
     (if \<not> truthy remote then []
      else (let r = the remote
            in if starts_with r ''['' then take (case index_of r '']'' of None \<Rightarrow> 0 | Some i \<Rightarrow> i + 1) r
               else (case last_index_of (CHR '':'') r of
                       None \<Rightarrow> r
                     | Some i \<Rightarrow> if i > 0 then take i r else r)))"

definition dash_net :: "event list option \<Rightarrow> event list" where
  "dash_net events = filter (\<lambda>e. ev_network e \<noteq> None) (opt_list events)"

definition bytes_out_of :: "event \<Rightarrow> int" where
  "bytes_out_of e = num_or0 (ni_bytes_out (net_of e))"

definition bytes_in_of :: "event \<Rightarrow> int" where
  "bytes_in_of e = num_or0 (ni_bytes_in (net_of e))"

fun chunks :: "nat \<Rightarrow> 'a list \<Rightarrow> 'a list list" where
  \<comment> \<open>the loop that slices off a bucket of elements at a time\<close>
  "chunks k [] = []"
| "chunks 0 xs = [xs]"
| "chunks (Suc k) (x # xs) = (x # take k xs) # chunks (Suc k) (drop k xs)"

definition bucket_size :: "nat \<Rightarrow> nat" where
  \<comment> \<open>\<open>Math.max(1, Math.ceil(n / 24))\<close>\<close>
  "bucket_size n = (let c = (n + 23) div 24 in if c < 1 then 1 else c)"

definition upload_spark :: "event list \<Rightarrow> int list" where
  "upload_spark net =
     (let ordered = rev net;
          out = map (\<lambda>b. foldl (\<lambda>s e. s + bytes_out_of e) 0 b) (chunks (bucket_size (length ordered)) ordered)
      in if length out > 1 then out else [0, 0])"

record dash_dest =
  dd_domain :: string
  dd_hits :: int
  dd_out :: int
  dd_in :: int
  dd_cat :: string

definition outbound :: "event \<Rightarrow> bool" where
  "outbound e \<longleftrightarrow> ni_direction (net_of e) \<noteq> Some ''inbound'' \<and> ni_category (net_of e) \<noteq> Some ''internal''"

definition dash_dest_of :: "event \<Rightarrow> string" where
  "dash_dest_of e =
     (let h = host_of (ni_remote (net_of e))
      in str_or (ni_domain (net_of e)) (if h \<noteq> [] then h else ''unknown''))"

definition count_dest :: "event \<Rightarrow> (string \<times> dash_dest) list \<Rightarrow> (string \<times> dash_dest) list" where
  "count_dest e m =
     (let d = dash_dest_of e;
          m1 = (case map_of m d of
                  None \<Rightarrow> obj_put d \<lparr>dd_domain = d, dd_hits = 0, dd_out = 0, dd_in = 0, dd_cat = str_or (ni_category (net_of e)) ''web''\<rparr> m
                | Some v \<Rightarrow> m);
          v = the (map_of m1 d)
      in obj_put d (v\<lparr>dd_hits := dd_hits v + 1, dd_out := dd_out v + bytes_out_of e, dd_in := dd_in v + bytes_in_of e\<rparr>) m1)"

definition dash_dests :: "event list \<Rightarrow> dash_dest list" where
  "dash_dests net = js_sort (\<lambda>a b. dd_out b - dd_out a) (map snd (fold count_dest (filter outbound net) []))"

subsection \<open>Network page: state and view\<close>

datatype inet_msg =
    IpSelect event
  | IpClose
  | IpGo string
  | IpDestGrid grid_msg
  | IpGrid grid_msg

fun inet_update :: "inet_msg \<Rightarrow> event option \<Rightarrow> event option \<times> dash_effect list" where
  "inet_update (IpSelect e) s = (Some e, [])"
| "inet_update IpClose s = (None, [])"
| "inet_update (IpGo href) s = (s, [Navigate href])"
| "inet_update (IpDestGrid m) s = (s, [])"
| "inet_update (IpGrid m) s = (s, [])"

definition dest_columns :: "(dash_dest, inet_msg) column list" where
  "dest_columns =
     [col ''domain'' (HSort ''Destination'') (\<lambda>d. mono (dd_domain d)),
      col ''cat'' (HText ''Category'') (\<lambda>d. chip [Txt (dd_cat d)] None),
      col ''hits'' (HSort ''Connections'') (\<lambda>d. spanc ''font-mono tabular-nums'' [num_txt (dd_hits d)]),
      col ''out'' (HSort ''Uploaded'') (\<lambda>d. spanc ''font-mono tabular-nums'' [Txt (bytes (Some (dd_out d)))]),
      col ''in'' (HSort ''Downloaded'') (\<lambda>d. spanc ''font-mono tabular-nums text-muted-foreground'' [Txt (bytes (Some (dd_in d)))])]"

definition blocked_chip :: "'m node" where
  "blocked_chip = chip [Txt ''blocked''] (Some ''var(--sev-critical)'')"

definition cat_chip :: "event \<Rightarrow> 'm node" where
  "cat_chip e = chip [Txt (str_or (ni_category (net_of e)) ''web'')] None"

definition activity_columns :: "env \<Rightarrow> (event, inet_msg) column list" where
  "activity_columns env =
     [col ''ts'' (HSort ''Time'') (\<lambda>e. spanc ''font-mono text-xs text-muted-foreground'' [Txt (ago (en_now env) (ev_ts e))]),
      col ''hostname'' (HSort ''Host'') (\<lambda>e. mono (ev_hostname e)),
      col ''user'' (HText ''User'') (\<lambda>e. if truthy (ev_user e) then opt_txt (ev_user e) else muted u_dash),
      col ''domain'' (HText ''Destination'')
        (\<lambda>e. mono (let h = host_of (ni_remote (net_of e)) in str_or (ni_domain (net_of e)) (if h \<noteq> [] then h else u_dash))),
      col ''direction'' (HText ''Direction'')
        (\<lambda>e. chip [Txt (or_dash (ni_direction (net_of e)))]
           (Some (if ni_direction (net_of e) = Some ''inbound'' then ''var(--muted-foreground)'' else ''var(--signal)''))),
      col ''category'' (HText ''Category'') cat_chip,
      col ''out'' (HSort (u_up @ '' Out'')) (\<lambda>e. spanc ''font-mono tabular-nums'' [Txt (bytes (ni_bytes_out (net_of e)))]),
      col ''in'' (HText ([CHR 0xE2, CHR 0x86, CHR 0x93] @ '' In''))
        (\<lambda>e. spanc ''font-mono tabular-nums text-muted-foreground'' [Txt (bytes (ni_bytes_in (net_of e)))]),
      fixed_col ''actions'' HNone
        (\<lambda>e. divc ''flex items-center justify-end gap-1''
           [only_if (ni_blocked (net_of e) = Some True) blocked_chip, inspect (IpSelect e) ''Inspect''])]"

definition connection_fields :: "env \<Rightarrow> event \<Rightarrow> inet_msg sheet_field list" where
  "connection_fields env e =
     (let n = net_of e in
      [fld_mono ''Time'' (vtxt (en_datetime env (ev_ts e))),
       fld ''Host'' (Some (link_button (IpGo (event_link ''agent_id'' (ev_agent_id e))) (ev_hostname e))),
       fld ''User'' (if truthy (ev_user e) then Some (link_button (IpGo (event_link ''user'' (the (ev_user e)))) (the (ev_user e))) else None),
       fld_wrap ''Domain'' (if truthy (ni_domain n) then Some (link_button (IpGo (event_link ''q'' (the (ni_domain n)))) (the (ni_domain n))) else None),
       fld_mono ''Remote'' (vtxt_opt (ni_remote n)),
       fld ''Protocol'' (vtxt_opt (ni_proto n)),
       fld ''Direction'' (vtxt_opt (ni_direction n)),
       fld ''Category'' (Some (cat_chip e)),
       fld_mono ''Uploaded'' (vtxt (bytes (ni_bytes_out n))),
       fld_mono ''Downloaded'' (vtxt (bytes (ni_bytes_in n))),
       fld ''Blocked'' (Some (if ni_blocked n = Some True then blocked_chip else Txt ''no'')),
       fld_mono ''Process'' (case ev_process e of None \<Rightarrow> None | Some p \<Rightarrow> vtxt (tpl (pr_name p) @ '' (pid '' @ tpl_num (pr_pid p) @ '')''))])"

definition connection_sheet :: "env \<Rightarrow> event option \<Rightarrow> inet_msg node" where
  "connection_sheet env sel =
     (case sel of
        None \<Rightarrow> info_sheet False IpClose [] (Some []) None [] None None
      | Some e \<Rightarrow>
          info_sheet True IpClose (str_or (ni_domain (net_of e)) (str_or (ni_remote (net_of e)) ''Connection''))
            (Some (''Network '' @ u_middot @ '' '' @ str_or (ni_category (net_of e)) ''web''))
            (if ni_blocked (net_of e) = Some True then Some blocked_chip else None)
            (connection_fields env e) None None)"

record inet_data =
  ii_env :: env
  ii_events :: "event list option"
  ii_live :: bool
  ii_counters :: "string \<Rightarrow> count_up"
  ii_dest_grid :: "dash_dest grid"
  ii_dest_table :: table_view
  ii_grid :: "event grid"
  ii_table :: table_view

definition inet_cat_count :: "string \<Rightarrow> event list \<Rightarrow> nat" where
  "inet_cat_count c net = length (filter (\<lambda>e. ni_category (net_of e) = Some c) net)"

definition upload_card :: "inet_data \<Rightarrow> event list \<Rightarrow> 'm node" where
  "upload_card d net =
     metric (en_number (ii_env d)) (ii_counters d ''Data uploaded'') ''Data uploaded'' ''Data uploaded''
       (MText (bytes (Some (foldl (\<lambda>s e. s + bytes_out_of e) 0 net)))) (Some (el ''UploadCloud'' [] []))
       (Some ''var(--signal)'') (Some (upload_spark net)) None False"

definition dest_grid_table :: "inet_data \<Rightarrow> (dash_dest, inet_msg) table_props" where
  "dest_grid_table d =
     search_table dest_columns (\<lambda>x. IpGo (event_link ''q'' (dd_domain x))) (''Filter destinations'' @ u_ellipsis) 8
       (''out'', True) ''No network activity captured'' (ii_events d = None)"

definition activity_table :: "inet_data \<Rightarrow> (event, inet_msg) table_props" where
  "activity_table d =
     search_table (activity_columns (ii_env d)) IpSelect (''Filter host, user, domain'' @ u_ellipsis) 15
       (''ts'', True) ''No network activity captured'' (ii_events d = None)"

definition inet_view :: "inet_data \<Rightarrow> event option \<Rightarrow> inet_msg node" where
  "inet_view d sel =
     (let net = dash_net (ii_events d); card = metric_card (ii_env d) (ii_counters d)
      in divc ''reveal space-y-5''
        [divc ''grid gap-4 sm:grid-cols-2 xl:grid-cols-4''
           [card ''Connections'' (MNum (int (length net))) ''Globe'' None False,
            upload_card d net,
            card ''Cloud storage'' (MNum (int (inet_cat_count ''cloud_storage'' net))) ''Cloud'' (Some ''var(--muted-foreground)'') False,
            card ''Webmail'' (MNum (int (inet_cat_count ''webmail'' net))) ''Mail'' (Some ''var(--muted-foreground)'') False],
         titled_card [Txt ''Top destinations by upload''] (data_table (dest_grid_table d) (ii_dest_grid d) (ii_dest_table d) IpDestGrid),
         titled_card [only_if (ii_live d) (spanc ''live-dot size-1.5'' []), Txt '' Web activity'']
           (data_table (activity_table d) (ii_grid d) (ii_table d) IpGrid),
         connection_sheet (ii_env d) sel])"

subsection \<open>Lemmas\<close>

lemma length_chunks: "length (chunks (Suc k) xs) = (length xs + k) div Suc k"
proof (induction "Suc k" xs rule: chunks.induct)
  case (3 x xs)
  have "(length (drop k xs) + k) div Suc k + 1 = (Suc (length xs) + k) div Suc k"
  proof (cases "k \<le> length xs")
    case True
    then have "Suc (length xs) + k = (length xs - k + k) + Suc k" by simp
    then show ?thesis by (simp only: length_drop div_add_self2)
  next
    case False
    then have "(Suc (length xs) + k) div Suc k = 1" by (intro div_nat_eqI) simp_all
    with False show ?thesis by simp
  qed
  with 3 show ?case by simp
qed simp

lemma concat_chunks: "concat (chunks (Suc k) xs) = xs"
  by (induction "Suc k" xs rule: chunks.induct) simp_all

lemma bucket_size_Suc: "\<exists>k. bucket_size n = Suc k \<and> n \<le> 24 * Suc k \<and> (n \<ge> 2 \<longrightarrow> Suc k < n)"
proof (cases "n = 0")
  case False
  then have c: "(n + 23) div 24 \<ge> 1" by simp
  then obtain k where k: "(n + 23) div 24 = Suc k" by (cases "(n + 23) div 24") auto
  have "n + 23 = 24 * Suc k + (n + 23) mod 24" using k by (metis mult_div_mod_eq)
  moreover have "(n + 23) mod 24 < 24" by simp
  ultimately have "n \<le> 24 * Suc k \<and> (n \<ge> 2 \<longrightarrow> Suc k < n)" by auto
  then show ?thesis using k by (intro exI [of _ k]) (simp add: bucket_size_def)
qed (simp add: bucket_size_def)

definition dest_row :: "string \<Rightarrow> event list \<Rightarrow> dash_dest" where
  \<comment> \<open>what the row of destination \<open>d\<close> has to say of the connections \<open>es\<close>\<close>
  "dest_row d es =
     (let own = filter (\<lambda>e. dash_dest_of e = d) es
      in \<lparr>dd_domain = d, dd_hits = int (length own), dd_out = (\<Sum>e\<leftarrow>own. bytes_out_of e), dd_in = (\<Sum>e\<leftarrow>own. bytes_in_of e),
          dd_cat = str_or (ni_category (net_of (hd own))) ''web''\<rparr>)"

lemma dest_row_snoc:
  "dest_row (dash_dest_of e) (es @ [e]) =
     (let v = (if dash_dest_of e \<in> dash_dest_of ` set es then dest_row (dash_dest_of e) es
               else \<lparr>dd_domain = dash_dest_of e, dd_hits = 0, dd_out = 0, dd_in = 0, dd_cat = str_or (ni_category (net_of e)) ''web''\<rparr>)
      in v\<lparr>dd_hits := dd_hits v + 1, dd_out := dd_out v + bytes_out_of e, dd_in := dd_in v + bytes_in_of e\<rparr>)"
proof (cases "filter (\<lambda>x. dash_dest_of x = dash_dest_of e) es")
  case Nil
  then have "dash_dest_of e \<notin> dash_dest_of ` set es" by (auto simp: filter_empty_conv)
  with Nil show ?thesis by (simp add: dest_row_def Let_def)
next
  case (Cons x own)
  then have "x \<in> set (filter (\<lambda>x. dash_dest_of x = dash_dest_of e) es)" by simp
  then have "dash_dest_of e \<in> dash_dest_of ` set es" by (auto simp: image_iff intro: sym)
  with Cons show ?thesis by (simp add: dest_row_def Let_def)
qed

lemma dest_row_other: "dash_dest_of e \<noteq> d \<Longrightarrow> dest_row d (es @ [e]) = dest_row d es"
  by (simp add: dest_row_def)

lemma count_dests:
  "distinct (map fst (fold count_dest es [])) \<and>
   map_of (fold count_dest es []) = (\<lambda>d. if d \<in> dash_dest_of ` set es then Some (dest_row d es) else None)"
proof (induction es rule: rev_induct)
  case (snoc e es)
  define m where "m = fold count_dest es []"
  have m: "distinct (map fst m)" "map_of m = (\<lambda>d. if d \<in> dash_dest_of ` set es then Some (dest_row d es) else None)"
    using snoc by (simp_all add: m_def)
  have "distinct (map fst (count_dest e m))"
    using m(1) by (auto simp: count_dest_def Let_def intro!: distinct_obj_put split: option.split)
  moreover have "map_of (count_dest e m) = (map_of m)(dash_dest_of e \<mapsto> dest_row (dash_dest_of e) (es @ [e]))"
    unfolding dest_row_snoc by (simp add: count_dest_def Let_def map_of_obj_put m(2) split: option.split)
  ultimately show ?case
    by (auto simp: m_def [symmetric] m(2) fun_eq_iff dest_row_other)
qed simp

lemma last_colon: "CHR '':'' \<notin> set port \<Longrightarrow> last_index_of (CHR '':'') (h @ CHR '':'' # port) = Some (length h)"
proof -
  assume "CHR '':'' \<notin> set port"
  then have "takeWhile (\<lambda>x. x \<noteq> CHR '':'') (rev port @ CHR '':'' # rev h) = rev port"
    by (subst takeWhile_append2) auto
  then show ?thesis by (simp add: last_index_of_def)
qed

lemma host_of_port:
  assumes "CHR '':'' \<notin> set port" and "h \<noteq> []" and "hd h \<noteq> CHR ''[''"
  shows "host_of (Some (h @ CHR '':'' # port)) = h"
proof -
  have "\<not> starts_with (h @ CHR '':'' # port) ''[''" using assms(2,3) by (cases h) simp_all
  then show ?thesis using assms(1,2) by (simp add: host_of_def Let_def last_colon)
qed

lemma host_of_v6:
  assumes "CHR '']'' \<notin> set v"
  shows "host_of (Some (CHR ''['' # v @ CHR '']'' # rest)) = CHR ''['' # v @ '']''"
proof -
  have "index_of (CHR ''['' # v @ CHR '']'' # rest) '']'' = Some (length v + 1)"
    using assms by (induction v) auto
  then show ?thesis by (simp add: host_of_def Let_def starts_with_iff)
qed

definition inet_lands :: "inet_msg \<Rightarrow> bool" where
  \<comment> \<open>a link goes to the event page with the host, the user or the search text set\<close>
  "inet_lands m = (case m of IpGo h \<Rightarrow> \<exists>k\<in>{''agent_id'', ''user'', ''q''}. \<exists>v. h = event_link k v | _ \<Rightarrow> True)"

lemma inet_lands_simps [simp]:
  "inet_lands (IpSelect e)" "inet_lands IpClose" "inet_lands (IpDestGrid g)" "inet_lands (IpGrid g)"
  "inet_lands (IpGo (event_link ''agent_id'' v))" "inet_lands (IpGo (event_link ''user'' v))" "inet_lands (IpGo (event_link ''q'' v))"
  by (auto simp: inet_lands_def)

lemma set_node_titled_card [simp]: "set_node (titled_card t b) = \<Union> (set_node ` set t) \<union> set_node b"
  by (simp add: titled_card_def)

lemma set_node_chips [simp]: "set_node (blocked_chip :: 'm node) = {}" "set_node (cat_chip e :: 'm node) = {}"
  "set_node (verdict_chip v :: 'm node) = {}"
  by (simp_all add: blocked_chip_def cat_chip_def verdict_chip_def)

lemma dest_grid_lands: "set_node (data_table (dest_grid_table d) g tv IpDestGrid) \<subseteq> Collect inet_lands"
proof -
  have c: "cell_messages (dest_grid_table d) g \<subseteq> Collect inet_lands"
    by (rule cell_messages_le) (auto simp: dest_grid_table_def search_table_def dest_columns_def)
  have k: "click_messages (dest_grid_table d) g \<subseteq> Collect inet_lands"
    by (rule click_messages_le) (simp_all add: dest_grid_table_def search_table_def)
  have b: "bulk_messages (dest_grid_table d) g = {}" by (simp add: bulk_messages_def dest_grid_table_def search_table_def)
  have n: "range IpDestGrid \<subseteq> Collect inet_lands" by auto
  show ?thesis
    by (rule subset_trans [OF data_table_messages]) (use b k c n in \<open>simp add: dest_grid_table_def search_table_def\<close>)
qed

lemma activity_lands: "set_node (data_table (activity_table d) g tv IpGrid) \<subseteq> Collect inet_lands"
proof -
  have c: "cell_messages (activity_table d) g \<subseteq> Collect inet_lands"
    by (rule cell_messages_le) (auto simp: activity_table_def search_table_def activity_columns_def split: if_splits)
  have k: "click_messages (activity_table d) g \<subseteq> Collect inet_lands"
    by (rule click_messages_le) (simp_all add: activity_table_def search_table_def)
  have b: "bulk_messages (activity_table d) g = {}" by (simp add: bulk_messages_def activity_table_def search_table_def)
  have n: "range IpGrid \<subseteq> Collect inet_lands" by auto
  show ?thesis
    by (rule subset_trans [OF data_table_messages]) (use b k c n in \<open>simp add: activity_table_def search_table_def\<close>)
qed

lemma connection_sheet_lands: "set_node (connection_sheet env sel) \<subseteq> Collect inet_lands"
proof (cases sel)
  case None
  then show ?thesis by (simp add: connection_sheet_def info_sheet_def)
next
  case (Some e)
  show ?thesis
    unfolding connection_sheet_def Some option.case
    by (intro subset_trans [OF info_sheet_messages]) (simp add: connection_fields_def Let_def split: option.split)
qed

lemma inet_page_lands: "m \<in> set_node (inet_view d sel) \<Longrightarrow> inet_lands m"
proof -
  have "set_node (inet_view d sel) \<subseteq> Collect inet_lands"
    using dest_grid_lands activity_lands connection_sheet_lands by (simp add: inet_view_def upload_card_def Let_def)
  then show "m \<in> set_node (inet_view d sel) \<Longrightarrow> inet_lands m" by auto
qed

subsection \<open>Properties\<close>

text \<open>C31: the destination table is exactly the grouping of the outbound connections by destination: one
  row per destination, with the number of its connections, the bytes they sent and received and the
  category of the first of them, the largest upload first.\<close>

theorem destination_rows_exact:
  "set (dash_dests net) = (\<lambda>d. dest_row d (filter outbound net)) ` dash_dest_of ` set (filter outbound net) \<and>
   distinct (map dd_domain (dash_dests net)) \<and> sorted_wrt (\<lambda>a b. dd_out b \<le> dd_out a) (dash_dests net)"
proof -
  define m where "m = fold count_dest (filter outbound net) []"
  have d: "distinct (map fst m)" and mo: "map_of m = (\<lambda>d. if d \<in> dash_dest_of ` set (filter outbound net) then Some (dest_row d (filter outbound net)) else None)"
    unfolding m_def using count_dests by blast+
  have mem: "(k, v) \<in> set m \<longleftrightarrow> k \<in> dash_dest_of ` set (filter outbound net) \<and> v = dest_row k (filter outbound net)" for k v
    using map_of_eq_Some_iff [OF d, of k v] by (auto simp: mo split: if_splits)
  have dom: "dd_domain (dest_row k es) = k" for k es by (simp add: dest_row_def Let_def)
  have rows: "mset (dash_dests net) = mset (map snd m)" by (simp only: dash_dests_def m_def mset_js_sort)
  then have "set (dash_dests net) = snd ` set m" by (metis set_mset_mset set_map)
  also have "\<dots> = (\<lambda>d. dest_row d (filter outbound net)) ` dash_dest_of ` set (filter outbound net)"
    using mem by (force simp: image_iff)
  finally have a: "set (dash_dests net) = (\<lambda>d. dest_row d (filter outbound net)) ` dash_dest_of ` set (filter outbound net)" .
  have "map dd_domain (map snd m) = map fst m" using mem dom by auto
  then have "mset (map dd_domain (dash_dests net)) = mset (map fst m)" by (metis rows mset_map)
  then have b: "distinct (map dd_domain (dash_dests net))" using d by (metis mset_eq_imp_distinct_iff)
  show ?thesis using a b by (simp add: dash_dests_def js_sort_desc)
qed


text \<open>Connections to one host are one destination whatever their ports: of a peer written as an
  address and a port, with or without brackets, only the address counts.\<close>

theorem ports_collapse:
  assumes "ni_domain (net_of e) = None" and "ni_remote (net_of e) = Some (h @ CHR '':'' # port)"
    and "CHR '':'' \<notin> set port"
    and "h \<noteq> [] \<and> hd h \<noteq> CHR ''['' \<or> (\<exists>v. h = CHR ''['' # v @ '']'' \<and> CHR '']'' \<notin> set v)"
  shows "dash_dest_of e = h"
proof -
  have "host_of (Some (h @ CHR '':'' # port)) = h" using assms(3,4) host_of_port host_of_v6 by auto
  moreover have "h \<noteq> []" using assms(4) by auto
  ultimately show ?thesis by (simp add: dash_dest_of_def assms(1,2))
qed

subsection \<open>Witnesses\<close>

definition connection :: "string \<Rightarrow> int \<Rightarrow> event" where
  "connection remote out = (proc_event ''n'' 1 0)\<lparr>ev_category := ''network'', ev_process := None,
     ev_network := Some \<lparr>ni_direction = Some ''outbound'', ni_proto = Some ''tcp'', ni_remote = Some remote, ni_domain = None,
       ni_url = None, ni_category = None, ni_bytes_out = Some out, ni_bytes_in = Some 0, ni_blocked = None\<rparr>\<rparr>"


lemma ports_collapse_witness:
  "dash_dest_of (connection ''10.0.0.9:443'' 100) = ''10.0.0.9'' \<and> dash_dest_of (connection ''[fe80::1]:443'' 5) = ''[fe80::1]''"
proof
  show "dash_dest_of (connection ''10.0.0.9:443'' 100) = ''10.0.0.9''"
    by (rule ports_collapse [of _ _ "''443''"]) (simp_all add: net_of_def connection_def)
  have "\<exists>v. ''[fe80::1]'' = CHR ''['' # v @ '']'' \<and> CHR '']'' \<notin> set v" by (rule exI [of _ "''fe80::1''"]) simp
  then show "dash_dest_of (connection ''[fe80::1]:443'' 5) = ''[fe80::1]''"
    by (intro ports_collapse [of _ _ "''443''"]) (simp_all add: net_of_def connection_def)
qed

end
