(* ===== verification/DashOverview.thy ===== *)
theory DashOverview
  imports DashPages ReportPages
begin

section \<open>Overview page of the Next.js console\<close>

text \<open>
  Models \<open>dashboard/app/(app)/page.tsx\<close>: the posture sentence, the severity bars, the charts' data and
  the list of priority detections. The page keeps no state. Its charts are elements of the chart library
  with their data as JSON; a bar reports a click with the datum it stands for. The width of a severity
  bar is the text of a double, an argument of the view.

  Time stamps are compared as texts, as the code does, and the comparator never answers zero: which of
  two detections with the same severity and time comes first is left open by the language.
\<close>

subsection \<open>Data\<close>

fun text_less :: "string \<Rightarrow> string \<Rightarrow> bool" where
  \<comment> \<open>\<open><\<close> on strings\<close>
  "text_less s [] = False"
| "text_less [] (d # t) = True"
| "text_less (c # s) (d # t) = ((of_char c :: nat) < of_char d \<or> c = d \<and> text_less s t)"

definition priority_cmp :: "detection \<Rightarrow> detection \<Rightarrow> int" where
  "priority_cmp a b =
     (let r = sev_rank (de_severity b) - sev_rank (de_severity a)
      in if r \<noteq> 0 then r else if text_less (de_ts a) (de_ts b) then 1 else -1)"

definition priority_rows :: "detection list option \<Rightarrow> detection list" where
  "priority_rows dets = slice 0 8 (js_sort priority_cmp (case dets of None \<Rightarrow> [] | Some ds \<Rightarrow> ds))"

definition SEV_ORDER :: "string list" where
  "SEV_ORDER = [''critical'', ''high'', ''medium'', ''low'', ''info'']"

definition sev_bars :: "overview option \<Rightarrow> (string \<times> int) list" where
  "sev_bars ov =
     filter (\<lambda>(k, n). n > 0)
       (map (\<lambda>k. (k, case ov of None \<Rightarrow> 0 | Some v \<Rightarrow> num_or0 (map_of (ov_severity v) k))) SEV_ORDER)"

definition sev_total :: "(string \<times> int) list \<Rightarrow> int" where
  "sev_total bars = foldl (\<lambda>s (k, n). s + n) 0 bars"

definition plural :: "int \<Rightarrow> string" where
  "plural n = (if n = 1 then [] else ''s'')"

definition build_posture :: "overview \<Rightarrow> string" where
  "build_posture v =
     (let c = ov_count (Some v); crit = c ''detections_critical''; open' = c ''detections_open'';
          isolated = c ''agents_isolated''; offline = c ''agents_total'' - c ''agents_online'';
          top = (case ov_top_mitre v of [] \<Rightarrow> None | t # ts \<Rightarrow> Some (tc_tactic t))
      in join ('' '' @ u_middot @ '' '')
           ([if crit > 0 then show_int crit @ '' critical detection'' @ plural crit @ '' need attention''
             else if open' > 0 then show_int open' @ '' open detection'' @ plural open' @ '' in the queue''
             else ''No open detections''] @
            (if isolated > 0 then [show_int isolated @ '' host'' @ plural isolated @ '' isolated''] else []) @
            (if offline > 0 then [show_int offline @ '' endpoint'' @ plural offline @ '' offline''] else []) @
            (if truthy top then [''busiest tactic: '' @ the top] else [])) @ ''.'')"

subsection \<open>Steps\<close>

datatype overview_msg = OpGo string | OpRetry

fun overview_update :: "overview_msg \<Rightarrow> dash_effect list" where
  "overview_update (OpGo href) = [Navigate href]"
| "overview_update OpRetry = [Refetch]"

subsection \<open>View\<close>

definition panel_title :: "bool \<Rightarrow> string \<Rightarrow> 'm node" where
  "panel_title live t = el ''CardTitle'' [] [only_if live (spanc ''live-dot size-1.5'' []), Txt t]"

definition no_data :: "string \<Rightarrow> 'm node" where
  \<comment> \<open>the page's \<open>Empty\<close>\<close>
  "no_data t = el ''div'' [] [el ''Inbox'' [] [], Txt t]"

definition overview_card :: "'m node \<Rightarrow> 'm node \<Rightarrow> 'm node" where
  "overview_card title body = el ''Card'' [cls ''panel overflow-hidden''] [el ''CardHeader'' [] [title], el ''CardContent'' [] [body]]"

definition TIP_STYLE :: string where
  "TIP_STYLE = ''background: var(--popover); border: 1px solid var(--border); border-radius: 10px; font-family: var(--font-geist-mono); font-size: 12px; color: var(--popover-foreground); box-shadow: 0 8px 24px -14px color-mix(in oklch, var(--foreground) 55%, transparent)''"

definition unreachable :: "overview_msg node" where
  "unreachable =
     el ''div'' []
       [el ''span'' [] [el ''WifiOff'' [] [], Txt '' Can't reach the server. Retrying'', Txt u_ellipsis],
        Elem ''button'' [] [On ''click'' OpRetry] [el ''RotateCw'' [] [], Txt '' Retry now'']]"

definition count_card ::
  "env \<Rightarrow> (string \<Rightarrow> count_up) \<Rightarrow> string \<Rightarrow> metric_value \<Rightarrow> string \<Rightarrow> string \<Rightarrow> int list option \<Rightarrow> 'm node \<Rightarrow> bool \<Rightarrow> 'm node" where
  "count_card env counters label value icon accent spark sub' emphasize =
     metric (en_number env) (counters label) label label value (Some (el icon [] [])) (Some accent) spark (Some sub') emphasize"

definition figures :: "env \<Rightarrow> (string \<Rightarrow> count_up) \<Rightarrow> overview \<Rightarrow> 'm node" where
  "figures env counters v =
     (let c = ov_count (Some v); card = count_card env counters
      in divc ''reveal grid gap-4 sm:grid-cols-2 xl:grid-cols-4''
        [card ''Endpoints'' (MNum (c ''agents_total'')) ''Server'' ''var(--signal)'' None
           (el ''span'' [] [el ''span'' [sty ''color: var(--signal)''] [num_txt (c ''agents_online''), Txt '' online''],
              only_if (c ''agents_isolated'' > 0)
                (spanc ''text-destructive'' [Txt ('' '' @ u_middot @ '' ''), num_txt (c ''agents_isolated''), Txt '' isolated''])]) False,
         card ''Open detections'' (MNum (c ''detections_open'')) ''Radar'' ''var(--sev-critical)'' None
           (spanc ''text-destructive'' [num_txt (c ''detections_critical''), Txt '' critical'']) (c ''detections_critical'' > 0),
         card (''Events '' @ u_middot @ '' 24h'') (MText (compact (nat (c ''events_24h'')))) ''Activity'' ''var(--signal)''
           (Some (map snd (ov_timeline_data (Some v)))) (Txt ''events ingested'') False,
         card (''DLP '' @ u_middot @ '' 24h'') (MNum (c ''dlp_24h'')) ''FileLock2'' ''var(--signal)'' None
           (Txt (show_int (c ''responses_total'') @ '' responses sent'')) False])"

definition volume_chart :: "(string \<times> int) list \<Rightarrow> 'm node" where
  "volume_chart timeline =
     el ''ResponsiveContainer'' [(''width'', ''100%''), (''height'', ''230'')]
       [el ''AreaChart'' [points ''t'' ''count'' timeline]
          [el ''XAxis'' [(''dataKey'', ''t''), (''interval'', ''preserveStartEnd'')] [], el ''YAxis'' [(''width'', ''40'')] [],
           el ''Tooltip'' [(''contentStyle'', TIP_STYLE)] [],
           el ''Area'' [(''type'', ''monotone''), (''dataKey'', ''count''), (''dotIndex'', show_int (int (length timeline) - 1))] []]]"

definition severity_bars :: "(int \<Rightarrow> int \<Rightarrow> string) \<Rightarrow> (string \<times> int) list \<Rightarrow> 'm node" where
  \<comment> \<open>\<open>width v total\<close> is the text of \<open>Math.max(3, v / total * 100)\<close>\<close>
  "severity_bars width bars =
     (if bars = [] then no_data ''No active detections''
      else divc ''space-y-2.5 py-2''
        (map (\<lambda>(k, n). divc ''space-y-1''
           [el ''div'' [] [el ''span'' [] [el ''span'' [sty (''background: '' @ sev_color k)] [], Txt k],
                           el ''span'' [] [num_txt n]],
            el ''div'' [] [el ''div'' [sty (''width: '' @ width n (sev_total bars) @ ''%; background: '' @ sev_color k)] []]]) bars))"

definition category_chart :: "(string \<times> int) list \<Rightarrow> overview_msg node" where
  "category_chart d =
     el ''ResponsiveContainer'' [(''width'', ''100%''), (''height'', ''210'')]
       [el ''BarChart'' [points ''name'' ''value'' d, (''layout'', ''vertical'')]
          [el ''XAxis'' [(''type'', ''number''), (''hide'', [])] [], el ''YAxis'' [(''type'', ''category''), (''dataKey'', ''name''), (''width'', ''74'')] [],
           el ''Tooltip'' [(''contentStyle'', TIP_STYLE)] [],
           Elem ''Bar'' [(''dataKey'', ''value''), (''fill'', ''var(--chart-2)'')]
             (map (\<lambda>(k, n). On ''click'' (OpGo (event_link ''category'' k))) (filter (\<lambda>(k, n). k \<noteq> []) d)) []]]"

definition tactic_chart :: "(string \<times> int) list \<Rightarrow> 'm node" where
  "tactic_chart d =
     (if d = [] then no_data ''No tactics observed''
      else el ''ResponsiveContainer'' [(''width'', ''100%''), (''height'', ''210'')]
        [el ''BarChart'' [points ''name'' ''value'' d, (''layout'', ''vertical'')]
           [el ''XAxis'' [(''type'', ''number''), (''hide'', [])] [], el ''YAxis'' [(''type'', ''category''), (''dataKey'', ''name''), (''width'', ''118'')] [],
            el ''Tooltip'' [(''contentStyle'', TIP_STYLE)] [],
            el ''Bar'' [(''dataKey'', ''value''), (''fill'', ''var(--chart-1)'')] []]])"

definition priority_row :: "env \<Rightarrow> nat \<Rightarrow> detection \<Rightarrow> overview_msg node" where
  "priority_row env i d =
     (let open' = OpGo (detection_link (de_id d))
      in Elem ''div''
           [(''role'', ''button''), (''tabIndex'', ''0''),
            cls (''group flex cursor-pointer '' @
              (if i = 0 \<and> de_severity d = ''critical''
               then ''border-l-[var(--sev-critical)] bg-[color-mix(in_oklch,var(--sev-critical)_5%,transparent)] py-3''
               else ''border-l-transparent py-2.5 hover:border-l-primary''))]
           [On ''click'' open', OnKey (\<lambda>k. if k = ''Enter'' \<or> k = '' '' then Some open' else None)]
           [dash_sev (de_severity d), mono (de_rule_name d), muted (de_hostname d),
            el ''div'' [] [mitre_chips (de_mitre d) (Some 2), chip [Txt (de_engine d)] None, Txt (ago (en_now env) (de_ts d)),
              inspect open' ''Open detection'']])"

definition priority_list :: "env \<Rightarrow> detection list option \<Rightarrow> overview_msg node" where
  "priority_list env dets =
     (case dets of
        None \<Rightarrow> divc ''divide-y'' (replicate 5 (el ''div'' [] [divc ''shimmer h-4 w-16 rounded bg-muted'' [],
          divc ''shimmer h-4 w-40 rounded bg-muted'' [], divc ''shimmer ml-auto h-4 w-12 rounded bg-muted'' []]))
      | Some ds \<Rightarrow>
          (let rows = priority_rows dets
           in if rows = [] then no_data (''No open detections '' @ u_dash @ '' fleet is clear'')
              else divc ''divide-y'' (map (\<lambda>(i, d). priority_row env i d) (zip [0..<length rows] rows))))"

record overview_data =
  oo_env :: env
  oo_overview :: "overview option"
  oo_live :: bool
  oo_detections :: "detection list option"
  oo_counters :: "string \<Rightarrow> count_up"
  oo_width :: "int \<Rightarrow> int \<Rightarrow> string"

definition dash_overview_view :: "overview_data \<Rightarrow> overview_msg node" where
  "dash_overview_view d =
     (let ov = oo_overview d
      in divc ''space-y-5''
        [only_if (\<not> oo_live d \<and> ov = None) unreachable,
         (case ov of
            None \<Rightarrow> divc ''grid gap-4 sm:grid-cols-2 xl:grid-cols-4'' (replicate 4 (el ''Card'' [] [el ''CardContent'' []
              [divc ''shimmer h-3 w-24 rounded bg-muted'' [], divc ''shimmer mt-4 h-8 w-20 rounded bg-muted'' []]]))
          | Some v \<Rightarrow> Frag [figures (oo_env d) (oo_counters d) v, el ''p'' [] [Txt (build_posture v)]]),
         divc ''reveal grid gap-4 xl:grid-cols-3''
           [overview_card (panel_title True (''Event volume '' @ u_middot @ '' 24h'')) (volume_chart (ov_timeline_data ov)),
            overview_card (panel_title False ''Detections by severity'') (severity_bars (oo_width d) (sev_bars ov))],
         divc ''reveal grid gap-4 lg:grid-cols-2''
           [overview_card (panel_title False ''Events by category'') (category_chart (ov_cat_data ov)),
            overview_card (panel_title False ''ATT&CK tactics'') (tactic_chart (ov_mitre_data ov))],
         overview_card (panel_title True ''Priority detections'') (priority_list (oo_env d) (oo_detections d))])"

subsection \<open>Lemmas\<close>

lemma char_code_linear: "(of_char c :: nat) < of_char d \<or> c = d \<or> (of_char d :: nat) < of_char c"
  using of_char_eq_iff [of c d, where ?'a = nat] by linarith

lemma text_less_trichotomy: "text_less s t \<or> s = t \<or> text_less t s"
proof (induction s t rule: text_less.induct)
  case (1 s)
  then show ?case by (cases s) simp_all
next
  case (3 c s d t)
  then show ?case using char_code_linear [of c d] by auto
qed simp

lemma text_less_asym: "text_less s t \<Longrightarrow> \<not> text_less t s"
  by (induction s t rule: text_less.induct) auto

lemma text_less_trans: "text_less s t \<Longrightarrow> text_less t u \<Longrightarrow> text_less s u"
proof (induction s t arbitrary: u rule: text_less.induct)
  case (2 d t)
  then show ?case by (cases u) auto
next
  case (3 c s d t)
  then show ?case by (cases u) auto
qed simp

lemma text_less_step: "\<not> text_less s t \<Longrightarrow> \<not> text_less t u \<Longrightarrow> \<not> text_less s u"
  using text_less_trichotomy [of t u] text_less_trichotomy [of s t] text_less_trans text_less_asym by metis

definition louder :: "detection \<Rightarrow> detection \<Rightarrow> bool" where
  \<comment> \<open>more severe, or as severe and with a later time stamp\<close>
  "louder a b \<longleftrightarrow>
     sev_rank (de_severity b) < sev_rank (de_severity a) \<or>
     sev_rank (de_severity b) = sev_rank (de_severity a) \<and> text_less (de_ts b) (de_ts a)"

lemma priority_cmp_le: "priority_cmp a b \<le> 0 \<longleftrightarrow> \<not> louder b a"
  by (auto simp: priority_cmp_def louder_def Let_def)

interpretation priority_sort: comparator priority_cmp "\<lambda>_. True"
proof
  show "priority_cmp a b \<le> 0 \<or> priority_cmp b a \<le> 0" for a b
    unfolding priority_cmp_le louder_def using text_less_asym by force
  show "priority_cmp a b \<le> 0 \<Longrightarrow> priority_cmp b c \<le> 0 \<Longrightarrow> priority_cmp a c \<le> 0" for a b c
    unfolding priority_cmp_le louder_def using text_less_step [of "de_ts a" "de_ts b" "de_ts c"] by force
qed

definition overview_lands :: "overview_msg \<Rightarrow> bool" where
  \<comment> \<open>a link goes to the event page with the category set, or opens a detection\<close>
  "overview_lands m = (case m of OpGo h \<Rightarrow> (\<exists>v. h = event_link ''category'' v) \<or> (\<exists>i. h = detection_link i) | OpRetry \<Rightarrow> True)"

lemma overview_lands_simps [simp]:
  "overview_lands OpRetry" "overview_lands (OpGo (event_link ''category'' v))" "overview_lands (OpGo (detection_link i))"
  by (auto simp: overview_lands_def)

lemma set_node_priority_row: "set_node (priority_row env i d) = {OpGo (detection_link (de_id d))}"
  by (auto simp: priority_row_def Let_def)

lemma set_node_overview_parts [simp]:
  "set_node (overview_card t b) = set_node t \<union> set_node b" "set_node (panel_title l x :: 'm node) = {}"
  "set_node (no_data x :: 'm node) = {}" "set_node (volume_chart tl' :: 'm node) = {}" "set_node (tactic_chart tc :: 'm node) = {}"
  "set_node (severity_bars w bs :: 'm node) = {}" "set_node (figures env cs v :: 'm node) = {}"
  by (auto simp: overview_card_def panel_title_def no_data_def volume_chart_def tactic_chart_def severity_bars_def
      figures_def count_card_def Let_def)

lemma priority_list_lands: "set_node (priority_list env dets) \<subseteq> Collect overview_lands"
  by (auto simp: priority_list_def Let_def set_node_priority_row split: option.splits if_splits)

lemma overview_page_lands: "m \<in> set_node (dash_overview_view d) \<Longrightarrow> overview_lands m"
proof -
  have "set_node (category_chart x) \<subseteq> Collect overview_lands" for x
    by (auto simp: category_chart_def)
  moreover have "set_node unreachable \<subseteq> Collect overview_lands" by (simp add: unreachable_def)
  ultimately have "set_node (dash_overview_view d) \<subseteq> Collect overview_lands"
    using priority_list_lands by (simp add: dash_overview_view_def Let_def split: option.split)
  then show "m \<in> set_node (dash_overview_view d) \<Longrightarrow> overview_lands m" by auto
qed

subsection \<open>Properties\<close>

text \<open>C28: the overview shows the loudest open detections first: at most eight rows, more severe before
  less severe and later before earlier, and none that it leaves out is louder than one it shows.\<close>

theorem loudest_detections_shown:
  "length (priority_rows (Some ds)) = min 8 (length ds) \<and>
   sorted_wrt (\<lambda>a b. \<not> louder b a) (priority_rows (Some ds)) \<and>
   (\<exists>rest. mset (priority_rows (Some ds)) + mset rest = mset ds \<and>
      (\<forall>a\<in>set (priority_rows (Some ds)). \<forall>b\<in>set rest. \<not> louder b a))"
proof -
  define s where "s = js_sort priority_cmp ds"
  have rows: "priority_rows (Some ds) = take 8 s" by (simp add: priority_rows_def s_def slice_def)
  have m: "mset s = mset ds" by (simp add: s_def mset_js_sort)
  have "sorted_wrt (\<lambda>a b. \<not> louder b a) s"
    using priority_sort.sorted_sort [of ds] by (simp add: s_def priority_cmp_le)
  then have "sorted_wrt (\<lambda>a b. \<not> louder b a) (take 8 s @ drop 8 s)" by simp
  then have o: "sorted_wrt (\<lambda>a b. \<not> louder b a) (take 8 s)" "\<forall>a\<in>set (take 8 s). \<forall>b\<in>set (drop 8 s). \<not> louder b a"
    unfolding sorted_wrt_append by blast+
  have "mset (take 8 s) + mset (drop 8 s) = mset ds" unfolding mset_append [symmetric] append_take_drop_id by (rule m)
  moreover have "length (take 8 s) = min 8 (length ds)" using mset_eq_length [OF m] by simp
  ultimately show ?thesis unfolding rows using o by blast
qed

text \<open>Time stamps are compared as texts, not as times: of two detections of one severity half a second
  apart, the earlier one is listed first when its time has no fraction, as the Go server writes it.\<close>

theorem recency_misordered:
  assumes "de_severity a = de_severity b" and "de_ts a = ''2026-01-01T00:00:00Z''" and "de_ts b = ''2026-01-01T00:00:00.5Z''"
  shows "the (date_parse (de_ts b)) = the (date_parse (de_ts a)) + 500 \<and> priority_rows (Some [b, a]) = [a, b] \<and>
    priority_rows (Some [a, b]) = [a, b]"
proof -
  have c: "priority_cmp a b = -1" "priority_cmp b a = 1"
    using assms by (simp_all add: priority_cmp_def Let_def)
  have "the (date_parse (de_ts b)) = the (date_parse (de_ts a)) + 500"
    unfolding assms by (simp add: date_parse_defs)
  with c show ?thesis by (simp add: priority_rows_def js_sort_def slice_def)
qed

subsection \<open>Witnesses\<close>

definition open_detection :: "string \<Rightarrow> string \<Rightarrow> string \<Rightarrow> detection" where
  "open_detection i sev ts = \<lparr>de_id = i, de_ts = ts, de_rule_id = ''r1'', de_rule_name = ''Miner'', de_severity = sev, de_category = [],
     de_agent_id = ''a1'', de_hostname = ''web-1'', de_user = None, de_summary = [], de_mitre = None, de_tactic = None,
     de_status = ''open'', de_event_ids = None, de_engine = ''sigma'', de_assigned_to = None\<rparr>"

lemma loudest_detections_shown_witness:
  "length (priority_rows (Some [open_detection ''a'' ''low'' ''2026-01-02'', open_detection ''b'' ''high'' ''2026-01-01''])) = 2"
  using loudest_detections_shown [of "[open_detection ''a'' ''low'' ''2026-01-02'', open_detection ''b'' ''high'' ''2026-01-01'']"] by simp

lemma recency_misordered_witness:
  "priority_rows (Some [open_detection ''b'' ''high'' ''2026-01-01T00:00:00.5Z'', open_detection ''a'' ''high'' ''2026-01-01T00:00:00Z'']) =
     [open_detection ''a'' ''high'' ''2026-01-01T00:00:00Z'', open_detection ''b'' ''high'' ''2026-01-01T00:00:00.5Z'']"
  using recency_misordered [of "open_detection ''a'' ''high'' ''2026-01-01T00:00:00Z''" "open_detection ''b'' ''high'' ''2026-01-01T00:00:00.5Z''"]
  by (simp add: open_detection_def)

end
