(* ===== verification/DashAccess.thy ===== *)
theory DashAccess
  imports DashPages DashShell DashOverview TwoFactor
begin

section \<open>Sign-in and navigation of the Next.js console\<close>

text \<open>
  Models \<open>dashboard/app/login/page.tsx\<close>, \<open>app/(app)/layout.tsx\<close>, \<open>components/app-sidebar.tsx\<close>,
  \<open>command-palette.tsx\<close> and \<open>hooks/use-mobile.ts\<close>.

  The sign-in page is a state machine around two calls of the authentication client, each cut at its
  await; a reply is one of \<open>tf_reply\<close>, with \<open>TfThrows\<close> for a rejected promise, which the handlers do not
  catch. \<open>login_run\<close> is the histories of the page: the user sends what the page offers, a reply comes for
  a call that was made. A form whose submit button is disabled is not submitted, not by the Enter key
  either.
\<close>

subsection \<open>Sign-in page\<close>

record login_page =
  lg_email :: string
  lg_password :: string
  lg_busy :: bool
  lg_err :: string
  lg_two :: bool
  lg_code :: string
  lg_show :: bool

definition login_page0 :: login_page where
  "login_page0 = \<lparr>lg_email = [], lg_password = [], lg_busy = False, lg_err = [], lg_two = False, lg_code = [], lg_show = False\<rparr>"

datatype dash_login_msg =
    LgEmail string
  | LgPassword string
  | LgCode string
  | LgShow
  | LgBack
  | LgSubmit
  | LgSigned "bool tf_reply"
  | LgVerify
  | LgVerified "unit tf_reply"

datatype login_effect =
    SignIn string string
  | VerifyTotp string
  | LoginToast bool string
  | Enter string

definition login_submit :: "login_page \<Rightarrow> login_page \<times> login_effect list" where
  "login_submit s = (s\<lparr>lg_busy := True, lg_err := []\<rparr>, [SignIn (lg_email s) (lg_password s)])"

definition login_signed :: "bool tf_reply \<Rightarrow> login_page \<Rightarrow> login_page \<times> login_effect list" where
  \<comment> \<open>the data is whether the answer redirects to the second factor\<close>
  "login_signed r s =
     (case r of
        TfThrows \<Rightarrow> (s, [])
      | TfError e \<Rightarrow> (s\<lparr>lg_busy := False, lg_err := str_or e ''Authentication failed''\<rparr>, [LoginToast False ''Authentication failed''])
      | TfData redirect \<Rightarrow>
          if redirect then (s\<lparr>lg_busy := False, lg_two := True\<rparr>, [])
          else (s\<lparr>lg_busy := False\<rparr>, [LoginToast True ''Welcome back'', Enter ''/'']))"

definition login_verify :: "login_page \<Rightarrow> login_page \<times> login_effect list" where
  "login_verify s = (s\<lparr>lg_busy := True, lg_err := []\<rparr>, [VerifyTotp (lg_code s)])"

definition login_verified :: "unit tf_reply \<Rightarrow> login_page \<Rightarrow> login_page \<times> login_effect list" where
  "login_verified r s =
     (case r of
        TfThrows \<Rightarrow> (s, [])
      | TfError e \<Rightarrow> (s\<lparr>lg_busy := False, lg_err := str_or e ''Invalid code''\<rparr>, [LoginToast False ''Invalid code''])
      | TfData u \<Rightarrow> (s\<lparr>lg_busy := False\<rparr>, [LoginToast True ''Welcome back'', Enter ''/'']))"

fun dash_login_update :: "dash_login_msg \<Rightarrow> login_page \<Rightarrow> login_page \<times> login_effect list" where
  "dash_login_update (LgEmail t) s = (s\<lparr>lg_email := t\<rparr>, [])"
| "dash_login_update (LgPassword t) s = (s\<lparr>lg_password := t\<rparr>, [])"
| "dash_login_update (LgCode t) s = (s\<lparr>lg_code := t\<rparr>, [])"
| "dash_login_update LgShow s = (s\<lparr>lg_show := \<not> lg_show s\<rparr>, [])"
| "dash_login_update LgBack s = (s\<lparr>lg_two := False, lg_code := [], lg_err := []\<rparr>, [])"
| "dash_login_update LgSubmit s = login_submit s"
| "dash_login_update (LgSigned r) s = login_signed r s"
| "dash_login_update LgVerify s = login_verify s"
| "dash_login_update (LgVerified r) s = login_verified r s"

definition FEATURES :: "(string \<times> string \<times> string) list" where
  \<comment> \<open>icon, title and text\<close>
  "FEATURES =
     [(''Radar'', ''Endpoint EDR'', ''Process, file, auth, USB & network telemetry in real time.''),
      (''FileLock2'', ''Data Loss Prevention'', ''Content classification with policy-based enforcement.''),
      (''Crosshair'', ''Automated Response'', ''Kill '' @ u_middot @ '' isolate '' @ u_middot @ '' disable '' @ u_middot @ '' block '' @ u_dash @ '' by rule or one click.'')]"

definition brand_panel :: "'m node" where
  "brand_panel =
     el ''aside'' []
       [el ''div'' [] [el ''SentinelMark'' [] [], el ''div'' [] [Txt ''SENTINEL'']],
        el ''div'' []
          [el ''h2'' [] [Txt ''Linux endpoint security,'', el ''br'' [] [], el ''span'' [] [Txt ''end to end.'']],
           el ''p'' [] [Txt (''Monitor '' @ u_middot @ '' Detect '' @ u_middot @ '' Prevent '' @ u_middot @ '' Respond'')],
           el ''div'' [] (map (\<lambda>(i, t, d). el ''div'' [] [el i [] [], el ''div'' [] [el ''div'' [] [Txt t], el ''div'' [] [Txt d]]]) FEATURES)],
        el ''div'' [] [Txt (''security operations console '' @ u_middot @ '' v1.0'')]]"

definition submit_button :: "bool \<Rightarrow> string \<Rightarrow> 'm node" where
  "submit_button busy label =
     el ''Button'' ((''type'', ''submit'') # disabled_attr busy) [if busy then el ''Loader2'' [] [] else Frag [Txt label, el ''ArrowRight'' [] []]]"

definition login_error :: "login_page \<Rightarrow> 'm node" where
  "login_error s = only_if (lg_err s \<noteq> []) (el ''p'' [cls ''text-sm text-destructive''] [Txt (lg_err s)])"

definition code_form :: "login_page \<Rightarrow> dash_login_msg node" where
  "code_form s =
     Frag
       [el ''h1'' [] [el ''ShieldCheck'' [] [], Txt '' Verify''],
        el ''p'' [] [Txt ''Enter the 6-digit code from your authenticator app.''],
        Elem ''form'' [] (unless_disabled (lg_busy s) [On ''submit'' LgVerify])
          [el ''Label'' [] [Txt ''Authentication code''],
           Elem ''Input'' [(''id'', ''code''), (''inputMode'', ''numeric''), (''pattern'', ''[0-9]*''), (''maxLength'', ''6''),
             (''autoComplete'', ''one-time-code''), (''value'', lg_code s), (''required'', [])] [OnValue ''change'' LgCode] [],
           submit_button (lg_busy s) ''Verify '', login_error s],
        Elem ''button'' [] [On ''click'' LgBack] [el ''ArrowLeft'' [] [], Txt '' Back'']]"

definition password_login :: "login_page \<Rightarrow> dash_login_msg node" where
  "password_login s =
     Frag
       [el ''h1'' [] [Txt ''Sign in''],
        el ''p'' [] [Txt ''Authenticate to the command console.''],
        Elem ''form'' [] (unless_disabled (lg_busy s) [On ''submit'' LgSubmit])
          [el ''Label'' [] [Txt ''Email''],
           Elem ''Input'' [(''id'', ''email''), (''type'', ''email''), (''value'', lg_email s), (''required'', [])] [OnValue ''change'' LgEmail] [],
           el ''Label'' [] [Txt ''Password''],
           Elem ''Input'' [(''id'', ''pw''), (''type'', if lg_show s then ''text'' else ''password''), (''value'', lg_password s), (''required'', [])]
             [OnValue ''change'' LgPassword] [],
           Elem ''button'' [(''type'', ''button''), (''aria-label'', if lg_show s then ''Hide password'' else ''Show password'')]
             [On ''click'' LgShow] [if lg_show s then el ''EyeOff'' [] [] else el ''Eye'' [] []],
           submit_button (lg_busy s) ''Sign in '', login_error s]]"

definition dash_login_view :: "login_page \<Rightarrow> dash_login_msg node" where
  "dash_login_view s =
     el ''div'' [cls ''grid h-dvh overflow-hidden lg:grid-cols-2'']
       [brand_panel,
        el ''main'' [] [el ''div'' [] [el ''SentinelMark'' [] [], el ''span'' [] [Txt ''SENTINEL'']],
          if lg_two s then code_form s else password_login s]]"

subsection \<open>Navigation\<close>

record dash_nav_item =
  nv_href :: string
  nv_title :: string
  nv_icon :: string

definition nav :: "string \<Rightarrow> string \<Rightarrow> string \<Rightarrow> dash_nav_item" where
  "nav h t i = \<lparr>nv_href = h, nv_title = t, nv_icon = i\<rparr>"

definition SIDEBAR_NAV :: "(string \<times> dash_nav_item list) list" where
  "SIDEBAR_NAV =
     [(''Monitor'',
        [nav ''/'' ''Overview'' ''LayoutDashboard'',
         nav ''/endpoints'' ''Endpoints'' ''Server'',
         nav ''/events'' ''Events'' ''Activity'',
         nav ''/internet'' ''Network'' ''Globe'']),
      (''Detect'',
        [nav ''/detections'' ''Detections'' ''Radar'',
         nav ''/cases'' ''Cases'' ''FolderKanban'',
         nav ''/dlp'' ''Data Loss'' ''FileLock2'']),
      (''Respond'',
        [nav ''/responses'' ''Response'' ''Crosshair'',
         nav ''/rules'' ''Rules'' ''ScrollText'']),
      (''System'',
        [nav ''/settings'' ''Settings'' ''Settings''])]"

definition PALETTE_NAV :: "dash_nav_item list" where
  "PALETTE_NAV =
     [nav ''/'' ''Overview'' ''LayoutDashboard'',
      nav ''/endpoints'' ''Endpoints'' ''Server'',
      nav ''/events'' ''Events'' ''Activity'',
      nav ''/internet'' ''Network'' ''Globe'',
      nav ''/detections'' ''Detections'' ''Radar'',
      nav ''/cases'' ''Cases'' ''FolderKanban'',
      nav ''/dlp'' ''Data Loss'' ''FileLock2'',
      nav ''/responses'' ''Response'' ''Crosshair'',
      nav ''/rules'' ''Rules'' ''ScrollText'',
      nav ''/settings'' ''Settings'' ''Settings'']"

definition dash_nav_active :: "string \<Rightarrow> dash_nav_item \<Rightarrow> bool" where
  "dash_nav_active pathname item = (if nv_href item = ''/'' then pathname = ''/'' else starts_with pathname (nv_href item))"

record operator =
  op_name :: "string option"
  op_email :: "string option"

definition initials :: "operator \<Rightarrow> string" where
  "initials u = to_upper (slice 0 2 (str_or (op_name u) (str_or (op_email u) ''OP'')))"

datatype sidebar_msg = SbGo string | SbSignOut | SbSignedOut bool

datatype sidebar_effect = SignOut | Push string

fun sidebar_update :: "sidebar_msg \<Rightarrow> sidebar_effect list" where
  \<comment> \<open>\<open>SbSignedOut\<close> is the reply to the sign-out, and whether it succeeded\<close>
  "sidebar_update (SbGo h) = [Push h]"
| "sidebar_update SbSignOut = [SignOut]"
| "sidebar_update (SbSignedOut ok) = (if ok then [Push ''/login''] else [])"

definition sidebar_item :: "string \<Rightarrow> dash_nav_item \<Rightarrow> sidebar_msg node" where
  "sidebar_item pathname item =
     el ''SidebarMenuItem'' []
       [el ''SidebarMenuButton'' ((if dash_nav_active pathname item then [(''isActive'', ''true'')] else []) @ [(''tooltip'', nv_title item)])
          [Elem ''Link'' [(''href'', nv_href item)] [On ''click'' (SbGo (nv_href item))] [el (nv_icon item) [] [], el ''span'' [] [Txt (nv_title item)]]]]"

definition app_sidebar :: "string \<Rightarrow> operator \<Rightarrow> sidebar_msg node" where
  "app_sidebar pathname u =
     el ''Sidebar'' [(''collapsible'', ''icon''), (''variant'', ''inset'')]
       [el ''SidebarHeader'' [] [el ''SentinelMark'' [] [], el ''span'' [] [Txt ''SENTINEL''], el ''span'' [] [Txt ''EDR & DLP'']],
        el ''SidebarContent'' []
          (map (\<lambda>(l, items). el ''SidebarGroup'' []
             [el ''SidebarGroupLabel'' [] [Txt l], el ''SidebarMenu'' [] (map (sidebar_item pathname) items)]) SIDEBAR_NAV),
        el ''SidebarFooter'' []
          [el ''Avatar'' [] [Txt (initials u)],
           el ''span'' [] [Txt (str_or (op_name u) ''Operator'')], el ''span'' [] [opt_txt (op_email u)],
           el ''DropdownMenu'' []
             [el ''DropdownMenuLabel'' [] [opt_txt (op_email u)],
              Elem ''DropdownMenuItem'' [] [On ''click'' SbSignOut] [el ''LogOut'' [] [], Txt '' Sign out'']]]]"

subsection \<open>Command palette\<close>

datatype palette_msg = PaOpen bool | PaKey bool bool string | PaGo string

fun palette_update :: "palette_msg \<Rightarrow> bool \<Rightarrow> bool \<times> dash_effect list" where
  \<comment> \<open>the state is whether the palette is open; \<open>PaKey meta ctrl key\<close> is a key pressed anywhere\<close>
  "palette_update (PaOpen b) s = (b, [])"
| "palette_update (PaKey meta ctrl key) s = (if (meta \<or> ctrl) \<and> to_lower key = ''k'' then \<not> s else s, [])"
| "palette_update (PaGo h) s = (False, [Navigate h])"

definition entity_results :: "agent list option \<Rightarrow> detection list option \<Rightarrow> palette_msg node" where
  "entity_results agents dets =
     Frag
       [only_if (length (case agents of None \<Rightarrow> [] | Some l \<Rightarrow> l) > 0)
          (el ''CommandGroup'' [(''heading'', ''Endpoints'')]
             (map (\<lambda>a. Elem ''CommandItem'' [(''value'', ''host '' @ ag_hostname a @ '' '' @ ag_ip a)]
                 [On ''select'' (PaGo (event_link ''agent_id'' (ag_id a)))]
                 [el ''Server'' [] [], mono (ag_hostname a), Txt (ag_status a)]) (slice 0 8 (case agents of None \<Rightarrow> [] | Some l \<Rightarrow> l)))),
        only_if (length (case dets of None \<Rightarrow> [] | Some l \<Rightarrow> l) > 0)
          (el ''CommandGroup'' [(''heading'', ''Detections'')]
             (map (\<lambda>d. Elem ''CommandItem'' [(''value'', ''detection '' @ de_rule_name d @ '' '' @ de_hostname d @ '' '' @ de_severity d)]
                 [On ''select'' (PaGo (detection_link (de_id d)))]
                 [el ''Radar'' [] [], mono (de_rule_name d), Txt (de_hostname d)]) (slice 0 8 (case dets of None \<Rightarrow> [] | Some l \<Rightarrow> l))))]"

definition command_palette :: "bool \<Rightarrow> agent list option \<Rightarrow> detection list option \<Rightarrow> palette_msg node" where
  "command_palette is_open agents dets =
     Frag
       [Elem ''button'' [] [On ''click'' (PaOpen True)] [el ''Search'' [] [], el ''span'' [] [Txt (''Search hosts, detections'' @ u_ellipsis)],
          el ''kbd'' [] [Txt ([CHR 0xE2, CHR 0x8C, CHR 0x98] @ ''K'')]],
        (if \<not> is_open then Null
         else Elem ''CommandDialog'' [] [On ''openChange'' (PaOpen False)]
           [el ''CommandInput'' [(''placeholder'', ''Search hosts, detections, or jump to a page'' @ u_ellipsis)] [],
            el ''CommandEmpty'' [] [Txt ''No matches.''],
            el ''CommandGroup'' [(''heading'', ''Navigate'')]
              (map (\<lambda>n. Elem ''CommandItem'' [(''value'', nv_title n)] [On ''select'' (PaGo (nv_href n))] [el (nv_icon n) [] [], Txt (nv_title n)]) PALETTE_NAV @
               [Elem ''CommandItem'' [(''value'', ''live events'')] [On ''select'' (PaGo ''/events'')] [el ''Eye'' [] [], Txt ''Live event stream'']]),
            el ''CommandSeparator'' [] [], entity_results agents dets])]"

subsection \<open>Layout and width\<close>

datatype 'm layout = Redirect string | Shown "'m node"

definition app_layout :: "operator option \<Rightarrow> (operator \<Rightarrow> 'm node) \<Rightarrow> 'm node list \<Rightarrow> 'm node \<Rightarrow> 'm node list \<Rightarrow> 'm layout" where
  \<comment> \<open>\<open>header\<close> is the title, the palette, the live status and the theme toggle; \<open>voices\<close> the two announcers\<close>
  "app_layout user sidebar header children voices =
     (case user of
        None \<Rightarrow> Redirect ''/login''
      | Some u \<Rightarrow>
          Shown (el ''SidebarProvider'' []
            ([sidebar u,
              el ''SidebarInset'' []
                [el ''header'' [] ([el ''SidebarTrigger'' [] [], el ''Separator'' [(''orientation'', ''vertical'')] []] @ header),
                 el ''div'' [cls ''min-h-[calc(100dvh-3.5rem)] p-4 md:p-6''] [children]]] @ voices)))"

definition MOBILE_BREAKPOINT :: int where
  "MOBILE_BREAKPOINT = 768"

definition mobile_event :: "int \<Rightarrow> bool option \<Rightarrow> bool option" where
  \<comment> \<open>mounting, or a change of the media query, at an inner width; the state is \<open>None\<close> before\<close>
  "mobile_event width s = Some (width < MOBILE_BREAKPOINT)"

definition is_mobile :: "bool option \<Rightarrow> bool" where
  "is_mobile s = (s = Some True)"

subsection \<open>Lemmas on the sign-in page\<close>

definition is_call :: "login_effect \<Rightarrow> bool" where
  "is_call e = (case e of SignIn a b \<Rightarrow> True | VerifyTotp c \<Rightarrow> True | _ \<Rightarrow> False)"

text \<open>\<open>login_run s ps tr en\<close>: after the messages \<open>tr\<close> the page is in state \<open>s\<close>, the calls \<open>ps\<close> wait for a
  reply, and \<open>en\<close> tells whether the page has entered the console.\<close>

inductive login_run :: "login_page \<Rightarrow> login_effect list \<Rightarrow> dash_login_msg list \<Rightarrow> bool \<Rightarrow> bool" where
  start: "login_run login_page0 [] [] False"
| user: "login_run s ps tr en \<Longrightarrow> m \<in> set_node (dash_login_view s) \<Longrightarrow> dash_login_update m s = (t, es) \<Longrightarrow>
    login_run t (ps @ filter is_call es) (tr @ [m]) (en \<or> Enter ''/'' \<in> set es)"
| signed: "login_run s ps tr en \<Longrightarrow> SignIn e p \<in> set ps \<Longrightarrow> dash_login_update (LgSigned r) s = (t, es) \<Longrightarrow>
    login_run t (remove1 (SignIn e p) ps) (tr @ [LgSigned r]) (en \<or> Enter ''/'' \<in> set es)"
| verified: "login_run s ps tr en \<Longrightarrow> VerifyTotp c \<in> set ps \<Longrightarrow> dash_login_update (LgVerified v) s = (t, es) \<Longrightarrow>
    login_run t (remove1 (VerifyTotp c) ps) (tr @ [LgVerified v]) (en \<or> Enter ''/'' \<in> set es)"

lemma set_node_brand_panel [simp]: "set_node (brand_panel :: 'm node) = {}"
  by (auto simp: brand_panel_def)

lemma set_node_submit_button [simp]: "set_node (submit_button b l :: 'm node) = {}" "set_node (login_error s :: 'm node) = {}"
  by (auto simp: submit_button_def login_error_def)

lemma set_node_login_view:
  "set_node (dash_login_view s) =
     (if lg_two s then {LgBack} \<union> range LgCode \<union> (if lg_busy s then {} else {LgVerify})
      else {LgShow} \<union> range LgEmail \<union> range LgPassword \<union> (if lg_busy s then {} else {LgSubmit}))"
  by (auto simp: dash_login_view_def code_form_def password_login_def)

definition login_inv :: "login_page \<Rightarrow> login_effect list \<Rightarrow> dash_login_msg list \<Rightarrow> bool \<Rightarrow> bool" where
  "login_inv s ps tr en \<longleftrightarrow>
     length ps \<le> 1 \<and> (ps \<noteq> [] \<longrightarrow> lg_busy s) \<and>
     (lg_two s \<or> (\<exists>c. VerifyTotp c \<in> set ps) \<longrightarrow> LgSigned (TfData True) \<in> set tr) \<and>
     (en \<longrightarrow> LgSigned (TfData False) \<in> set tr \<or> LgSigned (TfData True) \<in> set tr \<and> LgVerified (TfData ()) \<in> set tr)"

lemma only_call: "length ps \<le> 1 \<Longrightarrow> x \<in> set ps \<Longrightarrow> ps = [x]"
  by (cases ps) auto

lemma login_inv_user:
  assumes "login_inv s ps tr en" and "m \<in> set_node (dash_login_view s)" and "dash_login_update m s = (t, es)"
  shows "login_inv t (ps @ filter is_call es) (tr @ [m]) (en \<or> Enter ''/'' \<in> set es)"
  using assms by (auto simp: login_inv_def set_node_login_view login_submit_def login_verify_def is_call_def split: if_splits)

lemma login_inv_reply:
  assumes "login_inv s [x] tr en" and "x = SignIn e p \<and> m = LgSigned r \<or> x = VerifyTotp c \<and> m = LgVerified v"
    and "dash_login_update m s = (t, es)"
  shows "login_inv t [] (tr @ [m]) (en \<or> Enter ''/'' \<in> set es)"
  using assms by (auto simp: login_inv_def login_signed_def login_verified_def split: tf_reply.splits if_splits)

lemma login_keeps: "login_run s ps tr en \<Longrightarrow> login_inv s ps tr en"
proof (induction rule: login_run.induct)
  case start
  show ?case by (simp add: login_inv_def login_page0_def)
next
  case (user s ps tr en m t es)
  from login_inv_user [OF user.IH user.hyps(2,3)] show ?case .
next
  case (signed s ps tr en e p r t es)
  then have "ps = [SignIn e p]" by (intro only_call) (simp_all add: login_inv_def)
  with signed login_inv_reply [of s "SignIn e p" tr en] show ?case by simp
next
  case (verified s ps tr en c v t es)
  then have "ps = [VerifyTotp c]" by (intro only_call) (simp_all add: login_inv_def)
  with verified login_inv_reply [of s "VerifyTotp c" tr en] show ?case by simp
qed

subsection \<open>Lemmas on navigation\<close>

definition nav_items :: "dash_nav_item list" where
  "nav_items = concat (map snd SIDEBAR_NAV)"

lemma nav_simps [simp]: "nv_href (nav h t i) = h" "nv_title (nav h t i) = t" "nv_icon (nav h t i) = i"
  by (simp_all add: nav_def)

lemma nav_items_eq: "nav_items = PALETTE_NAV"
  by (simp add: nav_items_def SIDEBAR_NAV_def PALETTE_NAV_def)

lemma starts_with_both: "starts_with p a \<Longrightarrow> starts_with p b \<Longrightarrow> starts_with a b \<or> starts_with b a"
  by (induction p a arbitrary: b rule: starts_with.induct) (case_tac b; auto)+

lemma nav_hrefs: "map nv_href PALETTE_NAV = [''/'', ''/endpoints'', ''/events'', ''/internet'', ''/detections'', ''/cases'', ''/dlp'',
    ''/responses'', ''/rules'', ''/settings'']"
  by (simp add: PALETTE_NAV_def)

lemma nav_distinct: "distinct (map nv_href PALETTE_NAV)"
  unfolding nav_hrefs by simp

lemma nav_in_routes: "nv_href ` set PALETTE_NAV = fst ` set ROUTES"
  unfolding set_map [symmetric] nav_hrefs by (intro equalityI) (simp_all add: ROUTES_def)

lemma routes_apart: "\<forall>a\<in>fst ` set ROUTES. \<forall>b\<in>fst ` set ROUTES. starts_with a b \<longrightarrow> b = ''/'' \<or> a = b"
  by (simp add: ROUTES_def)

lemma one_route: "a \<in> fst ` set ROUTES \<Longrightarrow> b \<in> fst ` set ROUTES \<Longrightarrow> a \<noteq> ''/'' \<Longrightarrow> b \<noteq> ''/'' \<Longrightarrow>
    starts_with p a \<Longrightarrow> starts_with p b \<Longrightarrow> a = b"
proof -
  assume r: "a \<in> fst ` set ROUTES" "b \<in> fst ` set ROUTES" "a \<noteq> ''/''" "b \<noteq> ''/''" and p: "starts_with p a" "starts_with p b"
  from starts_with_both [OF p] show "a = b"
    using routes_apart [rule_format, OF r(1,2)] routes_apart [rule_format, OF r(2,1)] r(3,4) by metis
qed

lemma one_active:
  assumes "i \<in> set PALETTE_NAV" and "j \<in> set PALETTE_NAV" and "dash_nav_active p i" and "dash_nav_active p j"
  shows "i = j"
proof -
  have r: "nv_href i \<in> fst ` set ROUTES" "nv_href j \<in> fst ` set ROUTES" using assms(1,2) nav_in_routes by blast+
  have root: "''/'' \<in> fst ` set ROUTES" by (simp add: ROUTES_def)
  have slash: "h = ''/''" if "starts_with ''/'' h" "h \<in> fst ` set ROUTES" for h
    using routes_apart [rule_format, OF root that(2,1)] by metis
  have "nv_href i = nv_href j"
  proof (cases "nv_href i = ''/'' \<or> nv_href j = ''/''")
    case True
    then have "p = ''/''" using assms(3,4) by (auto simp: dash_nav_active_def)
    then show ?thesis using assms(3,4) slash r by (metis dash_nav_active_def)
  next
    case False
    then show ?thesis using assms(3,4) one_route [OF r] by (simp add: dash_nav_active_def)
  qed
  moreover have "inj_on nv_href (set PALETTE_NAV)"
    using nav_distinct by (simp add: distinct_map)
  ultimately show ?thesis using assms(1,2) by (metis inj_onD)
qed

lemma at_most_one: "distinct xs \<Longrightarrow> (\<And>x y. x \<in> set xs \<Longrightarrow> y \<in> set xs \<Longrightarrow> x = y) \<Longrightarrow> length xs \<le> 1"
  using card_le_Suc0_iff_eq [of "set xs"] distinct_card [of xs] by simp

lemma route_of_active:
  assumes "i \<in> set PALETTE_NAV" and "dash_nav_active p i"
  shows "route_match p = map_of ROUTES (nv_href i)"
proof (cases "nv_href i = ''/''")
  case True
  then have "p = ''/''" using assms(2) by (simp add: dash_nav_active_def)
  with True show ?thesis by (simp add: route_match_def ROUTES_def)
next
  case False
  then have sw: "starts_with p (nv_href i)" using assms(2) by (simp add: dash_nav_active_def)
  have r: "nv_href i \<in> fst ` set ROUTES" using assms(1) nav_in_routes by blast
  show ?thesis
  proof (cases "map_of ROUTES p")
    case None
    obtain h where h: "find (\<lambda>r. r \<noteq> ''/'' \<and> starts_with p r) (map fst ROUTES) = Some h"
      using r sw False by (cases "find (\<lambda>r. r \<noteq> ''/'' \<and> starts_with p r) (map fst ROUTES)") (auto simp: find_None_iff)
    then have "h \<noteq> ''/''" "starts_with p h" "h \<in> fst ` set ROUTES"
      by (auto simp: find_Some_iff simp del: map_eq_conv)
    then have "h = nv_href i" using one_route r sw False by blast
    with None h show ?thesis by (simp add: route_match_def)
  next
    case (Some x)
    then have "p \<in> fst ` set ROUTES" by (metis weak_map_of_SomeI map_of_SomeD image_eqI fst_conv)
    then have "p = nv_href i" using routes_apart r sw False by blast
    with Some show ?thesis by (simp add: route_match_def)
  qed
qed

subsection \<open>Properties\<close>

text \<open>C10: the page enters the console only after an accepted sign-in: without a second factor, or with one
  and an accepted code; in no history does the password alone suffice once the server asked for a code,
  and at any time at most one call waits for its reply.\<close>

theorem second_factor_required:
  assumes "login_run s ps tr en"
  shows "length ps \<le> 1 \<and>
    (en \<longrightarrow> LgSigned (TfData False) \<in> set tr \<or> LgSigned (TfData True) \<in> set tr \<and> LgVerified (TfData ()) \<in> set tr) \<and>
    (\<forall>c. VerifyTotp c \<in> set ps \<longrightarrow> LgSigned (TfData True) \<in> set tr)"
  using login_keeps [OF assms] by (auto simp: login_inv_def)

text \<open>Sidebar, palette and header agree: the palette lists the sidebar's items in order with the same
  titles and icons; for every address at most one item is highlighted, and the header shows the title
  of that item's route.\<close>

theorem title_follows_nav:
  "PALETTE_NAV = concat (map snd SIDEBAR_NAV) \<and>
   length (filter (dash_nav_active p) PALETTE_NAV) \<le> 1 \<and>
   (\<forall>i\<in>set PALETTE_NAV. dash_nav_active p i \<longrightarrow> route_match p = map_of ROUTES (nv_href i) \<and> route_match p \<noteq> None)"
proof (intro conjI ballI impI)
  show "PALETTE_NAV = concat (map snd SIDEBAR_NAV)" using nav_items_eq by (simp add: nav_items_def)
  have "distinct PALETTE_NAV" using nav_distinct by (rule distinct_map [THEN iffD1, THEN conjunct1])
  then have "distinct (filter (dash_nav_active p) PALETTE_NAV)" by (rule distinct_filter)
  then show "length (filter (dash_nav_active p) PALETTE_NAV) \<le> 1"
    by (rule at_most_one) (auto intro: one_active)
  fix i
  assume i: "i \<in> set PALETTE_NAV" "dash_nav_active p i"
  show "route_match p = map_of ROUTES (nv_href i)" by (rule route_of_active [OF i])
  moreover have "nv_href i \<in> fst ` set ROUTES" using i(1) nav_in_routes by blast
  ultimately show "route_match p \<noteq> None" by (auto simp: map_of_eq_None_iff)
qed

subsection \<open>Witnesses\<close>

lemma second_factor_required_witness:
  "\<exists>s tr. login_run s [] tr True \<and> LgVerified (TfData ()) \<in> set tr \<and> LgSigned (TfData True) \<in> set tr"
proof -
  have a: "login_run (login_page0\<lparr>lg_busy := True\<rparr>) [SignIn [] []] [LgSubmit] False"
    using login_run.user [OF login_run.start, of LgSubmit, OF _ surjective_pairing]
    by (simp add: set_node_login_view login_page0_def login_submit_def is_call_def)
  have b: "login_run (login_page0\<lparr>lg_two := True\<rparr>) [] [LgSubmit, LgSigned (TfData True)] False"
    using login_run.signed [OF a, of "[]" "[]" "TfData True", OF _ surjective_pairing]
    by (simp add: login_page0_def login_signed_def)
  have c: "login_run (login_page0\<lparr>lg_two := True, lg_busy := True\<rparr>) [VerifyTotp []]
      [LgSubmit, LgSigned (TfData True), LgVerify] False"
    using login_run.user [OF b, of LgVerify, OF _ surjective_pairing]
    by (simp add: set_node_login_view login_page0_def login_verify_def is_call_def)
  have d: "login_run (login_page0\<lparr>lg_two := True\<rparr>) []
      [LgSubmit, LgSigned (TfData True), LgVerify, LgVerified (TfData ())] True"
    using login_run.verified [OF c, of "[]" "TfData ()", OF _ surjective_pairing]
    by (simp add: login_page0_def login_verified_def)
  show ?thesis using second_factor_required [OF d]
    by (intro exI [of _ "login_page0\<lparr>lg_two := True\<rparr>"] exI [of _ "[LgSubmit, LgSigned (TfData True), LgVerify, LgVerified (TfData ())]"])
      (simp add: d)
qed

lemma title_follows_nav_witness:
  "route_match ''/cases/42'' = map_of ROUTES ''/cases''"
proof -
  have "nav ''/cases'' ''Cases'' ''FolderKanban'' \<in> set PALETTE_NAV" by (simp add: PALETTE_NAV_def)
  moreover have "dash_nav_active ''/cases/42'' (nav ''/cases'' ''Cases'' ''FolderKanban'')" by (simp add: dash_nav_active_def)
  ultimately have "route_match ''/cases/42'' = map_of ROUTES (nv_href (nav ''/cases'' ''Cases'' ''FolderKanban''))"
    using title_follows_nav [of "''/cases/42''"] by blast
  then show ?thesis by simp
qed

end
