(* ===== verification/DashSettings.thy ===== *)
theory DashSettings
  imports DashAccess
begin

section \<open>Settings page of the Next.js console\<close>

text \<open>
  Models \<open>dashboard/app/(app)/settings/page.tsx\<close>: the five tabs, the export of telemetry, the commands
  that enrol an endpoint, the change of password and the choice of a theme; the two-factor card is that of
  \<open>TwoFactor\<close>. Calls of the browser and of the authentication client are effects, their results messages.

  The length of a password is the code's, in UTF-16 units: of the bytes of its UTF-8 form each but the
  continuation bytes counts once, the first one of a four-byte sequence twice.
\<close>

subsection \<open>Enrolment commands\<close>

definition cont_nl :: string where
  \<comment> \<open>a backslash at the end of a line\<close>
  "cont_nl = [CHR 0x5C, CHR 0x0A]"

definition quick_install :: "string \<Rightarrow> string" where
  "quick_install server =
     ''curl -fsSL '' @ server @ ''/install-agent.sh | sudo '' @ cont_nl @
     ''  SENTINEL_SERVER='' @ server @ '' '' @ cont_nl @
     ''  SENTINEL_ENROLL_TOKEN=<ENROLL_TOKEN> '' @ cont_nl @
     ''  SENTINEL_REQUIRE_CHECKSUM=1 SENTINEL_REQUIRE_SIGNATURE=1 bash''"

definition docker_run :: "string \<Rightarrow> string" where
  "docker_run server =
     ''docker run -d --name sentinel-agent --restart unless-stopped '' @ cont_nl @
     ''  --pid host --cap-add NET_ADMIN '' @ cont_nl @
     ''  -e SENTINEL_SERVER='' @ server @ '' '' @ cont_nl @
     ''  -e SENTINEL_ENROLL_TOKEN=<ENROLL_TOKEN> '' @ cont_nl @
     ''  sentinel/agent:latest''"

definition server_text :: "string \<Rightarrow> string" where
  \<comment> \<open>\<open>origin\<close> is empty before the page is mounted\<close>
  "server_text origin = (if origin \<noteq> [] then origin else ''https://<your-console>'')"

function one_line :: "string \<Rightarrow> string" where
  \<comment> \<open>\<open>cmd.replace(regex, " ")\<close>: each backslash, newline and white space after it becomes one blank\<close>
  "one_line (c # d # s) =
     (if c = CHR 0x5C \<and> d = CHR 0x0A then CHR '' '' # one_line (dropWhile is_space s) else c # one_line (d # s))"
| "one_line [c] = [c]"
| "one_line [] = []"
  by pat_completeness auto
termination
proof (relation "measure length")
  show "(dropWhile is_space s, c # d # s) \<in> measure length" for c d s
    using length_dropWhile_le [of is_space s] by simp
qed simp_all

subsection \<open>State\<close>

record password_change =
  pc_cur :: string
  pc_next :: string
  pc_busy :: bool

record settings_page =
  sg_tab :: string
  sg_password :: password_change
  sg_two :: two_factor

definition settings_page0 :: settings_page where
  "settings_page0 = \<lparr>sg_tab = ''system'', sg_password = \<lparr>pc_cur = [], pc_next = [], pc_busy = False\<rparr>, sg_two = two_factor0\<rparr>"

datatype download_reply = DownloadThrows string | DownloadStatus nat

datatype dash_settings_msg =
    SgTab string
  | SgSignOut
  | SgSignedOut bool
  | SgDownload string string string
  | SgDownloaded string download_reply
  | SgCopy string string
  | SgCopied string bool
  | SgCur string
  | SgNext string
  | SgChange
  | SgChanged "unit tf_reply"
  | SgTheme string string
  | SgTwo tf_msg

datatype settings_effect =
    SgSend request
  | SgSave string
  | SgToast bool string
  | SgClipboard string
  | SgAuthSignOut
  | SgAssign string
  | SgSetTheme string
  | SgAuthChange string string
  | SgTf tf_effect

definition utf16_length :: "string \<Rightarrow> nat" where
  "utf16_length s =
     length (filter (\<lambda>c. of_char c < (128 :: nat) \<or> 192 \<le> (of_char c :: nat)) s) + length (filter (\<lambda>c. 240 \<le> (of_char c :: nat)) s)"

definition download_request :: "string \<Rightarrow> string \<Rightarrow> request" where
  "download_request kind format =
     \<lparr>rq_method = ''GET'', rq_url = ''/api/proxy/siem/export?kind='' @ kind @ ''&format='' @ format, rq_headers = [],
      rq_body = None, rq_cache = Some ''no-store''\<rparr>"

definition downloaded :: "string \<Rightarrow> download_reply \<Rightarrow> settings_effect list" where
  \<comment> \<open>the error a failed status raises is caught by the same handler\<close>
  "downloaded filename r =
     (case r of
        DownloadThrows e \<Rightarrow> [SgToast False (''Export failed: '' @ e)]
      | DownloadStatus st \<Rightarrow>
          if status_ok st then [SgSave filename, SgToast True (''Exported '' @ filename)]
          else [SgToast False (''Export failed: HTTP '' @ show_nat st)])"

definition change_submit :: "password_change \<Rightarrow> password_change \<times> settings_effect list" where
  "change_submit p =
     (if utf16_length (pc_next p) < 8 then (p, [SgToast False (''New password must be '' @ [CHR 0xE2, CHR 0x89, CHR 0xA5] @ '' 8 characters'')])
      else (p\<lparr>pc_busy := True\<rparr>, [SgAuthChange (pc_cur p) (pc_next p)]))"

definition change_done :: "unit tf_reply \<Rightarrow> password_change \<Rightarrow> password_change \<times> settings_effect list" where
  "change_done r p =
     (case r of
        TfThrows \<Rightarrow> (p, [])
      | TfError e \<Rightarrow> (p\<lparr>pc_busy := False\<rparr>, [SgToast False (str_or e ''Could not change password'')])
      | TfData u \<Rightarrow> (p\<lparr>pc_cur := [], pc_next := [], pc_busy := False\<rparr>,
          [SgToast True (''Password updated '' @ u_middot @ '' other sessions revoked'')]))"

fun dash_settings_update :: "dash_settings_msg \<Rightarrow> settings_page \<Rightarrow> settings_page \<times> settings_effect list" where
  "dash_settings_update (SgTab t) s = (s\<lparr>sg_tab := t\<rparr>, [])"
| "dash_settings_update SgSignOut s = (s, [SgAuthSignOut])"
| "dash_settings_update (SgSignedOut ok) s = (s, if ok then [SgAssign ''/login''] else [])"
| "dash_settings_update (SgDownload kind format filename) s = (s, [SgSend (download_request kind format)])"
| "dash_settings_update (SgDownloaded filename r) s = (s, downloaded filename r)"
| "dash_settings_update (SgCopy text label) s = (s, [SgClipboard text])"
| "dash_settings_update (SgCopied label ok) s = (s, [if ok then SgToast True (label @ '' copied'') else SgToast False ''Copy failed''])"
| "dash_settings_update (SgCur t) s = (s\<lparr>sg_password := (sg_password s)\<lparr>pc_cur := t\<rparr>\<rparr>, [])"
| "dash_settings_update (SgNext t) s = (s\<lparr>sg_password := (sg_password s)\<lparr>pc_next := t\<rparr>\<rparr>, [])"
| "dash_settings_update SgChange s = (case change_submit (sg_password s) of (p, es) \<Rightarrow> (s\<lparr>sg_password := p\<rparr>, es))"
| "dash_settings_update (SgChanged r) s = (case change_done r (sg_password s) of (p, es) \<Rightarrow> (s\<lparr>sg_password := p\<rparr>, es))"
| "dash_settings_update (SgTheme i label) s = (s, [SgSetTheme i, SgToast True (''Theme: '' @ label)])"
| "dash_settings_update (SgTwo m) s = (case tf_update m (sg_two s) of (t, es) \<Rightarrow> (s\<lparr>sg_two := t\<rparr>, map SgTf es))"

subsection \<open>View\<close>

record account = operator +
  op_role :: "string option"

definition shown_role :: "account option \<Rightarrow> string" where
  "shown_role u = str_or (Option.bind u op_role) ''analyst''"

definition health_badge :: "bool \<Rightarrow> 'm node" where
  "health_badge ok =
     el ''Badge'' [] (if ok then [el ''CheckCircle2'' [] [], Txt '' Operational''] else [el ''AlertTriangle'' [] [], Txt '' Unreachable''])"

definition activity_badge :: "bool \<Rightarrow> 'm node" where
  "activity_badge active =
     (if active then el ''Badge'' [] [el ''Activity'' [] [], Txt '' Active'']
      else el ''Badge'' [(''variant'', ''secondary'')] [el ''Radio'' [] [], Txt '' Idle''])"

definition tier :: "string \<Rightarrow> string \<Rightarrow> 'm node \<Rightarrow> 'm node" where
  "tier icon label badge' = el ''div'' [] [el icon [] [], el ''span'' [] [Txt label], el ''span'' [cls ''ml-auto''] [badge']]"

definition small_card :: "string \<Rightarrow> 'm node \<Rightarrow> string \<Rightarrow> string \<Rightarrow> 'm node" where
  "small_card label value note icon =
     el ''Card'' [(''key'', label)] [el ''CardContent'' []
       [el ''div'' [] [el ''span'' [] [Txt label], el icon [] []], el ''div'' [] [value], el ''div'' [] [Txt note]]]"

definition setting_row :: "string \<Rightarrow> 'm node \<Rightarrow> 'm node" where
  "setting_row k v = el ''div'' [] [el ''dt'' [] [Txt k], el ''dd'' [cls ''text-right''] [v]]"

definition DEPLOYMENT :: "(string \<times> string) list" where
  "DEPLOYMENT =
     [(''Console'', ''Sentinel v1.0 '' @ u_middot @ '' Next.js 16''),
      (''Auth'', ''Better Auth '' @ u_middot @ '' session cookie''),
      (''Event store'', ''TimescaleDB hypertables '' @ u_middot @ '' 90-day retention''),
      (''Event bus'', ''NATS JetStream (durable)''),
      (''Detection'', ''Sigma rules + behavioral correlator''),
      (''Transport'', ''HTTPS + mTLS-ready '' @ u_middot @ '' WebSocket control mesh'')]"

definition card_title :: "string \<Rightarrow> string option \<Rightarrow> 'm node" where
  "card_title t d = el ''CardHeader'' [] [el ''CardTitle'' [] [Txt t], (case d of None \<Rightarrow> Null | Some x \<Rightarrow> el ''CardDescription'' [] [Txt x])]"

definition system_tab :: "overview option \<Rightarrow> bool \<Rightarrow> 'm node" where
  "system_tab ov live =
     (let c = ov_count ov in Frag
       [el ''Card'' [] [card_title ''Service health'' (Some ''Live status of platform tiers''),
          el ''CardContent'' []
            (if ov = None then replicate 2 (divc ''shimmer h-[58px] rounded-lg bg-muted'' [])
             else [tier ''Server'' ''Control plane'' (health_badge live),
                   tier ''Radio'' ''Recent telemetry (24h)'' (activity_badge (c ''events_24h'' > 0))])],
        divc ''grid gap-4 sm:grid-cols-2 lg:grid-cols-4''
          (if ov = None then replicate 4 (divc ''shimmer h-[104px] rounded-xl bg-muted'' [])
           else [small_card ''Endpoints'' (num_txt (c ''agents_total'')) (show_int (c ''agents_online'') @ '' online'') ''ShieldCheck'',
                 small_card (''Events '' @ u_middot @ '' 24h'') (Txt (compact (nat (c ''events_24h'')))) ''ingested'' ''Activity'',
                 small_card ''Open detections'' (num_txt (c ''detections_open'')) (show_int (c ''detections_critical'') @ '' critical'') ''AlertTriangle'',
                 small_card ''Responses'' (num_txt (c ''responses_total'')) ''issued'' ''Cpu'']),
        el ''Card'' [] [card_title ''Deployment'' None,
          el ''CardContent'' [] [el ''dl'' [] (map (\<lambda>(k, v). setting_row k (Txt v)) DEPLOYMENT)]]])"

definition password_card :: "password_change \<Rightarrow> dash_settings_msg node" where
  "password_card p =
     el ''Card'' [] [card_title ''Change password'' None,
       el ''CardContent'' []
         [Elem ''form'' [] (unless_disabled (pc_busy p) [On ''submit'' SgChange])
            [el ''Label'' [] [Txt ''Current''],
             Elem ''Input'' [(''id'', ''cur''), (''type'', ''password''), (''value'', pc_cur p), (''required'', [])] [OnValue ''change'' SgCur] [],
             el ''Label'' [] [Txt ''New (min 8)''],
             Elem ''Input'' [(''id'', ''np''), (''type'', ''password''), (''value'', pc_next p), (''required'', [])] [OnValue ''change'' SgNext] [],
             el ''Button'' ((''type'', ''submit'') # disabled_attr (pc_busy p))
               [if pc_busy p then el ''Loader2'' [] [] else el ''KeyRound'' [] [], Txt '' Update password'']]]]"

definition account_tab :: "account option \<Rightarrow> bool \<Rightarrow> settings_page \<Rightarrow> dash_settings_msg node" where
  "account_tab u two_enabled s = Frag
     [el ''Card'' [] [card_title ''Operator'' None,
        el ''CardContent'' []
          [el ''dl'' []
             [setting_row ''Name'' (Txt (or_dash (Option.bind u op_name))),
              setting_row ''Email'' (mono (or_dash (Option.bind u op_email))),
              setting_row ''Role'' (el ''Badge'' [] [Txt (shown_role u)]),
              setting_row ''Console'' (Txt ''Sentinel v1.0'')],
           el ''Separator'' [] [],
           Elem ''Button'' [(''variant'', ''outline'')] [On ''click'' SgSignOut] [el ''LogOut'' [] [], Txt '' Sign out'']]],
      password_card (sg_password s),
      map_node SgTwo (tf_view two_enabled (sg_two s))]"

definition command_block :: "string \<Rightarrow> string \<Rightarrow> dash_settings_msg node" where
  "command_block title cmd =
     el ''div'' []
       [el ''span'' [] [Txt title],
        Elem ''Button'' [(''size'', ''sm''), (''variant'', ''ghost'')] [On ''click'' (SgCopy (one_line cmd) (title @ '' command''))]
          [el ''Copy'' [] [], Txt '' Copy''],
        el ''pre'' [] [Txt cmd]]"

definition code_text :: "string \<Rightarrow> 'm node" where
  "code_text t = el ''code'' [] [Txt t]"

definition enroll_panel :: "string \<Rightarrow> dash_settings_msg node" where
  "enroll_panel origin =
     (let server = server_text origin
      in el ''Card'' [] [card_title ''Enroll an endpoint'' (Some ''Run on a Linux host to install the agent and enroll it into the fleet.''),
        el ''CardContent'' []
          [command_block ''Quick install (Linux)'' (quick_install server),
           command_block ''Docker'' (docker_run server),
           el ''p'' [] [Txt ''Replace '', code_text ''<ENROLL_TOKEN>'', Txt '' with the value of '', code_text ''SENTINEL_ENROLL_TOKEN'',
             Txt '' configured on the server. The same token enrolls any number of hosts; each agent is then issued its own per-host key.''],
           el ''p'' [] [Txt ''The installer is HTTPS-pinned and verifies the agent against a published SHA-256 and an Ed25519 signature before installing. '',
             code_text ''SENTINEL_REQUIRE_CHECKSUM=1'', Txt '' and '', code_text ''SENTINEL_REQUIRE_SIGNATURE=1'',
             Txt '' fail closed if either is missing. It then installs and enables a hardened '', code_text ''systemd'',
             Txt '' service that restarts on crash and reboot.''],
           el ''p'' [] [Txt ''Manage with '', code_text ''systemctl status sentinel-agent'', Txt '', follow logs with '',
             code_text ''journalctl -u sentinel-agent -f'', Txt '', and enable mutual TLS via '', code_text ''SENTINEL_AGENT_TLS_CA'', Txt '' / '',
             code_text ''_CERT'', Txt '' / '', code_text ''_KEY'', Txt ''.'']]])"

definition EXPORTS :: "(string \<times> string \<times> string \<times> string) list" where
  \<comment> \<open>kind, format, file name and label\<close>
  "EXPORTS =
     [(''events'', ''cef'', ''sentinel-events.cef'', ''Events '' @ u_middot @ '' CEF''),
      (''events'', ''ecs'', ''sentinel-events-ecs.ndjson'', ''Events '' @ u_middot @ '' ECS''),
      (''detections'', ''cef'', ''sentinel-detections.cef'', ''Detections '' @ u_middot @ '' CEF'')]"

definition siem_tab :: "dash_settings_msg node" where
  "siem_tab =
     el ''Card'' [] [card_title ''SIEM integration'' (Some ''Export normalized telemetry for Splunk / Elastic / QRadar.''),
       el ''CardContent'' [] (map (\<lambda>(k, f, n, l). Elem ''Button'' [(''variant'', ''outline'')] [On ''click'' (SgDownload k f n)]
         [el ''Download'' [] [], Txt ('' '' @ l)]) EXPORTS)]"

definition THEMES :: "(string \<times> string \<times> string \<times> string) list" where
  \<comment> \<open>id, label, icon and description\<close>
  "THEMES =
     [(''dark'', ''Dark'', ''Moon'', ''Low-light SOC default''),
      (''light'', ''Light'', ''Sun'', ''Bright surfaces '' @ u_middot @ '' high ambient light''),
      (''system'', ''System'', ''Activity'', ''Match OS preference'')]"

definition theme_picker :: "string option \<Rightarrow> dash_settings_msg node" where
  "theme_picker theme =
     el ''Card'' [] [card_title ''Theme'' (Some ''Centralized color tokens; switches instantly.''),
       el ''CardContent'' [] (map (\<lambda>(i, l, ic, d). Elem ''button''
           [cls (''rounded-xl border p-4 text-left transition '' @ (if theme = Some i then ''border-primary bg-primary/5'' else ''hover:bg-secondary/40''))]
           [On ''click'' (SgTheme i l)] [el ic [] [], el ''div'' [] [Txt l], el ''div'' [] [Txt d]]) THEMES)]"

definition SETTING_TABS :: "(string \<times> string) list" where
  "SETTING_TABS = [(''system'', ''System''), (''account'', ''Account''), (''agents'', ''Agents''), (''siem'', ''SIEM''), (''appearance'', ''Appearance'')]"

record settings_data =
  sd_user :: "account option"
  sd_overview :: "overview option"
  sd_live :: bool
  sd_origin :: string
  sd_theme :: "string option"
  sd_two_enabled :: bool

definition dash_settings_view :: "settings_data \<Rightarrow> settings_page \<Rightarrow> dash_settings_msg node" where
  \<comment> \<open>the tabs of the interface kit show the content of the selected one\<close>
  "dash_settings_view d s =
     divc ''mx-auto max-w-5xl space-y-6''
       [el ''TabsList'' [] (map (\<lambda>(i, l). Elem ''TabsTrigger'' [(''value'', i)] [On ''select'' (SgTab i)] [Txt l]) SETTING_TABS),
        (if sg_tab s = ''system'' then system_tab (sd_overview d) (sd_live d)
         else if sg_tab s = ''account'' then account_tab (sd_user d) (sd_two_enabled d) s
         else if sg_tab s = ''agents'' then enroll_panel (sd_origin d)
         else if sg_tab s = ''siem'' then siem_tab
         else if sg_tab s = ''appearance'' then theme_picker (sd_theme d) else Null)]"

subsection \<open>Lemmas\<close>

fun shell_join :: "string \<Rightarrow> string" where
  \<comment> \<open>what a shell does first with a command of several lines: a backslash before a newline joins them\<close>
  "shell_join (c # d # s) = (if c = CHR 0x5C \<and> d = CHR 0x0A then shell_join s else c # shell_join (d # s))"
| "shell_join [c] = [c]"
| "shell_join [] = []"

definition shell_words :: "string \<Rightarrow> string list" where
  "shell_words s = filter (\<lambda>w. w \<noteq> []) (split_on (CHR '' '') s)"

definition plain_line :: "string \<Rightarrow> bool" where
  \<comment> \<open>a line that starts with a word and holds no backslash and no newline\<close>
  "plain_line w \<longleftrightarrow> CHR 0x5C \<notin> set w \<and> CHR 0x0A \<notin> set w \<and> w \<noteq> [] \<and> \<not> is_space (hd w)"

lemma one_line_plain: "CHR 0x5C \<notin> set w \<Longrightarrow> one_line (w @ s) = w @ one_line s"
proof (induction w)
  case (Cons c w)
  then show ?case by (cases "w @ s") auto
qed simp

lemma shell_join_plain: "CHR 0x5C \<notin> set w \<Longrightarrow> shell_join (w @ s) = w @ shell_join s"
proof (induction w)
  case (Cons c w)
  then show ?case by (cases "w @ s") auto
qed simp

lemma drop_blanks: "plain_line w \<Longrightarrow> dropWhile is_space (CHR '' '' # CHR '' '' # w @ s) = w @ s"
  by (cases w) (simp_all add: plain_line_def is_space_def)

lemma one_line_next:
  assumes "plain_line w"
  shows "one_line (cont_nl @ CHR '' '' # CHR '' '' # w @ s) = CHR '' '' # w @ one_line s"
  using assms by (simp add: cont_nl_def drop_blanks [OF assms] one_line_plain plain_line_def del: dropWhile.simps)

lemma shell_join_next:
  assumes "plain_line w"
  shows "shell_join (cont_nl @ CHR '' '' # CHR '' '' # w @ s) = CHR '' '' # CHR '' '' # w @ shell_join s"
  using assms shell_join_plain [of "CHR '' '' # CHR '' '' # w" s] by (simp add: cont_nl_def plain_line_def)

lemma split_on_append_word: "split_on c (a @ c # b) = split_on c a @ split_on c b"
proof (induction a)
  case (Cons x a)
  then show ?case by (cases "split_on c a") auto
qed simp

lemma shell_words_blank [simp]: "shell_words (a @ CHR '' '' # b) = shell_words a @ shell_words b"
  by (simp add: shell_words_def split_on_append_word)

lemma shell_words_lead [simp]: "shell_words (CHR '' '' # b) = shell_words b"
  by (simp add: shell_words_def)

definition folded :: "string list \<Rightarrow> string" where
  \<comment> \<open>lines joined by a blank, a backslash, a newline and an indentation of two blanks\<close>
  "folded ws = join (CHR '' '' # cont_nl @ [CHR '' '', CHR '' '']) ws"

lemma one_line_folded:
  assumes "\<forall>w\<in>set ws. plain_line w"
  shows "one_line (folded ws) = join [CHR '' '', CHR '' ''] ws"
  using assms
proof (induction ws)
  case (Cons w ws)
  show ?case
  proof (cases ws)
    case Nil
    then show ?thesis using Cons.prems one_line_plain [of w "[]"] by (simp add: folded_def plain_line_def)
  next
    case c: (Cons v vs)
    have "one_line (folded (w # ws)) = w @ one_line (CHR '' '' # cont_nl @ CHR '' '' # CHR '' '' # folded ws)"
      using Cons.prems one_line_plain [of w] by (simp add: folded_def c plain_line_def)
    also have "\<dots> = w @ CHR '' '' # one_line (cont_nl @ CHR '' '' # CHR '' '' # folded ws)"
      using one_line_plain [of "'' ''"] by simp
    also have "\<dots> = w @ CHR '' '' # CHR '' '' # one_line (folded ws)"
    proof -
      have p: "plain_line v" using Cons.prems by (simp add: c)
      obtain s where s: "folded ws = v @ s" by (cases vs) (auto simp: folded_def c)
      show ?thesis unfolding s one_line_next [OF p] using p by (simp add: one_line_plain plain_line_def)
    qed
    finally show ?thesis using Cons by (simp add: c)
  qed
qed (simp add: folded_def)

lemma shell_join_folded:
  assumes "\<forall>w\<in>set ws. plain_line w"
  shows "shell_join (folded ws) = join [CHR '' '', CHR '' '', CHR '' ''] ws"
  using assms
proof (induction ws)
  case (Cons w ws)
  show ?case
  proof (cases ws)
    case Nil
    then show ?thesis using Cons.prems shell_join_plain [of w "[]"] by (simp add: folded_def plain_line_def)
  next
    case c: (Cons v vs)
    have "shell_join (folded (w # ws)) = w @ shell_join (CHR '' '' # cont_nl @ CHR '' '' # CHR '' '' # folded ws)"
      using Cons.prems shell_join_plain [of w] by (simp add: folded_def c plain_line_def)
    also have "\<dots> = w @ CHR '' '' # CHR '' '' # CHR '' '' # shell_join (folded ws)"
      using shell_join_plain [of "'' ''"] shell_join_plain [of "''  ''" "folded ws"] by (simp add: cont_nl_def)
    finally show ?thesis using Cons by (simp add: c)
  qed
qed (simp add: folded_def)

lemma shell_words_join:
  assumes "sep \<noteq> []" and "set sep = {CHR '' ''}"
  shows "shell_words (join sep ws) = concat (map shell_words ws)"
proof -
  have lead: "shell_words (sep @ b) = shell_words b" if "set sep \<subseteq> {CHR '' ''}" for sep b
    using that by (induction sep) auto
  have mid: "shell_words (a @ sep @ b) = shell_words a @ shell_words b" for a b
  proof -
    obtain t where t: "sep = CHR '' '' # t" "set t \<subseteq> {CHR '' ''}" using assms by (cases sep) auto
    then show ?thesis by (simp add: lead)
  qed
  show ?thesis by (induction ws rule: induct_list012) (simp_all add: mid shell_words_def [of "[]"])
qed

lemma quick_install_folded:
  "quick_install server = folded
     [''curl -fsSL '' @ server @ ''/install-agent.sh | sudo'', ''SENTINEL_SERVER='' @ server,
      ''SENTINEL_ENROLL_TOKEN=<ENROLL_TOKEN>'', ''SENTINEL_REQUIRE_CHECKSUM=1 SENTINEL_REQUIRE_SIGNATURE=1 bash'']"
  by (simp add: quick_install_def folded_def)

lemma docker_run_folded:
  "docker_run server = folded
     [''docker run -d --name sentinel-agent --restart unless-stopped'', ''--pid host --cap-add NET_ADMIN'',
      ''-e SENTINEL_SERVER='' @ server, ''-e SENTINEL_ENROLL_TOKEN=<ENROLL_TOKEN>'', ''sentinel/agent:latest'']"
  by (simp add: docker_run_def folded_def)

lemma folded_runs_alike:
  assumes "\<forall>w\<in>set ws. plain_line w"
  shows "shell_words (one_line (folded ws)) = shell_words (shell_join (folded ws)) \<and> CHR 0x0A \<notin> set (one_line (folded ws))"
proof
  show "shell_words (one_line (folded ws)) = shell_words (shell_join (folded ws))"
    unfolding one_line_folded [OF assms] shell_join_folded [OF assms] by (simp add: shell_words_join)
  show "CHR 0x0A \<notin> set (one_line (folded ws))"
    unfolding one_line_folded [OF assms] using assms set_join [of "[CHR '' '', CHR '' '']" ws] by (auto simp: plain_line_def)
qed

lemma settings_tabs_silent [simp]:
  "set_node (system_tab ov live :: 'm node) = {}" "set_node (health_badge b :: 'm node) = {}"
  "set_node (activity_badge b :: 'm node) = {}" "set_node (card_title t d :: 'm node) = {}"
  "set_node (setting_row k v) = set_node v" "set_node (code_text t :: 'm node) = {}"
  by (auto simp: system_tab_def Let_def tier_def small_card_def health_badge_def activity_badge_def card_title_def setting_row_def
      code_text_def split: option.split)

definition settings_safe :: "settings_data \<Rightarrow> settings_page \<Rightarrow> dash_settings_msg \<Rightarrow> bool" where
  \<comment> \<open>copies are the two commands, downloads the three exports, a change is submitted only while none is pending\<close>
  "settings_safe d s m =
     (case m of
        SgCopy t l \<Rightarrow> t = one_line (quick_install (server_text (sd_origin d))) \<or> t = one_line (docker_run (server_text (sd_origin d)))
      | SgDownload k f n \<Rightarrow> \<exists>l. (k, f, n, l) \<in> set EXPORTS
      | SgChange \<Rightarrow> \<not> pc_busy (sg_password s)
      | _ \<Rightarrow> True)"

lemma enroll_panel_safe: "set_node (enroll_panel (sd_origin d)) \<subseteq> Collect (settings_safe d s)"
  by (simp add: enroll_panel_def Let_def command_block_def settings_safe_def)

lemma siem_tab_safe: "set_node siem_tab \<subseteq> Collect (settings_safe d s)"
  by (auto simp: siem_tab_def settings_safe_def)

lemma theme_picker_safe: "set_node (theme_picker t) \<subseteq> Collect (settings_safe d s)"
  by (auto simp: theme_picker_def settings_safe_def)

lemma account_tab_safe: "set_node (account_tab u e s) \<subseteq> Collect (settings_safe d s)"
proof -
  have "SgTwo ` X \<subseteq> Collect (settings_safe d s)" for X by (auto simp: settings_safe_def)
  then show ?thesis by (auto simp: account_tab_def password_card_def settings_safe_def node.set_map)
qed

lemma settings_page_safe: "m \<in> set_node (dash_settings_view d s) \<Longrightarrow> settings_safe d s m"
proof -
  have "set_node (dash_settings_view d s) \<subseteq> Collect (settings_safe d s)"
    using enroll_panel_safe siem_tab_safe theme_picker_safe account_tab_safe
    by (auto simp: dash_settings_view_def settings_safe_def split: if_splits)
  then show "m \<in> set_node (dash_settings_view d s) \<Longrightarrow> settings_safe d s m" by auto
qed

lemma utf16_length_ascii: "\<forall>c\<in>set s. of_char c < (128 :: nat) \<Longrightarrow> utf16_length s = length s"
proof -
  assume a: "\<forall>c\<in>set s. of_char c < (128 :: nat)"
  have "filter (\<lambda>c. of_char c < (128 :: nat) \<or> 192 \<le> (of_char c :: nat)) s = s" using a by (simp add: filter_id_conv)
  moreover have "filter (\<lambda>c. 240 \<le> (of_char c :: nat)) s = []" using a by (fastforce simp: filter_empty_conv)
  ultimately show ?thesis by (simp add: utf16_length_def)
qed

subsection \<open>Properties\<close>



subsection \<open>Witnesses\<close>

definition example_settings :: settings_data where
  "example_settings = \<lparr>sd_user = None, sd_overview = None, sd_live = True, sd_origin = ''https://edr.example'', sd_theme = None,
     sd_two_enabled = False\<rparr>"



end
