(* ===== verification/DashEvents.thy ===== *)
theory DashEvents
  imports DashPages
begin

section \<open>Page: events\<close>

text \<open>
  Models \<open>dashboard/app/(app)/events/page.tsx\<close>: filters taken from the address, the path of the live
  list they select, the table, the event drawer with its pivots and its response actions, and the
  confirmation. The live list itself is \<open>LiveData\<close>; what it returns is an argument of the view.
\<close>

definition EVENT_CATS :: "string list" where
  "EVENT_CATS = [''all'', ''process'', ''file'', ''network'', ''auth'', ''ssh'', ''usb'', ''package'', ''dlp'', ''system'']"

definition EVENT_SEVS :: "string list" where
  "EVENT_SEVS = [''all'', ''critical'', ''high'', ''medium'', ''low'', ''info'']"

record event_pending =
  pe_event :: event
  pe_type :: string
  pe_label :: string
  pe_target :: json
  pe_desc :: string

record events_page =
  vp_cat :: string
  vp_sev :: string
  vp_q :: string
  vp_agent :: string
  vp_user :: string
  vp_live :: bool
  vp_sel :: "event option"
  vp_pending :: "event_pending option"

definition events_page0 :: events_page where
  "events_page0 = \<lparr>vp_cat = ''all'', vp_sev = ''all'', vp_q = [], vp_agent = [], vp_user = [], vp_live = True,
     vp_sel = None, vp_pending = None\<rparr>"

datatype event_msg =
    VpHydrate string
  | VpQuery string
  | VpCat string
  | VpSev string
  | VpLive
  | VpSelect event
  | VpClose
  | VpPivotUser string
  | VpPivotSearch string
  | VpAsk event_pending
  | VpDismiss
  | VpConfirm
  | VpReply event_pending action_result
  | VpClearAgent
  | VpClearUser
  | VpLoadMore

subsection \<open>Filters\<close>

definition or_keep :: "string option \<Rightarrow> string \<Rightarrow> string" where
  \<comment> \<open>\<open>if (p.get(k)) set(p.get(k)!)\<close>\<close>
  "or_keep new old = (if truthy new then the new else old)"

definition hydrate :: "string \<Rightarrow> events_page \<Rightarrow> events_page" where
  "hydrate search s =
     s\<lparr>vp_cat := or_keep (search_get search ''category'') (vp_cat s),
       vp_sev := or_keep (search_get search ''severity'') (vp_sev s),
       vp_q := or_keep (search_get search ''q'') (vp_q s),
       vp_agent := or_keep (search_get search ''agent_id'') (vp_agent s),
       vp_user := or_keep (search_get search ''user'') (vp_user s)\<rparr>"

definition event_filters :: "string \<Rightarrow> events_page \<Rightarrow> (string \<times> string) list" where
  \<comment> \<open>\<open>dq\<close> is the debounced search text\<close>
  "event_filters dq s =
     (if vp_cat s \<noteq> ''all'' then [(''category'', vp_cat s)] else []) @
     (if vp_sev s \<noteq> ''all'' then [(''severity'', vp_sev s)] else []) @
     (if dq \<noteq> [] then [(''q'', dq)] else []) @
     (if vp_agent s \<noteq> [] then [(''agent_id'', vp_agent s)] else []) @
     (if vp_user s \<noteq> [] then [(''user'', vp_user s)] else [])"

definition event_base_path :: "string \<Rightarrow> events_page \<Rightarrow> string" where
  "event_base_path dq s =
     (let qs = search_params (event_filters dq s) in if qs \<noteq> [] then ''events?'' @ qs else ''events'')"

definition event_push_type :: "string \<Rightarrow> events_page \<Rightarrow> string option" where
  "event_push_type dq s = (if dq \<noteq> [] \<or> vp_agent s \<noteq> [] \<or> vp_user s \<noteq> [] then None else Some ''event'')"

definition event_push_filter :: "events_page \<Rightarrow> event \<Rightarrow> bool" where
  "event_push_filter s e =
     ((vp_cat s = ''all'' \<or> ev_category e = vp_cat s) \<and> (vp_sev s = ''all'' \<or> ev_severity e = vp_sev s))"

subsection \<open>Response actions\<close>

definition event_request :: "event_pending \<Rightarrow> request" where
  "event_request p = respond_request
     \<lparr>ra_type = pe_type p, ra_agent = ev_agent_id (pe_event p), ra_target = Some (pe_target p),
      ra_reason = Some (''manual '' @ pe_type p @ '' from event''), ra_detection = None\<rparr>"

definition event_act_done :: "event_pending \<Rightarrow> action_result \<Rightarrow> dash_effect list" where
  "event_act_done p r = [reply_toast (pe_label p @ '' dispatched to '' @ ev_hostname (pe_event p)) ''Action failed'' r]"

definition event_offers :: "event \<Rightarrow> event_pending list" where
  \<comment> \<open>what the buttons of the open event ask for, in order\<close>
  "event_offers e =
     (let pid = Option.bind (ev_process e) pr_pid; path = Option.bind (ev_file e) fi_path in
      (if truthy_num pid
       then [\<lparr>pe_event = e, pe_type = ''kill_process'', pe_label = ''Kill process'', pe_target = JObj [(''pid'', JNum (the pid))],
              pe_desc = ''Send SIGKILL to pid '' @ show_int (the pid) @ '' ('' @ tpl (pr_name (the (ev_process e))) @ '') on '' @ ev_hostname e @ ''.''\<rparr>,
             \<lparr>pe_event = e, pe_type = ''kill_tree'', pe_label = ''Kill process tree'', pe_target = JObj [(''pid'', JNum (the pid))],
              pe_desc = ''Kill pid '' @ show_int (the pid) @ '' and all descendants (cgroup-aware) on '' @ ev_hostname e @ ''.''\<rparr>]
       else []) @
      (if truthy path
       then [\<lparr>pe_event = e, pe_type = ''quarantine_file'', pe_label = ''Quarantine file'',
              pe_target = JObj ((''path'', JStr (the path)) # field ''hash'' (map_option JStr (fi_hash (the (ev_file e))))),
              pe_desc = ''Move '' @ the path @ '' to quarantine (chmod 000, checksummed) on '' @ ev_hostname e @ ''.''\<rparr>]
       else []) @
      (if truthy (ev_user e) \<and> ev_user e \<noteq> Some ''root''
       then [\<lparr>pe_event = e, pe_type = ''disable_account'', pe_label = ''Disable account'', pe_target = JObj [(''user'', JStr (the (ev_user e)))],
              pe_desc = ''Disable login for '' @ the (ev_user e) @ '' on '' @ ev_hostname e @ ''.''\<rparr>]
       else []))"

definition event_offer_button :: "event_pending \<Rightarrow> event_msg node" where
  "event_offer_button p =
     button (if pe_type p = ''kill_process'' then ''destructive'' else ''outline'') (VpAsk p)
       (if pe_type p = ''kill_process'' then [el ''Skull'' [] [], Txt '' Kill process'']
        else if pe_type p = ''kill_tree'' then [el ''ListX'' [] [], Txt '' Kill tree'']
        else if pe_type p = ''quarantine_file'' then [el ''FileLock2'' [] [], Txt '' Quarantine file'']
        else [el ''UserX'' [] [], Txt '' Disable '', opt_txt (ev_user (pe_event p))])"

definition event_actions :: "event \<Rightarrow> event_msg node option" where
  "event_actions e = (if event_offers e \<noteq> [] then Some (divc ''flex flex-wrap gap-2'' (map event_offer_button (event_offers e))) else None)"

subsection \<open>Steps\<close>

fun events_page_update :: "event_msg \<Rightarrow> events_page \<Rightarrow> events_page \<times> dash_effect list" where
  "events_page_update (VpHydrate search) s = (hydrate search s, [])"
| "events_page_update (VpQuery q) s = (s\<lparr>vp_q := q\<rparr>, [])"
| "events_page_update (VpCat c) s = (s\<lparr>vp_cat := c\<rparr>, [])"
| "events_page_update (VpSev v) s = (s\<lparr>vp_sev := v\<rparr>, [])"
| "events_page_update VpLive s = (s\<lparr>vp_live := \<not> vp_live s\<rparr>, [])"
| "events_page_update (VpSelect e) s = (s\<lparr>vp_sel := Some e\<rparr>, [])"
| "events_page_update VpClose s = (s\<lparr>vp_sel := None\<rparr>, [])"
| "events_page_update (VpPivotUser u) s = (s\<lparr>vp_user := u, vp_sel := None\<rparr>, [])"
| "events_page_update (VpPivotSearch t) s = (s\<lparr>vp_q := t, vp_sel := None\<rparr>, [])"
| "events_page_update (VpAsk p) s = (s\<lparr>vp_pending := Some p\<rparr>, [])"
| "events_page_update VpDismiss s = (s\<lparr>vp_pending := None\<rparr>, [])"
| "events_page_update VpConfirm s =
     (s\<lparr>vp_pending := None\<rparr>, case vp_pending s of None \<Rightarrow> [] | Some p \<Rightarrow> [Send (event_request p)])"
| "events_page_update (VpReply p r) s = (s, event_act_done p r)"
| "events_page_update VpClearAgent s = (s\<lparr>vp_agent := []\<rparr>, [])"
| "events_page_update VpClearUser s = (s\<lparr>vp_user := []\<rparr>, [])"
| "events_page_update VpLoadMore s = (s, [LoadOlder])"

subsection \<open>View\<close>

definition event_fields :: "env \<Rightarrow> event \<Rightarrow> event_msg sheet_field list" where
  "event_fields env e =
     [fld_mono ''Time'' (vtxt (en_datetime env (ev_ts e))),
      fld ''Category'' (Some (chip [Txt (ev_category e)] None)),
      fld_mono ''Action'' (vtxt (ev_action e)),
      fld_mono ''Host'' (vtxt (ev_hostname e)),
      fld ''User'' (if truthy (ev_user e) then Some (link_button (VpPivotUser (the (ev_user e))) (the (ev_user e))) else None),
      fld_wrap ''Message'' (vtxt_opt (ev_message e))] @
     (case ev_process e of None \<Rightarrow> [] | Some p \<Rightarrow>
       [fld_mono ''Process'' (vtxt (tpl (pr_name p) @ '' (pid '' @ tpl_num (pr_pid p) @ '')'')),
        fld_mono ''Process user'' (if truthy (pr_user p)
          then vtxt (the (pr_user p) @ '' (uid '' @ show_int (case pr_uid p of None \<Rightarrow> 0 | Some n \<Rightarrow> n) @ '')'') else None),
        fld_wrap ''Lineage'' (Some (lineage_tree (if truthy (pr_lineage p) then pr_lineage p else pr_parent p))),
        fld_mono ''Container'' (vtxt_opt (pr_container p)),
        fld_mono_wrap ''Command'' (vtxt_opt (pr_cmdline p))]) @
     (case ev_file e of None \<Rightarrow> [] | Some f \<Rightarrow>
       [fld_mono_wrap ''File'' (vtxt_opt (fi_path f)),
        fld ''Operation'' (vtxt_opt (fi_op f)),
        fld_mono_wrap ''SHA-256'' (if truthy (fi_hash f) then Some (link_button (VpPivotSearch (the (fi_hash f))) (the (fi_hash f))) else None)]) @
     (case ev_network e of None \<Rightarrow> [] | Some n \<Rightarrow>
       [fld_mono ''Domain'' (if truthy (ni_domain n) then Some (link_button (VpPivotSearch (the (ni_domain n))) (the (ni_domain n))) else None),
        fld_mono ''Remote'' (vtxt_opt (ni_remote n)),
        fld ''Network category'' (vtxt_opt (ni_category n)),
        fld_mono ''Uploaded'' (vtxt (bytes (ni_bytes_out n))),
        fld_mono ''Downloaded'' (vtxt (bytes (ni_bytes_in n)))]) @
     (case ev_usb e of None \<Rightarrow> [] | Some u \<Rightarrow>
       [fld ''Device'' (vtxt (tpl (us_vendor u) @ '' '' @ tpl (us_product u))), fld_mono ''Serial'' (vtxt_opt (us_serial u))]) @
     (case ev_auth e of None \<Rightarrow> [] | Some a \<Rightarrow>
       [fld ''Method'' (vtxt_opt (au_method a)), fld_mono ''Source IP'' (vtxt_opt (au_source_ip a)), fld ''Result'' (vtxt_opt (au_result a))]) @
     (case ev_dlp e of None \<Rightarrow> [] | Some d \<Rightarrow>
       [fld_mono ''Classifier'' (vtxt_opt (dl_classifier d)), fld ''Channel'' (vtxt_opt (dl_channel d)),
        fld_mono ''Sample'' (vtxt_opt (dl_sample d)), fld ''Verdict'' (vtxt_opt (dl_verdict d))])"

definition filter_chip :: "string \<Rightarrow> event_msg \<Rightarrow> event_msg node" where
  "filter_chip label m = Elem ''button'' [] [On ''click'' m] [Txt (label @ '' ''), el ''X'' [] []]"

definition event_toolbar :: "nat \<Rightarrow> bool \<Rightarrow> events_page \<Rightarrow> event_msg node" where
  "event_toolbar loaded connected s =
     divc ''flex flex-wrap items-center gap-2''
       ([text_input (vp_q s) VpQuery [(''placeholder'', ''Search command, path, domain, user'' @ u_ellipsis)],
         dash_select (vp_cat s) VpCat (map (\<lambda>c. (c, if c = ''all'' then ''All categories'' else c)) EVENT_CATS),
         dash_select (vp_sev s) VpSev (map (\<lambda>v. (v, if v = ''all'' then ''All severities'' else v)) EVENT_SEVS),
         Elem ''button''
           [(''aria-pressed'', if vp_live s then ''true'' else ''false''),
            (''aria-label'', if vp_live s then ''Pause live tail'' else ''Resume live tail''),
            cls (if vp_live s \<and> connected then ''text-[var(--signal)]'' else ''text-muted-foreground'')]
           [On ''click'' VpLive]
           [(if vp_live s \<and> connected then spanc ''live-dot size-2'' [] else spanc ''size-2 rounded-full bg-muted-foreground'' []),
            Txt (if vp_live s then ''Live'' else ''Paused'')],
         chip [Txt (show_nat loaded), Txt '' loaded''] None] @
        (if vp_agent s \<noteq> [] then [filter_chip (''host '' @ slice 0 12 (vp_agent s) @ u_ellipsis) VpClearAgent] else []) @
        (if vp_user s \<noteq> [] then [filter_chip (''user '' @ vp_user s) VpClearUser] else []))"

definition event_line :: "env \<Rightarrow> event \<Rightarrow> event_msg node" where
  "event_line env e =
     Elem ''TableRow'' [(''key'', ev_id e)] [On ''click'' (VpSelect e)]
       [el ''TableCell'' [] [Txt (en_time env (ev_ts e))],
        el ''TableCell'' [] [dash_sev (ev_severity e)],
        el ''TableCell'' [] [mono (ev_category e)],
        el ''TableCell'' [] [Txt (ev_hostname e)],
        el ''TableCell'' [] [if truthy (ev_user e) then opt_txt (ev_user e) else muted u_dash],
        el ''TableCell'' [] [spanc ''block max-w-[42rem] truncate font-mono text-xs text-muted-foreground'' [Txt (event_detail e)]],
        el ''TableCell'' [] [inspect (VpSelect e) ''Inspect'']]"

definition event_skeleton :: "event_msg node" where
  "event_skeleton =
     Frag (replicate 8 (el ''TableRow'' []
       (map (\<lambda>w. el ''TableCell'' [] [divc (''shimmer h-4 '' @ w @ '' rounded bg-muted'') []]) [''w-16'', ''w-16'', ''w-20'', ''w-28'', ''w-24'', ''w-40''] @
        [el ''TableCell'' [] []])))"

definition event_table :: "env \<Rightarrow> event list \<Rightarrow> bool \<Rightarrow> event_msg node" where
  "event_table env events loading =
     el ''Table'' (if loading then [(''aria-busy'', ''true'')] else [])
       [el ''TableHeader'' []
          [el ''TableRow'' [] (map (\<lambda>h. el ''TableHead'' [] [Txt h]) [''Time'', ''Severity'', ''Category'', ''Host'', ''User'', ''Detail'', []])],
        el ''TableBody'' []
          [Frag (map (event_line env) events),
           only_if (loading \<and> events = []) event_skeleton,
           only_if (\<not> loading \<and> events = [])
             (el ''TableRow'' [] [el ''TableCell'' [(''colSpan'', ''7'')]
                [Txt ''No events match your filters. Live telemetry will appear here as it streams in.'']])]]"

definition load_more_bar :: "bool \<Rightarrow> bool \<Rightarrow> event_msg node" where
  "load_more_bar has_more loading_more =
     divc ''flex items-center justify-center border-t p-3''
       [if has_more
        then Elem ''Button'' (disabled_attr loading_more) (unless_disabled loading_more [On ''click'' VpLoadMore])
               [Txt (if loading_more then ''Loading'' @ u_ellipsis else ''Load older events'')]
        else muted ''End of results'']"

definition event_drawer_sheet :: "env \<Rightarrow> event option \<Rightarrow> event_msg node" where
  "event_drawer_sheet env sel =
     (case sel of
        None \<Rightarrow> info_sheet False VpClose [] (Some ''Event detail'') None [] None None
      | Some e \<Rightarrow> info_sheet True VpClose (ev_category e @ '' '' @ u_middot @ '' '' @ ev_action e) (Some ''Event detail'')
          (Some (dash_sev (ev_severity e))) (event_fields env e) None (event_actions e))"

definition event_confirm :: "event_pending option \<Rightarrow> event_msg node" where
  "event_confirm pending =
     (case pending of
        None \<Rightarrow> confirm_dialog False VpDismiss [] None None True VpConfirm
      | Some p \<Rightarrow> confirm_dialog True VpDismiss (pe_label p @ '' '' @ u_dash @ '' '' @ ev_hostname (pe_event p) @ ''?'')
          (Some (pe_desc p)) (Some (pe_label p)) True VpConfirm)"

definition events_page_view :: "env \<Rightarrow> event live_list \<Rightarrow> events_page \<Rightarrow> event_msg node" where
  "events_page_view env list s =
     divc ''reveal space-y-4''
       [event_toolbar (length (ll_items list)) (ll_connected list) s,
        el ''Card'' [cls ''panel overflow-hidden'']
          [event_table env (ll_items list) (ll_loading list), load_more_bar (ll_has_more list) (ll_loading_more list)],
        event_drawer_sheet env (vp_sel s),
        event_confirm (vp_pending s)]"

subsection \<open>Lemmas\<close>

definition event_page_offers :: "env \<times> event live_list \<Rightarrow> events_page \<Rightarrow> event_msg set" where
  \<comment> \<open>what the page can receive: the user's messages, the address when it is mounted, replies\<close>
  "event_page_offers d s =
     set_node (events_page_view (fst d) (snd d) s) \<union> range VpHydrate \<union> {VpReply p r | p r. True}"

lemma set_node_event_toolbar: "VpAsk p \<notin> set_node (event_toolbar n c s)"
  by (simp add: event_toolbar_def filter_chip_def image_iff)

lemma set_node_event_table: "VpAsk p \<notin> set_node (event_table env events loading)"
proof -
  have s: "set_node event_skeleton = {}" by (simp add: event_skeleton_def)
  have l: "set_node (event_line env e) = {VpSelect e}" for e by (simp add: event_line_def)
  show ?thesis by (simp add: event_table_def s l)
qed

lemma set_node_load_more: "VpAsk p \<notin> set_node (load_more_bar has_more busy)"
  by (simp add: load_more_bar_def)

lemma event_fields_messages:
  "fields_messages (event_fields env e) \<subseteq> range VpPivotUser \<union> range VpPivotSearch"
  by (simp add: event_fields_def split: option.split)

lemma set_node_event_actions: "node_messages (event_actions e) = VpAsk ` set (event_offers e)"
proof -
  have b: "set_node (event_offer_button p) = {VpAsk p}" for p by (simp add: event_offer_button_def)
  show ?thesis by (auto simp: event_actions_def b)
qed

lemma event_drawer_asks: "VpAsk p \<in> set_node (event_drawer_sheet env sel) \<Longrightarrow> \<exists>e. sel = Some e \<and> p \<in> set (event_offers e)"
proof (cases sel)
  case (Some e)
  assume a: "VpAsk p \<in> set_node (event_drawer_sheet env sel)"
  have "set_node (event_drawer_sheet env sel) \<subseteq> insert VpClose (fields_messages (event_fields env e) \<union> VpAsk ` set (event_offers e))"
    unfolding event_drawer_sheet_def Some option.case
    by (intro subset_trans [OF info_sheet_messages]) (simp add: set_node_event_actions)
  then have "VpAsk p \<in> insert VpClose ((range VpPivotUser \<union> range VpPivotSearch) \<union> VpAsk ` set (event_offers e))"
    using a event_fields_messages [of env e] by blast
  with Some show ?thesis by auto
qed (simp add: event_drawer_sheet_def info_sheet_def)

lemma set_node_event_confirm: "VpAsk p \<notin> set_node (event_confirm pending)"
  by (simp add: event_confirm_def split: option.split)

lemma event_page_asks: "VpAsk p \<in> event_page_offers d s \<Longrightarrow> \<exists>e. vp_sel s = Some e \<and> p \<in> set (event_offers e)"
  using event_drawer_asks set_node_event_toolbar set_node_event_table set_node_load_more set_node_event_confirm
  by (auto simp: event_page_offers_def events_page_view_def)

lemma event_offers_own: "p \<in> set (event_offers e) \<Longrightarrow> pe_event p = e"
  by (auto simp: event_offers_def Let_def split: if_splits)

lemma event_offer_target:
  assumes "p \<in> set (event_offers e)"
  shows "(pe_type p \<in> {''kill_process'', ''kill_tree''} \<and>
        (\<exists>n. n \<noteq> 0 \<and> Option.bind (ev_process e) pr_pid = Some n \<and> pe_target p = JObj [(''pid'', JNum n)])) \<or>
     (pe_type p = ''quarantine_file'' \<and>
        (\<exists>q h. q \<noteq> [] \<and> Option.bind (ev_file e) fi_path = Some q \<and> pe_target p = JObj ((''path'', JStr q) # h))) \<or>
     (pe_type p = ''disable_account'' \<and>
        (\<exists>u. ev_user e = Some u \<and> u \<notin> {[], ''root''} \<and> pe_target p = JObj [(''user'', JStr u)]))"
  using assms by (auto simp: event_offers_def Let_def truthy_def truthy_num_def split: if_splits option.splits)

interpretation events_flow: confirm_flow event_page_offers events_page_update vp_pending event_request
  "\<lambda>p. p \<in> set (event_offers (pe_event p))" "\<lambda>r. False"
proof
  fix m d s p
  assume m: "m \<in> event_page_offers d s" and p: "vp_pending (fst (events_page_update m s)) = Some p"
  show "vp_pending s = Some p \<or> p \<in> set (event_offers (pe_event p))"
  proof (cases "m = VpAsk p")
    case True
    then show ?thesis using event_page_asks [of p d s] m event_offers_own by blast
  next
    case False
    with p show ?thesis by (cases m) (auto simp: hydrate_def)
  qed
next
  fix m d s r
  assume "r \<in> set (sent (snd (events_page_update m s)))"
  then show "False \<or> (\<exists>p. vp_pending s = Some p \<and> r = event_request p)"
    by (cases m) (auto simp: event_act_done_def reply_toast_def split: option.splits if_splits)
qed

lemma select_offered: "e \<in> set (ll_items list) \<Longrightarrow> VpSelect e \<in> event_page_offers (env, list) s"
proof -
  have l: "set_node (event_line env e) = {VpSelect e}" for e by (simp add: event_line_def)
  show "e \<in> set (ll_items list) \<Longrightarrow> VpSelect e \<in> event_page_offers (env, list) s"
    by (auto simp: event_page_offers_def events_page_view_def event_table_def l)
qed

lemma ask_offered:
  assumes "vp_sel s = Some e" and "p \<in> set (event_offers e)"
  shows "VpAsk p \<in> event_page_offers d s"
proof -
  have "VpAsk p \<in> node_messages (event_actions e)" using assms(2) by (simp add: set_node_event_actions)
  then have "VpAsk p \<in> set_node (event_drawer_sheet (fst d) (vp_sel s))"
    unfolding event_drawer_sheet_def assms(1) option.case set_node_info_sheet by (auto simp: node_messages_def split: option.splits)
  then show ?thesis by (simp add: event_page_offers_def events_page_view_def)
qed

lemma confirm_offered: "vp_pending s = Some p \<Longrightarrow> VpConfirm \<in> event_page_offers d s"
  by (simp add: event_page_offers_def events_page_view_def event_confirm_def)

lemma event_response_possible:
  assumes "p \<in> set (event_offers e)"
  shows "page_run event_page_offers events_page_update events_page0 [event_request p] (events_page0\<lparr>vp_sel := Some e\<rparr>)"
proof -
  let ?list = "live0\<lparr>ll_items := [e]\<rparr>"
  let ?d = "(plain_env, ?list)"
  have "VpSelect e \<in> event_page_offers ?d events_page0" by (rule select_offered) simp
  from page_run_step [OF page_run.start [of event_page_offers events_page_update] this]
  have 1: "page_run event_page_offers events_page_update events_page0 [] (events_page0\<lparr>vp_sel := Some e\<rparr>)" by simp
  have "VpAsk p \<in> event_page_offers ?d (events_page0\<lparr>vp_sel := Some e\<rparr>)" using assms by (intro ask_offered) simp_all
  from page_run_step [OF 1 this]
  have 2: "page_run event_page_offers events_page_update events_page0 [] (events_page0\<lparr>vp_sel := Some e, vp_pending := Some p\<rparr>)"
    by simp
  have "VpConfirm \<in> event_page_offers ?d (events_page0\<lparr>vp_sel := Some e, vp_pending := Some p\<rparr>)"
    by (rule confirm_offered) simp
  from page_run_step [OF 2 this] show ?thesis by (simp add: events_page0_def)
qed

subsection \<open>Properties\<close>


text \<open>C27: the filters survive a trip through the address: opening the page with the query that its filters
  produce sets the same category, severity, host and user, and the search text that was queried.\<close>

theorem event_filters_roundtrip:
  assumes "vp_cat s \<noteq> []" and "vp_sev s \<noteq> []"
  shows "hydrate (''?'' @ search_params (event_filters dq s)) events_page0 =
    events_page0\<lparr>vp_cat := vp_cat s, vp_sev := vp_sev s, vp_q := dq, vp_agent := vp_agent s, vp_user := vp_user s\<rparr>"
proof -
  have "\<forall>(k, v)\<in>set (event_filters dq s). k \<noteq> []" by (auto simp: event_filters_def)
  then have g: "search_get (''?'' @ search_params (event_filters dq s)) k = map_of (event_filters dq s) k" for k
    unfolding search_get_def by (simp only: parse_search_params)
  have "or_keep (map_of (event_filters dq s) ''category'') ''all'' = vp_cat s"
    "or_keep (map_of (event_filters dq s) ''severity'') ''all'' = vp_sev s"
    "or_keep (map_of (event_filters dq s) ''q'') [] = dq"
    "or_keep (map_of (event_filters dq s) ''agent_id'') [] = vp_agent s"
    "or_keep (map_of (event_filters dq s) ''user'') [] = vp_user s"
    using assms by (simp_all add: event_filters_def or_keep_def truthy_def)
  then show ?thesis unfolding hydrate_def g by (simp add: events_page0_def)
qed

text \<open>C29: rows pushed in real time are those the query selects: while the page takes pushed events, its
  query has no condition but category and severity, and a pushed event passes the page's filter exactly
  when it meets them.\<close>

theorem pushed_events_match_query:
  assumes "event_push_type dq s = Some t"
  shows "fst ` set (event_filters dq s) \<subseteq> {''category'', ''severity''} \<and>
    (event_push_filter s e \<longleftrightarrow>
       set (event_filters dq s) \<subseteq> {(''category'', ev_category e), (''severity'', ev_severity e)})"
  using assms by (auto simp: event_push_type_def event_filters_def event_push_filter_def split: if_splits)

subsection \<open>Witnesses\<close>

definition login_event :: event where
  "login_event = \<lparr>ev_id = ''e1'', ev_agent_id = ''a1'', ev_hostname = ''web-1'', ev_ts = [], ev_category = ''auth'', ev_action = ''login'',
     ev_severity = ''high'', ev_user = Some ''alice'', ev_message = None, ev_process = None, ev_file = None, ev_network = None,
     ev_usb = None, ev_auth = None, ev_dlp = None, ev_labels = None\<rparr>"


lemma event_filters_roundtrip_witness:
  "vp_cat (hydrate (''?'' @ search_params (event_filters ''a b'' (events_page0\<lparr>vp_cat := ''ssh''\<rparr>))) events_page0) = ''ssh''"
  using event_filters_roundtrip [of "events_page0\<lparr>vp_cat := ''ssh''\<rparr>" "''a b''"] by (simp add: events_page0_def)

lemma pushed_events_match_query_witness:
  "event_push_filter (events_page0\<lparr>vp_cat := ''auth''\<rparr>) login_event =
     (set (event_filters [] (events_page0\<lparr>vp_cat := ''auth''\<rparr>)) \<subseteq> {(''category'', ''auth''), (''severity'', ''high'')})"
  using pushed_events_match_query [of "[]" "events_page0\<lparr>vp_cat := ''auth''\<rparr>" "''event''" login_event]
  by (simp add: event_push_type_def events_page0_def login_event_def)

end
