(* ===== verification/DashEndpoints.thy ===== *)
theory DashEndpoints
  imports DashPages
begin

section \<open>Page: endpoints\<close>

text \<open>
  Models \<open>dashboard/app/(app)/endpoints/page.tsx\<close>: the table of hosts with its row menu and bulk
  actions, the drawer of a host and the confirmation. The table, the attack story and the policy panel
  inside the page are components with state of their own (\<open>DataTable\<close>, \<open>Investigate\<close>, \<open>PolicyPanel\<close>):
  their messages pass through the page, their state is an argument of its view.
\<close>

record endpoint_pending =
  pa_agent :: agent
  pa_type :: string
  pa_label :: string
  pa_destructive :: bool
  pa_desc :: string

record endpoints_page =
  np_sel :: "agent option"
  np_event :: "event option"
  np_pending :: "endpoint_pending option"

definition endpoints_page0 :: endpoints_page where
  "endpoints_page0 = \<lparr>np_sel = None, np_event = None, np_pending = None\<rparr>"

datatype endpoint_msg =
    NpSelect agent
  | NpClose
  | NpEvent event
  | NpEventClose
  | NpAsk endpoint_pending
  | NpDismiss
  | NpConfirm
  | NpReply endpoint_pending action_result
  | NpTriage agent
  | NpTriaged agent action_result
  | NpBulkIsolate "agent list"
  | NpBulkIsolated "action_result list"
  | NpBulkLift "agent list"
  | NpBulkLifted "action_result list"
  | NpGrid grid_msg
  | NpPolicy policy_msg

subsection \<open>Actions\<close>

definition agent_request :: "string \<Rightarrow> string \<Rightarrow> agent \<Rightarrow> request" where
  "agent_request verb reason a = respond_request
     \<lparr>ra_type = verb, ra_agent = ag_id a, ra_target = None, ra_reason = Some reason, ra_detection = None\<rparr>"

definition endpoint_request :: "endpoint_pending \<Rightarrow> request" where
  "endpoint_request p = agent_request (pa_type p) (''manual '' @ pa_type p @ '' from console'') (pa_agent p)"

definition endpoint_act_done :: "endpoint_pending \<Rightarrow> action_result \<Rightarrow> dash_effect list" where
  "endpoint_act_done p r =
     [reply_toast (pa_label p @ '' dispatched to '' @ ag_hostname (pa_agent p))
        (''Could not '' @ to_lower (pa_label p) @ '' '' @ ag_hostname (pa_agent p)) r]"

definition triage_request :: "agent \<Rightarrow> request" where
  "triage_request a = agent_request ''live_triage'' ''live triage from console'' a"

definition triage_done :: "agent \<Rightarrow> action_result \<Rightarrow> dash_effect list" where
  "triage_done a r =
     [reply_toast (''Triage requested for '' @ ag_hostname a @ '' '' @ u_dash @ '' results will land in Response'') ''Triage failed'' r]"

definition isolate_targets :: "agent list \<Rightarrow> agent list" where
  "isolate_targets rows = filter (\<lambda>a. ag_status a \<noteq> ''isolated'') rows"

definition lift_targets :: "agent list \<Rightarrow> agent list" where
  "lift_targets rows = filter (\<lambda>a. ag_status a = ''isolated'') rows"

definition bulk_isolate_request :: "agent \<Rightarrow> request" where
  "bulk_isolate_request a = agent_request ''isolate'' ''bulk isolate from console'' a"

definition bulk_lift_request :: "agent \<Rightarrow> request" where
  "bulk_lift_request a = agent_request ''unisolate'' ''bulk lift isolation'' a"

definition ok_count :: "action_result list \<Rightarrow> nat" where
  "ok_count res = length (filter ar_ok res)"

definition bulk_isolated :: "action_result list \<Rightarrow> dash_effect list" where
  "bulk_isolated res =
     [Toast (ok_count res = length res) (''Isolated '' @ show_nat (ok_count res) @ ''/'' @ show_nat (length res) @ '' endpoints''),
      ClearSelection]"

definition bulk_lifted :: "action_result list \<Rightarrow> dash_effect list" where
  "bulk_lifted res =
     [Toast (ok_count res = length res) (''Lifted isolation on '' @ show_nat (ok_count res) @ ''/'' @ show_nat (length res)),
      ClearSelection]"

subsection \<open>What the page offers\<close>

definition cut_network :: "agent \<Rightarrow> string" where
  "cut_network a = ''Cut all network traffic from '' @ ag_hostname a @ '' except the management server.''"

definition menu_isolation :: "agent \<Rightarrow> endpoint_pending" where
  "menu_isolation a =
     (if ag_status a \<noteq> ''isolated''
      then \<lparr>pa_agent = a, pa_type = ''isolate'', pa_label = ''Isolate'', pa_destructive = True,
            pa_desc = cut_network a @ '' Active sessions and tooling on the host will lose connectivity until isolation is lifted.''\<rparr>
      else \<lparr>pa_agent = a, pa_type = ''unisolate'', pa_label = ''Lift isolation'', pa_destructive = False,
            pa_desc = ''Restore normal network connectivity for '' @ ag_hostname a @ ''.''\<rparr>)"

definition menu_freeze :: "agent \<Rightarrow> endpoint_pending" where
  "menu_freeze a = \<lparr>pa_agent = a, pa_type = ''freeze'', pa_label = ''Freeze'', pa_destructive = True,
     pa_desc = ''Freeze every process on '' @ ag_hostname a @ '' (cgroup.freeze) for a forensic hold. Unfreeze to resume.''\<rparr>"

definition menu_unfreeze :: "agent \<Rightarrow> endpoint_pending" where
  "menu_unfreeze a = \<lparr>pa_agent = a, pa_type = ''unfreeze'', pa_label = ''Unfreeze'', pa_destructive = False,
     pa_desc = ''Resume frozen processes on '' @ ag_hostname a @ ''.''\<rparr>"

definition menu_rest :: "agent \<Rightarrow> endpoint_pending list" where
  "menu_rest a =
     [\<lparr>pa_agent = a, pa_type = ''block_usb'', pa_label = ''Block USB'', pa_destructive = False,
       pa_desc = ''Block USB mass-storage on '' @ ag_hostname a @ ''. New removable media will be rejected.''\<rparr>,
      \<lparr>pa_agent = a, pa_type = ''unblock_usb'', pa_label = ''Lift USB block'', pa_destructive = False,
       pa_desc = ''Re-enable USB mass-storage on '' @ ag_hostname a @ ''.''\<rparr>,
      \<lparr>pa_agent = a, pa_type = ''block_upload'', pa_label = ''Block uploads'', pa_destructive = False,
       pa_desc = ''Drop new outbound upload channels (web/ftp/nfs) on '' @ ag_hostname a @ ''.''\<rparr>,
      \<lparr>pa_agent = a, pa_type = ''unblock_upload'', pa_label = ''Lift upload block'', pa_destructive = False,
       pa_desc = ''Restore outbound upload channels on '' @ ag_hostname a @ ''.''\<rparr>]"

definition drawer_isolation :: "agent \<Rightarrow> endpoint_pending" where
  "drawer_isolation a =
     (if ag_status a \<noteq> ''isolated''
      then \<lparr>pa_agent = a, pa_type = ''isolate'', pa_label = ''Isolate'', pa_destructive = True, pa_desc = cut_network a\<rparr>
      else \<lparr>pa_agent = a, pa_type = ''unisolate'', pa_label = ''Lift isolation'', pa_destructive = False,
            pa_desc = ''Restore connectivity for '' @ ag_hostname a @ ''.''\<rparr>)"

definition drawer_freeze :: "agent \<Rightarrow> endpoint_pending" where
  "drawer_freeze a = \<lparr>pa_agent = a, pa_type = ''freeze'', pa_label = ''Freeze'', pa_destructive = True,
     pa_desc = ''Freeze every process on '' @ ag_hostname a @ '' (cgroup.freeze).''\<rparr>"

definition endpoint_offers :: "agent \<Rightarrow> endpoint_pending list" where
  "endpoint_offers a = [menu_isolation a, menu_freeze a, menu_unfreeze a] @ menu_rest a @ [drawer_isolation a, drawer_freeze a]"

subsection \<open>Steps\<close>

fun endpoints_page_update :: "endpoint_msg \<Rightarrow> endpoints_page \<Rightarrow> endpoints_page \<times> dash_effect list" where
  \<comment> \<open>\<open>NpGrid\<close> and \<open>NpPolicy\<close> are handled by the table and the panel\<close>
  "endpoints_page_update (NpSelect a) s = (s\<lparr>np_sel := Some a\<rparr>, [])"
| "endpoints_page_update NpClose s = (s\<lparr>np_sel := None\<rparr>, [])"
| "endpoints_page_update (NpEvent e) s = (s\<lparr>np_event := Some e\<rparr>, [])"
| "endpoints_page_update NpEventClose s = (s\<lparr>np_event := None\<rparr>, [])"
| "endpoints_page_update (NpAsk p) s = (s\<lparr>np_pending := Some p\<rparr>, [])"
| "endpoints_page_update NpDismiss s = (s\<lparr>np_pending := None\<rparr>, [])"
| "endpoints_page_update NpConfirm s =
     (s\<lparr>np_pending := None\<rparr>, case np_pending s of None \<Rightarrow> [] | Some p \<Rightarrow> [Send (endpoint_request p)])"
| "endpoints_page_update (NpReply p r) s = (s, endpoint_act_done p r)"
| "endpoints_page_update (NpTriage a) s = (s, [Send (triage_request a)])"
| "endpoints_page_update (NpTriaged a r) s = (s, triage_done a r)"
| "endpoints_page_update (NpBulkIsolate rows) s = (s, map (\<lambda>a. Send (bulk_isolate_request a)) (isolate_targets rows))"
| "endpoints_page_update (NpBulkIsolated res) s = (s, bulk_isolated res)"
| "endpoints_page_update (NpBulkLift rows) s = (s, map (\<lambda>a. Send (bulk_lift_request a)) (lift_targets rows))"
| "endpoints_page_update (NpBulkLifted res) s = (s, bulk_lifted res)"
| "endpoints_page_update (NpGrid gm) s = (s, [])"
| "endpoints_page_update (NpPolicy pm) s = (s, [])"

subsection \<open>View\<close>

definition endpoint_fields :: "env \<Rightarrow> agent \<Rightarrow> endpoint_msg sheet_field list" where
  "endpoint_fields env a =
     [fld_mono_wrap ''Agent ID'' (vtxt (ag_id a)),
      fld ''Status'' (Some (status_dot (ag_status a))),
      fld ''OS'' (vtxt (ag_os a)),
      fld_mono ''Kernel'' (vtxt (ag_kernel a)),
      fld ''Arch'' (Some (chip [Txt (ag_arch a)] None)),
      fld_mono ''IP'' (vtxt (ag_ip a)),
      fld_mono ''MAC'' (vtxt (ag_mac a)),
      fld_mono ''Version'' (vtxt (ag_version a)),
      fld ''Labels'' (Some (divc ''flex flex-wrap gap-1''
        (map (\<lambda>l. chip [Txt l] (Some ''var(--primary)'')) (case ag_labels a of None \<Rightarrow> [] | Some ls \<Rightarrow> ls)))),
      fld_mono ''Events'' (Some (spanc ''tabular-nums'' [Txt (en_number env (ag_event_count a))])),
      fld_mono ''Enrolled'' (vtxt (en_datetime env (ag_enrolled_at a))),
      fld_mono_wrap ''Last Seen''
        (vtxt (ago (en_now env) (ag_last_seen a) @ '' '' @ u_middot @ '' '' @ en_datetime env (ag_last_seen a)))]"

definition ask_item :: "'m node \<Rightarrow> string \<Rightarrow> (endpoint_pending \<Rightarrow> 'm) \<Rightarrow> endpoint_pending \<Rightarrow> 'm node" where
  "ask_item icon text ask p = menu_item (pa_destructive p) (ask p) [icon, Txt text]"

definition endpoint_menu :: "agent \<Rightarrow> endpoint_msg node" where
  "endpoint_menu a =
     divc ''flex items-center justify-end gap-0.5''
       [inspect (NpSelect a) ''Inspect'',
        el ''DropdownMenu'' []
          ([el ''DropdownMenuTrigger'' [(''aria-label'', ''Actions for '' @ ag_hostname a)] [el ''MoreHorizontal'' [] []],
            (if ag_status a \<noteq> ''isolated''
             then ask_item (el ''ShieldOff'' [] []) '' Isolate endpoint'' NpAsk (menu_isolation a)
             else ask_item (el ''ShieldCheck'' [] []) '' Lift isolation'' NpAsk (menu_isolation a)),
            menu_item False (NpTriage a) [el ''Stethoscope'' [] [], Txt '' Live triage''],
            el ''DropdownMenuSeparator'' [] [],
            ask_item (el ''Snowflake'' [] []) '' Freeze processes'' NpAsk (menu_freeze a),
            ask_item (el ''Flame'' [] []) '' Unfreeze'' NpAsk (menu_unfreeze a),
            el ''DropdownMenuSeparator'' [] []] @
           map (\<lambda>(icon, text, p). ask_item (el icon [] []) text NpAsk p)
             (zip [''Usb'', ''Plug'', ''CloudOff'', ''Cloud'']
               (zip ['' Block USB'', '' Lift USB block'', '' Block uploads'', '' Lift upload block''] (menu_rest a))))]"

definition endpoint_columns :: "env \<Rightarrow> (agent, endpoint_msg) column list" where
  "endpoint_columns env =
     [col ''status'' (HSort ''Status'') (\<lambda>a. status_dot (ag_status a)),
      col ''hostname'' (HSort ''Hostname'') (\<lambda>a. mono (ag_hostname a)),
      col ''os'' (HText ''OS / Kernel'')
        (\<lambda>a. spanc ''text-muted-foreground'' [Txt (ag_os a @ '' ''), spanc ''opacity-60'' [Txt (ag_kernel a)]]),
      col ''ip'' (HText ''IP'') (\<lambda>a. mono (or_dash (Some (ag_ip a)))),
      col ''mac'' (HText ''MAC'') (\<lambda>a. spanc ''font-mono text-muted-foreground'' [Txt (or_dash (Some (ag_mac a)))]),
      col ''arch'' (HText ''Arch'') (\<lambda>a. chip [Txt (or_dash (Some (ag_arch a)))] None),
      col ''event_count'' (HSort ''Events'') (\<lambda>a. spanc ''font-mono tabular-nums'' [Txt (en_number env (ag_event_count a))]),
      col ''last_seen'' (HSort ''Last Seen'') (\<lambda>a. muted (ago (en_now env) (ag_last_seen a))),
      fixed_col ''actions'' HNone endpoint_menu]"

definition endpoint_bulk :: "agent list \<Rightarrow> endpoint_msg node" where
  "endpoint_bulk rows =
     Frag [button ''outline'' (NpBulkIsolate rows) [el ''ShieldOff'' [] [], Txt '' Isolate selected''],
           button ''outline'' (NpBulkLift rows) [el ''ShieldCheck'' [] [], Txt '' Lift isolation'']]"

definition endpoint_table :: "env \<Rightarrow> bool \<Rightarrow> (agent, endpoint_msg) table_props" where
  "endpoint_table env loading =
     \<lparr>tp_columns = endpoint_columns env, tp_row_click = Some NpSelect, tp_placeholder = Some (''Filter endpoints'' @ u_ellipsis),
      tp_page_size = None, tp_toolbar = None, tp_initial_sort = [(''hostname'', False)],
      tp_empty = Some (Txt ''No endpoints enrolled''), tp_loading = loading, tp_row_id = True, tp_table_id = Some ''endpoints'',
      tp_selection = True, tp_bulk = Some endpoint_bulk, tp_density = True\<rparr>"

definition endpoint_footer :: "agent \<Rightarrow> endpoint_msg node" where
  "endpoint_footer a =
     divc ''flex flex-wrap gap-2''
       [(if ag_status a \<noteq> ''isolated''
         then button ''destructive'' (NpAsk (drawer_isolation a)) [el ''ShieldOff'' [] [], Txt '' Isolate'']
         else button ''default'' (NpAsk (drawer_isolation a)) [el ''ShieldCheck'' [] [], Txt '' Lift isolation'']),
        button ''outline'' (NpTriage a) [el ''Stethoscope'' [] [], Txt '' Live triage''],
        button ''outline'' (NpAsk (drawer_freeze a)) [el ''Snowflake'' [] [], Txt '' Freeze'']]"

definition endpoint_sheet :: "env \<Rightarrow> event list option \<times> bool \<Rightarrow> policy_panel \<Rightarrow> agent option \<Rightarrow> endpoint_msg node" where
  \<comment> \<open>the attack story polls \<open>story_path (Some (ag_id a)) 60\<close>; \<open>story\<close> is what it got\<close>
  "endpoint_sheet env story pp sel =
     (case sel of
        None \<Rightarrow> info_sheet False NpClose [] None None [] None None
      | Some a \<Rightarrow>
          info_sheet True NpClose (ag_hostname a) (Some (''Endpoint '' @ u_middot @ '' '' @ cap (ag_status a)))
            (Some (status_dot (ag_status a))) (endpoint_fields env a)
            (Some (divc ''space-y-4''
              [el ''div'' []
                 [el ''div'' [] [Txt ''Recent activity''],
                  attack_story (en_time env) (Some (ag_id a)) None (Some NpEvent) (fst story) (snd story)],
               el ''Separator'' [] [],
               map_node NpPolicy (policy_view a pp)]))
            (Some (endpoint_footer a)))"

definition endpoint_confirm :: "endpoint_pending option \<Rightarrow> endpoint_msg node" where
  "endpoint_confirm pending =
     (case pending of
        None \<Rightarrow> confirm_dialog False NpDismiss [] None None False NpConfirm
      | Some p \<Rightarrow> confirm_dialog True NpDismiss (pa_label p @ '' '' @ u_dash @ '' '' @ ag_hostname (pa_agent p) @ ''?'')
          (Some (pa_desc p)) (Some (pa_label p)) (pa_destructive p) NpConfirm)"

record endpoints_data =
  nd_env :: env
  nd_agents :: "agent list option"
  nd_grid :: "agent grid"
  nd_table :: table_view
  nd_story :: "event list option \<times> bool"
  nd_policy :: policy_panel

definition endpoints_page_view :: "endpoints_data \<Rightarrow> endpoints_page \<Rightarrow> endpoint_msg node" where
  \<comment> \<open>\<open>nd_grid\<close> is the table library's answer for the rows \<open>agents || []\<close>\<close>
  "endpoints_page_view d s =
     divc ''reveal space-y-4''
       [data_table (endpoint_table (nd_env d) (nd_agents d = None)) (nd_grid d) (nd_table d) NpGrid,
        endpoint_sheet (nd_env d) (nd_story d) (nd_policy d) (np_sel s),
        event_sheet (nd_env d) False False (\<lambda>e. status_dot ''online'') NpEventClose (np_event s),
        endpoint_confirm (np_pending s)]"

subsection \<open>Lemmas\<close>

definition endpoint_page_offers :: "endpoints_data \<Rightarrow> endpoints_page \<Rightarrow> endpoint_msg set" where
  "endpoint_page_offers d s =
     set_node (endpoints_page_view d s) \<union> {NpReply p r | p r. True} \<union> {NpTriaged a r | a r. True} \<union>
     range NpBulkIsolated \<union> range NpBulkLifted"

definition asks_own :: "endpoint_msg \<Rightarrow> bool" where
  \<comment> \<open>not a request for confirmation, or one the page offers for that host\<close>
  "asks_own m = (case m of NpAsk p \<Rightarrow> p \<in> set (endpoint_offers (pa_agent p)) | _ \<Rightarrow> True)"

abbreviation own_asks :: "endpoint_msg set" where
  "own_asks \<equiv> Collect asks_own"

lemma endpoint_offers_own: "p \<in> set (endpoint_offers a) \<Longrightarrow> pa_agent p = a"
proof -
  have "\<forall>p\<in>set (menu_rest a). pa_agent p = a" by (simp add: menu_rest_def)
  then show "p \<in> set (endpoint_offers a) \<Longrightarrow> pa_agent p = a"
    by (auto simp: endpoint_offers_def menu_isolation_def menu_freeze_def menu_unfreeze_def drawer_isolation_def drawer_freeze_def)
qed

lemma asks_own_offer: "p \<in> set (endpoint_offers a) \<Longrightarrow> asks_own (NpAsk p)"
  using endpoint_offers_own [of p a] by (simp add: asks_own_def)

lemma asks_own_simps [simp]:
  "asks_own (NpAsk (menu_isolation a))" "asks_own (NpAsk (menu_freeze a))" "asks_own (NpAsk (menu_unfreeze a))"
  "asks_own (NpAsk (drawer_isolation a))" "asks_own (NpAsk (drawer_freeze a))" "\<forall>p\<in>set (menu_rest a). asks_own (NpAsk p)"
  by (auto intro!: asks_own_offer [of _ a] simp: endpoint_offers_def)

lemma asks_own_others [simp]:
  "asks_own (NpSelect b)" "asks_own NpClose" "asks_own (NpEvent e)" "asks_own NpEventClose" "asks_own NpDismiss" "asks_own NpConfirm"
  "asks_own (NpTriage a)" "asks_own (NpBulkIsolate rows)" "asks_own (NpBulkLift rows)" "asks_own (NpGrid g)" "asks_own (NpPolicy pm)"
  by (simp_all add: asks_own_def)

lemma endpoint_menu_asks: "set_node (endpoint_menu a) \<subseteq> own_asks"
  using asks_own_simps(6) [of a] by (simp add: endpoint_menu_def ask_item_def menu_rest_def del: asks_own_simps(6))

lemma endpoint_footer_asks: "set_node (endpoint_footer a) \<subseteq> own_asks"
  by (simp add: endpoint_footer_def)

lemma endpoint_table_asks: "set_node (data_table (endpoint_table env l) g tv NpGrid) \<subseteq> own_asks"
proof -
  have c: "cell_messages (endpoint_table env l) g \<subseteq> own_asks"
  proof (rule cell_messages_le)
    fix c r
    assume "c \<in> set (tp_columns (endpoint_table env l))"
    then show "set_node (co_cell c r) \<subseteq> own_asks"
      using endpoint_menu_asks [of r] by (auto simp: endpoint_table_def endpoint_columns_def)
  qed
  have b: "bulk_messages (endpoint_table env l) g \<subseteq> own_asks"
    by (rule bulk_messages_le [of endpoint_bulk]) (simp_all add: endpoint_bulk_def endpoint_table_def)
  have k: "click_messages (endpoint_table env l) g \<subseteq> own_asks"
    by (rule click_messages_le [of NpSelect]) (simp_all add: endpoint_table_def)
  have n: "range NpGrid \<subseteq> own_asks" by auto
  show ?thesis
    by (rule subset_trans [OF data_table_messages]) (use b k c n in \<open>simp add: endpoint_table_def\<close>)
qed

lemma endpoint_sheet_asks: "set_node (endpoint_sheet env story pp sel) \<subseteq> own_asks"
proof (cases sel)
  case (Some a)
  have f: "fields_messages (endpoint_fields env a) = {}" by (simp add: endpoint_fields_def)
  have st: "set_node (attack_story (en_time env) (Some (ag_id a)) None (Some NpEvent) (fst story) (snd story)) \<subseteq> own_asks"
    by (rule subset_trans [OF set_node_attack_story]) auto
  show ?thesis
    unfolding endpoint_sheet_def Some option.case
    by (rule subset_trans [OF info_sheet_messages]) (use st endpoint_footer_asks [of a] in \<open>simp add: f node.set_map image_subset_iff\<close>)
qed (simp add: endpoint_sheet_def info_sheet_def)

lemma endpoint_page_asks: "m \<in> endpoint_page_offers d s \<Longrightarrow> asks_own m"
proof -
  have c: "set_node (endpoint_confirm pending) \<subseteq> own_asks" for pending
    by (simp add: endpoint_confirm_def split: option.split)
  have e: "set_node (event_sheet env False False (\<lambda>e. status_dot ''online'') NpEventClose ev) \<subseteq> own_asks" for env ev
    by (rule subset_trans [OF set_node_event_sheet]) simp_all
  have "set_node (endpoints_page_view d s) \<subseteq> own_asks"
    using endpoint_table_asks endpoint_sheet_asks c e by (simp add: endpoints_page_view_def)
  then show "m \<in> endpoint_page_offers d s \<Longrightarrow> asks_own m"
    by (auto simp: endpoint_page_offers_def) (simp_all add: asks_own_def)
qed

lemma endpoint_offer_verb:
  assumes "p \<in> set (endpoint_offers a)"
  shows "pa_type p = ''isolate'' \<and> ag_status a \<noteq> ''isolated'' \<or> pa_type p = ''unisolate'' \<and> ag_status a = ''isolated'' \<or>
    pa_type p \<in> {''freeze'', ''unfreeze'', ''block_usb'', ''unblock_usb'', ''block_upload'', ''unblock_upload''}"
  using assms by (auto simp: endpoint_offers_def menu_isolation_def menu_freeze_def menu_unfreeze_def drawer_isolation_def
      drawer_freeze_def menu_rest_def split: if_splits)

definition endpoint_free :: "request \<Rightarrow> bool" where
  \<comment> \<open>what the page sends without asking\<close>
  "endpoint_free r \<longleftrightarrow> r \<in> range triage_request \<or> r \<in> bulk_isolate_request ` {a. ag_status a \<noteq> ''isolated''} \<or>
     r \<in> bulk_lift_request ` {a. ag_status a = ''isolated''}"

lemma show_zero: "show_nat 0 = ''0''"
  by code_simp

interpretation endpoints_flow: confirm_flow endpoint_page_offers endpoints_page_update np_pending endpoint_request
  "\<lambda>p. p \<in> set (endpoint_offers (pa_agent p))" endpoint_free
proof
  fix m d s p
  assume m: "m \<in> endpoint_page_offers d s" and p: "np_pending (fst (endpoints_page_update m s)) = Some p"
  from m have "asks_own m" by (rule endpoint_page_asks)
  with p show "np_pending s = Some p \<or> p \<in> set (endpoint_offers (pa_agent p))"
    by (cases m) (auto simp: asks_own_def)
next
  fix m d s r
  assume "r \<in> set (sent (snd (endpoints_page_update m s)))"
  then show "endpoint_free r \<or> (\<exists>p. np_pending s = Some p \<and> r = endpoint_request p)"
    by (cases m) (auto simp: endpoint_free_def isolate_targets_def lift_targets_def endpoint_act_done_def triage_done_def
        bulk_isolated_def bulk_lifted_def reply_toast_def split: option.splits if_splits)
qed

subsection \<open>Properties\<close>


text \<open>Isolation in bulk is the exception among the destructive responses: one press of the bulk button
  sends an isolation to every selected host that is not isolated, with nothing pending before or after,
  and an empty set of targets is reported as a success.\<close>

theorem bulk_isolation_unconfirmed:
  "endpoints_page_update (NpBulkIsolate rows) s = (s, map (\<lambda>a. Send (bulk_isolate_request a)) (isolate_targets rows)) \<and>
   (rows \<noteq> [] \<longrightarrow> NpBulkIsolate rows \<in>
      set_node (data_table (endpoint_table env l) (g\<lparr>gr_selected := rows\<rparr>) tv NpGrid)) \<and>
   snd (endpoints_page_update (NpBulkIsolated []) s) = [Toast True ''Isolated 0/0 endpoints'', ClearSelection] \<and>
   ''isolate'' \<in> set DESTRUCTIVE_RESPONSES"
proof -
  have "snd (endpoints_page_update (NpBulkIsolated []) s) = [Toast True ''Isolated 0/0 endpoints'', ClearSelection]"
    by (simp add: bulk_isolated_def ok_count_def show_zero)
  moreover have "''isolate'' \<in> set DESTRUCTIVE_RESPONSES" by (simp add: DESTRUCTIVE_RESPONSES_def)
  moreover have "NpBulkIsolate rows \<in> set_node (data_table (endpoint_table env l) (g\<lparr>gr_selected := rows\<rparr>) tv NpGrid)"
    if "rows \<noteq> []"
    by (rule bulk_usable [where f = endpoint_bulk]) (simp_all add: endpoint_table_def endpoint_bulk_def that)
  ultimately show ?thesis by simp
qed

subsection \<open>Witnesses\<close>

definition example_data :: endpoints_data where
  "example_data = \<lparr>nd_env = plain_env, nd_agents = Some [example_agent], nd_grid = grid_of [] [example_agent],
     nd_table = table_view0 [], nd_story = (None, True), nd_policy = policy_panel0\<rparr>"


end
