(* ===== verification/DashDetections.thy ===== *)
theory DashDetections
  imports DashPages
begin

section \<open>Page: detections, and AI triage\<close>

text \<open>
  Models \<open>dashboard/app/(app)/detections/page.tsx\<close> and \<open>dashboard/components/ai-triage.tsx\<close>. The page's
  two effects are one step, \<open>XpData\<close>, taken when new data arrives: the deep link first, then the
  refresh of the open detection, both reading the state of the last render. \<open>XpShown\<close> is the second
  effect's run after the open detection changed. The triage card is a component with its own state;
  \<open>AiDetection\<close> is the effect of a changed \<open>detectionId\<close>, and \<open>decode\<close> the unchecked reading of the
  reply's JSON as a triage result.
\<close>

subsection \<open>AI triage\<close>

record ai_triage =
  ai_result :: "triage_result option"
  ai_loading :: bool
  ai_err :: "string option"

datatype ai_msg = AiDetection | AiRun | AiDone action_result

definition ai_triage0 :: ai_triage where
  "ai_triage0 = \<lparr>ai_result = None, ai_loading = False, ai_err = None\<rparr>"

fun ai_update :: "(json \<Rightarrow> triage_result option) \<Rightarrow> string \<Rightarrow> ai_msg \<Rightarrow> ai_triage \<Rightarrow> ai_triage \<times> dash_effect list" where
  "ai_update decode i AiDetection s = (s\<lparr>ai_result := None, ai_err := None, ai_loading := False\<rparr>, [])"
| "ai_update decode i AiRun s =
     (s\<lparr>ai_loading := True, ai_err := None\<rparr>, [Send (post_request (''detections/'' @ i @ ''/triage'') (JObj []))])"
| "ai_update decode i (AiDone r) s =
     (let s1 = s\<lparr>ai_loading := False\<rparr>
      in if ar_ok r then (s1\<lparr>ai_result := Option.bind (ar_data r) decode\<rparr>, [])
         else (s1\<lparr>ai_err := Some (str_or (ar_error r) (''Triage failed (HTTP '' @ show_nat (ar_status r) @ '')''))\<rparr>, []))"

definition conf_color :: "string \<Rightarrow> string" where
  "conf_color confidence =
     (let c = to_lower confidence
      in if c = ''high'' then ''var(--signal)'' else if c = ''medium'' then ''var(--sev-low)'' else ''var(--muted-foreground)'')"

definition tag_span :: "(string \<times> string) list \<Rightarrow> string \<Rightarrow> 'm node" where
  "tag_span as t = el ''span'' as [Txt t]"

definition triage_body :: "triage_result \<Rightarrow> 'm node" where
  "triage_body t =
     divc ''space-y-2.5''
       [divc ''flex flex-wrap items-center gap-2 text-[11px]''
          [tag_span [] (str_or (Some (tr_model t)) ''claude''),
           only_if (tr_confidence t \<noteq> [])
             (tag_span [sty (''color: '' @ conf_color (tr_confidence t) @ ''; border-color: '' @ conf_color (tr_confidence t))]
                (tr_confidence t @ '' confidence'')),
           only_if (tr_cached t) (tag_span [] ''cached'')],
        el ''p'' [] [Txt (tr_summary t)],
        only_if (tr_assessment t \<noteq> []) (Frag [el ''div'' [] [Txt ''Assessment''], el ''p'' [] [Txt (tr_assessment t)]]),
        only_if (tr_recommended_actions t \<noteq> [])
          (Frag [el ''div'' [] [Txt ''Recommended actions''],
                 el ''ol'' [] (map (\<lambda>a. el ''li'' [] [Txt a]) (tr_recommended_actions t))]),
        el ''p'' [] [Txt (''AI-generated '' @ u_middot @ '' verify before acting'')]]"

definition ai_view :: "ai_triage \<Rightarrow> ai_msg node" where
  "ai_view s =
     divc ''rounded-lg border bg-muted/20 p-3''
       [el ''div'' []
          [el ''h4'' [] [el ''Sparkles'' [] [], Txt '' AI Triage''],
           only_if (ai_result s = None)
             (Elem ''Button'' ([(''size'', ''sm''), (''variant'', ''outline'')] @ disabled_attr (ai_loading s))
                (unless_disabled (ai_loading s) [On ''click'' AiRun])
                [if ai_loading s then Frag [el ''Loader2'' [] [], Txt ('' Analyzing'' @ u_ellipsis)] else Txt ''Analyze''])],
        only_if (truthy (ai_err s)) (el ''p'' [] [opt_txt (ai_err s)]),
        only_if (ai_result s = None \<and> \<not> truthy (ai_err s) \<and> \<not> ai_loading s)
          (el ''p'' [] [Txt ''Summarize this detection and suggest next actions.'']),
        (case ai_result s of None \<Rightarrow> Null | Some t \<Rightarrow> triage_body t)]"

subsection \<open>State and data\<close>

record detection_pending =
  xq_detection :: detection
  xq_type :: string
  xq_label :: string
  xq_target :: "json option"
  xq_desc :: string

record detections_page =
  xp_status :: string
  xp_sev :: string
  xp_sel :: "detection option"
  xp_pending :: "detection_pending option"
  xp_event :: "event option"

definition detections_page0 :: detections_page where
  "detections_page0 = \<lparr>xp_status = ''all'', xp_sev = ''all'', xp_sel = None, xp_pending = None, xp_event = None\<rparr>"

datatype dash_detection_msg =
    XpStatus string
  | XpSev string
  | XpData string "detection list"
  | XpShown "detection list"
  | XpSelect detection
  | XpClose
  | XpEvent event
  | XpEventClose
  | XpAsk detection_pending
  | XpDismiss
  | XpConfirm
  | XpReply detection_pending action_result
  | XpStat detection string
  | XpStatDone string action_result
  | XpEscalate detection
  | XpEscalated detection action_result
  | XpRecommend detection recommendation
  | XpBulkStat "detection list" string
  | XpBulkStatDone nat string "action_result list"
  | XpBulkEscalate "detection list"
  | XpBulkEscalated nat action_result
  | XpGo string
  | XpGrid grid_msg
  | XpAi ai_msg

definition detections_path :: "string \<Rightarrow> string" where
  "detections_path status = ''detections?limit=300'' @ (if status \<noteq> ''all'' then ''&status='' @ status else [])"

definition shown_detections :: "string \<Rightarrow> detection list option \<Rightarrow> detection list" where
  "shown_detections sev all = filter (\<lambda>d. sev = ''all'' \<or> de_severity d = sev) (case all of None \<Rightarrow> [] | Some ds \<Rightarrow> ds)"

definition deep_link :: "string \<Rightarrow> detection list \<Rightarrow> detections_page \<Rightarrow> detections_page" where
  "deep_link search all s =
     (let i = search_get search ''id''
      in if truthy i
         then (case find (\<lambda>x. de_id x = the i) all of None \<Rightarrow> s | Some d \<Rightarrow> s\<lparr>xp_sel := Some d\<rparr>)
         else s)"

definition fresh_detection :: "detection list \<Rightarrow> detections_page \<Rightarrow> detection option" where
  \<comment> \<open>what the second effect sets, for the state of the last render\<close>
  "fresh_detection all s =
     (case xp_sel s of
        None \<Rightarrow> None
      | Some c \<Rightarrow>
          (case find (\<lambda>d. de_id d = de_id c) all of
             None \<Rightarrow> None
           | Some f \<Rightarrow> if de_status f \<noteq> de_status c then Some f else None))"

definition new_data :: "string \<Rightarrow> detection list \<Rightarrow> detections_page \<Rightarrow> detections_page" where
  "new_data search all s =
     (let s1 = deep_link search all s
      in case fresh_detection all s of None \<Rightarrow> s1 | Some f \<Rightarrow> s1\<lparr>xp_sel := Some f\<rparr>)"

definition shown_again :: "detection list \<Rightarrow> detections_page \<Rightarrow> detections_page" where
  "shown_again all s = (case fresh_detection all s of None \<Rightarrow> s | Some f \<Rightarrow> s\<lparr>xp_sel := Some f\<rparr>)"

subsection \<open>Actions\<close>

definition stat_request :: "detection \<Rightarrow> string \<Rightarrow> request" where
  "stat_request d st = post_request (''detections/'' @ de_id d @ ''/status'') (JObj [(''status'', JStr st)])"

definition stat_done :: "string \<Rightarrow> action_result \<Rightarrow> dash_effect list" where
  "stat_done st r =
     [reply_toast
        (if st = ''acknowledged'' then ''Detection acknowledged'' else if st = ''closed'' then ''Detection closed''
         else if st = ''open'' then ''Detection reopened'' else ''Detection '' @ st) ''Update failed'' r]"

definition detection_request :: "detection_pending \<Rightarrow> request" where
  "detection_request p = respond_request
     \<lparr>ra_type = xq_type p, ra_agent = de_agent_id (xq_detection p), ra_target = xq_target p,
      ra_reason = Some (''from '' @ de_rule_id (xq_detection p)), ra_detection = Some (de_id (xq_detection p))\<rparr>"

definition detection_act_done :: "detection_pending \<Rightarrow> action_result \<Rightarrow> dash_effect list" where
  "detection_act_done p r = [reply_toast (xq_label p @ '' dispatched to '' @ de_hostname (xq_detection p)) ''Action failed'' r]"

definition escalate_request :: "detection \<Rightarrow> request" where
  "escalate_request d = post_request ''cases''
     (JObj [(''title'', JStr (str_or (Some (de_rule_name d)) (''Detection on '' @ de_hostname d))),
            (''severity'', JStr (de_severity d)), (''agent_id'', JStr (de_agent_id d)), (''hostname'', JStr (de_hostname d)),
            (''detection_ids'', JArr [JStr (de_id d)])])"

definition escalate_done :: "detection \<Rightarrow> action_result \<Rightarrow> dash_effect list" where
  "escalate_done d r = [reply_toast (''Case opened from '' @ de_rule_name d) ''Could not open case'' r]"

definition bulk_stat_done :: "nat \<Rightarrow> string \<Rightarrow> action_result list \<Rightarrow> dash_effect list" where
  "bulk_stat_done n st res =
     (let ok = length (filter ar_ok res)
      in [Toast (ok = n) (show_nat ok @ ''/'' @ show_nat n @ '' '' @ (if st = ''closed'' then ''closed'' else ''acknowledged'')),
          ClearSelection])"

definition top_severity :: "detection list \<Rightarrow> string option" where
  "top_severity rows =
     (case js_sort (\<lambda>a b. sev_rank b - sev_rank a) (map de_severity rows) of [] \<Rightarrow> None | v # vs \<Rightarrow> Some v)"

definition bulk_escalate_request :: "detection list \<Rightarrow> request" where
  "bulk_escalate_request rows = post_request ''cases''
     (JObj ([(''title'', JStr (''Case '' @ u_dash @ '' '' @ show_nat (length rows) @ '' correlated detections''))] @
            field ''severity'' (map_option JStr (top_severity rows)) @
            [(''detection_ids'', JArr (map (\<lambda>d. JStr (de_id d)) rows))]))"

definition bulk_escalate_done :: "nat \<Rightarrow> action_result \<Rightarrow> dash_effect list" where
  "bulk_escalate_done n r =
     [if ar_ok r then Toast True (''Case opened from '' @ show_nat n @ '' detections'')
      else Toast False (str_or (ar_error r) ''Could not open case''), ClearSelection]"

definition ask_isolation :: "detection \<Rightarrow> detection_pending" where
  "ask_isolation d = \<lparr>xq_detection = d, xq_type = ''isolate'', xq_label = ''Isolation'', xq_target = None,
     xq_desc = ''Cut all network traffic from '' @ de_hostname d @ '' (except the management server).''\<rparr>"

definition ask_disable :: "detection \<Rightarrow> string \<Rightarrow> detection_pending" where
  "ask_disable d u = \<lparr>xq_detection = d, xq_type = ''disable_account'', xq_label = ''Account disable'',
     xq_target = Some (JObj [(''user'', JStr u)]), xq_desc = ''Disable login for '' @ u @ '' on '' @ de_hostname d @ ''.''\<rparr>"

definition ask_freeze :: "detection \<Rightarrow> detection_pending" where
  "ask_freeze d = \<lparr>xq_detection = d, xq_type = ''freeze'', xq_label = ''Freeze'', xq_target = None,
     xq_desc = ''Freeze all processes on '' @ de_hostname d @ '' (cgroup.freeze) for forensic hold.''\<rparr>"

definition recommend :: "detection \<Rightarrow> recommendation \<Rightarrow> detections_page \<Rightarrow> detections_page \<times> dash_effect list" where
  "recommend d r s =
     (case r of
        Isolate l \<Rightarrow> (s\<lparr>xp_pending := Some (ask_isolation d)\<rparr>, [])
      | DisableAccount l u \<Rightarrow> (s\<lparr>xp_pending := Some (ask_disable d u)\<rparr>, [])
      | Escalate l \<Rightarrow> (s, [Send (escalate_request d)]))"

fun detections_page_update :: "dash_detection_msg \<Rightarrow> detections_page \<Rightarrow> detections_page \<times> dash_effect list" where
  \<comment> \<open>\<open>XpGrid\<close> and \<open>XpAi\<close> are handled by the table and the triage card\<close>
  "detections_page_update (XpStatus v) s = (s\<lparr>xp_status := v\<rparr>, [])"
| "detections_page_update (XpSev v) s = (s\<lparr>xp_sev := v\<rparr>, [])"
| "detections_page_update (XpData search all) s = (new_data search all s, [])"
| "detections_page_update (XpShown all) s = (shown_again all s, [])"
| "detections_page_update (XpSelect d) s = (s\<lparr>xp_sel := Some d\<rparr>, [])"
| "detections_page_update XpClose s = (s\<lparr>xp_sel := None\<rparr>, [])"
| "detections_page_update (XpEvent e) s = (s\<lparr>xp_event := Some e\<rparr>, [])"
| "detections_page_update XpEventClose s = (s\<lparr>xp_event := None\<rparr>, [])"
| "detections_page_update (XpAsk p) s = (s\<lparr>xp_pending := Some p\<rparr>, [])"
| "detections_page_update XpDismiss s = (s\<lparr>xp_pending := None\<rparr>, [])"
| "detections_page_update XpConfirm s =
     (s\<lparr>xp_pending := None\<rparr>, case xp_pending s of None \<Rightarrow> [] | Some p \<Rightarrow> [Send (detection_request p)])"
| "detections_page_update (XpReply p r) s = (s, detection_act_done p r)"
| "detections_page_update (XpStat d st) s = (s, [Send (stat_request d st)])"
| "detections_page_update (XpStatDone st r) s = (s, stat_done st r)"
| "detections_page_update (XpEscalate d) s = (s, [Send (escalate_request d)])"
| "detections_page_update (XpEscalated d r) s = (s, escalate_done d r)"
| "detections_page_update (XpRecommend d r) s = recommend d r s"
| "detections_page_update (XpBulkStat rows st) s = (s, map (\<lambda>d. Send (stat_request d st)) rows)"
| "detections_page_update (XpBulkStatDone n st res) s = (s, bulk_stat_done n st res)"
| "detections_page_update (XpBulkEscalate rows) s = (s, [Send (bulk_escalate_request rows)])"
| "detections_page_update (XpBulkEscalated n r) s = (s, bulk_escalate_done n r)"
| "detections_page_update (XpGo href) s = (s, [Navigate href])"
| "detections_page_update (XpGrid gm) s = (s, [])"
| "detections_page_update (XpAi am) s = (s, [])"

subsection \<open>View\<close>

definition detection_badge :: "string \<Rightarrow> 'm node" where
  "detection_badge st =
     chip [Txt (cap st)] (Some (if st = ''open'' then ''var(--sev-high)'' else if st = ''acknowledged'' then ''var(--sev-low)'' else ''var(--muted-foreground)''))"

definition dash_detection_fields :: "env \<Rightarrow> detection \<Rightarrow> dash_detection_msg sheet_field list" where
  "dash_detection_fields env d =
     [fld_mono ''Rule'' (vtxt (de_rule_id d)),
      fld_wrap ''Summary'' (vtxt (de_summary d)),
      fld ''Host'' (Some (link_button (XpGo (event_link ''agent_id'' (de_agent_id d))) (de_hostname d))),
      fld ''User'' (if truthy (de_user d) then Some (link_button (XpGo (event_link ''user'' (the (de_user d)))) (the (de_user d))) else None),
      fld ''Tactic'' (vtxt_opt (de_tactic d)),
      fld ''ATT&CK'' (Some (mitre_chips (de_mitre d) None)),
      fld ''Engine'' (Some (chip [Txt (de_engine d)] None)),
      fld ''Status'' (Some (detection_badge (de_status d))),
      fld ''Assigned'' (vtxt_opt (de_assigned_to d)),
      fld_mono ''Detected'' (vtxt (en_datetime env (de_ts d)))]"

definition detection_menu :: "detection \<Rightarrow> dash_detection_msg node" where
  "detection_menu d =
     divc ''flex items-center justify-end gap-0.5''
       [inspect (XpSelect d) ''Inspect'',
        el ''DropdownMenu'' []
          [el ''DropdownMenuTrigger'' [(''aria-label'', ''Detection actions'')] [el ''MoreHorizontal'' [] []],
           menu_item False (XpStat d ''acknowledged'') [el ''Check'' [] [], Txt '' Acknowledge''],
           menu_item False (XpStat d ''closed'') [el ''X'' [] [], Txt '' Close''],
           menu_item False (XpEscalate d) [el ''FolderPlus'' [] [], Txt '' Escalate to case''],
           el ''DropdownMenuSeparator'' [] [],
           menu_item True (XpAsk (ask_isolation d)) [el ''ShieldOff'' [] [], Txt '' Isolate host''],
           (if truthy (de_user d) \<and> de_user d \<noteq> Some ''root''
            then menu_item True (XpAsk (ask_disable d (the (de_user d)))) [el ''UserX'' [] [], Txt ('' Disable '' @ the (de_user d))]
            else Null),
           menu_item True (XpAsk (ask_freeze d)) [el ''Snowflake'' [] [], Txt '' Freeze host'']]]"

definition detection_columns :: "env \<Rightarrow> (detection, dash_detection_msg) column list" where
  "detection_columns env =
     [col ''severity'' (HSort ''Sev'') (\<lambda>d. dash_sev (de_severity d)),
      col ''rule_name'' (HSort ''Detection'') (\<lambda>d. mono (de_rule_name d)),
      col ''hostname'' (HSort ''Host'') (\<lambda>d. muted (de_hostname d)),
      col ''tactic'' (HText ''Tactic'') (\<lambda>d. muted (or_dash (de_tactic d))),
      col ''mitre'' (HText ''ATT&CK'') (\<lambda>d. mitre_chips (de_mitre d) (Some 2)),
      col ''engine'' (HText ''Engine'') (\<lambda>d. chip [Txt (de_engine d)] None),
      col ''status'' (HSort ''Status'') (\<lambda>d. detection_badge (de_status d)),
      col ''ts'' (HSort ''When'') (\<lambda>d. muted (ago (en_now env) (de_ts d))),
      fixed_col ''actions'' HNone detection_menu]"

definition detection_filters :: "detections_page \<Rightarrow> dash_detection_msg node" where
  "detection_filters s =
     Frag [dash_select (xp_status s) XpStatus
             (map (\<lambda>v. (v, if v = ''all'' then ''All statuses'' else cap v)) [''all'', ''open'', ''acknowledged'', ''closed'']),
           dash_select (xp_sev s) XpSev
             (map (\<lambda>v. (v, if v = ''all'' then ''All severities'' else v)) [''all'', ''critical'', ''high'', ''medium'', ''low''])]"

definition detection_bulk :: "detection list \<Rightarrow> dash_detection_msg node" where
  "detection_bulk rows =
     Frag [button ''outline'' (XpBulkStat rows ''acknowledged'') [el ''Check'' [] [], Txt '' Acknowledge''],
           button ''outline'' (XpBulkStat rows ''closed'') [el ''X'' [] [], Txt '' Close''],
           button ''outline'' (XpBulkEscalate rows) [el ''FolderPlus'' [] [], Txt '' Escalate to case'']]"

definition detection_table :: "env \<Rightarrow> bool \<Rightarrow> detections_page \<Rightarrow> (detection, dash_detection_msg) table_props" where
  "detection_table env loading s =
     \<lparr>tp_columns = detection_columns env, tp_row_click = Some XpSelect, tp_placeholder = Some (''Filter detections'' @ u_ellipsis),
      tp_page_size = None, tp_toolbar = Some (detection_filters s), tp_initial_sort = [(''ts'', True)],
      tp_empty = Some (Txt ''No detections match these filters''), tp_loading = loading, tp_row_id = True,
      tp_table_id = Some ''detections'', tp_selection = True, tp_bulk = Some detection_bulk, tp_density = True\<rparr>"

definition detection_footer :: "detection \<Rightarrow> dash_detection_msg node" where
  "detection_footer d =
     divc ''flex flex-wrap gap-2''
       [button ''outline'' (XpStat d ''acknowledged'') [el ''Check'' [] [], Txt '' Acknowledge''],
        button ''outline'' (XpStat d ''closed'') [el ''X'' [] [], Txt '' Close''],
        button ''outline'' (XpEscalate d) [el ''FolderPlus'' [] [], Txt '' Escalate''],
        button ''destructive'' (XpAsk (ask_isolation d)) [el ''ShieldOff'' [] [], Txt '' Isolate'']]"

definition detection_incident :: "detection \<Rightarrow> incident" where
  "detection_incident d =
     \<lparr>in_severity = de_severity d, in_hostname = Some (de_hostname d), in_agent_id = Some (de_agent_id d), in_user = de_user d,
      in_rule_name = Some (de_rule_name d), in_summary = Some (de_summary d), in_engine = Some (de_engine d), in_tactic = de_tactic d,
      in_mitre = de_mitre d, in_detection_count = None,
      in_event_count = Some (int (length (case de_event_ids d of None \<Rightarrow> [] | Some l \<Rightarrow> l)))\<rparr>"

definition detection_sheet :: "env \<Rightarrow> event list option \<times> bool \<Rightarrow> ai_triage \<Rightarrow> detection option \<Rightarrow> dash_detection_msg node" where
  \<comment> \<open>the attack story polls \<open>story_path (Some (de_agent_id d)) 120\<close>\<close>
  "detection_sheet env story ai sel =
     (case sel of
        None \<Rightarrow> info_sheet False XpClose [] None None [] None None
      | Some d \<Rightarrow>
          info_sheet True XpClose (de_rule_name d)
            (Some (de_severity d @ '' '' @ u_middot @ '' '' @ de_engine d @ '' engine'')) (Some (dash_sev (de_severity d)))
            (dash_detection_fields env d)
            (Some (divc ''space-y-4''
              [kill_chain_strip (de_mitre d) (de_tactic d),
               incident_summary (Some (XpRecommend d)) (detection_incident d),
               map_node XpAi (ai_view ai),
               attack_story (en_time env) (Some (de_agent_id d)) (de_event_ids d) (Some XpEvent) (fst story) (snd story)]))
            (Some (detection_footer d)))"

definition detection_confirm :: "detection_pending option \<Rightarrow> dash_detection_msg node" where
  "detection_confirm pending =
     (case pending of
        None \<Rightarrow> confirm_dialog False XpDismiss [] None None False XpConfirm
      | Some p \<Rightarrow> confirm_dialog True XpDismiss (xq_label p @ '' '' @ u_dash @ '' '' @ de_hostname (xq_detection p) @ ''?'')
          (Some (xq_desc p)) (Some (xq_label p)) True XpConfirm)"

record detections_data =
  xd_env :: env
  xd_all :: "detection list option"
  xd_grid :: "detection grid"
  xd_table :: table_view
  xd_story :: "event list option \<times> bool"
  xd_ai :: ai_triage

definition detections_page_view :: "detections_data \<Rightarrow> detections_page \<Rightarrow> dash_detection_msg node" where
  \<comment> \<open>\<open>xd_grid\<close> is the table library's answer for \<open>shown_detections (xp_sev s) (xd_all d)\<close>\<close>
  "detections_page_view d s =
     divc ''reveal space-y-4''
       [data_table (detection_table (xd_env d) (xd_all d = None) s) (xd_grid d) (xd_table d) XpGrid,
        detection_sheet (xd_env d) (xd_story d) (xd_ai d) (xp_sel s),
        event_sheet (xd_env d) True True (\<lambda>e. dash_sev (ev_severity e)) XpEventClose (xp_event s),
        detection_confirm (xp_pending s)]"

subsection \<open>Lemmas\<close>

definition detection_page_offers :: "detections_data \<Rightarrow> detections_page \<Rightarrow> dash_detection_msg set" where
  \<comment> \<open>the user's messages, new data and address, and replies\<close>
  "detection_page_offers d s =
     set_node (detections_page_view d s) \<union> {XpData q ds | q ds. True} \<union> range XpShown \<union> {XpReply p r | p r. True} \<union>
     {XpStatDone st r | st r. True} \<union> {XpEscalated x r | x r. True} \<union> {XpBulkStatDone n st rs | n st rs. True} \<union>
     {XpBulkEscalated n r | n r. True}"

definition detection_offers :: "detection \<Rightarrow> detection_pending list" where
  "detection_offers d =
     [ask_isolation d, ask_freeze d] @
     (if truthy (de_user d) \<and> de_user d \<noteq> Some ''root'' then [ask_disable d (the (de_user d))] else [])"

definition asks_for_own :: "dash_detection_msg \<Rightarrow> bool" where
  \<comment> \<open>a request for confirmation, a recommendation and a change of status name what the page offers for that detection, a link goes to its host or user\<close>
  "asks_for_own m =
     (case m of
        XpAsk p \<Rightarrow> p \<in> set (detection_offers (xq_detection p))
      | XpRecommend d r \<Rightarrow> r \<in> set (recommendations (detection_incident d))
      | XpStat d st \<Rightarrow> st \<in> {''acknowledged'', ''closed''}
      | XpBulkStat rows st \<Rightarrow> st \<in> {''acknowledged'', ''closed''}
      | XpGo h \<Rightarrow> h \<in> range (event_link ''agent_id'') \<union> range (event_link ''user'')
      | _ \<Rightarrow> True)"

abbreviation own_detection_asks :: "dash_detection_msg set" where
  "own_detection_asks \<equiv> Collect asks_for_own"

lemma asks_for_own_simps [simp]:
  "asks_for_own (XpAsk (ask_isolation d))" "asks_for_own (XpAsk (ask_freeze d))"
  "truthy (de_user d) \<Longrightarrow> de_user d \<noteq> Some ''root'' \<Longrightarrow> asks_for_own (XpAsk (ask_disable d (the (de_user d))))"
  "asks_for_own (XpRecommend d r) \<longleftrightarrow> r \<in> set (recommendations (detection_incident d))"
  "asks_for_own (XpStat d st) \<longleftrightarrow> st \<in> {''acknowledged'', ''closed''}"
  "asks_for_own (XpBulkStat rows st) \<longleftrightarrow> st \<in> {''acknowledged'', ''closed''}"
  by (simp_all add: asks_for_own_def detection_offers_def ask_isolation_def ask_freeze_def ask_disable_def)

lemma asks_for_own_others [simp]:
  "asks_for_own (XpStatus v)" "asks_for_own (XpSev v)" "asks_for_own (XpSelect d)" "asks_for_own XpClose" "asks_for_own (XpEvent e)"
  "asks_for_own XpEventClose" "asks_for_own XpDismiss" "asks_for_own XpConfirm" "asks_for_own (XpEscalate d)"
  "asks_for_own (XpBulkEscalate rows)" "asks_for_own (XpGo (event_link ''agent_id'' v))" "asks_for_own (XpGo (event_link ''user'' v))" "asks_for_own (XpGrid g)" "asks_for_own (XpAi am)"
  by (simp_all add: asks_for_own_def)

lemma set_node_detection_badge [simp]: "set_node (detection_badge st :: 'm node) = {}"
  by (simp add: detection_badge_def)

lemma set_node_incident_summary: "set_node (incident_summary (Some f) x) \<subseteq> f ` set (recommendations x)"
proof -
  have b: "set_node (rec_button f r) = {f r}" for r by (cases r) (simp_all add: rec_button_def)
  show ?thesis by (auto simp: incident_summary_def b)
qed

lemma detection_table_asks: "set_node (data_table (detection_table env l s) g tv XpGrid) \<subseteq> own_detection_asks"
proof -
  have m: "set_node (detection_menu d) \<subseteq> own_detection_asks" for d by (simp add: detection_menu_def)
  have c: "cell_messages (detection_table env l s) g \<subseteq> own_detection_asks"
  proof (rule cell_messages_le)
    fix c r
    assume "c \<in> set (tp_columns (detection_table env l s))"
    then show "set_node (co_cell c r) \<subseteq> own_detection_asks"
      using m [of r] by (auto simp: detection_table_def detection_columns_def)
  qed
  have b: "bulk_messages (detection_table env l s) g \<subseteq> own_detection_asks"
    by (rule bulk_messages_le [of detection_bulk]) (simp_all add: detection_bulk_def detection_table_def)
  have k: "click_messages (detection_table env l s) g \<subseteq> own_detection_asks"
    by (rule click_messages_le [of XpSelect]) (simp_all add: detection_table_def)
  have n: "range XpGrid \<subseteq> own_detection_asks" by auto
  have fl: "set_node (detection_filters s) \<subseteq> own_detection_asks" by (auto simp: detection_filters_def)
  show ?thesis
    by (rule subset_trans [OF data_table_messages]) (use b k c n fl in \<open>simp add: detection_table_def\<close>)
qed

lemma detection_sheet_asks: "set_node (detection_sheet env story ai sel) \<subseteq> own_detection_asks"
proof (cases sel)
  case (Some d)
  have f: "fields_messages (dash_detection_fields env d) \<subseteq> own_detection_asks" by (simp add: dash_detection_fields_def)
  have st: "set_node (attack_story (en_time env) (Some (de_agent_id d)) (de_event_ids d) (Some XpEvent) (fst story) (snd story)) \<subseteq> own_detection_asks"
    by (rule subset_trans [OF set_node_attack_story]) auto
  have i: "set_node (incident_summary (Some (XpRecommend d)) (detection_incident d)) \<subseteq> own_detection_asks"
    by (rule subset_trans [OF set_node_incident_summary]) auto
  have ft: "set_node (detection_footer d) \<subseteq> own_detection_asks" by (simp add: detection_footer_def)
  show ?thesis
    unfolding detection_sheet_def Some option.case
    by (rule subset_trans [OF info_sheet_messages]) (use f st i ft in \<open>simp add: node.set_map image_subset_iff\<close>)
qed (simp add: detection_sheet_def info_sheet_def)

lemma detection_page_asks: "m \<in> detection_page_offers d s \<Longrightarrow> asks_for_own m"
proof -
  have c: "set_node (detection_confirm pending) \<subseteq> own_detection_asks" for pending
    by (simp add: detection_confirm_def split: option.split)
  have e: "set_node (event_sheet env True True (\<lambda>e. dash_sev (ev_severity e)) XpEventClose ev) \<subseteq> own_detection_asks" for env ev
    by (rule subset_trans [OF set_node_event_sheet]) simp_all
  have "set_node (detections_page_view d s) \<subseteq> own_detection_asks"
    using detection_table_asks detection_sheet_asks c e by (simp add: detections_page_view_def)
  then show "m \<in> detection_page_offers d s \<Longrightarrow> asks_for_own m"
    by (auto simp: detection_page_offers_def) (simp_all add: asks_for_own_def)
qed

lemma recommended_disable:
  "DisableAccount l u \<in> set (recommendations x) \<Longrightarrow> truthy (in_user x) \<and> in_user x \<noteq> Some ''root'' \<and> u = the (in_user x)"
  by (auto simp: recommendations_def split: if_splits)

lemma recommended_offered:
  assumes "r \<in> set (recommendations (detection_incident d))" and "xp_pending (fst (recommend d r s)) = Some p"
  shows "xp_pending s = Some p \<or> p \<in> set (detection_offers (xq_detection p))"
proof (cases r)
  case (DisableAccount l u)
  have "in_user (detection_incident d) = de_user d" by (simp add: detection_incident_def)
  then have "p = ask_disable d (the (de_user d))" "truthy (de_user d)" "de_user d \<noteq> Some ''root''"
    using assms recommended_disable [of l u "detection_incident d"] by (simp_all add: DisableAccount recommend_def)
  then show ?thesis by (simp add: detection_offers_def ask_disable_def)
qed (use assms(2) in \<open>simp_all add: recommend_def detection_offers_def\<close>, auto simp: ask_isolation_def)

definition detection_free :: "request \<Rightarrow> bool" where
  \<comment> \<open>what the page sends without asking\<close>
  "detection_free r \<longleftrightarrow> (\<exists>d. \<exists>st\<in>{''acknowledged'', ''closed''}. r = stat_request d st) \<or>
     r \<in> range escalate_request \<or> r \<in> range bulk_escalate_request"

lemma recommend_sends: "q \<in> set (sent (snd (recommend d r s))) \<Longrightarrow> q = escalate_request d"
  by (cases r) (simp_all add: recommend_def)

lemma detection_offer_shape:
  assumes "p \<in> set (detection_offers d)"
  shows "xq_type p \<in> {''isolate'', ''freeze''} \<and> xq_target p = None \<or> xq_type p = ''disable_account'' \<and>
      (\<exists>u. de_user d = Some u \<and> u \<notin> {[], ''root''} \<and> xq_target p = Some (JObj [(''user'', JStr u)]))"
  using assms by (auto simp: detection_offers_def ask_isolation_def ask_freeze_def ask_disable_def truthy_def split: if_splits option.splits)

interpretation detections_flow: confirm_flow detection_page_offers detections_page_update xp_pending detection_request
  "\<lambda>p. p \<in> set (detection_offers (xq_detection p))" detection_free
proof
  fix m d s p
  assume m: "m \<in> detection_page_offers d s" and p: "xp_pending (fst (detections_page_update m s)) = Some p"
  from m have "asks_for_own m" by (rule detection_page_asks)
  with p show "xp_pending s = Some p \<or> p \<in> set (detection_offers (xq_detection p))"
    using recommended_offered
    by (cases m) (auto simp: asks_for_own_def new_data_def shown_again_def deep_link_def Let_def split: option.splits if_splits)
next
  fix m d s r
  assume m: "m \<in> detection_page_offers d s" and r: "r \<in> set (sent (snd (detections_page_update m s)))"
  from m have "asks_for_own m" by (rule detection_page_asks)
  with r show "detection_free r \<or> (\<exists>p. xp_pending s = Some p \<and> r = detection_request p)"
    by (cases m) (auto dest!: recommend_sends simp: detection_free_def detection_act_done_def stat_done_def escalate_done_def bulk_stat_done_def
        bulk_escalate_done_def reply_toast_def Let_def split: option.splits if_splits)
qed

subsection \<open>Properties\<close>


text \<open>New data refreshes the open detection: without a deep link, the drawer stays on its detection and
  shows the status that the data gives it, if it is in the data.\<close>

theorem open_detection_fresh:
  assumes "xp_sel s = Some d" and "\<not> truthy (search_get search ''id'')" and "find (\<lambda>x. de_id x = de_id d) all = Some f"
  shows "\<exists>e. xp_sel (new_data search all s) = Some e \<and> de_id e = de_id d \<and> de_status e = de_status f \<and>
    shown_again all (new_data search all s) = new_data search all s"
proof -
  have i: "de_id f = de_id d" using assms(3) by (auto simp: find_Some_iff)
  have n: "new_data search all s = (if de_status f \<noteq> de_status d then s\<lparr>xp_sel := Some f\<rparr> else s)"
    using assms by (simp add: new_data_def deep_link_def fresh_detection_def)
  show ?thesis using assms(1,3) by (simp add: n i shown_again_def fresh_detection_def)
qed

text \<open>A deep link is not read once: whenever new data arrives while the address carries it, the drawer
  shows the linked detection again, also when it was closed, and also when another detection is open
  whose status did not change.\<close>

theorem deep_link_reopens:
  assumes "search_get search ''id'' = Some i" and "i \<noteq> []" and "find (\<lambda>x. de_id x = i) all = Some d"
    and "fresh_detection all s = None"
  shows "xp_sel (fst (detections_page_update (XpData search all) s)) = Some d"
  using assms by (simp add: new_data_def deep_link_def truthy_def)

text \<open>The triage card forgets everything when another detection is shown, but it does not withdraw a
  request that is under way: its result is then shown for the new detection.\<close>

theorem triage_of_another:
  assumes "ar_ok r" and "Option.bind (ar_data r) decode = Some t"
  shows "fst (ai_update decode i2 AiDetection (fst (ai_update decode i1 AiRun s))) = ai_triage0 \<and>
    ai_result (fst (ai_update decode i2 (AiDone r) (fst (ai_update decode i2 AiDetection (fst (ai_update decode i1 AiRun s)))))) = Some t"
  using assms by (simp add: ai_triage0_def Let_def)

subsection \<open>Witnesses\<close>

lemma isolate_offered: "xp_sel s = Some d \<Longrightarrow> XpAsk (ask_isolation d) \<in> detection_page_offers x s"
proof -
  have "XpAsk (ask_isolation d) \<in> set_node (detection_sheet env story ai (Some d))" for env story ai
    by (simp add: detection_sheet_def set_node_info_sheet detection_footer_def)
  then show "xp_sel s = Some d \<Longrightarrow> XpAsk (ask_isolation d) \<in> detection_page_offers x s"
    by (simp add: detection_page_offers_def detections_page_view_def)
qed

lemma detection_confirm_offered: "xp_pending s = Some p \<Longrightarrow> XpConfirm \<in> detection_page_offers x s"
  by (simp add: detection_page_offers_def detections_page_view_def detection_confirm_def)

lemma detection_response_possible:
  assumes "search_get search ''id'' = Some (de_id d)" and "de_id d \<noteq> []"
  shows "page_run detection_page_offers detections_page_update detections_page0 [detection_request (ask_isolation d)]
    (detections_page0\<lparr>xp_sel := Some d\<rparr>)"
proof -
  fix x
  let ?run = "page_run detection_page_offers detections_page_update detections_page0"
  have "XpData search [d] \<in> detection_page_offers x detections_page0" by (simp add: detection_page_offers_def)
  from page_run_step [OF page_run.start [of detection_page_offers detections_page_update] this]
  have "?run [] (new_data search [d] detections_page0)" by simp
  moreover have "new_data search [d] detections_page0 = detections_page0\<lparr>xp_sel := Some d\<rparr>"
    using assms by (simp add: new_data_def deep_link_def fresh_detection_def detections_page0_def truthy_def)
  ultimately have 1: "?run [] (detections_page0\<lparr>xp_sel := Some d\<rparr>)" by simp
  have "XpAsk (ask_isolation d) \<in> detection_page_offers x (detections_page0\<lparr>xp_sel := Some d\<rparr>)" by (rule isolate_offered) simp
  from page_run_step [OF 1 this]
  have 2: "?run [] (detections_page0\<lparr>xp_sel := Some d, xp_pending := Some (ask_isolation d)\<rparr>)" by simp
  have "XpConfirm \<in> detection_page_offers x (detections_page0\<lparr>xp_sel := Some d, xp_pending := Some (ask_isolation d)\<rparr>)"
    by (rule detection_confirm_offered) simp
  from page_run_step [OF 2 this] show ?thesis by (simp add: detections_page0_def)
qed

definition example_detection :: "string \<Rightarrow> string \<Rightarrow> detection" where
  "example_detection i st = \<lparr>de_id = i, de_ts = [], de_rule_id = ''r1'', de_rule_name = ''Miner'', de_severity = ''high'', de_category = [],
     de_agent_id = ''a1'', de_hostname = ''web-1'', de_user = Some ''alice'', de_summary = [], de_mitre = None, de_tactic = None,
     de_status = st, de_event_ids = None, de_engine = ''sigma'', de_assigned_to = None\<rparr>"


lemma open_detection_fresh_witness:
  "\<exists>e. xp_sel (new_data [] [example_detection ''d1'' ''closed''] (detections_page0\<lparr>xp_sel := Some (example_detection ''d1'' ''open'')\<rparr>)) = Some e \<and>
     de_status e = ''closed''"
proof -
  have q: "search_get [] ''id'' = None" by code_simp
  show ?thesis
    using open_detection_fresh [of "detections_page0\<lparr>xp_sel := Some (example_detection ''d1'' ''open'')\<rparr>" "example_detection ''d1'' ''open''" "[]"
      "[example_detection ''d1'' ''closed'']" "example_detection ''d1'' ''closed''"]
    by (auto simp: q truthy_def example_detection_def)
qed

lemma deep_link_reopens_witness:
  "xp_sel (fst (detections_page_update (XpData ''?id=d1'' [example_detection ''d1'' ''open'', example_detection ''d2'' ''open''])
     (detections_page0\<lparr>xp_sel := Some (example_detection ''d2'' ''open'')\<rparr>))) = Some (example_detection ''d1'' ''open'')"
proof -
  have q: "search_get ''?id=d1'' ''id'' = Some ''d1''" by code_simp
  show ?thesis
    by (rule deep_link_reopens [OF q]) (simp_all add: fresh_detection_def example_detection_def)
qed

definition example_result :: triage_result where
  "example_result = \<lparr>tr_summary = ''s'', tr_assessment = [], tr_recommended_actions = [], tr_confidence = ''high'', tr_model = [],
     tr_generated_at = [], tr_cached = False\<rparr>"

lemma triage_of_another_witness:
  "ai_result (fst (ai_update (\<lambda>j. Some example_result) ''d2'' (AiDone \<lparr>ar_ok = True, ar_status = 200, ar_error = None, ar_data = Some JNull\<rparr>)
     (fst (ai_update (\<lambda>j. Some example_result) ''d2'' AiDetection (fst (ai_update (\<lambda>j. Some example_result) ''d1'' AiRun ai_triage0)))))) = Some example_result"
  using triage_of_another [of "\<lparr>ar_ok = True, ar_status = 200, ar_error = None, ar_data = Some JNull\<rparr>" "\<lambda>j. Some example_result" example_result
    "''d2''" "''d1''" ai_triage0] by simp

end
