(* ===== verification/DashCases.thy ===== *)
theory DashCases
  imports DashPages
begin

section \<open>Page: cases\<close>

text \<open>
  Models \<open>dashboard/app/(app)/cases/page.tsx\<close>: the table, the dialog that opens a case, and the drawer
  of the selected case. The effect that loads the selected case runs when the selection or the list of
  cases changes; each run is a generation, and its cleanup switches the older one off, so a load's
  reply (\<open>KpLoaded\<close>) carries the generation that asked for it. The replies to a change and to a note
  carry none. A reply's JSON is read as a case detail; \<open>None\<close> where that throws.
\<close>

definition CASE_STATUSES :: "string list" where
  "CASE_STATUSES = [''open'', ''investigating'', ''contained'', ''closed'']"

definition case_color :: "string \<Rightarrow> string" where
  "case_color s =
     (if s = ''open'' then ''var(--sev-high)'' else if s = ''investigating'' then ''var(--sev-medium)''
      else if s = ''contained'' then ''var(--sev-low)'' else ''var(--muted-foreground)'')"

definition case_badge :: "string \<Rightarrow> 'm node" where
  "case_badge s = chip [Txt (cap s)] (Some (case_color s))"

subsection \<open>New case\<close>

record new_case_dialog =
  nc_open :: bool
  nc_title :: string
  nc_severity :: string
  nc_hostname :: string
  nc_busy :: bool

definition new_case0 :: new_case_dialog where
  "new_case0 = \<lparr>nc_open = False, nc_title = [], nc_severity = ''medium'', nc_hostname = [], nc_busy = False\<rparr>"

datatype new_case_msg = NcOpen bool | NcTitle string | NcSeverity string | NcHostname string | NcSubmit | NcDone action_result

definition new_case_request :: "new_case_dialog \<Rightarrow> request" where
  "new_case_request n = post_request ''cases''
     (JObj ([(''title'', JStr (trim (nc_title n))), (''severity'', JStr (nc_severity n))] @
            (if trim (nc_hostname n) \<noteq> [] then [(''hostname'', JStr (trim (nc_hostname n)))] else []) @
            [(''detection_ids'', JArr [])]))"

definition created_id :: "action_result \<Rightarrow> string option" where
  \<comment> \<open>\<open>r.data?.id\<close>, if it is a non-empty string\<close>
  "created_id r = (case Option.bind (ar_data r) (\<lambda>j. json_get j ''id'') of Some (JStr i) \<Rightarrow> if i \<noteq> [] then Some i else None | _ \<Rightarrow> None)"

fun new_case_update :: "new_case_msg \<Rightarrow> new_case_dialog \<Rightarrow> new_case_dialog \<times> dash_effect list \<times> string option" where
  \<comment> \<open>the third part is the call of \<open>onCreated\<close>\<close>
  "new_case_update (NcOpen b) n = (n\<lparr>nc_open := b\<rparr>, [], None)"
| "new_case_update (NcTitle t) n = (n\<lparr>nc_title := t\<rparr>, [], None)"
| "new_case_update (NcSeverity v) n = (n\<lparr>nc_severity := v\<rparr>, [], None)"
| "new_case_update (NcHostname h) n = (n\<lparr>nc_hostname := h\<rparr>, [], None)"
| "new_case_update NcSubmit n =
     (if trim (nc_title n) = [] then (n, [Toast False ''Title required''], None)
      else (n\<lparr>nc_busy := True\<rparr>, [Send (new_case_request n)], None))"
| "new_case_update (NcDone r) n =
     (let n1 = n\<lparr>nc_busy := False\<rparr>
      in if ar_ok r
         then (n1\<lparr>nc_open := False, nc_title := [], nc_hostname := []\<rparr>, [Toast True ''Case opened''], created_id r)
         else (n1, [reply_toast [] ''Could not create case'' r], None))"

definition new_case_view :: "new_case_dialog \<Rightarrow> new_case_msg node" where
  "new_case_view n =
     Frag [Elem ''Button'' [(''size'', ''sm'')] [On ''click'' (NcOpen True)] [el ''Plus'' [] [], Txt '' New case''],
       (if \<not> nc_open n then Null
        else Elem ''Dialog'' [] [On ''openChange'' (NcOpen False)]
          [el ''DialogTitle'' [] [Txt ''Open a case''],
           el ''DialogDescription'' [] [Txt ''Cases group related detections for investigation. You can also escalate a detection straight into a case from the Detections page.''],
           el ''Label'' [] [Txt ''Title''],
           text_input (nc_title n) NcTitle [(''placeholder'', ''e.g. Suspected credential theft on web-01'')],
           el ''Label'' [] [Txt ''Severity''],
           dash_select (nc_severity n) NcSeverity (map (\<lambda>v. (v, cap v)) [''critical'', ''high'', ''medium'', ''low'', ''info'']),
           el ''Label'' [] [Txt ''Host (optional)''],
           text_input (nc_hostname n) NcHostname [(''placeholder'', ''hostname'')],
           button ''outline'' (NcOpen False) [Txt ''Cancel''],
           Elem ''Button'' (disabled_attr (nc_busy n)) (unless_disabled (nc_busy n) [On ''click'' NcSubmit])
             [Txt (if nc_busy n then ''Opening'' @ u_ellipsis else ''Open case'')]])]"

subsection \<open>State and steps\<close>

record cases_page =
  kp_status :: string
  kp_sel :: "string option"
  kp_detail :: "case_detail option"
  kp_note :: string
  kp_event :: "event option"
  kp_gen :: nat
  kp_new :: new_case_dialog

definition cases_page0 :: cases_page where
  "cases_page0 = \<lparr>kp_status = ''all'', kp_sel = None, kp_detail = None, kp_note = [], kp_event = None, kp_gen = 0, kp_new = new_case0\<rparr>"

datatype case_reply = CaseThrows | CaseStatus nat "case_detail option"

datatype dash_case_msg =
    KpStatus string
  | KpData
  | KpSelect string
  | KpClose
  | KpLoaded nat case_reply
  | KpUpdate string "(string \<times> json) list" string
  | KpUpdated string case_reply
  | KpNote string
  | KpAddNote string
  | KpNoted case_reply
  | KpEvent event
  | KpEventClose
  | KpGo string
  | KpNew new_case_msg
  | KpGrid grid_msg

definition cases_path :: "string \<Rightarrow> string" where
  "cases_path status = ''cases?limit=300'' @ (if status \<noteq> ''all'' then ''&status='' @ status else [])"

definition load_request :: "string \<Rightarrow> request" where
  "load_request i = \<lparr>rq_method = ''GET'', rq_url = ''/api/proxy/cases/'' @ i, rq_headers = [], rq_body = None, rq_cache = Some ''no-store''\<rparr>"

definition load_case :: "cases_page \<Rightarrow> cases_page \<times> dash_effect list" where
  \<comment> \<open>a run of the effect on \<open>[selId, cases]\<close>\<close>
  "load_case s =
     (let s1 = s\<lparr>kp_gen := kp_gen s + 1\<rparr>
      in if \<not> truthy (kp_sel s) then (s1\<lparr>kp_detail := None\<rparr>, []) else (s1, [Send (load_request (the (kp_sel s)))]))"

definition select_case :: "string option \<Rightarrow> cases_page \<Rightarrow> cases_page \<times> dash_effect list" where
  \<comment> \<open>setting the same identifier again renders nothing and runs no effect\<close>
  "select_case i s = (if kp_sel s = i then (s, []) else load_case (s\<lparr>kp_sel := i\<rparr>))"

definition case_loaded :: "nat \<Rightarrow> case_reply \<Rightarrow> cases_page \<Rightarrow> cases_page" where
  "case_loaded k r s =
     (case r of
        CaseStatus st (Some c) \<Rightarrow> if status_ok st \<and> k = kp_gen s \<and> truthy (kp_sel s) then s\<lparr>kp_detail := Some c\<rparr> else s
      | _ \<Rightarrow> s)"

definition update_request :: "string \<Rightarrow> (string \<times> json) list \<Rightarrow> request" where
  "update_request i body = post_request (''cases/'' @ i) (JObj body)"

definition case_updated :: "string \<Rightarrow> case_reply \<Rightarrow> cases_page \<Rightarrow> cases_page \<times> dash_effect list" where
  \<comment> \<open>a request that throws is an unhandled rejection: nothing is shown\<close>
  "case_updated ok r s =
     (case r of
        CaseThrows \<Rightarrow> (s, [])
      | CaseStatus st c \<Rightarrow>
          if status_ok st
          then (case c of None \<Rightarrow> (s, [Toast True ok]) | Some d \<Rightarrow> (s\<lparr>kp_detail := Some d\<rparr>, [Toast True ok]))
          else (s, [Toast False (''Failed ('' @ show_nat st @ '')'')]))"

definition note_request :: "string \<Rightarrow> string \<Rightarrow> request" where
  "note_request i t = post_request (''cases/'' @ i @ ''/notes'') (JObj [(''body'', JStr t)])"

definition add_note :: "string \<Rightarrow> cases_page \<Rightarrow> cases_page \<times> dash_effect list" where
  "add_note i s = (if trim (kp_note s) = [] then (s, []) else (s, [Send (note_request i (kp_note s))]))"

definition case_noted :: "case_reply \<Rightarrow> cases_page \<Rightarrow> cases_page \<times> dash_effect list" where
  "case_noted r s =
     (case r of
        CaseThrows \<Rightarrow> (s, [])
      | CaseStatus st c \<Rightarrow>
          if status_ok st
          then (case c of None \<Rightarrow> (s, [Toast True ''Note added''])
                | Some d \<Rightarrow> (s\<lparr>kp_detail := Some d, kp_note := []\<rparr>, [Toast True ''Note added'']))
          else (s, [Toast False ''Failed to add note'']))"

definition new_case_step :: "new_case_msg \<Rightarrow> cases_page \<Rightarrow> cases_page \<times> dash_effect list" where
  "new_case_step m s =
     (case new_case_update m (kp_new s) of
        (n, es, None) \<Rightarrow> (s\<lparr>kp_new := n\<rparr>, es)
      | (n, es, Some i) \<Rightarrow> (case select_case (Some i) (s\<lparr>kp_new := n\<rparr>) of (t, fs) \<Rightarrow> (t, es @ fs)))"

fun cases_page_update :: "dash_case_msg \<Rightarrow> cases_page \<Rightarrow> cases_page \<times> dash_effect list" where
  \<comment> \<open>\<open>KpData\<close>: the hook has a new list of cases; \<open>KpGrid\<close> is handled by the table\<close>
  "cases_page_update (KpStatus v) s = (s\<lparr>kp_status := v\<rparr>, [])"
| "cases_page_update KpData s = load_case s"
| "cases_page_update (KpSelect i) s = select_case (Some i) s"
| "cases_page_update KpClose s = select_case None s"
| "cases_page_update (KpLoaded k r) s = (case_loaded k r s, [])"
| "cases_page_update (KpUpdate i body ok) s = (s, [Send (update_request i body)])"
| "cases_page_update (KpUpdated ok r) s = case_updated ok r s"
| "cases_page_update (KpNote t) s = (s\<lparr>kp_note := t\<rparr>, [])"
| "cases_page_update (KpAddNote i) s = add_note i s"
| "cases_page_update (KpNoted r) s = case_noted r s"
| "cases_page_update (KpEvent e) s = (s\<lparr>kp_event := Some e\<rparr>, [])"
| "cases_page_update KpEventClose s = (s\<lparr>kp_event := None\<rparr>, [])"
| "cases_page_update (KpGo href) s = (s, [Navigate href])"
| "cases_page_update (KpNew m) s = new_case_step m s"
| "cases_page_update (KpGrid gm) s = (s, [])"

subsection \<open>View\<close>

definition dash_case_fields :: "env \<Rightarrow> case_detail \<Rightarrow> dash_case_msg sheet_field list" where
  "dash_case_fields env c =
     [fld_mono_wrap ''Case ID'' (vtxt (ca_id c)),
      fld ''Status'' (Some (case_badge (ca_status c))),
      fld ''Severity'' (Some (dash_sev (ca_severity c))),
      fld_mono ''Host'' (vtxt (or_dash (ca_hostname c))),
      fld ''Assigned'' (vtxt (str_or (ca_assigned_to c) ''unassigned'')),
      fld_mono ''Detections'' (vtxt (show_nat (length (ca_detection_ids c)))),
      fld ''ATT&CK'' (Some (mitre_chips (ca_mitre c) None)),
      fld_mono ''Opened'' (vtxt (en_datetime env (ca_created_at c))),
      fld_mono_wrap ''Updated''
        (vtxt (ago (en_now env) (ca_updated_at c) @ '' '' @ u_middot @ '' '' @ en_datetime env (ca_updated_at c))),
      fld ''Opened by'' (vtxt (or_dash (ca_created_by c)))]"

definition case_columns :: "env \<Rightarrow> (case_rec, dash_case_msg) column list" where
  "case_columns env =
     [col ''severity'' (HSort ''Sev'') (\<lambda>c. dash_sev (ca_severity c)),
      col ''title'' (HSort ''Case'') (\<lambda>c. spanc ''font-medium'' [Txt (ca_title c)]),
      col ''hostname'' (HText ''Host'') (\<lambda>c. spanc ''font-mono text-muted-foreground'' [Txt (or_dash (ca_hostname c))]),
      col ''count'' (HText ''Detections'') (\<lambda>c. spanc ''font-mono tabular-nums'' [Txt (show_nat (length (ca_detection_ids c)))]),
      col ''assigned_to'' (HText ''Assigned'') (\<lambda>c. muted (or_dash (ca_assigned_to c))),
      col ''status'' (HSort ''Status'') (\<lambda>c. case_badge (ca_status c)),
      col ''updated_at'' (HSort ''Updated'') (\<lambda>c. muted (ago (en_now env) (ca_updated_at c))),
      fixed_col ''actions'' HNone (\<lambda>c. divc ''flex items-center justify-end'' [inspect (KpSelect (ca_id c)) ''Inspect''])]"

definition case_filters :: "cases_page \<Rightarrow> dash_case_msg node" where
  "case_filters s =
     Frag [dash_select (kp_status s) KpStatus (map (\<lambda>v. (v, if v = ''all'' then ''All statuses'' else cap v)) (''all'' # CASE_STATUSES)),
           map_node KpNew (new_case_view (kp_new s))]"

definition case_table :: "env \<Rightarrow> bool \<Rightarrow> cases_page \<Rightarrow> (case_rec, dash_case_msg) table_props" where
  "case_table env loading s =
     \<lparr>tp_columns = case_columns env, tp_row_click = Some (\<lambda>c. KpSelect (ca_id c)), tp_placeholder = Some (''Filter cases'' @ u_ellipsis),
      tp_page_size = None, tp_toolbar = Some (case_filters s), tp_initial_sort = [(''updated_at'', True)],
      tp_empty = Some (Txt (''No cases yet. Detections fold into cases automatically '' @ u_dash @ '' or open one with '' @ curly ''New case'' @
        '' or by escalating a detection.'')),
      tp_loading = loading, tp_row_id = True, tp_table_id = None, tp_selection = False, tp_bulk = None, tp_density = True\<rparr>"

definition note_footer :: "string \<Rightarrow> string \<Rightarrow> dash_case_msg node" where
  "note_footer i note =
     divc ''flex items-end gap-2''
       [Elem ''Textarea'' [(''value'', note), (''rows'', ''1''), (''placeholder'', ''Add an investigation note'' @ u_ellipsis)]
          [OnValue ''change'' KpNote, OnKey (\<lambda>k. if k = ''Meta+Enter'' \<or> k = ''Control+Enter'' then Some (KpAddNote i) else None)] [],
        Elem ''Button'' (disabled_attr (trim note = [])) (unless_disabled (trim note = []) [On ''click'' (KpAddNote i)]) [Txt ''Add note'']]"

definition linked_detection :: "env \<Rightarrow> detection \<Rightarrow> dash_case_msg node" where
  "linked_detection env d =
     Elem ''button'' [(''key'', de_id d)] [On ''click'' (KpGo (detection_link (de_id d)))]
       [dash_sev (de_severity d), el ''div'' [] [Txt (de_rule_name d)], el ''div'' [] [Txt (de_summary d)],
        muted (ago (en_now env) (de_ts d))]"

definition story_agent :: "case_detail \<Rightarrow> string option" where
  "story_agent c =
     (if truthy (ca_agent_id c) then ca_agent_id c
      else (case cd_detections c of [] \<Rightarrow> None | d # ds \<Rightarrow> Some (de_agent_id d)))"

definition story_event_ids :: "case_detail \<Rightarrow> string list" where
  "story_event_ids c = concat (map (\<lambda>d. case de_event_ids d of None \<Rightarrow> [] | Some l \<Rightarrow> l) (cd_detections c))"

definition dash_case_note :: "env \<Rightarrow> case_note \<Rightarrow> dash_case_msg node" where
  "dash_case_note env n =
     divc ''rounded-md bg-muted/40 p-2 text-sm''
       [el ''div'' [] [el ''span'' [] [Txt (cn_author n)], el ''span'' [] [Txt (en_datetime env (cn_ts n))]],
        el ''div'' [] [Txt (cn_body n)]]"

definition dash_case_body :: "env \<Rightarrow> event list option \<times> bool \<Rightarrow> case_detail \<Rightarrow> dash_case_msg node" where
  "dash_case_body env story c =
     divc ''space-y-4''
       [kill_chain_strip (ca_mitre c) None,
        incident_summary None
          \<lparr>in_severity = ca_severity c, in_hostname = ca_hostname c, in_agent_id = None, in_user = None, in_rule_name = None,
           in_summary = None, in_engine = None, in_tactic = None, in_mitre = ca_mitre c,
           in_detection_count = Some (int (if length (cd_detections c) \<noteq> 0 then length (cd_detections c) else length (ca_detection_ids c))),
           in_event_count = None\<rparr>,
        el ''div'' []
          [dash_select (ca_status c) (\<lambda>v. KpUpdate (ca_id c) [(''status'', JStr v)] (''Case marked '' @ v))
             (map (\<lambda>v. (v, cap v)) CASE_STATUSES),
           button ''outline'' (KpUpdate (ca_id c) [(''assigned_to'', JStr ''me'')] ''Assigned to you'') [Txt ''Assign to me'']],
        el ''Separator'' [] [],
        el ''div'' []
          ([el ''div'' [] [Txt (''Linked detections ('' @ show_nat (length (cd_detections c)) @ '')'')]] @
           map (linked_detection env) (cd_detections c) @
           [only_if (cd_detections c = []) (el ''div'' [] [Txt ''No linked detections''])]),
        el ''Separator'' [] [],
        (if truthy (story_agent c)
         then Frag [el ''div'' [] [el ''div'' [] [Txt ''Attack story''],
                      attack_story (en_time env) (story_agent c) (Some (story_event_ids c)) (Some KpEvent) (fst story) (snd story)],
                    el ''Separator'' [] []]
         else Null),
        (let ns = (case ca_notes c of None \<Rightarrow> [] | Some l \<Rightarrow> l)
         in el ''div'' []
              ([el ''div'' [] [Txt ''Notes'']] @ map (dash_case_note env) ns @ [only_if (ns = []) (el ''div'' [] [Txt ''No notes yet''])]))]"

definition case_sheet :: "env \<Rightarrow> event list option \<times> bool \<Rightarrow> cases_page \<Rightarrow> dash_case_msg node" where
  "case_sheet env story s =
     (case kp_detail s of
        None \<Rightarrow> info_sheet (truthy (kp_sel s)) KpClose ''Case'' None None [] None None
      | Some c \<Rightarrow> info_sheet (truthy (kp_sel s)) KpClose (str_or (Some (ca_title c)) ''Case'')
          (Some (ca_severity c @ '' '' @ u_middot @ '' '' @ cap (ca_status c))) (Some (dash_sev (ca_severity c)))
          (dash_case_fields env c) (Some (dash_case_body env story c)) (Some (note_footer (ca_id c) (kp_note s))))"

record cases_data =
  kd_env :: env
  kd_cases :: "case_rec list option"
  kd_grid :: "case_rec grid"
  kd_table :: table_view
  kd_story :: "event list option \<times> bool"

definition cases_page_view :: "cases_data \<Rightarrow> cases_page \<Rightarrow> dash_case_msg node" where
  "cases_page_view d s =
     divc ''reveal space-y-4''
       [data_table (case_table (kd_env d) (kd_cases d = None) s) (kd_grid d) (kd_table d) KpGrid,
        case_sheet (kd_env d) (kd_story d) s,
        event_sheet (kd_env d) True False (\<lambda>e. dash_sev (ev_severity e)) KpEventClose (kp_event s)]"

subsection \<open>Lemmas\<close>

definition case_page_offers :: "cases_data \<Rightarrow> cases_page \<Rightarrow> dash_case_msg set" where
  \<comment> \<open>the user's messages, new data, and replies\<close>
  "case_page_offers d s =
     set_node (cases_page_view d s) \<union> {KpData} \<union> {KpLoaded k r | k r. True} \<union> {KpUpdated ok r | ok r. True} \<union>
     range KpNoted \<union> {KpNew (NcDone r) | r. True}"

definition guarded :: "cases_page \<Rightarrow> dash_case_msg \<Rightarrow> bool" where
  \<comment> \<open>what the view lets through: changes and notes for the case shown, a submission while none is under way\<close>
  "guarded s m =
     (case m of
        KpUpdate i body ok \<Rightarrow>
          (\<exists>c. truthy (kp_sel s) \<and> kp_detail s = Some c \<and> i = ca_id c \<and>
             (body = [(''assigned_to'', JStr ''me'')] \<or> (\<exists>v\<in>set CASE_STATUSES - {ca_status c}. body = [(''status'', JStr v)])))
      | KpAddNote i \<Rightarrow> (\<exists>c. truthy (kp_sel s) \<and> kp_detail s = Some c \<and> i = ca_id c)
      | KpNew NcSubmit \<Rightarrow> nc_open (kp_new s) \<and> \<not> nc_busy (kp_new s)
      | KpGo h \<Rightarrow> h \<in> range detection_link
      | _ \<Rightarrow> True)"

lemma guarded_simps [simp]:
  "guarded s (KpStatus v)" "guarded s KpData" "guarded s (KpSelect i)" "guarded s KpClose" "guarded s (KpNote t)" "guarded s (KpEvent e)"
  "guarded s KpEventClose" "guarded s (KpGo (detection_link i))" "guarded s (KpGrid g)" "guarded s (KpLoaded k r)" "guarded s (KpUpdated ok r)" "guarded s (KpNoted r)"
  "guarded s (KpNew (NcOpen b))" "guarded s (KpNew (NcTitle t))" "guarded s (KpNew (NcSeverity v))" "guarded s (KpNew (NcHostname h))"
  "guarded s (KpNew (NcDone ar))"
  by (simp_all add: guarded_def)

lemma set_node_case_badge [simp]: "set_node (case_badge st :: 'm node) = {}"
  by (simp add: case_badge_def)

lemma set_node_summary_only [simp]: "set_node (incident_summary None x :: 'm node) = {}"
  by (simp add: incident_summary_def)

lemma new_case_guarded: "KpNew ` set_node (new_case_view (kp_new s)) \<subseteq> Collect (guarded s)"
  by (auto simp: new_case_view_def guarded_def split: if_splits)

lemma case_table_guarded: "set_node (data_table (case_table env l s) g tv KpGrid) \<subseteq> Collect (guarded s)"
proof -
  have c: "cell_messages (case_table env l s) g \<subseteq> Collect (guarded s)"
    by (rule cell_messages_le) (auto simp: case_table_def case_columns_def)
  have b: "bulk_messages (case_table env l s) g \<subseteq> Collect (guarded s)" by (simp add: bulk_messages_def case_table_def)
  have k: "click_messages (case_table env l s) g \<subseteq> Collect (guarded s)"
    by (rule click_messages_le [of "\<lambda>c. KpSelect (ca_id c)"]) (simp_all add: case_table_def)
  have n: "range KpGrid \<subseteq> Collect (guarded s)" by auto
  show ?thesis
    using new_case_guarded [of s]
    by (intro subset_trans [OF data_table_messages]) (use b k c n in \<open>simp add: case_table_def case_filters_def node.set_map image_subset_iff\<close>)
qed

lemma case_body_guarded:
  assumes "truthy (kp_sel s)" and "kp_detail s = Some c"
  shows "set_node (dash_case_body env story c) \<subseteq> Collect (guarded s)"
proof -
  have st: "set_node (attack_story (en_time env) a evs (Some KpEvent) (fst story) (snd story)) \<subseteq> Collect (guarded s)" for a evs
    by (rule subset_trans [OF set_node_attack_story]) auto
  have u: "guarded s (KpUpdate (ca_id c) [(''assigned_to'', JStr ''me'')] ok)"
    "v \<in> set CASE_STATUSES - {ca_status c} \<Longrightarrow> guarded s (KpUpdate (ca_id c) [(''status'', JStr v)] ok)" for ok v
    using assms by (auto simp: guarded_def)
  have d: "set_node (linked_detection env x) = {KpGo (detection_link (de_id x))}" for x by (simp add: linked_detection_def)
  have n: "set_node (dash_case_note env x) = {}" for x by (simp add: dash_case_note_def)
  show ?thesis
    unfolding dash_case_body_def
    by (simp add: Let_def d n u(1) image_image st image_subset_iff) (auto simp: u(2))
qed

lemma case_sheet_guarded: "set_node (case_sheet env story s) \<subseteq> Collect (guarded s)"
proof (cases "kp_detail s")
  case None
  then show ?thesis by (simp add: case_sheet_def set_node_info_sheet)
next
  case (Some c)
  show ?thesis
  proof (cases "truthy (kp_sel s)")
    case True
    have f: "fields_messages (dash_case_fields env c) = {}" by (simp add: dash_case_fields_def)
    have "guarded s (KpAddNote (ca_id c))" using True Some by (simp add: guarded_def)
    then have ft: "set_node (note_footer (ca_id c) (kp_note s)) \<subseteq> Collect (guarded s)"
      by (auto simp: note_footer_def split: if_splits)
    show ?thesis
      unfolding case_sheet_def Some option.case
      by (rule subset_trans [OF info_sheet_messages]) (use f ft case_body_guarded [OF True Some] in simp)
  next
    case False
    then show ?thesis using Some by (simp add: case_sheet_def set_node_info_sheet)
  qed
qed

lemma case_page_guarded: "m \<in> case_page_offers d s \<Longrightarrow> guarded s m"
proof -
  have e: "set_node (event_sheet env True False (\<lambda>e. dash_sev (ev_severity e)) KpEventClose ev) \<subseteq> Collect (guarded s)" for env ev
    by (rule subset_trans [OF set_node_event_sheet]) simp_all
  have "set_node (cases_page_view d s) \<subseteq> Collect (guarded s)"
    using case_table_guarded case_sheet_guarded e by (simp add: cases_page_view_def)
  then show "m \<in> case_page_offers d s \<Longrightarrow> guarded s m"
    by (auto simp: case_page_offers_def)
qed

lemma load_is_get: "r \<in> set (sent (snd (load_case s))) \<Longrightarrow> rq_method r = ''GET''"
  by (auto simp: load_case_def Let_def load_request_def split: if_splits)

lemma select_is_get: "r \<in> set (sent (snd (select_case i s))) \<Longrightarrow> rq_method r = ''GET''"
  using load_is_get by (auto simp: select_case_def split: if_splits)

lemma sent_append [simp]: "sent (xs @ ys) = sent xs @ sent ys"
  by (induction xs rule: sent.induct) auto

lemma new_case_sends:
  assumes "r \<in> set (sent (snd (new_case_step m s)))" and "rq_method r = ''POST''"
  shows "m = NcSubmit \<and> trim (nc_title (kp_new s)) \<noteq> [] \<and> r = new_case_request (kp_new s)"
proof -
  obtain n es i where u: "new_case_update m (kp_new s) = (n, es, i)" by (cases "new_case_update m (kp_new s)") auto
  have "r \<in> set (sent es)"
  proof (cases i)
    case (Some k)
    then show ?thesis
      using assms select_is_get [of r "Some k" "s\<lparr>kp_new := n\<rparr>"] by (auto simp: new_case_step_def u split: prod.splits)
  qed (use assms in \<open>simp add: new_case_step_def u\<close>)
  then show ?thesis using u by (cases m) (auto simp: Let_def reply_toast_def split: if_splits)
qed

subsection \<open>A session without late replies\<close>

text \<open>\<open>case_session s ps\<close>: the page is in state \<open>s\<close> and the loads \<open>ps\<close> were sent, each with its generation.
  The server answers a load with the case asked for; the drawer is modal, so another case is selected
  only while none is; the reply to a change or a note comes while its case is still open.\<close>

fun calm :: "dash_case_msg \<Rightarrow> cases_page \<Rightarrow> bool" where
  "calm (KpSelect i) s = (kp_sel s = None)"
| "calm (KpNew m) s = (kp_sel s = None)"
| "calm (KpLoaded k r) s = False"
| "calm (KpUpdated ok r) s = (case r of CaseStatus st (Some c) \<Rightarrow> kp_sel s = Some (ca_id c) | _ \<Rightarrow> True)"
| "calm (KpNoted r) s = (case r of CaseStatus st (Some c) \<Rightarrow> kp_sel s = Some (ca_id c) | _ \<Rightarrow> True)"
| "calm m s = True"

inductive case_session :: "cases_page \<Rightarrow> (nat \<times> string) list \<Rightarrow> bool" where
  start: "case_session cases_page0 []"
| act: "case_session s ps \<Longrightarrow> calm m s \<Longrightarrow> cases_page_update m s = (t, es) \<Longrightarrow>
    case_session t (if kp_gen t \<noteq> kp_gen s \<and> truthy (kp_sel t) then ps @ [(kp_gen t, the (kp_sel t))] else ps)"
| reply: "case_session s ps \<Longrightarrow> (k, i) \<in> set ps \<Longrightarrow> (case r of CaseStatus st (Some c) \<Rightarrow> ca_id c = i | _ \<Rightarrow> True) \<Longrightarrow>
    case_session (case_loaded k r s) ps"

definition session_inv :: "cases_page \<Rightarrow> (nat \<times> string) list \<Rightarrow> bool" where
  "session_inv s ps \<longleftrightarrow> (\<forall>(k, i)\<in>set ps. k \<le> kp_gen s \<and> (k = kp_gen s \<longrightarrow> kp_sel s = Some i)) \<and>
     (\<forall>c. kp_detail s = Some c \<longrightarrow> kp_sel s = Some (ca_id c))"

lemma load_case_cases:
  "kp_gen (fst (load_case s)) = kp_gen s + 1 \<and> kp_sel (fst (load_case s)) = kp_sel s \<and>
   kp_detail (fst (load_case s)) = (if truthy (kp_sel s) then kp_detail s else None)"
  by (simp add: load_case_def Let_def)

definition next_loads :: "cases_page \<Rightarrow> cases_page \<Rightarrow> (nat \<times> string) list \<Rightarrow> (nat \<times> string) list" where
  "next_loads s t ps = (if kp_gen t \<noteq> kp_gen s \<and> truthy (kp_sel t) then ps @ [(kp_gen t, the (kp_sel t))] else ps)"

lemma session_load:
  assumes "session_inv s ps" and "kp_gen u = kp_gen s" and "kp_detail u = kp_detail s" and "kp_sel u = kp_sel s \<or> kp_detail s = None"
  shows "session_inv (fst (load_case u)) (next_loads s (fst (load_case u)) ps)"
  using assms load_case_cases [of u] unfolding session_inv_def next_loads_def
  by (cases "kp_sel u") (force simp: truthy_def split: if_splits)+

lemma session_same:
  assumes "session_inv s ps" and "kp_gen t = kp_gen s" and "kp_sel t = kp_sel s"
    and "kp_detail t = kp_detail s \<or> (\<exists>c. kp_detail t = Some c \<and> kp_sel s = Some (ca_id c))"
  shows "session_inv t (next_loads s t ps)"
  using assms unfolding session_inv_def next_loads_def by auto

lemma session_select:
  assumes "session_inv s ps" and "kp_sel s = None \<or> i = None" and "kp_gen u = kp_gen s" and "kp_detail u = kp_detail s" and "kp_sel u = kp_sel s"
  shows "session_inv (fst (select_case i u)) (next_loads s (fst (select_case i u)) ps)"
proof (cases "kp_sel u = i")
  case True
  then show ?thesis using assms by (simp add: select_case_def session_same)
next
  case False
  show ?thesis
  proof (cases "kp_sel s = None")
    case True
    then have "kp_detail s = None" using assms(1) by (cases "kp_detail s") (auto simp: session_inv_def)
    then show ?thesis using False assms session_load [OF assms(1), of "u\<lparr>kp_sel := i\<rparr>"] by (simp add: select_case_def)
  next
    case n: False
    have i: "i = None" using assms(2) n by (elim disjE) simp_all
    show ?thesis
      using False assms load_case_cases [of "u\<lparr>kp_sel := None\<rparr>"]
      unfolding i select_case_def session_inv_def next_loads_def by (auto simp: truthy_def)
  qed
qed

lemma session_step:
  assumes "session_inv s ps" and "calm m s"
  shows "session_inv (fst (cases_page_update m s)) (next_loads s (fst (cases_page_update m s)) ps)"
proof (cases m)
  case KpData
  show ?thesis using session_load [OF assms(1), of s] by (simp add: KpData)
next
  case (KpSelect i)
  then show ?thesis using assms by (simp add: session_select)
next
  case KpClose
  then show ?thesis using assms by (simp add: session_select)
next
  case (KpUpdated ok r)
  show ?thesis
    using assms by (intro session_same [OF assms(1)]) (auto simp: KpUpdated case_updated_def split: case_reply.splits option.splits)
next
  case (KpNoted r)
  show ?thesis
    using assms by (intro session_same [OF assms(1)]) (auto simp: KpNoted case_noted_def split: case_reply.splits option.splits)
next
  case (KpNew nm)
  obtain n es i where u: "new_case_update nm (kp_new s) = (n, es, i)" by (cases "new_case_update nm (kp_new s)") auto
  show ?thesis
  proof (cases i)
    case None
    then show ?thesis using assms(1) by (simp add: KpNew new_case_step_def u session_same)
  next
    case (Some k)
    have "session_inv (fst (select_case i (s\<lparr>kp_new := n\<rparr>))) (next_loads s (fst (select_case i (s\<lparr>kp_new := n\<rparr>))) ps)"
      using assms KpNew by (intro session_select [OF assms(1)]) simp_all
    then show ?thesis by (cases "select_case i (s\<lparr>kp_new := n\<rparr>)") (simp add: KpNew new_case_step_def u Some)
  qed
qed (use assms in \<open>auto intro!: session_same simp: add_note_def\<close>)

lemma session_reply:
  assumes "session_inv s ps" and "(k, i) \<in> set ps" and "case r of CaseStatus st (Some c) \<Rightarrow> ca_id c = i | _ \<Rightarrow> True"
  shows "session_inv (case_loaded k r s) ps"
  using assms by (auto simp: session_inv_def case_loaded_def split: case_reply.splits option.splits)

lemma session_keeps: "case_session s ps \<Longrightarrow> session_inv s ps"
proof (induction rule: case_session.induct)
  case start
  then show ?case by (simp add: session_inv_def cases_page0_def)
next
  case (act s ps m t es)
  then show ?case using session_step [of s ps m] by (simp add: next_loads_def)
next
  case (reply s ps k i r)
  show ?case by (rule session_reply [OF reply.IH reply.hyps(2,3)])
qed

subsection \<open>Properties\<close>

text \<open>C21: whatever the user presses, each change the page sends is one to the case that the open drawer
  shows (a status other than its own, the assignment to the operator, or a note that is not blank), or
  a new case with a title, sent from the open dialog while none is under way.\<close>

theorem case_changes_for_shown:
  assumes "m \<in> case_page_offers d s" and "r \<in> set (sent (snd (cases_page_update m s)))" and "rq_method r = ''POST''"
  shows "(\<exists>c. truthy (kp_sel s) \<and> kp_detail s = Some c \<and>
      (r = update_request (ca_id c) [(''assigned_to'', JStr ''me'')] \<or>
       (\<exists>v\<in>set CASE_STATUSES - {ca_status c}. r = update_request (ca_id c) [(''status'', JStr v)]) \<or>
       (trim (kp_note s) \<noteq> [] \<and> r = note_request (ca_id c) (kp_note s)))) \<or>
    (nc_open (kp_new s) \<and> \<not> nc_busy (kp_new s) \<and> trim (nc_title (kp_new s)) \<noteq> [] \<and> r = new_case_request (kp_new s))"
proof -
  have g: "guarded s m" using assms(1) by (rule case_page_guarded)
  show ?thesis
  proof (cases m)
    case (KpUpdate i body ok)
    then show ?thesis using assms(2) g by (auto simp: guarded_def)
  next
    case (KpAddNote i)
    then show ?thesis using assms(2) g by (auto simp: guarded_def add_note_def split: if_splits)
  next
    case (KpNew nm)
    have "nm = NcSubmit \<and> trim (nc_title (kp_new s)) \<noteq> [] \<and> r = new_case_request (kp_new s)"
      using assms(2,3) KpNew by (intro new_case_sends) simp_all
    then show ?thesis using g KpNew by (auto simp: guarded_def)
  qed (use assms(2,3) load_is_get select_is_get in \<open>auto simp: case_updated_def case_noted_def split: case_reply.splits option.splits if_splits\<close>)
qed


text \<open>The reply to a change or a note that comes after its drawer was closed and another one opened
  puts the old case into the new drawer, whose note box and buttons then act on the old case.\<close>

theorem late_change_fills_drawer:
  assumes "kp_sel s = Some b" and "b \<noteq> []" and "status_ok st" and "ca_id c \<noteq> b"
  shows "kp_sel (fst (cases_page_update (KpUpdated ok (CaseStatus st (Some c))) s)) = Some b \<and>
    kp_detail (fst (cases_page_update (KpUpdated ok (CaseStatus st (Some c))) s)) = Some c \<and>
    KpUpdate (ca_id c) [(''assigned_to'', JStr ''me'')] ''Assigned to you'' \<in>
      set_node (case_sheet env story (fst (cases_page_update (KpUpdated ok (CaseStatus st (Some c))) s)))"
  using assms by (simp add: case_updated_def case_sheet_def set_node_info_sheet dash_case_body_def truthy_def)

text \<open>A draft note outlives its drawer: after another case is opened and loaded, the box holds the text
  written for the first one and the button posts it to the second.\<close>

theorem draft_note_crosses_cases:
  assumes "kp_sel s = Some a" and "b \<notin> {a, []}" and "ca_id c = b" and "status_ok st" and "trim (kp_note s) \<noteq> []"
  shows "(let s1 = fst (cases_page_update (KpSelect b) (fst (cases_page_update KpClose s)));
              s2 = fst (cases_page_update (KpLoaded (kp_gen s1) (CaseStatus st (Some c))) s1)
          in KpAddNote b \<in> set_node (case_sheet env story s2) \<and>
             snd (cases_page_update (KpAddNote b) s2) = [Send (note_request b (kp_note s))])"
  using assms
  by (simp add: Let_def select_case_def load_case_def case_loaded_def truthy_def case_sheet_def set_node_info_sheet note_footer_def add_note_def)

subsection \<open>Witnesses\<close>

definition example_case :: "string \<Rightarrow> case_detail" where
  "example_case i = \<lparr>ca_id = i, ca_title = ''t'', ca_severity = ''high'', ca_status = ''open'', ca_assigned_to = None, ca_agent_id = None,
     ca_hostname = None, ca_detection_ids = [], ca_mitre = None, ca_notes = None, ca_created_at = [], ca_updated_at = [],
     ca_created_by = None, cd_detections = []\<rparr>"

definition example_cases_data :: cases_data where
  "example_cases_data = \<lparr>kd_env = plain_env, kd_cases = Some [], kd_grid = grid_of [] [], kd_table = table_view0 [], kd_story = (None, True)\<rparr>"

lemma case_changes_for_shown_witness:
  "\<exists>c. kp_detail (cases_page0\<lparr>kp_sel := Some ''c1'', kp_detail := Some (example_case ''c1'')\<rparr>) = Some c \<and>
     update_request ''c1'' [(''assigned_to'', JStr ''me'')] = update_request (ca_id c) [(''assigned_to'', JStr ''me'')]"
proof -
  let ?s = "cases_page0\<lparr>kp_sel := Some ''c1'', kp_detail := Some (example_case ''c1'')\<rparr>"
  let ?m = "KpUpdate ''c1'' [(''assigned_to'', JStr ''me'')] ''Assigned to you''"
  let ?r = "update_request ''c1'' [(''assigned_to'', JStr ''me'')]"
  have "?m \<in> set_node (case_sheet plain_env (None, True) ?s)"
    by (simp add: case_sheet_def set_node_info_sheet dash_case_body_def truthy_def example_case_def)
  then have "?m \<in> case_page_offers example_cases_data ?s"
    by (simp add: case_page_offers_def cases_page_view_def example_cases_data_def)
  from case_changes_for_shown [OF this, of ?r] show ?thesis
    by (simp add: update_request_def post_request_def cases_page0_def new_case0_def example_case_def)
qed


lemma late_change_fills_drawer_witness:
  "kp_detail (fst (cases_page_update (KpUpdated ''ok'' (CaseStatus 200 (Some (example_case ''c1'')))) (cases_page0\<lparr>kp_sel := Some ''c2''\<rparr>))) =
     Some (example_case ''c1'')"
  using late_change_fills_drawer [of "cases_page0\<lparr>kp_sel := Some ''c2''\<rparr>" "''c2''" 200 "example_case ''c1''" "''ok''"]
  by (simp add: status_ok_def example_case_def)

lemma draft_note_crosses_cases_witness:
  "(let s = cases_page0\<lparr>kp_sel := Some ''c1'', kp_note := ''leaked''\<rparr>;
        s1 = fst (cases_page_update (KpSelect ''c2'') (fst (cases_page_update KpClose s)));
        s2 = fst (cases_page_update (KpLoaded (kp_gen s1) (CaseStatus 200 (Some (example_case ''c2'')))) s1)
    in snd (cases_page_update (KpAddNote ''c2'') s2) = [Send (note_request ''c2'' ''leaked'')])"
proof -
  have t: "trim ''leaked'' \<noteq> []" by code_simp
  show ?thesis
    using draft_note_crosses_cases [of "cases_page0\<lparr>kp_sel := Some ''c1'', kp_note := ''leaked''\<rparr>" "''c1''" "''c2''" "example_case ''c2''" 200]
    by (simp add: Let_def status_ok_def t example_case_def del: cases_page_update.simps)
qed

end
