(* ===== verification/DashRules.thy ===== *)
theory DashRules
  imports DashPages ControlPages
begin

section \<open>Pages: rules and responses\<close>

text \<open>
  Models \<open>dashboard/app/(app)/rules/page.tsx\<close> and \<open>responses/page.tsx\<close>. The rules page calls \<open>post\<close> and
  \<open>del\<close>, which throw when the network fails: a reply is then \<open>RuleThrows\<close>, and what the code after the
  \<open>await\<close> would have done is not done. A bulk action waits for all its replies and throws if one of
  them does.
\<close>

record dash_rule = rule +
  dr_Enabled :: bool

record suppression =
  su_id :: string
  su_rule_id :: string
  su_field :: string
  su_op :: string
  su_value :: string
  su_reason :: "string option"
  su_created_by :: "string option"
  su_created_at :: string
  su_expires :: "string option"
  su_hits :: int

definition SUPP_FIELDS :: "string list" where
  "SUPP_FIELDS = [''host'', ''user'', ''agent'', ''summary'', ''rule'']"

datatype rule_reply = RuleThrows | RuleStatus nat

subsection \<open>New suppression\<close>

record new_supp =
  ns_open :: bool
  ns_rule :: string
  ns_field :: string
  ns_op :: string
  ns_value :: string
  ns_reason :: string
  ns_busy :: bool

definition new_supp0 :: new_supp where
  "new_supp0 = \<lparr>ns_open = False, ns_rule = ''*'', ns_field = ''host'', ns_op = ''equals'', ns_value = [], ns_reason = [], ns_busy = False\<rparr>"

datatype new_supp_msg =
    NsOpen bool | NsRule string | NsField string | NsOp string | NsValue string | NsReason string | NsSubmit | NsDone rule_reply

definition supp_request :: "new_supp \<Rightarrow> request" where
  "supp_request n = post_request ''suppressions''
     (JObj [(''rule_id'', JStr (ns_rule n)), (''field'', JStr (ns_field n)), (''op'', JStr (ns_op n)),
            (''value'', JStr (trim (ns_value n))), (''reason'', JStr (ns_reason n))])"

fun new_supp_update :: "new_supp_msg \<Rightarrow> new_supp \<Rightarrow> new_supp \<times> dash_effect list \<times> bool" where
  \<comment> \<open>the third part: whether \<open>onCreated\<close> is called\<close>
  "new_supp_update (NsOpen b) n = (n\<lparr>ns_open := b\<rparr>, [], False)"
| "new_supp_update (NsRule v) n = (n\<lparr>ns_rule := v\<rparr>, [], False)"
| "new_supp_update (NsField v) n = (n\<lparr>ns_field := v\<rparr>, [], False)"
| "new_supp_update (NsOp v) n = (n\<lparr>ns_op := v\<rparr>, [], False)"
| "new_supp_update (NsValue v) n = (n\<lparr>ns_value := v\<rparr>, [], False)"
| "new_supp_update (NsReason v) n = (n\<lparr>ns_reason := v\<rparr>, [], False)"
| "new_supp_update NsSubmit n =
     (if trim (ns_value n) = [] then (n, [Toast False ''Value required''], False)
      else (n\<lparr>ns_busy := True\<rparr>, [Send (supp_request n)], False))"
| "new_supp_update (NsDone r) n =
     (case r of
        RuleThrows \<Rightarrow> (n, [], False)
      | RuleStatus st \<Rightarrow>
          (let n1 = n\<lparr>ns_busy := False\<rparr>
           in if status_ok st then (n1\<lparr>ns_open := False, ns_value := [], ns_reason := []\<rparr>, [Toast True ''Suppression added''], True)
              else (n1, [Toast False (if st = 403 then ''Analyst role required'' else ''Failed ('' @ show_nat st @ '')'')], False)))"

definition new_supp_view :: "dash_rule list \<Rightarrow> new_supp \<Rightarrow> new_supp_msg node" where
  "new_supp_view rules n =
     Frag [Elem ''Button'' [(''size'', ''sm'')] [On ''click'' (NsOpen True)] [el ''Plus'' [] [], Txt '' Add suppression''],
       (if \<not> ns_open n then Null
        else Elem ''Dialog'' [] [On ''openChange'' (NsOpen False)]
          [el ''DialogTitle'' [] [Txt ''New suppression''],
           el ''DialogDescription'' [] [Txt ''Matching detections are silenced before they alert or auto-respond.''],
           el ''Label'' [] [Txt ''Rule''],
           dash_select (ns_rule n) NsRule ((''*'', ''Any rule'') # map (\<lambda>r. (ru_ID r, ru_ID r)) rules),
           el ''Label'' [] [Txt ''Field''],
           dash_select (ns_field n) NsField (map (\<lambda>f. (f, f)) SUPP_FIELDS),
           el ''Label'' [] [Txt ''Operator''],
           dash_select (ns_op n) NsOp [(''equals'', ''equals''), (''contains'', ''contains'')],
           el ''Label'' [] [Txt ''Value''],
           text_input (ns_value n) NsValue [(''placeholder'', ''e.g. ci-runner-01'')],
           el ''Label'' [] [Txt ''Reason (optional)''],
           text_input (ns_reason n) NsReason [(''placeholder'', ''why this is benign'')],
           button ''outline'' (NsOpen False) [Txt ''Cancel''],
           Elem ''Button'' (disabled_attr (ns_busy n)) (unless_disabled (ns_busy n) [On ''click'' NsSubmit])
             [Txt (if ns_busy n then ''Adding'' @ u_ellipsis else ''Add suppression'')]])]"

subsection \<open>Rules page\<close>

record rules_page =
  gp_bump :: nat
  gp_new :: new_supp

definition rules_page0 :: rules_page where
  "rules_page0 = \<lparr>gp_bump = 0, gp_new = new_supp0\<rparr>"

datatype rules_page_msg =
    GpToggle dash_rule bool
  | GpToggled dash_rule bool rule_reply
  | GpRemove suppression
  | GpRemoved rule_reply
  | GpBulk "dash_rule list" bool
  | GpBulkDone nat bool "rule_reply list"
  | GpNew new_supp_msg
  | GpGrid grid_msg
  | GpSuppGrid grid_msg

definition rules_path :: "rules_page \<Rightarrow> string" where
  "rules_path s = ''rules?r='' @ show_nat (gp_bump s)"

definition supps_path :: "rules_page \<Rightarrow> string" where
  "supps_path s = ''suppressions?r='' @ show_nat (gp_bump s)"

definition reload :: "rules_page \<Rightarrow> rules_page" where
  \<comment> \<open>a new path makes both hooks fetch again\<close>
  "reload s = s\<lparr>gp_bump := gp_bump s + 1\<rparr>"

definition toggle_request :: "bool \<Rightarrow> dash_rule \<Rightarrow> request" where
  "toggle_request enabled r = post_request (''rules/'' @ ru_ID r @ ''/toggle'') (JObj [(''enabled'', JBool enabled)])"

definition on_off :: "bool \<Rightarrow> string" where
  "on_off enabled = (if enabled then ''enabled'' else ''disabled'')"

definition toggled :: "dash_rule \<Rightarrow> bool \<Rightarrow> rule_reply \<Rightarrow> rules_page \<Rightarrow> rules_page \<times> dash_effect list" where
  "toggled r enabled res s =
     (case res of
        RuleThrows \<Rightarrow> (s, [])
      | RuleStatus st \<Rightarrow>
          if status_ok st then (reload s, [Toast True (ru_Title r @ '' '' @ on_off enabled)])
          else (s, [Toast False (if st = 403 then ''Admin role required'' else ''Failed ('' @ show_nat st @ '')'')]))"

definition supp_removed :: "rule_reply \<Rightarrow> rules_page \<Rightarrow> rules_page \<times> dash_effect list" where
  "supp_removed res s =
     (case res of
        RuleThrows \<Rightarrow> (s, [])
      | RuleStatus st \<Rightarrow>
          if status_ok st then (reload s, [Toast True ''Suppression removed''])
          else (s, [Toast False (''Failed ('' @ show_nat st @ '')'')]))"

definition reply_ok_status :: "rule_reply \<Rightarrow> bool" where
  "reply_ok_status res = (case res of RuleThrows \<Rightarrow> False | RuleStatus st \<Rightarrow> status_ok st)"

definition bulk_toggled :: "nat \<Rightarrow> bool \<Rightarrow> rule_reply list \<Rightarrow> rules_page \<Rightarrow> rules_page \<times> dash_effect list" where
  \<comment> \<open>\<open>n\<close> rows were sent; \<open>Promise.all\<close> throws if one reply does\<close>
  "bulk_toggled n enabled res s =
     (if RuleThrows \<in> set res then (s, [])
      else (let ok = length (filter reply_ok_status res)
            in (reload s,
                [(if ok = n then Toast True (show_nat ok @ '' rule'' @ (if ok = 1 then [] else ''s'') @ '' '' @ on_off enabled)
                  else Toast False (if RuleStatus 403 \<in> set res then ''Admin role required''
                                    else show_nat ok @ ''/'' @ show_nat n @ '' updated'')),
                 ClearSelection])))"

fun rules_page_update :: "rules_page_msg \<Rightarrow> rules_page \<Rightarrow> rules_page \<times> dash_effect list" where
  "rules_page_update (GpToggle r enabled) s = (s, [Send (toggle_request enabled r)])"
| "rules_page_update (GpToggled r enabled res) s = toggled r enabled res s"
| "rules_page_update (GpRemove x) s = (s, [Send (del_request (''suppressions/'' @ su_id x))])"
| "rules_page_update (GpRemoved res) s = supp_removed res s"
| "rules_page_update (GpBulk rows enabled) s = (s, map (\<lambda>r. Send (toggle_request enabled r)) rows)"
| "rules_page_update (GpBulkDone n enabled res) s = bulk_toggled n enabled res s"
| "rules_page_update (GpNew m) s =
     (case new_supp_update m (gp_new s) of
        (n, es, created) \<Rightarrow> (if created then reload (s\<lparr>gp_new := n\<rparr>) else s\<lparr>gp_new := n\<rparr>, es))"
| "rules_page_update (GpGrid gm) s = (s, [])"
| "rules_page_update (GpSuppGrid gm) s = (s, [])"

subsection \<open>View of the rules page\<close>

definition rule_columns :: "(dash_rule, rules_page_msg) column list" where
  "rule_columns =
     [col ''Severity'' (HSort ''Sev'') (\<lambda>r. dash_sev (ru_Severity r)),
      col ''Title'' (HSort ''Rule'') (\<lambda>r. el ''div'' [] [el ''div'' [] [Txt (ru_Title r)], el ''div'' [] [Txt (ru_ID r)]]),
      col ''Category'' (HText ''Category'') (\<lambda>r. chip [Txt (ru_Category r)] None),
      col ''Tactic'' (HSort ''Tactic'') (\<lambda>r. muted (or_dash (Some (ru_Tactic r)))),
      col ''mitre'' (HText ''ATT&CK'') (\<lambda>r. mitre_chips (ru_MITRE r) (Some 3)),
      col ''AutoRespond'' (HText ''Auto-Response'')
        (\<lambda>r. if ru_AutoRespond r \<noteq> [] then chip [Txt (ru_AutoRespond r)] (Some ''var(--signal)'') else muted u_dash),
      fixed_col ''enabled'' (HText ''Enabled'') (\<lambda>r. el ''div'' [] [switch (dr_Enabled r) (GpToggle r)])]"

definition supp_columns :: "env \<Rightarrow> (suppression, rules_page_msg) column list" where
  "supp_columns env =
     [col ''rule_id'' (HText ''Rule'') (\<lambda>x. mono (if su_rule_id x = ''*'' then ''any rule'' else su_rule_id x)),
      col ''match'' (HText ''Match'')
        (\<lambda>x. mono (su_field x @ '' '' @ (if su_op x = ''contains'' then ''contains'' else ''equals'') @ '' '' @ su_value x)),
      col ''hits'' (HSort ''Silenced'') (\<lambda>x. mono (show_int (su_hits x))),
      col ''reason'' (HText ''Reason'') (\<lambda>x. muted (or_dash (su_reason x))),
      col ''created_by'' (HText ''By'') (\<lambda>x. muted (or_dash (su_created_by x))),
      col ''created_at'' (HText ''Added'') (\<lambda>x. muted (ago (en_now env) (su_created_at x))),
      fixed_col ''actions'' HNone
        (\<lambda>x. Elem ''Button'' [(''aria-label'', ''Remove suppression''), (''variant'', ''ghost'')] [On ''click'' (GpRemove x)] [el ''Trash2'' [] []])]"

definition rules_bulk :: "dash_rule list \<Rightarrow> rules_page_msg node" where
  "rules_bulk rows =
     Frag [button ''outline'' (GpBulk rows True) [Txt ''Enable selected''], button ''outline'' (GpBulk rows False) [Txt ''Disable selected'']]"

definition rule_table :: "bool \<Rightarrow> (dash_rule, rules_page_msg) table_props" where
  "rule_table loading =
     \<lparr>tp_columns = rule_columns, tp_row_click = None, tp_placeholder = Some (''Search rules, tactics, technique IDs'' @ u_ellipsis),
      tp_page_size = Some 25, tp_toolbar = None, tp_initial_sort = [(''Severity'', False)],
      tp_empty = Some (Txt ''No detection rules loaded yet''), tp_loading = loading, tp_row_id = True, tp_table_id = Some ''rules'',
      tp_selection = True, tp_bulk = Some rules_bulk, tp_density = True\<rparr>"

definition supp_table :: "env \<Rightarrow> bool \<Rightarrow> (suppression, rules_page_msg) table_props" where
  "supp_table env loading =
     \<lparr>tp_columns = supp_columns env, tp_row_click = None, tp_placeholder = Some (''Filter suppressions'' @ u_ellipsis),
      tp_page_size = Some 10, tp_toolbar = None, tp_initial_sort = [],
      tp_empty = Some (Txt (''No suppressions yet '' @ u_dash @ '' silence known-benign activity to add one'')), tp_loading = loading,
      tp_row_id = True, tp_table_id = None, tp_selection = False, tp_bulk = None, tp_density = True\<rparr>"

definition tactic_total :: "dash_rule list \<Rightarrow> nat" where
  "tactic_total all = length (remdups (filter (\<lambda>t. t \<noteq> []) (map ru_Tactic all)))"

record rules_data =
  gd_env :: env
  gd_rules :: "dash_rule list option"
  gd_supps :: "suppression list option"
  gd_counters :: "string \<Rightarrow> count_up"
  gd_grid :: "dash_rule grid"
  gd_table :: table_view
  gd_supp_grid :: "suppression grid"
  gd_supp_table :: table_view

definition rules_page_view :: "rules_data \<Rightarrow> rules_page \<Rightarrow> rules_page_msg node" where
  "rules_page_view d s =
     (let all = (case gd_rules d of None \<Rightarrow> [] | Some rs \<Rightarrow> rs); card = metric_card (gd_env d) (gd_counters d)
      in divc ''space-y-5''
        [divc ''reveal grid gap-4 sm:grid-cols-2 xl:grid-cols-4''
           [card ''Detection rules'' (MNum (int (length all))) ''ScrollText'' None False,
            card ''ATT&CK tactics'' (MNum (int (tactic_total all))) ''Crosshair'' (Some ''var(--signal)'') False,
            card ''Auto-response'' (MNum (int (length (filter (\<lambda>r. ru_AutoRespond r \<noteq> []) all)))) ''Bot'' (Some ''var(--signal)'') False,
            card ''Disabled'' (MNum (int (length (filter (\<lambda>r. \<not> dr_Enabled r) all)))) ''BellOff'' (Some ''var(--muted-foreground)'') False],
         data_table (rule_table (gd_rules d = None)) (gd_grid d) (gd_table d) GpGrid,
         el ''div'' []
           [el ''h2'' [] [Txt ''Suppressions''], el ''p'' [] [Txt ''Silence known-benign activity without disabling a whole rule.''],
            map_node GpNew (new_supp_view all (gp_new s)),
            data_table (supp_table (gd_env d) (gd_supps d = None)) (gd_supp_grid d) (gd_supp_table d) GpSuppGrid]])"

subsection \<open>Responses page\<close>

datatype responses_page_msg = QpRetry response_action | QpRetried response_action action_result | QpGrid grid_msg

definition response_color :: "string \<Rightarrow> string" where
  "response_color s =
     (if s = ''completed'' then ''var(--signal)'' else if s = ''failed'' then ''var(--sev-critical)''
      else if s = ''pending'' then ''var(--sev-medium)'' else ''var(--muted-foreground)'')"

definition retry_request :: "response_action \<Rightarrow> request" where
  "retry_request x = respond_request
     \<lparr>ra_type = re_type x, ra_agent = re_agent_id x, ra_target = map_option JObj (re_target x),
      ra_reason = Some (''retry of '' @ re_id x), ra_detection = re_detection_id x\<rparr>"

fun responses_page_update :: "responses_page_msg \<Rightarrow> dash_effect list" where
  \<comment> \<open>the page has no state of its own\<close>
  "responses_page_update (QpRetry x) = [Send (retry_request x)]"
| "responses_page_update (QpRetried x r) =
     [reply_toast (''Re-issued '' @ response_label (re_type x) @ '' to '' @ re_hostname x) ''Retry failed'' r]"
| "responses_page_update (QpGrid gm) = []"

definition response_columns :: "env \<Rightarrow> (response_action, responses_page_msg) column list" where
  "response_columns env =
     [col ''ts'' (HSort ''Time'') (\<lambda>x. spanc ''font-mono text-xs text-muted-foreground'' [Txt (ago (en_now env) (re_ts x))]),
      col ''type'' (HSort ''Action'') (\<lambda>x. mono (response_label (re_type x))),
      col ''target'' (HText ''Target'') (\<lambda>x. spanc ''font-mono text-xs text-muted-foreground'' [Txt (target_str (re_target x))]),
      col ''hostname'' (HSort ''Host'') (\<lambda>x. Txt (re_hostname x)),
      col ''source'' (HText ''Source'') (\<lambda>x. if re_automated x then chip [Txt ''auto''] (Some ''var(--signal)'') else chip [Txt ''manual''] None),
      col ''issued_by'' (HText ''By'') (\<lambda>x. muted (re_issued_by x)),
      col ''status'' (HSort ''Status'')
        (\<lambda>x. el ''span'' [] [el ''span'' [sty (''background: '' @ response_color (re_status x))] [], Txt (re_status x)]),
      col ''result'' (HText ''Result'') (\<lambda>x. el ''span'' (opt_attr ''title'' (re_result x)) [opt_txt (re_result x)]),
      fixed_col ''actions'' HNone
        (\<lambda>x. if re_status x = ''failed''
             then divc ''text-right'' [Elem ''Button'' [(''variant'', ''ghost''), (''aria-label'', ''Retry action'')] [On ''click'' (QpRetry x)]
               [el ''RotateCw'' [] [], Txt '' Retry'']]
             else Null)]"

definition response_table :: "env \<Rightarrow> bool \<Rightarrow> (response_action, responses_page_msg) table_props" where
  "response_table env loading =
     \<lparr>tp_columns = response_columns env, tp_row_click = None, tp_placeholder = Some (''Filter responses'' @ u_ellipsis),
      tp_page_size = Some 25, tp_toolbar = None, tp_initial_sort = [(''ts'', True)], tp_empty = Some (Txt ''No response actions''),
      tp_loading = loading, tp_row_id = True, tp_table_id = Some ''responses'', tp_selection = False, tp_bulk = None, tp_density = True\<rparr>"

definition responses_page_view ::
  "env \<Rightarrow> (string \<Rightarrow> count_up) \<Rightarrow> response_action list option \<Rightarrow> response_action grid \<Rightarrow> table_view \<Rightarrow> responses_page_msg node" where
  "responses_page_view env counters responses g tv =
     (let r = (case responses of None \<Rightarrow> [] | Some rs \<Rightarrow> rs); failed = status_count ''failed'' r; card = metric_card env counters
      in divc ''space-y-5''
        [divc ''reveal grid gap-4 sm:grid-cols-2 xl:grid-cols-4''
           [card ''Responses'' (MNum (int (length r))) ''Crosshair'' None False,
            card ''Automated'' (MNum (int (auto_count r))) ''Bot'' (Some ''var(--signal)'') False,
            card ''Completed'' (MNum (int (status_count ''completed'' r))) ''CheckCircle2'' (Some ''var(--signal)'') False,
            card ''Failed'' (MNum (int failed)) ''XCircle'' (Some ''var(--sev-critical)'') (failed > 0)],
         data_table (response_table env (responses = None)) g tv QpGrid])"

subsection \<open>Lemmas\<close>

definition rules_page_offers :: "rules_data \<Rightarrow> rules_page \<Rightarrow> rules_page_msg set" where
  "rules_page_offers d s =
     set_node (rules_page_view d s) \<union> {GpToggled r b res | r b res. True} \<union> range GpRemoved \<union>
     {GpBulkDone n b res | n b res. True} \<union> {GpNew (NsDone r) | r. True}"

definition supp_choice :: "new_supp_msg \<Rightarrow> bool" where
  \<comment> \<open>a choice that the dialog offers\<close>
  "supp_choice m = (case m of NsField f \<Rightarrow> f \<in> set SUPP_FIELDS | NsOp p \<Rightarrow> p \<in> {''equals'', ''contains''} | _ \<Rightarrow> True)"

lemma new_supp_choices: "set_node (new_supp_view rules n) \<subseteq> Collect supp_choice"
  by (auto simp: new_supp_view_def supp_choice_def SUPP_FIELDS_def split: if_splits)

definition rules_sends :: "rules_page_msg \<Rightarrow> bool" where
  "rules_sends m = (case m of GpNew n \<Rightarrow> supp_choice n | _ \<Rightarrow> True)"

lemma rules_sends_simps [simp]:
  "rules_sends (GpToggle r b)" "rules_sends (GpRemove x)" "rules_sends (GpBulk rows b)" "rules_sends (GpGrid g)" "rules_sends (GpSuppGrid g)"
  "rules_sends (GpToggled r b res)" "rules_sends (GpRemoved res)" "rules_sends (GpBulkDone n b ress)" "rules_sends (GpNew (NsDone res))"
  by (simp_all add: rules_sends_def supp_choice_def)

lemma rule_table_sends: "set_node (data_table (rule_table l) g tv GpGrid) \<subseteq> Collect rules_sends"
proof -
  have c: "cell_messages (rule_table l) g \<subseteq> Collect rules_sends"
    by (rule cell_messages_le) (auto simp: rule_table_def rule_columns_def split: if_splits)
  have b: "bulk_messages (rule_table l) g \<subseteq> Collect rules_sends"
    by (rule bulk_messages_le [of rules_bulk]) (simp_all add: rules_bulk_def rule_table_def)
  have k: "click_messages (rule_table l) g = {}" by (simp add: click_messages_def rule_table_def)
  have n: "range GpGrid \<subseteq> Collect rules_sends" by auto
  show ?thesis
    by (rule subset_trans [OF data_table_messages]) (use b k c n in \<open>simp add: rule_table_def\<close>)
qed

lemma supp_table_sends: "set_node (data_table (supp_table env l) g tv GpSuppGrid) \<subseteq> Collect rules_sends"
proof -
  have c: "cell_messages (supp_table env l) g \<subseteq> Collect rules_sends"
    by (rule cell_messages_le) (auto simp: supp_table_def supp_columns_def)
  have b: "bulk_messages (supp_table env l) g = {}" "click_messages (supp_table env l) g = {}"
    by (simp_all add: bulk_messages_def click_messages_def supp_table_def)
  have n: "range GpSuppGrid \<subseteq> Collect rules_sends" by auto
  show ?thesis
    by (rule subset_trans [OF data_table_messages]) (use b c n in \<open>simp add: supp_table_def\<close>)
qed

lemma rules_page_sends: "m \<in> rules_page_offers d s \<Longrightarrow> rules_sends m"
proof -
  have n: "GpNew ` set_node (new_supp_view rs n) \<subseteq> Collect rules_sends" for rs n
    using new_supp_choices [of rs n] by (auto simp: rules_sends_def)
  have "set_node (rules_page_view d s) \<subseteq> Collect rules_sends"
    using rule_table_sends supp_table_sends n
    by (simp add: rules_page_view_def Let_def node.set_map)
  then show "m \<in> rules_page_offers d s \<Longrightarrow> rules_sends m"
    by (auto simp: rules_page_offers_def)
qed

definition supp_ok :: "new_supp \<Rightarrow> bool" where
  "supp_ok n \<longleftrightarrow> ns_field n \<in> set SUPP_FIELDS \<and> ns_op n \<in> {''equals'', ''contains''}"

lemma supp_ok_update:
  assumes "supp_ok n" and "supp_choice m"
  shows "supp_ok (fst (new_supp_update m n)) \<and>
    (\<forall>r\<in>set (sent (fst (snd (new_supp_update m n)))). r = supp_request n \<and> trim (ns_value n) \<noteq> [])"
  using assms by (cases m) (auto simp: supp_ok_def supp_choice_def Let_def split: rule_reply.splits)

lemma supp_ok_next: "new_supp_update m n = (n', es, c) \<Longrightarrow> supp_ok n \<Longrightarrow> supp_choice m \<Longrightarrow> supp_ok n'"
  using supp_ok_update [of n m] by simp

subsection \<open>Properties\<close>


text \<open>A submission that the network swallows leaves the dialog busy for good: whatever is typed,
  closed or opened afterwards, its button stays disabled, until the page is left.\<close>

theorem suppression_dialog_stuck:
  assumes "ns_busy n" and "\<forall>m\<in>set ms. m \<noteq> NsSubmit \<and> (\<forall>st. m \<noteq> NsDone (RuleStatus st))"
  shows "NsSubmit \<notin> set_node (new_supp_view rules (fold (\<lambda>m n. fst (new_supp_update m n)) ms n))"
proof -
  have "ns_busy (fold (\<lambda>m n. fst (new_supp_update m n)) ms n)"
    using assms
  proof (induction ms arbitrary: n)
    case (Cons m ms)
    have "ns_busy (fst (new_supp_update m n))"
      using Cons.prems by (cases m) (auto split: rule_reply.splits)
    with Cons show ?case by simp
  qed simp
  then show ?thesis by (auto simp: new_supp_view_def)
qed

text \<open>When one of the replies to a bulk toggle throws, nothing is reported or reloaded, although the
  other rules were changed; otherwise there is one toast, which is a success exactly when every reply
  is, and the page reloads.\<close>

theorem bulk_toggle_reported:
  "(RuleThrows \<in> set res \<longrightarrow> rules_page_update (GpBulkDone (length res) b res) s = (s, [])) \<and>
   (RuleThrows \<notin> set res \<longrightarrow>
      (\<exists>t. rules_page_update (GpBulkDone (length res) b res) s = (reload s, [Toast (list_all reply_ok_status res) t, ClearSelection])))"
proof -
  have f: "length (filter reply_ok_status res) = length res \<longleftrightarrow> list_all reply_ok_status res"
    by (metis filter_id_conv length_filter_less list_all_iff nat_less_le)
  show ?thesis by (auto simp: bulk_toggled_def Let_def f)
qed

text \<open>A retry is offered only for a failed response, and it issues the same response again: the same
  verb to the same host with the same target, for the same detection.\<close>

theorem retry_same_response:
  "(QpRetry x \<in> set_node (responses_page_view env counters responses g tv) \<longrightarrow> re_status x = ''failed'') \<and>
   responses_page_update (QpRetry x) = [Send (respond_request
     \<lparr>ra_type = re_type x, ra_agent = re_agent_id x, ra_target = map_option JObj (re_target x),
      ra_reason = Some (''retry of '' @ re_id x), ra_detection = re_detection_id x\<rparr>)]"
proof -
  let ?M = "{m. \<forall>x. m = QpRetry x \<longrightarrow> re_status x = ''failed''}"
  have c: "cell_messages (response_table env l) g \<subseteq> ?M" for l
    by (rule cell_messages_le) (auto simp: response_table_def response_columns_def split: if_splits)
  have b: "bulk_messages (response_table env l) g = {}" "click_messages (response_table env l) g = {}" for l
    by (simp_all add: bulk_messages_def click_messages_def response_table_def)
  have "set_node (data_table (response_table env l) g tv QpGrid) \<subseteq> ?M" for l
    by (rule subset_trans [OF data_table_messages]) (use b c [of l] in \<open>auto simp: response_table_def\<close>)
  then have "set_node (responses_page_view env counters responses g tv) \<subseteq> ?M"
    by (simp add: responses_page_view_def Let_def)
  then show ?thesis by (auto simp: retry_request_def)
qed

subsection \<open>Witnesses\<close>

definition example_rule :: dash_rule where
  "example_rule = \<lparr>ru_ID = ''r1'', ru_Title = ''Miner'', ru_Severity = ''high'', ru_Category = [], ru_Tactic = [], ru_Description = [],
     ru_AutoRespond = [], ru_MITRE = None, dr_Enabled = True\<rparr>"

definition example_rules_data :: rules_data where
  "example_rules_data = \<lparr>gd_env = plain_env, gd_rules = Some [example_rule], gd_supps = None, gd_counters = (\<lambda>l. count_up0 0),
     gd_grid = grid_of [] [example_rule], gd_table = table_view0 [], gd_supp_grid = grid_of [] [], gd_supp_table = table_view0 []\<rparr>"


lemma suppression_dialog_stuck_witness:
  "NsSubmit \<notin> set_node (new_supp_view [] (fold (\<lambda>m n. fst (new_supp_update m n)) [NsDone RuleThrows, NsOpen False, NsOpen True]
     (new_supp0\<lparr>ns_busy := True\<rparr>)))"
  by (rule suppression_dialog_stuck) simp_all

lemma bulk_toggle_reported_witness:
  "rules_page_update (GpBulkDone (length [RuleStatus 200, RuleThrows]) True [RuleStatus 200, RuleThrows]) rules_page0 = (rules_page0, [])"
  using conjunct1 [OF bulk_toggle_reported [of "[RuleStatus 200, RuleThrows]" True rules_page0]] by simp

end
