(* ===== verification/DashFlows.thy ===== *)
theory DashFlows
  imports Bff DashTraffic DashOverview DashAccess DashSettings DashEvents DashEndpoints DashDetections DashCases DashRules
begin

section \<open>What the pages of the console do to each other and to the proxy\<close>

text \<open>
  The two ways out of a page. A link goes to another page of the console: the lemmas show that what the
  pages write into an address is what the event page and the detection page read from it. A request
  goes to the proxy (\<open>app/api/proxy/[...path]/route.ts\<close>, theory \<open>Bff\<close>): the lemmas show that every
  request of every page is one of the routes that the Go server registers, and that the proxy asks
  for the role of that route.
\<close>

subsection \<open>Links\<close>

inductive console_link :: "string \<Rightarrow> bool" where
  \<comment> \<open>an address that something on the screen leads to\<close>
  overview: "OpGo h \<in> set_node (dash_overview_view od) \<Longrightarrow> console_link h"
| internet: "IpGo h \<in> set_node (inet_view nd sel) \<Longrightarrow> console_link h"
| detections: "XpGo h \<in> set_node (detections_page_view xd xs) \<Longrightarrow> console_link h"
| incidents: "KpGo h \<in> set_node (cases_page_view kd ks) \<Longrightarrow> console_link h"
| palette: "PaGo h \<in> set_node (command_palette shown agents dets) \<Longrightarrow> console_link h"
| sidebar: "SbGo h \<in> set_node (app_sidebar path user) \<Longrightarrow> console_link h"

definition with_filter :: "string \<Rightarrow> string \<Rightarrow> events_page" where
  \<comment> \<open>the event page as it starts, with one filter set\<close>
  "with_filter k v =
     (if k = ''category'' then events_page0\<lparr>vp_cat := v\<rparr>
      else if k = ''q'' then events_page0\<lparr>vp_q := v\<rparr>
      else if k = ''agent_id'' then events_page0\<lparr>vp_agent := v\<rparr>
      else events_page0\<lparr>vp_user := v\<rparr>)"

definition link_keys :: "string set" where
  "link_keys = {''category'', ''q'', ''agent_id'', ''user''}"

lemma link_keys_plain:
  "k \<in> link_keys \<Longrightarrow> (\<forall>c\<in>set k. is_alpha c \<or> is_digit c \<or> c = CHR ''_'') \<and> k \<noteq> []"
  by (auto simp: link_keys_def is_alpha_def)

text \<open>An address with one filter sets that filter and leaves the others as they start.\<close>

lemma hydrate_event_link:
  assumes "k \<in> link_keys" and "v \<noteq> []"
  shows "hydrate (drop 7 (event_link k v)) events_page0 = with_filter k v"
proof -
  have p: "parse_search (drop 7 (event_link k v)) = [(k, v)]"
    using parse_search_single [of k v] link_keys_plain [OF assms(1)] by (simp add: event_link_def)
  have g: "search_get (drop 7 (event_link k v)) j = (if j = k then Some v else None)" for j
    by (simp add: search_get_def p)
  show ?thesis
    using assms by (auto simp: hydrate_def g or_keep_def truthy_def with_filter_def events_page0_def link_keys_def)
qed

lemma url_decode_clean: "CHR ''%'' \<notin> set s \<Longrightarrow> CHR ''+'' \<notin> set s \<Longrightarrow> url_decode s = s"
proof (induction s)
  case (Cons c s)
  then show ?case by (auto simp: url_decode_plain plus_space_def)
qed simp

definition clean_id :: "string \<Rightarrow> bool" where
  \<comment> \<open>an identifier that needs no encoding in a query\<close>
  "clean_id i = list_all (\<lambda>c. c \<notin> {CHR ''%'', CHR ''+'', CHR ''&'', CHR ''#''}) i"

lemma search_detection_link:
  assumes "clean_id i"
  shows "search_get (drop 11 (detection_link i)) ''id'' = Some i"
proof -
  have c: "CHR ''%'' \<notin> set i" "CHR ''+'' \<notin> set i" "CHR ''&'' \<notin> set i"
    using assms by (auto simp: clean_id_def list_all_iff)
  have "split_on (CHR ''&'') (''id='' @ i) = [''id='' @ i]" by (rule split_on_single) (use c in simp)
  moreover have "takeWhile (\<lambda>c. c \<noteq> CHR ''='') (''id'' @ CHR ''='' # i) = ''id''" by (rule takeWhile_neq_append) simp
  moreover have "dropWhile (\<lambda>c. c \<noteq> CHR ''='') (''id'' @ CHR ''='' # i) = CHR ''='' # i" by (rule dropWhile_neq_append) simp
  moreover have "url_decode ''id'' = ''id''" by (rule url_decode_clean) simp_all
  ultimately show ?thesis
    using url_decode_clean [OF c(1,2)] by (simp add: search_get_def detection_link_def parse_search_def parse_pair_def)
qed

lemma deep_link_opens:
  assumes "clean_id i" and "i \<noteq> []" and "find (\<lambda>x. de_id x = i) all = Some d"
  shows "xp_sel (deep_link (drop 11 (detection_link i)) all s) = Some d"
  using assms by (simp add: deep_link_def search_detection_link truthy_def Let_def)

definition lands :: "string \<Rightarrow> bool" where
  \<comment> \<open>an entry of the navigation, the event page with one filter, or one detection\<close>
  "lands h \<longleftrightarrow> h \<in> nv_href ` set PALETTE_NAV \<or> (\<exists>k\<in>link_keys. h \<in> range (event_link k)) \<or> h \<in> range detection_link"

lemma lands_simps [simp]: "k \<in> link_keys \<Longrightarrow> lands (event_link k v)" "lands (detection_link i)" "n \<in> set PALETTE_NAV \<Longrightarrow> lands (nv_href n)"
  by (auto simp: lands_def)

lemma link_key_simps [simp]: "''category'' \<in> link_keys" "''q'' \<in> link_keys" "''agent_id'' \<in> link_keys" "''user'' \<in> link_keys"
  by (simp_all add: link_keys_def)

lemma events_in_nav [simp]: "lands ''/events''"
proof -
  have "''/events'' \<in> set (map nv_href PALETTE_NAV)" unfolding nav_hrefs by simp
  then show ?thesis by (auto simp: lands_def)
qed

lemma palette_lands: "set_node (command_palette shown agents dets) \<subseteq> {m. \<forall>h. m = PaGo h \<longrightarrow> lands h}"
proof -
  have "set_node (entity_results agents dets) \<subseteq> {m. \<forall>h. m = PaGo h \<longrightarrow> lands h}"
    by (auto simp: entity_results_def split: if_splits)
  then show ?thesis unfolding command_palette_def by auto
qed

lemma sidebar_lands: "set_node (app_sidebar path user) \<subseteq> {m. \<forall>h. m = SbGo h \<longrightarrow> lands h}"
proof -
  have i: "set_node (sidebar_item path n) = {SbGo (nv_href n)}" for n by (simp add: sidebar_item_def)
  have n: "lands (nv_href n)" if "(l, items) \<in> set SIDEBAR_NAV" "n \<in> set items" for l items n
  proof -
    have "n \<in> set nav_items" using that by (force simp: nav_items_def)
    then show ?thesis by (simp add: nav_items_eq)
  qed
  show ?thesis unfolding app_sidebar_def by (auto simp: i n)
qed

lemma console_link_lands: "console_link h \<Longrightarrow> lands h"
proof (induction rule: console_link.induct)
  case (overview h od)
  from overview_page_lands [OF this] show ?case by (auto simp: overview_lands_def)
next
  case (internet h nd sel)
  from inet_page_lands [OF this] show ?case by (auto simp: inet_lands_def)
next
  case (detections h xd xs)
  then have "XpGo h \<in> detection_page_offers xd xs" by (simp add: detection_page_offers_def)
  from detection_page_asks [OF this] show ?case by (auto simp: asks_for_own_def)
next
  case (incidents h kd ks)
  then have "KpGo h \<in> case_page_offers kd ks" by (simp add: case_page_offers_def)
  from case_page_guarded [OF this] show ?case by (auto simp: guarded_def)
next
  case (palette h shown agents dets)
  then show ?case using palette_lands by blast
next
  case (sidebar h path user)
  then show ?case using sidebar_lands by blast
qed

subsection \<open>Requests\<close>

inductive console_sends :: "request \<Rightarrow> bool" where
  \<comment> \<open>a request that a handler of a page sends, whatever its state and the message\<close>
  endpoints: "r \<in> set (sent (snd (endpoints_page_update em es))) \<Longrightarrow> console_sends r"
| detections: "r \<in> set (sent (snd (detections_page_update xm xs))) \<Longrightarrow> console_sends r"
| triage: "r \<in> set (sent (snd (ai_update dec i am ai))) \<Longrightarrow> console_sends r"
| events: "r \<in> set (sent (snd (events_page_update vm vs))) \<Longrightarrow> console_sends r"
| incidents: "r \<in> set (sent (snd (cases_page_update km ks))) \<Longrightarrow> console_sends r"
| rules: "r \<in> set (sent (snd (rules_page_update gm gs))) \<Longrightarrow> console_sends r"
| responses: "r \<in> set (sent (responses_page_update qm)) \<Longrightarrow> console_sends r"
| policy: "r \<in> set (sent (snd (policy_update ag pm ps))) \<Longrightarrow> console_sends r"
| settings: "SgSend r \<in> set (snd (dash_settings_update sm ss)) \<Longrightarrow> console_sends r"

definition fill :: "string \<Rightarrow> string list \<Rightarrow> string list" where
  \<comment> \<open>a route with an identifier in its place\<close>
  "fill i pat = map (\<lambda>s. if s = ''{id}'' then i else s) pat"

definition on_route :: "meth \<Rightarrow> string list \<Rightarrow> string \<Rightarrow> request \<Rightarrow> bool" where
  "on_route m pat i r \<longleftrightarrow> rq_method r = verb m \<and>
     (\<exists>q. rq_url r = ''/api/proxy/'' @ join ''/'' (fill i pat) @ q \<and> (q = [] \<or> starts_with q ''?''))"

definition go_request :: "string \<Rightarrow> request \<Rightarrow> bool" where
  "go_request i r \<longleftrightarrow> (\<exists>m pat role. (m, pat, role) \<in> set go_routes \<and> on_route m pat i r)"

inductive asks_about :: "string \<Rightarrow> request \<Rightarrow> bool" where
  \<comment> \<open>the requests the pages build, with the identifier they are about; any identifier if there is none in the path\<close>
  respond: "asks_about i (respond_request a)"
| escalate: "asks_about i (escalate_request d)"
| escalate_all: "asks_about i (bulk_escalate_request ds)"
| status: "asks_about (de_id d) (stat_request d st)"
| triage: "r \<in> set (sent (snd (ai_update dec i am ai))) \<Longrightarrow> asks_about i r"
| create: "asks_about i (new_case_request n)"
| load: "asks_about i (load_request i)"
| update: "asks_about i (update_request i body)"
| annotate: "asks_about i (note_request i t)"
| suppress: "asks_about i (supp_request n)"
| unsuppress: "r \<in> set (sent (snd (rules_page_update (GpRemove x) gs))) \<Longrightarrow> asks_about (su_id x) r"
| toggle: "asks_about (ru_ID x) (toggle_request enabled x)"
| policy: "r \<in> set (sent (snd (policy_update ag pm ps))) \<Longrightarrow> asks_about (ag_id ag) r"
| download: "asks_about i (download_request k f)"

lemma go_post:
  "(MPost, pat, role) \<in> set go_routes \<Longrightarrow> path = join ''/'' (fill i pat) \<Longrightarrow> go_request i (post_request path b)"
  unfolding go_request_def on_route_def post_request_def by fastforce

lemma go_delete:
  "(MDelete, pat, role) \<in> set go_routes \<Longrightarrow> path = join ''/'' (fill i pat) \<Longrightarrow> go_request i (del_request path)"
  unfolding go_request_def on_route_def del_request_def by fastforce

lemma go_get:
  "(MGet, pat, role) \<in> set go_routes \<Longrightarrow> rq_method r = ''GET'' \<Longrightarrow>
   rq_url r = ''/api/proxy/'' @ join ''/'' (fill i pat) @ q \<Longrightarrow> q = [] \<or> starts_with q ''?'' \<Longrightarrow> go_request i r"
  unfolding go_request_def on_route_def by fastforce

lemma go_cases:
  "go_request j (post_request ''cases'' b)" "go_request i (post_request (''cases/'' @ i) b)"
  "go_request i (post_request (''cases/'' @ i @ ''/notes'') b)"
  by (rule go_post [of "[''cases'']" "''analyst''"], simp_all add: go_routes_def fill_def)
    (rule go_post [of "[''cases'', ''{id}'']" "''analyst''" _ i], simp_all add: go_routes_def fill_def,
     rule go_post [of "[''cases'', ''{id}'', ''notes'']" "''analyst''" _ i], simp_all add: go_routes_def fill_def)

lemma go_detections:
  "go_request i (post_request (''detections/'' @ i @ ''/status'') b)" "go_request i (post_request (''detections/'' @ i @ ''/triage'') b)"
  by (rule go_post [of "[''detections'', ''{id}'', ''status'']" "''analyst''" _ i], simp_all add: go_routes_def fill_def)
    (rule go_post [of "[''detections'', ''{id}'', ''triage'']" "''analyst''" _ i], simp_all add: go_routes_def fill_def)

lemma go_agents:
  "go_request i (post_request (''agents/'' @ i @ ''/policy'') b)" "go_request i (post_request (''agents/'' @ i @ ''/upgrade'') b)"
  by (rule go_post [of "[''agents'', ''{id}'', ''policy'']" "''admin''" _ i], simp_all add: go_routes_def fill_def)
    (rule go_post [of "[''agents'', ''{id}'', ''upgrade'']" "''admin''" _ i], simp_all add: go_routes_def fill_def)

lemma go_rules:
  "go_request i (post_request (''rules/'' @ i @ ''/toggle'') b)" "go_request j (post_request ''suppressions'' b)"
  "go_request i (del_request (''suppressions/'' @ i))"
  by (rule go_post [of "[''rules'', ''{id}'', ''toggle'']" "''admin''" _ i], simp_all add: go_routes_def fill_def)
    (rule go_post [of "[''suppressions'']" "''analyst''"], simp_all add: go_routes_def fill_def,
     rule go_delete [of "[''suppressions'', ''{id}'']" "''analyst''" _ i], simp_all add: go_routes_def fill_def)

lemma go_respond: "go_request j (respond_request a)"
  unfolding respond_request_def by (rule go_post [of "[''respond'']" "''analyst''"]) (simp_all add: go_routes_def fill_def)

lemma go_reads: "go_request i (load_request i)" "go_request j (download_request k f)"
  by (rule go_get [of "[''cases'', ''{id}'']" "''viewer''" _ i "[]"], simp_all add: go_routes_def fill_def load_request_def)
    (rule go_get [of "[''siem'', ''export'']" "''analyst''" _ j "''?kind='' @ k @ ''&format='' @ f"],
      simp_all add: go_routes_def fill_def download_request_def starts_with_iff)

lemmas go_simps [simp] = go_respond go_reads go_cases go_cases [simplified] go_detections [simplified]
  go_agents [simplified] go_rules go_rules [simplified]

lemma asks_about_go: "asks_about i r \<Longrightarrow> go_request i r"
proof (induction rule: asks_about.induct)
  case (triage r dec i am ai)
  then show ?case by (cases am) (auto simp: Let_def split: if_splits)
next
  case (policy r ag pm ps)
  then show ?case
    by (cases pm) (auto simp: push_policy_def push_update_def push_policy_done_def push_update_done_def
        split: option.splits push_reply.splits if_splits)
qed (simp_all add: escalate_request_def bulk_escalate_request_def stat_request_def new_case_request_def
       update_request_def note_request_def supp_request_def toggle_request_def)

subsection \<open>Every request is one of them\<close>

definition known :: "request \<Rightarrow> bool" where
  "known r \<longleftrightarrow> (\<exists>i. asks_about i r)"

lemma knownI: "asks_about i r \<Longrightarrow> known r"
  by (auto simp: known_def)

lemmas known_built [simp] = asks_about.respond [THEN knownI] asks_about.escalate [THEN knownI]
  asks_about.escalate_all [THEN knownI] asks_about.status [THEN knownI] asks_about.create [THEN knownI]
  asks_about.load [THEN knownI] asks_about.update [THEN knownI] asks_about.annotate [THEN knownI]
  asks_about.suppress [THEN knownI] asks_about.toggle [THEN knownI] asks_about.download [THEN knownI]

lemmas respond_defs =
  endpoint_request_def triage_request_def bulk_isolate_request_def bulk_lift_request_def agent_request_def
  detection_request_def event_request_def retry_request_def

lemma case_page_known: "r \<in> set (sent (snd (cases_page_update m s))) \<Longrightarrow> known r"
proof -
  have l: "q \<in> set (sent (snd (load_case u))) \<Longrightarrow> known q" for q u
    by (auto simp: load_case_def Let_def split: if_splits)
  have c: "q \<in> set (sent (snd (select_case i u))) \<Longrightarrow> known q" for q i u
    using l by (auto simp: select_case_def split: if_splits)
  have n: "q \<in> set (sent (snd (new_case_step nm u))) \<Longrightarrow> known q" for q nm u
  proof -
    assume q: "q \<in> set (sent (snd (new_case_step nm u)))"
    obtain n es i where e: "new_case_update nm (kp_new u) = (n, es, i)" by (cases "new_case_update nm (kp_new u)") auto
    have "q \<in> set (sent es) \<or> (\<exists>i v. q \<in> set (sent (snd (select_case i v))))"
      using q by (auto simp: new_case_step_def e split: option.splits prod.splits) (metis snd_conv)+
    moreover have "q \<in> set (sent es) \<Longrightarrow> known q"
      using e by (cases nm) (auto simp: Let_def reply_toast_def split: if_splits)
    ultimately show "known q" using c by blast
  qed
  assume "r \<in> set (sent (snd (cases_page_update m s)))"
  then show "known r"
    using l c n
    by (cases m) (auto simp: case_updated_def case_noted_def add_note_def split: case_reply.splits option.splits if_splits)
qed

lemma rules_page_known: "r \<in> set (sent (snd (rules_page_update m s))) \<Longrightarrow> known r"
proof (cases m)
  case (GpNew nm)
  have n: "q \<in> set (sent (fst (snd (new_supp_update nm u)))) \<Longrightarrow> known q" for q u
    by (cases nm) (auto simp: Let_def split: rule_reply.splits if_splits)
  assume "r \<in> set (sent (snd (rules_page_update m s)))"
  then show ?thesis using GpNew n [of r "gp_new s"] by (auto split: prod.splits)
next
  case (GpRemove x)
  assume "r \<in> set (sent (snd (rules_page_update m s)))"
  then show ?thesis unfolding GpRemove by (rule asks_about.unsuppress [THEN knownI])
qed (auto simp: toggled_def supp_removed_def bulk_toggled_def Let_def split: rule_reply.splits if_splits)

lemma console_sends_known: "console_sends r \<Longrightarrow> known r"
proof (induction rule: console_sends.induct)
  case (endpoints r em es)
  then show ?case
    by (cases em) (auto simp: isolate_targets_def lift_targets_def endpoint_act_done_def triage_done_def bulk_isolated_def
        bulk_lifted_def reply_toast_def respond_defs split: option.splits if_splits)
next
  case (detections r xm xs)
  then show ?case
    by (cases xm) (auto dest!: recommend_sends simp: detection_act_done_def stat_done_def escalate_done_def bulk_stat_done_def
        bulk_escalate_done_def reply_toast_def respond_defs Let_def split: option.splits if_splits)
next
  case (triage r dec i am ai)
  then show ?case by (rule asks_about.triage [THEN knownI])
next
  case (events r vm vs)
  then show ?case
    by (cases vm) (auto simp: event_act_done_def reply_toast_def respond_defs split: option.splits if_splits)
next
  case (incidents r km ks)
  then show ?case by (rule case_page_known)
next
  case (rules r gm gs)
  then show ?case by (rule rules_page_known)
next
  case (responses r qm)
  then show ?case by (cases qm) (auto simp: reply_toast_def respond_defs split: if_splits)
next
  case (policy r ag pm ps)
  then show ?case by (rule asks_about.policy [THEN knownI])
next
  case (settings r sm ss)
  then show ?case
    by (cases sm) (auto simp: downloaded_def change_submit_def change_done_def Let_def
        split: option.splits if_splits prod.splits download_reply.splits tf_reply.splits)
qed

subsection \<open>Sign-in options\<close>

record auth_options =
  \<comment> \<open>what \<open>lib/auth.ts\<close> asks of the sign-in library; times in seconds\<close>
  ao_base_url :: string
  ao_password_login :: bool
  ao_min_password :: nat
  ao_sign_up_disabled :: bool
  ao_rate :: "nat \<times> nat"
  ao_rate_rules :: "(string \<times> nat \<times> nat) list"
  ao_session :: nat
  ao_cookie_cache :: nat
  ao_default_role :: string
  ao_role_input :: bool
  ao_issuer :: string

definition AUTH :: "string option \<Rightarrow> auth_options" where
  \<comment> \<open>the argument is \<open>BETTER_AUTH_URL\<close>\<close>
  "AUTH url =
     \<lparr>ao_base_url = str_or url ''http://localhost:3000'', ao_password_login = True, ao_min_password = 12,
      ao_sign_up_disabled = True, ao_rate = (60, 60),
      ao_rate_rules = [(''/sign-in/email'', 60, 8), (''/two-factor/verify-totp'', 60, 8), (''/two-factor/enable'', 60, 5)],
      ao_session = 60 * 60 * 12, ao_cookie_cache = 60 * 5, ao_default_role = ''viewer'', ao_role_input = False,
      ao_issuer = ''Sentinel''\<rparr>"

subsection \<open>The gate on a request\<close>

definition refused :: "meth \<Rightarrow> bff_env \<Rightarrow> token_cache option \<Rightarrow> incoming \<Rightarrow> bool" where
  "refused m env c rq \<longleftrightarrow>
     (\<exists>status\<in>{400, 401, 403}. \<exists>text. bff_handle m env c rq = (Inr (plain status text), c, []))"

lemma route_matches_fill: "i \<noteq> [] \<Longrightarrow> route_matches pat (fill i pat)"
  by (induction pat) (auto simp: fill_def)

lemma fill_plain: "''{id}'' \<notin> set pat \<Longrightarrow> fill i pat = pat"
  by (auto simp: fill_def intro!: map_idI)

lemma route_matches_refl: "[] \<notin> set pat \<Longrightarrow> route_matches pat pat"
  by (induction pat) auto

lemma go_route_plain: "(m, pat, role) \<in> set go_routes \<Longrightarrow> [] \<notin> set pat"
  by (auto simp: go_routes_def)

lemma route_of_valid:
  assumes "(m, pat, role) \<in> set go_routes" and "valid_path (fill i pat)"
  shows "route_matches pat (fill i pat)"
proof (cases "''{id}'' \<in> set pat")
  case True
  then have "i \<in> set (fill i pat)" by (force simp: fill_def)
  then have "i \<noteq> []" using assms(2) by (auto simp: valid_path_iff valid_segment_def)
  then show ?thesis by (rule route_matches_fill)
next
  case False
  then show ?thesis using route_matches_refl go_route_plain [OF assms(1)] by (simp add: fill_plain)
qed

lemma gate_of_route:
  assumes "(m, pat, role) \<in> set go_routes" and "in_path rq = fill i pat"
  shows "if valid_path (fill i pat) \<and> role_rank (Some role) \<le> role_rank (operator_role (be_session env))
    then bff_handle m env c rq = forward env c rq (verb m) (sent_body m rq) else refused m env c rq"
proof -
  have l: "valid_path (fill i pat) \<Longrightarrow> least_role m (fill i pat) = role"
    using go_route_least_role [OF assms(1) route_of_valid [OF assms(1)]] .
  have z: "role_rank (operator_role None) = 0" by (simp add: role_rank_def operator_role_def)
  have p: "0 < role_rank (Some role)" using assms(1) by (auto simp: go_routes_def role_rank_def)
  have h: "bff_handle m env c rq = (case decide m (be_session env) (in_path rq) of
        BadRequest \<Rightarrow> (Inr (plain 400 ''bad request''), c, [])
      | Unauthorized \<Rightarrow> (Inr (plain 401 ''unauthorized''), c, [])
      | Forbidden r \<Rightarrow> (Inr (plain 403 (''forbidden: '' @ r @ '' role required'')), c, [])
      | Forward \<Rightarrow> forward env c rq (verb m) (sent_body m rq))"
    by (rule gated_handler.handle_decides [OF gated_bff_handle])
  show ?thesis
    using l z p by (auto simp: h assms(2) decide_def refused_def valid_path_iff)
qed

subsection \<open>Properties\<close>


text \<open>C4: the console asks for nothing that the server does not register, and the proxy asks for the role of
  the route: each request that a handler of a page sends is one of those that \<open>asks_about\<close> lists, and
  whatever identifier it is about, it is one route of the Go server with that identifier in place;
  an incoming request with that path is forwarded if its segments are plain and the operator has the
  rank of the route, and otherwise refused with 400, 401 or 403, with no request sent and the token kept.\<close>

theorem console_requests_gated:
  assumes "console_sends r"
  shows "(\<exists>i. asks_about i r) \<and>
    (\<forall>i. asks_about i r \<longrightarrow> (\<exists>m pat role. (m, pat, role) \<in> set go_routes \<and> on_route m pat i r \<and>
      (\<forall>env c rq. in_path rq = fill i pat \<longrightarrow>
        (if valid_path (fill i pat) \<and> role_rank (Some role) \<le> role_rank (operator_role (be_session env))
         then bff_handle m env c rq = forward env c rq (verb m) (sent_body m rq) else refused m env c rq))))"
proof (intro conjI allI impI)
  show "\<exists>i. asks_about i r" using console_sends_known [OF assms] by (simp add: known_def)
  fix i assume "asks_about i r"
  from asks_about_go [OF this] obtain m pat role where "(m, pat, role) \<in> set go_routes" "on_route m pat i r"
    by (auto simp: go_request_def)
  then show "\<exists>m pat role. (m, pat, role) \<in> set go_routes \<and> on_route m pat i r \<and>
      (\<forall>env c rq. in_path rq = fill i pat \<longrightarrow>
        (if valid_path (fill i pat) \<and> role_rank (Some role) \<le> role_rank (operator_role (be_session env))
         then bff_handle m env c rq = forward env c rq (verb m) (sent_body m rq) else refused m env c rq))"
    using gate_of_route by (intro exI [of _ m] exI [of _ pat] exI [of _ role]) blast
qed

text \<open>An operator without a role is a viewer to the proxy, which refuses every change, while the
  settings page shows the role of an analyst.\<close>

lemma role_shown_differs:
  "shown_role (Some \<lparr>op_name = n, op_email = e, op_role = None\<rparr>) = ''analyst'' \<and>
   operator_role (Some \<lparr>se_role = None\<rparr>) = Some (ao_default_role (AUTH url))"
proof -
  have "to_lower ''viewer'' = ''viewer''" by code_simp
  then show ?thesis by (simp add: shown_role_def operator_role_def AUTH_def str_or_def)
qed

text \<open>The settings page sends a new password of eight to eleven characters, which is shorter than the
  sign-in library is told to accept.\<close>

lemma short_password_sent:
  assumes "8 \<le> utf16_length (pc_next p)" and "utf16_length (pc_next p) < ao_min_password (AUTH url)"
  shows "SgAuthChange (pc_cur p) (pc_next p) \<in> set (snd (change_submit p))"
  using assms by (simp add: change_submit_def)

subsection \<open>Witnesses\<close>


lemma console_requests_gated_witness:
  "\<exists>m pat role. (m, pat, role) \<in> set go_routes \<and> on_route m pat (ru_ID example_rule) (toggle_request False example_rule) \<and>
    (\<forall>env c rq. in_path rq = fill (ru_ID example_rule) pat \<longrightarrow>
       (if valid_path (fill (ru_ID example_rule) pat) \<and> role_rank (Some role) \<le> role_rank (operator_role (be_session env))
        then bff_handle m env c rq = forward env c rq (verb m) (sent_body m rq) else refused m env c rq))"
proof -
  have "toggle_request False example_rule \<in> set (sent (snd (rules_page_update (GpToggle example_rule False) rules_page0)))" by simp
  from console_requests_gated [OF console_sends.rules [OF this]] asks_about.toggle show ?thesis by blast
qed

lemma short_password_sent_witness:
  "SgAuthChange ''old'' ''tenletters'' \<in> set (snd (change_submit \<lparr>pc_cur = ''old'', pc_next = ''tenletters'', pc_busy = False\<rparr>))"
proof -
  have "utf16_length ''tenletters'' = 10" by code_simp
  then show ?thesis using short_password_sent [of "\<lparr>pc_cur = ''old'', pc_next = ''tenletters'', pc_busy = False\<rparr>" None]
    by (simp add: AUTH_def)
qed

end
