(* ===== verification/SidebarKit.thy ===== *)
theory SidebarKit
  imports DashAccess
begin

section \<open>The sidebar of the interface kit\<close>

text \<open>
  Models \<open>dashboard/components/ui/sidebar.tsx\<close>: the provider with its two states (open on a desktop, open
  as a sheet on a phone), the cookie it writes, the shortcut, and the parts the navigation is built from.
  \<open>shown\<close> is the value of \<open>open\<close> in the render that a callback belongs to: the callback on the desktop
  computes the next state from it, the one for phones from the current state. Class names are left out.
  The sheet shows its content only while it is open.
\<close>

subsection \<open>Provider\<close>

definition SIDEBAR_COOKIE_NAME :: string where
  "SIDEBAR_COOKIE_NAME = ''sidebar_state''"

definition SIDEBAR_COOKIE_MAX_AGE :: nat where
  "SIDEBAR_COOKIE_MAX_AGE = 60 * 60 * 24 * 7"

definition SIDEBAR_WIDTH :: string where
  "SIDEBAR_WIDTH = ''16rem''"

definition SIDEBAR_WIDTH_MOBILE :: string where
  "SIDEBAR_WIDTH_MOBILE = ''18rem''"

definition SIDEBAR_WIDTH_ICON :: string where
  "SIDEBAR_WIDTH_ICON = ''3rem''"

definition SIDEBAR_KEYBOARD_SHORTCUT :: string where
  "SIDEBAR_KEYBOARD_SHORTCUT = ''b''"

record provider_props =
  sp_default :: bool
  sp_open :: "bool option"
  sp_on_change :: bool
    \<comment> \<open>whether \<open>onOpenChange\<close> is given\<close>

record provider =
  pv_own :: bool
  pv_mobile :: bool

definition provider0 :: "provider_props \<Rightarrow> provider" where
  "provider0 p = \<lparr>pv_own = sp_default p, pv_mobile = False\<rparr>"

definition plain_provider :: provider_props where
  \<comment> \<open>\<open><SidebarProvider>\<close> without props\<close>
  "plain_provider = \<lparr>sp_default = True, sp_open = None, sp_on_change = False\<rparr>"

definition sidebar_open :: "provider_props \<Rightarrow> provider \<Rightarrow> bool" where
  "sidebar_open p s = (case sp_open p of Some b \<Rightarrow> b | None \<Rightarrow> pv_own s)"

datatype setter = Set bool | Change "bool \<Rightarrow> bool"

datatype kit_effect = OpenChanged bool | WriteCookie string | PreventDefault

definition bool_text :: "bool \<Rightarrow> string" where
  "bool_text b = (if b then ''true'' else ''false'')"

definition state_cookie :: "bool \<Rightarrow> string" where
  "state_cookie b = SIDEBAR_COOKIE_NAME @ ''='' @ bool_text b @ ''; path=/; max-age='' @ show_nat SIDEBAR_COOKIE_MAX_AGE"

definition set_open :: "provider_props \<Rightarrow> bool \<Rightarrow> setter \<Rightarrow> provider \<Rightarrow> provider \<times> kit_effect list" where
  "set_open p shown v s =
     (let b = (case v of Set x \<Rightarrow> x | Change f \<Rightarrow> f shown)
      in (if sp_on_change p then s else s\<lparr>pv_own := b\<rparr>,
          (if sp_on_change p then [OpenChanged b] else []) @ [WriteCookie (state_cookie b)]))"

definition toggle_sidebar :: "provider_props \<Rightarrow> bool \<Rightarrow> bool \<Rightarrow> provider \<Rightarrow> provider \<times> kit_effect list" where
  "toggle_sidebar p mobile shown s =
     (if mobile then (s\<lparr>pv_mobile := \<not> pv_mobile s\<rparr>, []) else set_open p shown (Change Not) s)"

datatype kit_msg =
    KtToggle
  | KtKey bool bool string
    \<comment> \<open>a key anywhere: whether meta and control are held, and the key\<close>
  | KtSheet bool
    \<comment> \<open>the sheet reports that it was opened or closed\<close>

fun kit_update :: "provider_props \<Rightarrow> bool \<Rightarrow> bool \<Rightarrow> kit_msg \<Rightarrow> provider \<Rightarrow> provider \<times> kit_effect list" where
  "kit_update p mobile shown KtToggle s = toggle_sidebar p mobile shown s"
| "kit_update p mobile shown (KtKey meta ctrl key) s =
     (if key = SIDEBAR_KEYBOARD_SHORTCUT \<and> (meta \<or> ctrl)
      then (case toggle_sidebar p mobile shown s of (t, es) \<Rightarrow> (t, PreventDefault # es))
      else (s, []))"
| "kit_update p mobile shown (KtSheet b) s = (s\<lparr>pv_mobile := b\<rparr>, [])"

record sidebar_context =
  cx_state :: string
  cx_open :: bool
  cx_mobile :: bool
  cx_open_mobile :: bool

definition context_of :: "provider_props \<Rightarrow> bool \<Rightarrow> provider \<Rightarrow> sidebar_context" where
  "context_of p mobile s =
     \<lparr>cx_state = (if sidebar_open p s then ''expanded'' else ''collapsed''), cx_open = sidebar_open p s,
      cx_mobile = mobile, cx_open_mobile = pv_mobile s\<rparr>"

definition use_sidebar :: "sidebar_context option \<Rightarrow> string + sidebar_context" where
  "use_sidebar c =
     (case c of None \<Rightarrow> Inl ''useSidebar must be used within a SidebarProvider.'' | Some x \<Rightarrow> Inr x)"

definition provider_view :: "(string \<times> string) list \<Rightarrow> (string \<times> string) list \<Rightarrow> 'm node list \<Rightarrow> 'm node" where
  \<comment> \<open>the caller's style declarations come after the two widths\<close>
  "provider_view style attrs children =
     el ''TooltipProvider'' [(''delayDuration'', ''300'')]
       [el ''div''
          ([(''data-slot'', ''sidebar-wrapper''),
            sty (concat (map (\<lambda>(k, v). k @ '': '' @ v @ ''; '')
              (obj_spread [(''--sidebar-width'', SIDEBAR_WIDTH), (''--sidebar-width-icon'', SIDEBAR_WIDTH_ICON)] style)))] @ attrs) children]"

subsection \<open>Parts\<close>

definition sidebar :: "sidebar_context \<Rightarrow> string \<Rightarrow> string \<Rightarrow> string \<Rightarrow> (string \<times> string) list \<Rightarrow> (bool \<Rightarrow> 'm) \<Rightarrow> 'm node list \<Rightarrow> 'm node" where
  "sidebar cx side variant collapsible attrs on_sheet children =
     (if collapsible = ''none'' then el ''div'' ((''data-slot'', ''sidebar'') # attrs) children
      else if cx_mobile cx then
        Elem ''Sheet'' ((''open'', bool_text (cx_open_mobile cx)) # attrs)
          (if cx_open_mobile cx then [On ''openChange'' (on_sheet False)] else [])
          (if \<not> cx_open_mobile cx then []
           else [el ''SheetContent''
             [(''data-sidebar'', ''sidebar''), (''data-slot'', ''sidebar''), (''data-mobile'', ''true''),
              sty (''--sidebar-width: '' @ SIDEBAR_WIDTH_MOBILE), (''side'', side)]
             [el ''SheetHeader'' [] [el ''SheetTitle'' [] [Txt ''Sidebar''], el ''SheetDescription'' [] [Txt ''Displays the mobile sidebar.'']],
              el ''div'' [] children]])
      else
        el ''div''
          [(''data-state'', cx_state cx), (''data-collapsible'', if cx_state cx = ''collapsed'' then collapsible else []),
           (''data-variant'', variant), (''data-side'', side), (''data-slot'', ''sidebar'')]
          [el ''div'' [(''data-slot'', ''sidebar-gap'')] [],
           el ''div'' ((''data-slot'', ''sidebar-container'') # attrs)
             [el ''div'' [(''data-sidebar'', ''sidebar''), (''data-slot'', ''sidebar-inner'')] children]])"

definition sidebar_trigger :: "'m option \<Rightarrow> 'm \<Rightarrow> (string \<times> string) list \<Rightarrow> 'm node" where
  \<comment> \<open>a click runs the caller's handler, if any, and then toggles\<close>
  "sidebar_trigger on_click toggle attrs =
     Elem ''Button'' ([(''data-sidebar'', ''trigger''), (''data-slot'', ''sidebar-trigger''), (''variant'', ''ghost''), (''size'', ''icon'')] @ attrs)
       ((case on_click of None \<Rightarrow> [] | Some m \<Rightarrow> [On ''click'' m]) @ [On ''click'' toggle])
       [el ''PanelLeftIcon'' [] [], spanc ''sr-only'' [Txt ''Toggle Sidebar'']]"

definition sidebar_rail :: "'m \<Rightarrow> (string \<times> string) list \<Rightarrow> 'm node" where
  "sidebar_rail toggle attrs =
     Elem ''button''
       ([(''data-sidebar'', ''rail''), (''data-slot'', ''sidebar-rail''), (''aria-label'', ''Toggle Sidebar''), (''tabIndex'', ''-1''),
         (''title'', ''Toggle Sidebar'')] @ attrs) [On ''click'' toggle] []"

definition slot_part :: "string \<Rightarrow> string \<Rightarrow> string option \<Rightarrow> (string \<times> string) list \<Rightarrow> 'm handler list \<Rightarrow> 'm node list \<Rightarrow> 'm node" where
  \<comment> \<open>a part that only names itself and passes the rest on\<close>
  "slot_part tag slot name attrs handlers children =
     Elem tag ([(''data-slot'', slot)] @ opt_attr ''data-sidebar'' name @ attrs) handlers children"

definition comp :: "bool \<Rightarrow> string \<Rightarrow> string" where
  \<comment> \<open>the element a part renders; with \<open>asChild\<close> it is its only child that carries the attributes\<close>
  "comp as_child tag = (if as_child then ''Slot.Root'' else tag)"

definition sidebar_inset :: "(string \<times> string) list \<Rightarrow> 'm node list \<Rightarrow> 'm node" where
  "sidebar_inset attrs = slot_part ''main'' ''sidebar-inset'' None attrs []"

definition sidebar_input :: "(string \<times> string) list \<Rightarrow> 'm handler list \<Rightarrow> 'm node" where
  "sidebar_input attrs handlers = slot_part ''Input'' ''sidebar-input'' (Some ''input'') attrs handlers []"

definition sidebar_header :: "(string \<times> string) list \<Rightarrow> 'm node list \<Rightarrow> 'm node" where
  "sidebar_header attrs = slot_part ''div'' ''sidebar-header'' (Some ''header'') attrs []"

definition sidebar_footer :: "(string \<times> string) list \<Rightarrow> 'm node list \<Rightarrow> 'm node" where
  "sidebar_footer attrs = slot_part ''div'' ''sidebar-footer'' (Some ''footer'') attrs []"

definition sidebar_separator :: "(string \<times> string) list \<Rightarrow> 'm node" where
  "sidebar_separator attrs = slot_part ''Separator'' ''sidebar-separator'' (Some ''separator'') attrs [] []"

definition sidebar_content :: "(string \<times> string) list \<Rightarrow> 'm node list \<Rightarrow> 'm node" where
  "sidebar_content attrs = slot_part ''div'' ''sidebar-content'' (Some ''content'') attrs []"

definition sidebar_group :: "(string \<times> string) list \<Rightarrow> 'm node list \<Rightarrow> 'm node" where
  "sidebar_group attrs = slot_part ''div'' ''sidebar-group'' (Some ''group'') attrs []"

definition sidebar_group_label :: "bool \<Rightarrow> (string \<times> string) list \<Rightarrow> 'm node list \<Rightarrow> 'm node" where
  "sidebar_group_label as_child attrs = slot_part (comp as_child ''div'') ''sidebar-group-label'' (Some ''group-label'') attrs []"

definition sidebar_group_action :: "bool \<Rightarrow> (string \<times> string) list \<Rightarrow> 'm handler list \<Rightarrow> 'm node list \<Rightarrow> 'm node" where
  "sidebar_group_action as_child = slot_part (comp as_child ''button'') ''sidebar-group-action'' (Some ''group-action'')"

definition sidebar_group_content :: "(string \<times> string) list \<Rightarrow> 'm node list \<Rightarrow> 'm node" where
  "sidebar_group_content attrs = slot_part ''div'' ''sidebar-group-content'' (Some ''group-content'') attrs []"

definition sidebar_menu :: "(string \<times> string) list \<Rightarrow> 'm node list \<Rightarrow> 'm node" where
  "sidebar_menu attrs = slot_part ''ul'' ''sidebar-menu'' (Some ''menu'') attrs []"

definition sidebar_menu_item :: "(string \<times> string) list \<Rightarrow> 'm node list \<Rightarrow> 'm node" where
  "sidebar_menu_item attrs = slot_part ''li'' ''sidebar-menu-item'' (Some ''menu-item'') attrs []"

datatype 'm tooltip = TipText string | TipProps "(string \<times> string) list" "'m node list"

definition sidebar_menu_button ::
  "sidebar_context \<Rightarrow> bool \<Rightarrow> bool \<Rightarrow> string \<Rightarrow> 'm tooltip option \<Rightarrow> (string \<times> string) list \<Rightarrow> 'm handler list \<Rightarrow> 'm node list \<Rightarrow> 'm node" where
  \<comment> \<open>an empty text is no tooltip; the tooltip's own properties override the three set here\<close>
  "sidebar_menu_button cx as_child active kind tip attrs handlers children =
     (let button' = slot_part (comp as_child ''button'') ''sidebar-menu-button'' (Some ''menu-button'')
            ([(''data-size'', kind), (''data-active'', bool_text active)] @ attrs) handlers children;
          base = [(''side'', ''right''), (''align'', ''center''), (''hidden'', bool_text (cx_state cx \<noteq> ''collapsed'' \<or> cx_mobile cx))];
          with = (\<lambda>as ns. el ''Tooltip'' [] [el ''TooltipTrigger'' [(''asChild'', ''true'')] [button'], el ''TooltipContent'' (obj_spread base as) ns])
      in case tip of
           None \<Rightarrow> button'
         | Some (TipText t) \<Rightarrow> (if t = [] then button' else with [] [Txt t])
         | Some (TipProps as ns) \<Rightarrow> with as ns)"

definition sidebar_menu_action :: "bool \<Rightarrow> (string \<times> string) list \<Rightarrow> 'm handler list \<Rightarrow> 'm node list \<Rightarrow> 'm node" where
  "sidebar_menu_action as_child = slot_part (comp as_child ''button'') ''sidebar-menu-action'' (Some ''menu-action'')"

definition sidebar_menu_badge :: "(string \<times> string) list \<Rightarrow> 'm node list \<Rightarrow> 'm node" where
  "sidebar_menu_badge attrs = slot_part ''div'' ''sidebar-menu-badge'' (Some ''menu-badge'') attrs []"

definition sidebar_menu_skeleton :: "nat \<Rightarrow> bool \<Rightarrow> (string \<times> string) list \<Rightarrow> 'm node" where
  \<comment> \<open>\<open>n\<close> is the random number, scaled to 40 and rounded down, drawn once when the part is mounted\<close>
  "sidebar_menu_skeleton n show_icon attrs =
     slot_part ''div'' ''sidebar-menu-skeleton'' (Some ''menu-skeleton'') attrs []
       [only_if show_icon (el ''Skeleton'' [(''data-sidebar'', ''menu-skeleton-icon'')] []),
        el ''Skeleton'' [(''data-sidebar'', ''menu-skeleton-text''), sty (''--skeleton-width: '' @ show_nat (n + 50) @ ''%'')] []]"

definition sidebar_menu_sub :: "(string \<times> string) list \<Rightarrow> 'm node list \<Rightarrow> 'm node" where
  "sidebar_menu_sub attrs = slot_part ''ul'' ''sidebar-menu-sub'' (Some ''menu-sub'') attrs []"

definition sidebar_menu_sub_item :: "(string \<times> string) list \<Rightarrow> 'm node list \<Rightarrow> 'm node" where
  "sidebar_menu_sub_item attrs = slot_part ''li'' ''sidebar-menu-sub-item'' (Some ''menu-sub-item'') attrs []"

definition sidebar_menu_sub_button :: "bool \<Rightarrow> string \<Rightarrow> bool \<Rightarrow> (string \<times> string) list \<Rightarrow> 'm handler list \<Rightarrow> 'm node list \<Rightarrow> 'm node" where
  "sidebar_menu_sub_button as_child kind active attrs =
     slot_part (comp as_child ''a'') ''sidebar-menu-sub-button'' (Some ''menu-sub-button'')
       ([(''data-size'', kind), (''data-active'', bool_text active)] @ attrs)"

subsection \<open>Histories\<close>

fun kit_run :: "provider_props \<Rightarrow> (bool \<times> kit_msg) list \<Rightarrow> provider \<Rightarrow> provider \<times> kit_effect list" where
  \<comment> \<open>each message is handled in a render of its own, on a phone or a desktop\<close>
  "kit_run p [] s = (s, [])"
| "kit_run p ((mobile, m) # ms) s =
     (case kit_update p mobile (sidebar_open p s) m s of
        (t, es) \<Rightarrow> (case kit_run p ms t of (u, fs) \<Rightarrow> (u, es @ fs)))"

fun cookies :: "kit_effect list \<Rightarrow> string list" where
  "cookies [] = []"
| "cookies (WriteCookie c # es) = c # cookies es"
| "cookies (e # es) = cookies es"

fun toggles :: "kit_msg \<Rightarrow> bool" where
  "toggles KtToggle = True"
| "toggles (KtKey meta ctrl key) = (key = SIDEBAR_KEYBOARD_SHORTCUT \<and> (meta \<or> ctrl))"
| "toggles (KtSheet b) = False"

definition desktop_toggles :: "(bool \<times> kit_msg) list \<Rightarrow> nat" where
  "desktop_toggles ms = length (filter (\<lambda>(mobile, m). \<not> mobile \<and> toggles m) ms)"

datatype shell_msg = Kit bool kit_msg | Nav sidebar_msg

fun shell_update :: "provider_props \<Rightarrow> shell_msg \<Rightarrow> provider \<Rightarrow> provider" where
  \<comment> \<open>the navigation inside the provider does not reach its state\<close>
  "shell_update p (Kit mobile m) s = fst (kit_update p mobile (sidebar_open p s) m s)"
| "shell_update p (Nav m) s = s"

subsection \<open>Lemmas\<close>

lemma cookies_append [simp]: "cookies (es @ fs) = cookies es @ cookies fs"
  by (induction es rule: cookies.induct) simp_all

lemma kit_step:
  assumes "sp_open p = None" and "\<not> sp_on_change p" and "kit_update p mobile (sidebar_open p s) m s = (t, es)"
  shows "pv_own t = (pv_own s \<noteq> (\<not> mobile \<and> toggles m)) \<and>
    cookies es = (if \<not> mobile \<and> toggles m then [state_cookie (pv_own t)] else [])"
  using assms by (cases m) (auto simp: toggle_sidebar_def set_open_def sidebar_open_def Let_def split: if_splits)

lemma kit_run_append:
  "kit_run p (ms @ ns) s = (case kit_run p ms s of (t, es) \<Rightarrow> (case kit_run p ns t of (u, fs) \<Rightarrow> (u, es @ fs)))"
  by (induction p ms s rule: kit_run.induct) (auto split: prod.splits)

lemma desktop_toggles_simps [simp]:
  "desktop_toggles [] = 0"
  "desktop_toggles (ms @ [(mobile, m)]) = desktop_toggles ms + (if \<not> mobile \<and> toggles m then 1 else 0)"
  by (simp_all add: desktop_toggles_def)

text \<open>What holds after every history of a provider that is not controlled from outside.\<close>

lemma provider_keeps:
  assumes "sp_open p = None" and "\<not> sp_on_change p" and "kit_run p ms (provider0 p) = (s, es)"
  shows "pv_own s = (sp_default p \<noteq> odd (desktop_toggles ms)) \<and> length (cookies es) = desktop_toggles ms \<and>
    (cookies es = [] \<or> last (cookies es) = state_cookie (pv_own s))"
  using assms(3)
proof (induction ms arbitrary: s es rule: rev_induct)
  case Nil
  then show ?case by (auto simp: provider0_def)
next
  case (snoc x ms)
  obtain mobile m where x: "x = (mobile, m)" by (cases x)
  obtain t fs where t: "kit_run p ms (provider0 p) = (t, fs)" by (cases "kit_run p ms (provider0 p)")
  obtain gs where u: "kit_update p mobile (sidebar_open p t) m t = (s, gs)" and es: "es = fs @ gs"
    using snoc.prems by (auto simp: kit_run_append t x split: prod.splits)
  show ?case
    using snoc.IH [OF t] kit_step [OF assms(1,2) u] by (auto simp: es x)
qed

subsection \<open>Properties\<close>

text \<open>C36: after every history of presses, shortcuts, sheet changes and resizes, a provider that is not
  controlled from outside is as it started, changed once for each toggle on a desktop; each of these wrote the cookie
  once, so the last cookie written is the state shown, and no use on a phone touches either.\<close>

theorem cookie_follows_sidebar:
  assumes "sp_open p = None" and "\<not> sp_on_change p" and "kit_run p ms (provider0 p) = (s, es)"
  shows "sidebar_open p s = (sp_default p \<noteq> odd (desktop_toggles ms)) \<and> length (cookies es) = desktop_toggles ms \<and>
    (desktop_toggles ms \<noteq> 0 \<longrightarrow> last (cookies es) = state_cookie (sidebar_open p s))"
proof -
  have o: "sidebar_open p s = pv_own s" using assms(1) by (simp add: sidebar_open_def)
  show ?thesis unfolding o using provider_keeps [OF assms] by (metis list.size(3))
qed

text \<open>Two toggles that reach the provider before it renders again are one on a desktop, because the
  callback computes the state from the render it was made in, and two on a phone.\<close>

lemma toggles_in_one_render:
  assumes "sp_open p = None" and "\<not> sp_on_change p"
  shows "fst (toggle_sidebar p False b (fst (toggle_sidebar p False b s))) = fst (toggle_sidebar p False b s)"
    and "fst (toggle_sidebar p True b (fst (toggle_sidebar p True b s))) = s"
  using assms by (simp_all add: toggle_sidebar_def set_open_def)

text \<open>The cookie is written to keep the state and never read: the layout of the console mounts the
  provider without properties, so a sidebar collapsed before a reload, with the cookie saying so, is
  expanded after it.\<close>

lemma collapsed_state_lost:
  "(case kit_run plain_provider [(False, KtToggle)] (provider0 plain_provider) of
      (s, es) \<Rightarrow> \<not> sidebar_open plain_provider s \<and> es = [WriteCookie (state_cookie False)]) \<and>
   sidebar_open plain_provider (provider0 plain_provider)"
  by (simp add: toggle_sidebar_def set_open_def sidebar_open_def provider0_def plain_provider_def)

text \<open>On a phone the sheet stays open over the page that a link in it leads to.\<close>

lemma sheet_stays_open:
  assumes "pv_mobile s" and "collapsible \<noteq> ''none''"
  shows "Nav (SbGo h) \<in> set_node (map_node Nav (app_sidebar path u)) \<Longrightarrow> pv_mobile (shell_update p (Nav (SbGo h)) s)"
    and "set_node child \<subseteq> set_node (sidebar (context_of p True (shell_update p (Nav (SbGo h)) s)) side variant collapsible attrs f [child])"
  using assms by (auto simp: sidebar_def context_of_def)

lemma cookie_follows_sidebar_witness:
  "\<not> sidebar_open plain_provider (fst (kit_run plain_provider [(False, KtKey True False ''b''), (True, KtToggle)] (provider0 plain_provider)))"
proof -
  let ?ms = "[(False, KtKey True False ''b''), (True, KtToggle)]"
  have p: "sp_open plain_provider = None" "\<not> sp_on_change plain_provider" "sp_default plain_provider"
    by (simp_all add: plain_provider_def)
  have n: "desktop_toggles ?ms = 1" by (simp add: desktop_toggles_def SIDEBAR_KEYBOARD_SHORTCUT_def)
  have "kit_run plain_provider ?ms (provider0 plain_provider) =
      (fst (kit_run plain_provider ?ms (provider0 plain_provider)), snd (kit_run plain_provider ?ms (provider0 plain_provider)))"
    by simp
  from cookie_follows_sidebar [OF p(1,2) this] show ?thesis by (simp only: n p) simp
qed

end
