(* ===== verification/KitParts.thy ===== *)
theory KitParts
  imports SidebarKit
begin

section \<open>The parts of the interface kit\<close>

text \<open>
  Models the files of \<open>dashboard/components/ui/\<close> beside the sidebar and \<open>chart.tsx\<close>. A part is a
  function from attributes, handlers and children to the elements it renders, which are elements of the
  page or primitives of the underlying libraries, with their attributes; later attributes override
  earlier ones. Class names, and the properties that only choose them, are left out; a Boolean property
  is an attribute with its value as text. There is a table per file, from the names of its parts to their
  functions, and \<open>render\<close> replaces every part in a tree by what it renders.

  The locale \<open>part_table\<close> is what the pages rely on when they use a part: it hands on every handler and
  every child it is given, and adds no handler of its own. It is interpreted on all tables together.
\<close>

subsection \<open>Properties of a part\<close>

type_synonym 'm part = "(string \<times> string) list \<Rightarrow> 'm handler list \<Rightarrow> 'm node list \<Rightarrow> 'm node"

definition arg :: "string \<Rightarrow> string \<Rightarrow> (string \<times> string) list \<Rightarrow> string" where
  \<comment> \<open>a property with a default\<close>
  "arg k d as = (case map_of as k of None \<Rightarrow> d | Some v \<Rightarrow> v)"

definition flag :: "string \<Rightarrow> bool \<Rightarrow> (string \<times> string) list \<Rightarrow> bool" where
  "flag k d as = (case map_of as k of None \<Rightarrow> d | Some v \<Rightarrow> v \<noteq> ''false'')"

definition handover :: "string \<Rightarrow> string \<Rightarrow> (string \<times> string) list \<Rightarrow> (string \<times> string) list" where
  \<comment> \<open>an attribute set to a property that may be undefined\<close>
  "handover k j as = opt_attr j (map_of as k)"

definition without :: "string list \<Rightarrow> (string \<times> string) list \<Rightarrow> (string \<times> string) list" where
  \<comment> \<open>\<open>...props\<close> after taking properties out\<close>
  "without ks as = filter (\<lambda>(k, v). k \<notin> set ks) as"

definition pass :: "string \<Rightarrow> (string \<times> string) list \<Rightarrow> 'm part" where
  \<comment> \<open>an element with attributes of its own and all that is given\<close>
  "pass tag own as hs ns = Elem tag (obj_spread own as) hs ns"

definition part :: "string \<Rightarrow> (string \<times> string) list \<Rightarrow> 'm part" where
  \<comment> \<open>one that merges the given class name into its own\<close>
  "part tag own as hs ns = pass tag own (without [''className''] as) hs ns"

definition handed :: "string \<Rightarrow> string \<Rightarrow> 'm part" where
  "handed tag slot = pass tag [(''data-slot'', slot)]"

definition slotted :: "string \<Rightarrow> string \<Rightarrow> 'm part" where
  "slotted tag slot = part tag [(''data-slot'', slot)]"

subsection \<open>\<open>button.tsx\<close>\<close>

definition kit_button :: "'m part" where
  "kit_button as hs ns =
     part (comp (flag ''asChild'' False as) ''button'')
       [(''data-slot'', ''button''), (''data-variant'', arg ''variant'' ''default'' as), (''data-size'', arg ''size'' ''default'' as)]
       (without [''variant'', ''size'', ''asChild''] as) hs ns"

definition BUTTON_PARTS :: "(string \<times> 'm part) list" where
  "BUTTON_PARTS =
     [(''Button'', kit_button)]"

subsection \<open>\<open>dialog.tsx\<close>\<close>

definition dialog_content :: "'m part" where
  "dialog_content as hs ns = handed ''DialogPrimitive.Portal'' ''dialog-portal'' [(''data-slot'', ''dialog-portal'')] []
     [slotted ''DialogPrimitive.Overlay'' ''dialog-overlay'' [] [] [],
      slotted ''DialogPrimitive.Content'' ''dialog-content'' (without [''showCloseButton''] as) hs
        (ns @ [only_if (flag ''showCloseButton'' True as)
          (el ''DialogPrimitive.Close'' [(''data-slot'', ''dialog-close'')] [el ''XIcon'' [] [], el ''span'' [] [Txt ''Close'']])])]"

definition dialog_footer :: "'m part" where
  "dialog_footer as hs ns = slotted ''div'' ''dialog-footer'' (without [''showCloseButton''] as) hs
     (ns @ [only_if (flag ''showCloseButton'' False as)
        (el ''DialogPrimitive.Close'' [(''asChild'', ''true'')] [kit_button [(''variant'', ''outline'')] [] [Txt ''Close'']])])"

definition DIALOG_PARTS :: "(string \<times> 'm part) list" where
  "DIALOG_PARTS =
     [(''Dialog'', handed ''DialogPrimitive.Root'' ''dialog''),
      (''DialogTrigger'', handed ''DialogPrimitive.Trigger'' ''dialog-trigger''),
      (''DialogPortal'', handed ''DialogPrimitive.Portal'' ''dialog-portal''),
      (''DialogClose'', handed ''DialogPrimitive.Close'' ''dialog-close''),
      (''DialogOverlay'', slotted ''DialogPrimitive.Overlay'' ''dialog-overlay''),
      (''DialogContent'', dialog_content),
      (''DialogHeader'', slotted ''div'' ''dialog-header''),
      (''DialogFooter'', dialog_footer),
      (''DialogTitle'', slotted ''DialogPrimitive.Title'' ''dialog-title''),
      (''DialogDescription'', slotted ''DialogPrimitive.Description'' ''dialog-description'')]"

subsection \<open>\<open>accordion.tsx\<close>\<close>

definition accordion_trigger :: "'m part" where
  "accordion_trigger as hs ns = el ''AccordionPrimitive.Header'' []
     [part ''AccordionPrimitive.Trigger'' [(''data-slot'', ''accordion-trigger'')] as hs (ns @ [el ''ChevronDownIcon'' [] []])]"

definition accordion_content :: "'m part" where
  "accordion_content as hs ns =
     part ''AccordionPrimitive.Content'' [(''data-slot'', ''accordion-content'')] as hs [el ''div'' [] ns]"

definition ACCORDION_PARTS :: "(string \<times> 'm part) list" where
  "ACCORDION_PARTS =
     [(''Accordion'', handed ''AccordionPrimitive.Root'' ''accordion''),
      (''AccordionItem'', slotted ''AccordionPrimitive.Item'' ''accordion-item''),
      (''AccordionTrigger'', accordion_trigger),
      (''AccordionContent'', accordion_content)]"

subsection \<open>\<open>alert.tsx\<close>\<close>

definition kit_alert :: "'m part" where
  "kit_alert as hs ns = part ''div'' [(''data-slot'', ''alert''), (''role'', ''alert'')] (without [''variant''] as) hs ns"

definition ALERT_PARTS :: "(string \<times> 'm part) list" where
  "ALERT_PARTS =
     [(''Alert'', kit_alert),
      (''AlertTitle'', slotted ''div'' ''alert-title''),
      (''AlertDescription'', slotted ''div'' ''alert-description'')]"

subsection \<open>\<open>alert-dialog.tsx\<close>\<close>

definition alert_dialog_content :: "'m part" where
  "alert_dialog_content as hs ns = handed ''AlertDialogPrimitive.Portal'' ''alert-dialog-portal'' [] []
     [slotted ''AlertDialogPrimitive.Overlay'' ''alert-dialog-overlay'' [] [] [],
      part ''AlertDialogPrimitive.Content'' [(''data-slot'', ''alert-dialog-content''), (''data-size'', arg ''size'' ''default'' as)]
        (without [''size''] as) hs ns]"

definition alert_dialog_action :: "'m part" where
  "alert_dialog_action as hs ns =
     kit_button [(''variant'', arg ''variant'' ''default'' as), (''size'', arg ''size'' ''default'' as), (''asChild'', ''true'')] []
       [slotted ''AlertDialogPrimitive.Action'' ''alert-dialog-action'' (without [''variant'', ''size''] as) hs ns]"

definition alert_dialog_cancel :: "'m part" where
  "alert_dialog_cancel as hs ns =
     kit_button [(''variant'', arg ''variant'' ''outline'' as), (''size'', arg ''size'' ''default'' as), (''asChild'', ''true'')] []
       [slotted ''AlertDialogPrimitive.Cancel'' ''alert-dialog-cancel'' (without [''variant'', ''size''] as) hs ns]"

definition ALERT_DIALOG_PARTS :: "(string \<times> 'm part) list" where
  "ALERT_DIALOG_PARTS =
     [(''AlertDialog'', handed ''AlertDialogPrimitive.Root'' ''alert-dialog''),
      (''AlertDialogTrigger'', handed ''AlertDialogPrimitive.Trigger'' ''alert-dialog-trigger''),
      (''AlertDialogPortal'', handed ''AlertDialogPrimitive.Portal'' ''alert-dialog-portal''),
      (''AlertDialogOverlay'', slotted ''AlertDialogPrimitive.Overlay'' ''alert-dialog-overlay''),
      (''AlertDialogContent'', alert_dialog_content),
      (''AlertDialogHeader'', slotted ''div'' ''alert-dialog-header''),
      (''AlertDialogFooter'', slotted ''div'' ''alert-dialog-footer''),
      (''AlertDialogTitle'', slotted ''AlertDialogPrimitive.Title'' ''alert-dialog-title''),
      (''AlertDialogDescription'', slotted ''AlertDialogPrimitive.Description'' ''alert-dialog-description''),
      (''AlertDialogMedia'', slotted ''div'' ''alert-dialog-media''),
      (''AlertDialogAction'', alert_dialog_action),
      (''AlertDialogCancel'', alert_dialog_cancel)]"

subsection \<open>\<open>aspect-ratio.tsx\<close>\<close>

definition ASPECT_RATIO_PARTS :: "(string \<times> 'm part) list" where
  "ASPECT_RATIO_PARTS =
     [(''AspectRatio'', handed ''AspectRatioPrimitive.Root'' ''aspect-ratio'')]"

subsection \<open>\<open>avatar.tsx\<close>\<close>

definition kit_avatar :: "'m part" where
  "kit_avatar as hs ns = part ''AvatarPrimitive.Root'' [(''data-slot'', ''avatar''), (''data-size'', arg ''size'' ''default'' as)] (without [''size''] as) hs ns"

definition AVATAR_PARTS :: "(string \<times> 'm part) list" where
  "AVATAR_PARTS =
     [(''Avatar'', kit_avatar),
      (''AvatarImage'', slotted ''AvatarPrimitive.Image'' ''avatar-image''),
      (''AvatarFallback'', slotted ''AvatarPrimitive.Fallback'' ''avatar-fallback''),
      (''AvatarBadge'', slotted ''span'' ''avatar-badge''),
      (''AvatarGroup'', slotted ''div'' ''avatar-group''),
      (''AvatarGroupCount'', slotted ''div'' ''avatar-group-count'')]"

subsection \<open>\<open>badge.tsx\<close>\<close>

definition kit_badge :: "'m part" where
  "kit_badge as hs ns =
     part (comp (flag ''asChild'' False as) ''span'') [(''data-slot'', ''badge''), (''data-variant'', arg ''variant'' ''default'' as)]
       (without [''variant'', ''asChild''] as) hs ns"

definition BADGE_PARTS :: "(string \<times> 'm part) list" where
  "BADGE_PARTS =
     [(''Badge'', kit_badge)]"

subsection \<open>\<open>breadcrumb.tsx\<close>\<close>

definition breadcrumb_link :: "'m part" where
  "breadcrumb_link as hs ns = slotted (comp (flag ''asChild'' False as) ''a'') ''breadcrumb-link'' (without [''asChild''] as) hs ns"

definition breadcrumb_separator :: "'m part" where
  "breadcrumb_separator as hs ns =
     part ''li'' [(''data-slot'', ''breadcrumb-separator''), (''role'', ''presentation''), (''aria-hidden'', ''true'')] as hs
       (if ns = [] then [el ''ChevronRight'' [] []] else ns)"

definition breadcrumb_ellipsis :: "'m part" where
  "breadcrumb_ellipsis as hs ns =
     part ''span'' [(''data-slot'', ''breadcrumb-ellipsis''), (''role'', ''presentation''), (''aria-hidden'', ''true'')] as hs
       [el ''MoreHorizontal'' [] [], el ''span'' [] [Txt ''More'']]"

definition BREADCRUMB_PARTS :: "(string \<times> 'm part) list" where
  "BREADCRUMB_PARTS =
     [(''Breadcrumb'', pass ''nav'' [(''aria-label'', ''breadcrumb''), (''data-slot'', ''breadcrumb'')]),
      (''BreadcrumbList'', slotted ''ol'' ''breadcrumb-list''),
      (''BreadcrumbItem'', slotted ''li'' ''breadcrumb-item''),
      (''BreadcrumbLink'', breadcrumb_link),
      (''BreadcrumbPage'', part ''span'' [(''data-slot'', ''breadcrumb-page''), (''role'', ''link''), (''aria-disabled'', ''true''), (''aria-current'', ''page'')]),
      (''BreadcrumbSeparator'', breadcrumb_separator),
      (''BreadcrumbEllipsis'', breadcrumb_ellipsis)]"

subsection \<open>\<open>card.tsx\<close>\<close>

definition CARD_PARTS :: "(string \<times> 'm part) list" where
  "CARD_PARTS =
     [(''Card'', slotted ''div'' ''card''),
      (''CardHeader'', slotted ''div'' ''card-header''),
      (''CardTitle'', slotted ''div'' ''card-title''),
      (''CardDescription'', slotted ''div'' ''card-description''),
      (''CardAction'', slotted ''div'' ''card-action''),
      (''CardContent'', slotted ''div'' ''card-content''),
      (''CardFooter'', slotted ''div'' ''card-footer'')]"

subsection \<open>\<open>checkbox.tsx\<close>\<close>

definition kit_checkbox :: "'m part" where
  "kit_checkbox as hs ns = slotted ''CheckboxPrimitive.Root'' ''checkbox'' as hs
     [el ''CheckboxPrimitive.Indicator'' [(''data-slot'', ''checkbox-indicator'')] [el ''CheckIcon'' [] []]]"

definition CHECKBOX_PARTS :: "(string \<times> 'm part) list" where
  "CHECKBOX_PARTS =
     [(''Checkbox'', kit_checkbox)]"

subsection \<open>\<open>collapsible.tsx\<close>\<close>

definition COLLAPSIBLE_PARTS :: "(string \<times> 'm part) list" where
  "COLLAPSIBLE_PARTS =
     [(''Collapsible'', handed ''CollapsiblePrimitive.Root'' ''collapsible''),
      (''CollapsibleTrigger'', handed ''CollapsiblePrimitive.CollapsibleTrigger'' ''collapsible-trigger''),
      (''CollapsibleContent'', handed ''CollapsiblePrimitive.CollapsibleContent'' ''collapsible-content'')]"

subsection \<open>\<open>command.tsx\<close>\<close>

definition command_dialog :: "'m part" where
  "command_dialog as hs ns =
     handed ''DialogPrimitive.Root'' ''dialog'' (without [''title'', ''description'', ''className'', ''showCloseButton''] as) hs
       [slotted ''div'' ''dialog-header'' [] []
          [slotted ''DialogPrimitive.Title'' ''dialog-title'' [] [] [Txt (arg ''title'' ''Command Palette'' as)],
           slotted ''DialogPrimitive.Description'' ''dialog-description'' [] [] [Txt (arg ''description'' ''Search for a command to run...'' as)]],
        dialog_content [(''showCloseButton'', bool_text (flag ''showCloseButton'' True as))] [] [slotted ''CommandPrimitive'' ''command'' [] [] ns]]"

definition command_input :: "'m part" where
  "command_input as hs ns = el ''div'' [(''data-slot'', ''command-input-wrapper'')]
     [el ''SearchIcon'' [] [], slotted ''CommandPrimitive.Input'' ''command-input'' as hs ns]"

definition COMMAND_PARTS :: "(string \<times> 'm part) list" where
  "COMMAND_PARTS =
     [(''Command'', slotted ''CommandPrimitive'' ''command''),
      (''CommandDialog'', command_dialog),
      (''CommandInput'', command_input),
      (''CommandList'', slotted ''CommandPrimitive.List'' ''command-list''),
      (''CommandEmpty'', slotted ''CommandPrimitive.Empty'' ''command-empty''),
      (''CommandGroup'', slotted ''CommandPrimitive.Group'' ''command-group''),
      (''CommandSeparator'', slotted ''CommandPrimitive.Separator'' ''command-separator''),
      (''CommandItem'', slotted ''CommandPrimitive.Item'' ''command-item''),
      (''CommandShortcut'', slotted ''span'' ''command-shortcut'')]"

subsection \<open>\<open>context-menu.tsx\<close>\<close>

definition context_menu_sub_trigger :: "'m part" where
  "context_menu_sub_trigger as hs ns =
     part ''ContextMenuPrimitive.SubTrigger'' ([(''data-slot'', ''context-menu-sub-trigger'')] @ handover ''inset'' ''data-inset'' as) (without [''inset''] as) hs
       (ns @ [el ''ChevronRightIcon'' [] []])"

definition context_menu_content :: "'m part" where
  "context_menu_content as hs ns = el ''ContextMenuPrimitive.Portal'' []
     [slotted ''ContextMenuPrimitive.Content'' ''context-menu-content'' as hs ns]"

definition context_menu_item :: "'m part" where
  "context_menu_item as hs ns =
     part ''ContextMenuPrimitive.Item''
       ([(''data-slot'', ''context-menu-item'')] @ handover ''inset'' ''data-inset'' as @ [(''data-variant'', arg ''variant'' ''default'' as)])
       (without [''inset'', ''variant''] as) hs ns"

definition context_menu_checkbox_item :: "'m part" where
  "context_menu_checkbox_item as hs ns =
     part ''ContextMenuPrimitive.CheckboxItem'' ([(''data-slot'', ''context-menu-checkbox-item'')] @ handover ''checked'' ''checked'' as)
       (without [''checked''] as) hs ([el ''span'' [] [el ''ContextMenuPrimitive.ItemIndicator'' [] [el ''CheckIcon'' [] []]]] @ ns)"

definition context_menu_radio_item :: "'m part" where
  "context_menu_radio_item as hs ns =
     slotted ''ContextMenuPrimitive.RadioItem'' ''context-menu-radio-item'' as hs
       ([el ''span'' [] [el ''ContextMenuPrimitive.ItemIndicator'' [] [el ''CircleIcon'' [] []]]] @ ns)"

definition context_menu_label :: "'m part" where
  "context_menu_label as hs ns =
     part ''ContextMenuPrimitive.Label'' ([(''data-slot'', ''context-menu-label'')] @ handover ''inset'' ''data-inset'' as) (without [''inset''] as) hs ns"

definition CONTEXT_MENU_PARTS :: "(string \<times> 'm part) list" where
  "CONTEXT_MENU_PARTS =
     [(''ContextMenu'', handed ''ContextMenuPrimitive.Root'' ''context-menu''),
      (''ContextMenuTrigger'', handed ''ContextMenuPrimitive.Trigger'' ''context-menu-trigger''),
      (''ContextMenuGroup'', handed ''ContextMenuPrimitive.Group'' ''context-menu-group''),
      (''ContextMenuPortal'', handed ''ContextMenuPrimitive.Portal'' ''context-menu-portal''),
      (''ContextMenuSub'', handed ''ContextMenuPrimitive.Sub'' ''context-menu-sub''),
      (''ContextMenuRadioGroup'', handed ''ContextMenuPrimitive.RadioGroup'' ''context-menu-radio-group''),
      (''ContextMenuSubTrigger'', context_menu_sub_trigger),
      (''ContextMenuSubContent'', slotted ''ContextMenuPrimitive.SubContent'' ''context-menu-sub-content''),
      (''ContextMenuContent'', context_menu_content),
      (''ContextMenuItem'', context_menu_item),
      (''ContextMenuCheckboxItem'', context_menu_checkbox_item),
      (''ContextMenuRadioItem'', context_menu_radio_item),
      (''ContextMenuLabel'', context_menu_label),
      (''ContextMenuSeparator'', slotted ''ContextMenuPrimitive.Separator'' ''context-menu-separator''),
      (''ContextMenuShortcut'', slotted ''span'' ''context-menu-shortcut'')]"

subsection \<open>\<open>drawer.tsx\<close>\<close>

definition drawer_content :: "'m part" where
  "drawer_content as hs ns = handed ''DrawerPrimitive.Portal'' ''drawer-portal'' [(''data-slot'', ''drawer-portal'')] []
     [slotted ''DrawerPrimitive.Overlay'' ''drawer-overlay'' [] [] [],
      slotted ''DrawerPrimitive.Content'' ''drawer-content'' as hs ([el ''div'' [] []] @ ns)]"

definition DRAWER_PARTS :: "(string \<times> 'm part) list" where
  "DRAWER_PARTS =
     [(''Drawer'', handed ''DrawerPrimitive.Root'' ''drawer''),
      (''DrawerTrigger'', handed ''DrawerPrimitive.Trigger'' ''drawer-trigger''),
      (''DrawerPortal'', handed ''DrawerPrimitive.Portal'' ''drawer-portal''),
      (''DrawerClose'', handed ''DrawerPrimitive.Close'' ''drawer-close''),
      (''DrawerOverlay'', slotted ''DrawerPrimitive.Overlay'' ''drawer-overlay''),
      (''DrawerContent'', drawer_content),
      (''DrawerHeader'', slotted ''div'' ''drawer-header''),
      (''DrawerFooter'', slotted ''div'' ''drawer-footer''),
      (''DrawerTitle'', slotted ''DrawerPrimitive.Title'' ''drawer-title''),
      (''DrawerDescription'', slotted ''DrawerPrimitive.Description'' ''drawer-description'')]"

subsection \<open>\<open>dropdown-menu.tsx\<close>\<close>

definition dropdown_menu_content :: "'m part" where
  "dropdown_menu_content as hs ns = el ''DropdownMenuPrimitive.Portal'' []
     [part ''DropdownMenuPrimitive.Content'' [(''data-slot'', ''dropdown-menu-content''), (''sideOffset'', arg ''sideOffset'' ''4'' as)]
        (without [''sideOffset''] as) hs ns]"

definition dropdown_menu_item :: "'m part" where
  "dropdown_menu_item as hs ns =
     part ''DropdownMenuPrimitive.Item''
       ([(''data-slot'', ''dropdown-menu-item'')] @ handover ''inset'' ''data-inset'' as @ [(''data-variant'', arg ''variant'' ''default'' as)])
       (without [''inset'', ''variant''] as) hs ns"

definition dropdown_menu_checkbox_item :: "'m part" where
  "dropdown_menu_checkbox_item as hs ns =
     part ''DropdownMenuPrimitive.CheckboxItem'' ([(''data-slot'', ''dropdown-menu-checkbox-item'')] @ handover ''checked'' ''checked'' as)
       (without [''checked''] as) hs ([el ''span'' [] [el ''DropdownMenuPrimitive.ItemIndicator'' [] [el ''CheckIcon'' [] []]]] @ ns)"

definition dropdown_menu_radio_item :: "'m part" where
  "dropdown_menu_radio_item as hs ns =
     slotted ''DropdownMenuPrimitive.RadioItem'' ''dropdown-menu-radio-item'' as hs
       ([el ''span'' [] [el ''DropdownMenuPrimitive.ItemIndicator'' [] [el ''CircleIcon'' [] []]]] @ ns)"

definition dropdown_menu_label :: "'m part" where
  "dropdown_menu_label as hs ns =
     part ''DropdownMenuPrimitive.Label'' ([(''data-slot'', ''dropdown-menu-label'')] @ handover ''inset'' ''data-inset'' as) (without [''inset''] as) hs ns"

definition dropdown_menu_sub_trigger :: "'m part" where
  "dropdown_menu_sub_trigger as hs ns =
     part ''DropdownMenuPrimitive.SubTrigger'' ([(''data-slot'', ''dropdown-menu-sub-trigger'')] @ handover ''inset'' ''data-inset'' as) (without [''inset''] as) hs
       (ns @ [el ''ChevronRightIcon'' [] []])"

definition DROPDOWN_MENU_PARTS :: "(string \<times> 'm part) list" where
  "DROPDOWN_MENU_PARTS =
     [(''DropdownMenu'', handed ''DropdownMenuPrimitive.Root'' ''dropdown-menu''),
      (''DropdownMenuPortal'', handed ''DropdownMenuPrimitive.Portal'' ''dropdown-menu-portal''),
      (''DropdownMenuTrigger'', handed ''DropdownMenuPrimitive.Trigger'' ''dropdown-menu-trigger''),
      (''DropdownMenuContent'', dropdown_menu_content),
      (''DropdownMenuGroup'', handed ''DropdownMenuPrimitive.Group'' ''dropdown-menu-group''),
      (''DropdownMenuItem'', dropdown_menu_item),
      (''DropdownMenuCheckboxItem'', dropdown_menu_checkbox_item),
      (''DropdownMenuRadioGroup'', handed ''DropdownMenuPrimitive.RadioGroup'' ''dropdown-menu-radio-group''),
      (''DropdownMenuRadioItem'', dropdown_menu_radio_item),
      (''DropdownMenuLabel'', dropdown_menu_label),
      (''DropdownMenuSeparator'', slotted ''DropdownMenuPrimitive.Separator'' ''dropdown-menu-separator''),
      (''DropdownMenuShortcut'', slotted ''span'' ''dropdown-menu-shortcut''),
      (''DropdownMenuSub'', handed ''DropdownMenuPrimitive.Sub'' ''dropdown-menu-sub''),
      (''DropdownMenuSubTrigger'', dropdown_menu_sub_trigger),
      (''DropdownMenuSubContent'', slotted ''DropdownMenuPrimitive.SubContent'' ''dropdown-menu-sub-content'')]"

subsection \<open>\<open>hover-card.tsx\<close>\<close>

definition hover_card_content :: "'m part" where
  "hover_card_content as hs ns = el ''HoverCardPrimitive.Portal'' [(''data-slot'', ''hover-card-portal'')]
     [part ''HoverCardPrimitive.Content''
        [(''data-slot'', ''hover-card-content''), (''align'', arg ''align'' ''center'' as), (''sideOffset'', arg ''sideOffset'' ''4'' as)]
        (without [''align'', ''sideOffset''] as) hs ns]"

definition HOVER_CARD_PARTS :: "(string \<times> 'm part) list" where
  "HOVER_CARD_PARTS =
     [(''HoverCard'', handed ''HoverCardPrimitive.Root'' ''hover-card''),
      (''HoverCardTrigger'', handed ''HoverCardPrimitive.Trigger'' ''hover-card-trigger''),
      (''HoverCardContent'', hover_card_content)]"

subsection \<open>\<open>input.tsx\<close>\<close>

definition kit_input :: "'m part" where
  "kit_input as hs ns = part ''input'' (handover ''type'' ''type'' as @ [(''data-slot'', ''input'')]) (without [''type''] as) hs ns"

definition INPUT_PARTS :: "(string \<times> 'm part) list" where
  "INPUT_PARTS =
     [(''Input'', kit_input)]"

subsection \<open>\<open>label.tsx\<close>\<close>

definition LABEL_PARTS :: "(string \<times> 'm part) list" where
  "LABEL_PARTS =
     [(''Label'', slotted ''LabelPrimitive.Root'' ''label'')]"

subsection \<open>\<open>pagination.tsx\<close>\<close>

definition pagination_link :: "'m part" where
  "pagination_link as hs ns =
     part ''a'' ((if flag ''isActive'' False as then [(''aria-current'', ''page'')] else []) @ [(''data-slot'', ''pagination-link'')] @
        handover ''isActive'' ''data-active'' as) (without [''isActive'', ''size''] as) hs ns"

definition pagination_previous :: "'m part" where
  "pagination_previous as hs ns =
     pagination_link (obj_spread [(''aria-label'', ''Go to previous page''), (''size'', ''default'')] (without [''className''] as)) hs
       [el ''ChevronLeftIcon'' [] [], el ''span'' [] [Txt ''Previous'']]"

definition pagination_next :: "'m part" where
  "pagination_next as hs ns =
     pagination_link (obj_spread [(''aria-label'', ''Go to next page''), (''size'', ''default'')] (without [''className''] as)) hs
       [el ''span'' [] [Txt ''Next''], el ''ChevronRightIcon'' [] []]"

definition pagination_ellipsis :: "'m part" where
  "pagination_ellipsis as hs ns =
     part ''span'' [(''aria-hidden'', ''true''), (''data-slot'', ''pagination-ellipsis'')] as hs
       [el ''MoreHorizontalIcon'' [] [], el ''span'' [] [Txt ''More pages'']]"

definition PAGINATION_PARTS :: "(string \<times> 'm part) list" where
  "PAGINATION_PARTS =
     [(''Pagination'', part ''nav'' [(''role'', ''navigation''), (''aria-label'', ''pagination''), (''data-slot'', ''pagination'')]),
      (''PaginationContent'', slotted ''ul'' ''pagination-content''),
      (''PaginationItem'', handed ''li'' ''pagination-item''),
      (''PaginationLink'', pagination_link),
      (''PaginationPrevious'', pagination_previous),
      (''PaginationNext'', pagination_next),
      (''PaginationEllipsis'', pagination_ellipsis)]"

subsection \<open>\<open>popover.tsx\<close>\<close>

definition popover_content :: "'m part" where
  "popover_content as hs ns = el ''PopoverPrimitive.Portal'' []
     [part ''PopoverPrimitive.Content''
        [(''data-slot'', ''popover-content''), (''align'', arg ''align'' ''center'' as), (''sideOffset'', arg ''sideOffset'' ''4'' as)]
        (without [''align'', ''sideOffset''] as) hs ns]"

definition POPOVER_PARTS :: "(string \<times> 'm part) list" where
  "POPOVER_PARTS =
     [(''Popover'', handed ''PopoverPrimitive.Root'' ''popover''),
      (''PopoverTrigger'', handed ''PopoverPrimitive.Trigger'' ''popover-trigger''),
      (''PopoverContent'', popover_content),
      (''PopoverAnchor'', handed ''PopoverPrimitive.Anchor'' ''popover-anchor''),
      (''PopoverHeader'', slotted ''div'' ''popover-header''),
      (''PopoverTitle'', slotted ''div'' ''popover-title''),
      (''PopoverDescription'', slotted ''p'' ''popover-description'')]"

subsection \<open>\<open>radio-group.tsx\<close>\<close>

definition radio_group_item :: "'m part" where
  "radio_group_item as hs ns = slotted ''RadioGroupPrimitive.Item'' ''radio-group-item'' as hs
     [el ''RadioGroupPrimitive.Indicator'' [(''data-slot'', ''radio-group-indicator'')] [el ''CircleIcon'' [] []]]"

definition RADIO_GROUP_PARTS :: "(string \<times> 'm part) list" where
  "RADIO_GROUP_PARTS =
     [(''RadioGroup'', slotted ''RadioGroupPrimitive.Root'' ''radio-group''),
      (''RadioGroupItem'', radio_group_item)]"

subsection \<open>\<open>resizable.tsx\<close>\<close>

definition resizable_handle :: "'m part" where
  "resizable_handle as hs ns = slotted ''ResizablePrimitive.Separator'' ''resizable-handle'' (without [''withHandle''] as) hs
     [only_if (flag ''withHandle'' False as) (el ''div'' [] [el ''GripVerticalIcon'' [] []])]"

definition RESIZABLE_PARTS :: "(string \<times> 'm part) list" where
  "RESIZABLE_PARTS =
     [(''ResizablePanelGroup'', slotted ''ResizablePrimitive.Group'' ''resizable-panel-group''),
      (''ResizablePanel'', handed ''ResizablePrimitive.Panel'' ''resizable-panel''),
      (''ResizableHandle'', resizable_handle)]"

subsection \<open>\<open>scroll-area.tsx\<close>\<close>

definition scroll_bar :: "'m part" where
  "scroll_bar as hs ns =
     part ''ScrollAreaPrimitive.ScrollAreaScrollbar''
       [(''data-slot'', ''scroll-area-scrollbar''), (''orientation'', arg ''orientation'' ''vertical'' as)] (without [''orientation''] as) hs
       [el ''ScrollAreaPrimitive.ScrollAreaThumb'' [(''data-slot'', ''scroll-area-thumb'')] []]"

definition scroll_area :: "'m part" where
  "scroll_area as hs ns = slotted ''ScrollAreaPrimitive.Root'' ''scroll-area'' as hs
     [el ''ScrollAreaPrimitive.Viewport'' [(''data-slot'', ''scroll-area-viewport'')] ns, scroll_bar [] [] [],
      el ''ScrollAreaPrimitive.Corner'' [] []]"

definition SCROLL_AREA_PARTS :: "(string \<times> 'm part) list" where
  "SCROLL_AREA_PARTS =
     [(''ScrollArea'', scroll_area),
      (''ScrollBar'', scroll_bar)]"

subsection \<open>\<open>select.tsx\<close>\<close>

definition select_scroll_up :: "'m part" where
  "select_scroll_up as hs ns =
     slotted ''SelectPrimitive.ScrollUpButton'' ''select-scroll-up-button'' as hs [el ''ChevronUpIcon'' [] []]"

definition select_scroll_down :: "'m part" where
  "select_scroll_down as hs ns =
     slotted ''SelectPrimitive.ScrollDownButton'' ''select-scroll-down-button'' as hs [el ''ChevronDownIcon'' [] []]"

definition select_trigger :: "'m part" where
  "select_trigger as hs ns =
     part ''SelectPrimitive.Trigger'' [(''data-slot'', ''select-trigger''), (''data-size'', arg ''size'' ''default'' as)] (without [''size''] as) hs
       (ns @ [el ''SelectPrimitive.Icon'' [(''asChild'', ''true'')] [el ''ChevronDownIcon'' [] []]])"

definition select_content :: "'m part" where
  "select_content as hs ns = el ''SelectPrimitive.Portal'' []
     [part ''SelectPrimitive.Content''
        [(''data-slot'', ''select-content''), (''position'', arg ''position'' ''item-aligned'' as), (''align'', arg ''align'' ''center'' as)]
        (without [''position'', ''align''] as) hs
        [select_scroll_up [] [] [], el ''SelectPrimitive.Viewport'' [] ns, select_scroll_down [] [] []]]"

definition select_item :: "'m part" where
  "select_item as hs ns = slotted ''SelectPrimitive.Item'' ''select-item'' as hs
     [el ''span'' [(''data-slot'', ''select-item-indicator'')] [el ''SelectPrimitive.ItemIndicator'' [] [el ''CheckIcon'' [] []]],
      el ''SelectPrimitive.ItemText'' [] ns]"

definition SELECT_PARTS :: "(string \<times> 'm part) list" where
  "SELECT_PARTS =
     [(''Select'', handed ''SelectPrimitive.Root'' ''select''),
      (''SelectGroup'', handed ''SelectPrimitive.Group'' ''select-group''),
      (''SelectValue'', handed ''SelectPrimitive.Value'' ''select-value''),
      (''SelectTrigger'', select_trigger),
      (''SelectContent'', select_content),
      (''SelectLabel'', slotted ''SelectPrimitive.Label'' ''select-label''),
      (''SelectItem'', select_item),
      (''SelectSeparator'', slotted ''SelectPrimitive.Separator'' ''select-separator''),
      (''SelectScrollUpButton'', select_scroll_up),
      (''SelectScrollDownButton'', select_scroll_down)]"

subsection \<open>\<open>separator.tsx\<close>\<close>

definition kit_separator :: "'m part" where
  "kit_separator as hs ns =
     part ''SeparatorPrimitive.Root''
       [(''data-slot'', ''separator''), (''decorative'', bool_text (flag ''decorative'' True as)), (''orientation'', arg ''orientation'' ''horizontal'' as)]
       (without [''decorative'', ''orientation''] as) hs ns"

definition SEPARATOR_PARTS :: "(string \<times> 'm part) list" where
  "SEPARATOR_PARTS =
     [(''Separator'', kit_separator)]"

subsection \<open>\<open>sheet.tsx\<close>\<close>

definition sheet_content :: "'m part" where
  "sheet_content as hs ns = handed ''SheetPrimitive.Portal'' ''sheet-portal'' [] []
     [slotted ''SheetPrimitive.Overlay'' ''sheet-overlay'' [] [] [],
      slotted ''SheetPrimitive.Content'' ''sheet-content'' (without [''side'', ''showCloseButton''] as) hs
        (ns @ [only_if (flag ''showCloseButton'' True as)
          (el ''SheetPrimitive.Close'' [] [el ''XIcon'' [] [], el ''span'' [] [Txt ''Close'']])])]"

definition SHEET_PARTS :: "(string \<times> 'm part) list" where
  "SHEET_PARTS =
     [(''Sheet'', handed ''SheetPrimitive.Root'' ''sheet''),
      (''SheetTrigger'', handed ''SheetPrimitive.Trigger'' ''sheet-trigger''),
      (''SheetClose'', handed ''SheetPrimitive.Close'' ''sheet-close''),
      (''SheetPortal'', handed ''SheetPrimitive.Portal'' ''sheet-portal''),
      (''SheetOverlay'', slotted ''SheetPrimitive.Overlay'' ''sheet-overlay''),
      (''SheetContent'', sheet_content),
      (''SheetHeader'', slotted ''div'' ''sheet-header''),
      (''SheetFooter'', slotted ''div'' ''sheet-footer''),
      (''SheetTitle'', slotted ''SheetPrimitive.Title'' ''sheet-title''),
      (''SheetDescription'', slotted ''SheetPrimitive.Description'' ''sheet-description'')]"

subsection \<open>\<open>skeleton.tsx\<close>\<close>

definition SKELETON_PARTS :: "(string \<times> 'm part) list" where
  "SKELETON_PARTS =
     [(''Skeleton'', slotted ''div'' ''skeleton'')]"

subsection \<open>\<open>switch.tsx\<close>\<close>

definition kit_switch :: "'m part" where
  "kit_switch as hs ns =
     part ''SwitchPrimitive.Root'' [(''data-slot'', ''switch''), (''data-size'', arg ''size'' ''default'' as)] (without [''size''] as) hs
       [el ''SwitchPrimitive.Thumb'' [(''data-slot'', ''switch-thumb'')] []]"

definition SWITCH_PARTS :: "(string \<times> 'm part) list" where
  "SWITCH_PARTS =
     [(''Switch'', kit_switch)]"

subsection \<open>\<open>table.tsx\<close>\<close>

definition kit_table :: "'m part" where
  "kit_table as hs ns = el ''div'' [(''data-slot'', ''table-container'')] [slotted ''table'' ''table'' as hs ns]"

definition TABLE_PARTS :: "(string \<times> 'm part) list" where
  "TABLE_PARTS =
     [(''Table'', kit_table),
      (''TableHeader'', slotted ''thead'' ''table-header''),
      (''TableBody'', slotted ''tbody'' ''table-body''),
      (''TableFooter'', slotted ''tfoot'' ''table-footer''),
      (''TableRow'', slotted ''tr'' ''table-row''),
      (''TableHead'', slotted ''th'' ''table-head''),
      (''TableCell'', slotted ''td'' ''table-cell''),
      (''TableCaption'', slotted ''caption'' ''table-caption'')]"

subsection \<open>\<open>tabs.tsx\<close>\<close>

definition kit_tabs :: "'m part" where
  "kit_tabs as hs ns =
     part ''TabsPrimitive.Root''
       [(''data-slot'', ''tabs''), (''data-orientation'', arg ''orientation'' ''horizontal'' as), (''orientation'', arg ''orientation'' ''horizontal'' as)]
       (without [''orientation''] as) hs ns"

definition tabs_list :: "'m part" where
  "tabs_list as hs ns =
     part ''TabsPrimitive.List'' [(''data-slot'', ''tabs-list''), (''data-variant'', arg ''variant'' ''default'' as)] (without [''variant''] as) hs ns"

definition TABS_PARTS :: "(string \<times> 'm part) list" where
  "TABS_PARTS =
     [(''Tabs'', kit_tabs),
      (''TabsList'', tabs_list),
      (''TabsTrigger'', slotted ''TabsPrimitive.Trigger'' ''tabs-trigger''),
      (''TabsContent'', slotted ''TabsPrimitive.Content'' ''tabs-content'')]"

subsection \<open>\<open>textarea.tsx\<close>\<close>

definition TEXTAREA_PARTS :: "(string \<times> 'm part) list" where
  "TEXTAREA_PARTS =
     [(''Textarea'', slotted ''textarea'' ''textarea'')]"

subsection \<open>\<open>toggle.tsx\<close>\<close>

definition kit_toggle :: "'m part" where
  "kit_toggle as hs ns = slotted ''TogglePrimitive.Root'' ''toggle'' (without [''variant'', ''size''] as) hs ns"

definition TOGGLE_PARTS :: "(string \<times> 'm part) list" where
  "TOGGLE_PARTS =
     [(''Toggle'', kit_toggle)]"

subsection \<open>\<open>tooltip.tsx\<close>\<close>

definition tooltip_provider :: "'m part" where
  "tooltip_provider as hs ns =
     pass ''TooltipPrimitive.Provider'' [(''data-slot'', ''tooltip-provider''), (''delayDuration'', arg ''delayDuration'' ''300'' as)]
       (without [''delayDuration''] as) hs ns"

definition tooltip_content :: "'m part" where
  "tooltip_content as hs ns = el ''TooltipPrimitive.Portal'' []
     [part ''TooltipPrimitive.Content'' [(''data-slot'', ''tooltip-content''), (''sideOffset'', arg ''sideOffset'' ''0'' as)] (without [''sideOffset''] as) hs
        (ns @ [el ''TooltipPrimitive.Arrow'' [] []])]"

definition TOOLTIP_PARTS :: "(string \<times> 'm part) list" where
  "TOOLTIP_PARTS =
     [(''TooltipProvider'', tooltip_provider),
      (''Tooltip'', handed ''TooltipPrimitive.Root'' ''tooltip''),
      (''TooltipTrigger'', handed ''TooltipPrimitive.Trigger'' ''tooltip-trigger''),
      (''TooltipContent'', tooltip_content)]"

subsection \<open>Parts with typed properties\<close>

definition progress :: "int option \<Rightarrow> 'm part" where
  \<comment> \<open>the value, if any, is not handed on\<close>
  "progress v as hs ns = slotted ''ProgressPrimitive.Root'' ''progress'' as hs
     [el ''ProgressPrimitive.Indicator''
        [(''data-slot'', ''progress-indicator''),
         sty (''transform: translateX(-'' @ show_int (100 - (case v of None \<Rightarrow> 0 | Some n \<Rightarrow> n)) @ ''%)'')] []]"

definition number_list :: "int list \<Rightarrow> string" where
  "number_list vs = concat (map (\<lambda>v. show_int v @ '','') vs)"

definition slider_values :: "int list option \<Rightarrow> int list option \<Rightarrow> int \<Rightarrow> int \<Rightarrow> int list" where
  \<comment> \<open>the values shown: those given, the initial ones, or the bounds\<close>
  "slider_values given dflt least most =
     (case given of Some vs \<Rightarrow> vs | None \<Rightarrow> (case dflt of Some vs \<Rightarrow> vs | None \<Rightarrow> [least, most]))"

definition slider :: "int list option \<Rightarrow> int list option \<Rightarrow> int option \<Rightarrow> int option \<Rightarrow> 'm part" where
  \<comment> \<open>the values, the initial values and the bounds, all optional\<close>
  "slider given dflt least most as hs ns =
     (let least' = (case least of None \<Rightarrow> 0 | Some n \<Rightarrow> n); most' = (case most of None \<Rightarrow> 100 | Some n \<Rightarrow> n)
      in part ''SliderPrimitive.Root''
           ([(''data-slot'', ''slider'')] @ opt_attr ''defaultValue'' (map_option number_list dflt) @
            opt_attr ''value'' (map_option number_list given) @ [(''min'', show_int least'), (''max'', show_int most')]) as hs
           ([el ''SliderPrimitive.Track'' [(''data-slot'', ''slider-track'')]
               [el ''SliderPrimitive.Range'' [(''data-slot'', ''slider-range'')] []]] @
            map (\<lambda>i. el ''SliderPrimitive.Thumb'' [(''data-slot'', ''slider-thumb''), (''key'', show_nat i)] [])
              [0..<length (slider_values given dflt least' most')]))"

record toggle_context =
  tg_variant :: "string option"
  tg_size :: "string option"
  tg_spacing :: int

definition toggle_context0 :: toggle_context where
  "toggle_context0 = \<lparr>tg_variant = Some ''default'', tg_size = Some ''default'', tg_spacing = 0\<rparr>"

definition toggle_group :: "string option \<Rightarrow> string option \<Rightarrow> int option \<Rightarrow> (toggle_context \<Rightarrow> 'm node list) \<Rightarrow>
    (string \<times> string) list \<Rightarrow> 'm handler list \<Rightarrow> 'm node" where
  \<comment> \<open>the children are rendered in the context the group gives them\<close>
  "toggle_group variant siz spacing items as hs =
     (let c = \<lparr>tg_variant = variant, tg_size = siz, tg_spacing = (case spacing of None \<Rightarrow> 0 | Some n \<Rightarrow> n)\<rparr>
      in part ''ToggleGroupPrimitive.Root''
           ([(''data-slot'', ''toggle-group'')] @ opt_attr ''data-variant'' variant @ opt_attr ''data-size'' siz @
            [(''data-spacing'', show_int (tg_spacing c)), sty (''--gap: '' @ show_int (tg_spacing c))]) as hs (items c))"

definition toggle_group_item :: "toggle_context \<Rightarrow> 'm part" where
  "toggle_group_item c as hs ns =
     (let own = (\<lambda>k x. if truthy x then x else map_of as k)
      in part ''ToggleGroupPrimitive.Item''
           ([(''data-slot'', ''toggle-group-item'')] @ opt_attr ''data-variant'' (own ''variant'' (tg_variant c)) @
            opt_attr ''data-size'' (own ''size'' (tg_size c)) @ [(''data-spacing'', show_int (tg_spacing c))])
           (without [''variant'', ''size''] as) hs ns)"

definition toaster :: "string option \<Rightarrow> 'm part" where
  \<comment> \<open>the argument is the theme in use, if it is known\<close>
  "toaster theme as hs ns =
     pass ''Sonner''
       [(''theme'', case theme of None \<Rightarrow> ''system'' | Some t \<Rightarrow> t),
        (''icons'', ''CircleCheckIcon InfoIcon TriangleAlertIcon OctagonXIcon Loader2Icon''),
        sty ''--normal-bg: var(--popover); --normal-text: var(--popover-foreground); --normal-border: var(--border); --border-radius: var(--radius)'']
       as hs ns"

subsection \<open>Rendering\<close>

definition KIT :: "(string \<times> 'm part) list" where
  "KIT = BUTTON_PARTS @ DIALOG_PARTS @ ACCORDION_PARTS @ ALERT_PARTS @ ALERT_DIALOG_PARTS @ ASPECT_RATIO_PARTS @
     AVATAR_PARTS @ BADGE_PARTS @ BREADCRUMB_PARTS @ CARD_PARTS @ CHECKBOX_PARTS @ COLLAPSIBLE_PARTS @
     COMMAND_PARTS @ CONTEXT_MENU_PARTS @ DRAWER_PARTS @ DROPDOWN_MENU_PARTS @ HOVER_CARD_PARTS @ INPUT_PARTS @
     LABEL_PARTS @ PAGINATION_PARTS @ POPOVER_PARTS @ RADIO_GROUP_PARTS @ RESIZABLE_PARTS @ SCROLL_AREA_PARTS @
     SELECT_PARTS @ SEPARATOR_PARTS @ SHEET_PARTS @ SKELETON_PARTS @ SWITCH_PARTS @ TABLE_PARTS @
     TABS_PARTS @ TEXTAREA_PARTS @ TOGGLE_PARTS @ TOOLTIP_PARTS"

definition CHILDLESS :: "string list" where
  \<comment> \<open>parts with children of their own, which take the place of any they are given\<close>
  "CHILDLESS = [''BreadcrumbEllipsis'', ''Checkbox'', ''PaginationPrevious'', ''PaginationNext'', ''PaginationEllipsis'',
     ''RadioGroupItem'', ''ResizableHandle'', ''ScrollBar'', ''SelectScrollUpButton'', ''SelectScrollDownButton'', ''Switch'']"

primrec render :: "(string \<times> 'm part) list \<Rightarrow> 'm node \<Rightarrow> 'm node" where
  "render T Null = Null"
| "render T (Txt s) = Txt s"
| "render T (Elem t as hs ns) =
     (case map_of T t of None \<Rightarrow> Elem t as hs (map (render T) ns) | Some f \<Rightarrow> f as hs (map (render T) ns))"
| "render T (Frag ns) = Frag (map (render T) ns)"

primrec no_lost_child :: "string list \<Rightarrow> 'm node \<Rightarrow> bool" where
  \<comment> \<open>no part is given children that it does not show\<close>
  "no_lost_child C Null = True"
| "no_lost_child C (Txt s) = True"
| "no_lost_child C (Elem t as hs ns) = ((t \<in> set C \<longrightarrow> ns = []) \<and> list_all (no_lost_child C) ns)"
| "no_lost_child C (Frag ns) = list_all (no_lost_child C) ns"

subsection \<open>What the pages rely on\<close>

definition messages :: "'m handler list \<Rightarrow> 'm node list \<Rightarrow> 'm set" where
  "messages hs ns = set_node (Elem [] [] hs ns)"

definition passes :: "'m part \<Rightarrow> bool" where
  "passes f \<longleftrightarrow> (\<forall>as hs ns. set_node (f as hs ns) = messages hs ns)"

definition passes_handlers :: "'m part \<Rightarrow> bool" where
  "passes_handlers f \<longleftrightarrow> (\<forall>as hs. set_node (f as hs []) = messages hs [])"

locale part_table =
  fixes T :: "(string \<times> 'm part) list"
    and C :: "string list"
  assumes hands_on: "(t, f) \<in> set T \<Longrightarrow> t \<notin> set C \<Longrightarrow> passes f"
    and hands_handlers: "(t, f) \<in> set T \<Longrightarrow> t \<in> set C \<Longrightarrow> passes_handlers f"
begin

lemma render_messages: "no_lost_child C n \<Longrightarrow> set_node (render T n) = set_node n"
proof (induction n)
  case (Elem t as hs ns)
  have c: "set_node (render T m) = set_node m" if "m \<in> set ns" for m
    using Elem.IH [OF that] Elem.prems that by (auto simp: list_all_iff)
  have m: "messages hs (map (render T) ns) = set_node (Elem t as hs ns)" using c by (simp add: messages_def)
  show ?case
  proof (cases "map_of T t")
    case None
    then show ?thesis using c by simp
  next
    case (Some f)
    then have f: "(t, f) \<in> set T" by (rule map_of_SomeD)
    show ?thesis
    proof (cases "t \<in> set C")
      case True
      then have "ns = []" using Elem.prems by simp
      then show ?thesis using hands_handlers [OF f True] m by (simp add: Some passes_handlers_def)
    next
      case False
      then show ?thesis using hands_on [OF f] m by (simp add: Some passes_def)
    qed
  qed
next
  case (Frag ns)
  then show ?case by (auto simp: list_all_iff)
qed simp_all

end

subsection \<open>Every part keeps the contract\<close>

lemma messages_parts: "messages hs ns = (\<Union>h\<in>set hs. set_handler h) \<union> (\<Union>n\<in>set ns. set_node n)"
  by (simp add: messages_def)

lemma passesD: "passes f \<Longrightarrow> set_node (f as hs ns) = messages hs ns"
  by (simp add: passes_def)

lemma passes_handlersD: "passes_handlers f \<Longrightarrow> set_node (f as hs []) = messages hs []"
  by (simp add: passes_handlers_def)

lemma passes_plain [simp]: "passes (pass tag own)" "passes (part tag own)" "passes (handed tag slot)" "passes (slotted tag slot)"
  by (simp_all add: passes_def messages_def pass_def part_def handed_def slotted_def)

lemmas set_node_plain [simp] = passes_plain [THEN passesD]

lemma button_pass [simp]:
  "passes kit_button"
  by (auto simp: passes_def messages_parts kit_button_def)

lemmas set_node_button [simp] = button_pass [THEN passesD]

lemma dialog_pass [simp]:
  "passes dialog_content"
  "passes dialog_footer"
  by (auto simp: passes_def messages_parts dialog_content_def dialog_footer_def)

lemmas set_node_dialog [simp] = dialog_pass [THEN passesD]

lemma accordion_pass [simp]:
  "passes accordion_trigger"
  "passes accordion_content"
  by (auto simp: passes_def messages_parts accordion_trigger_def accordion_content_def)

lemma alert_pass [simp]:
  "passes kit_alert"
  by (auto simp: passes_def messages_parts kit_alert_def)

lemma alert_dialog_pass [simp]:
  "passes alert_dialog_content"
  "passes alert_dialog_action"
  "passes alert_dialog_cancel"
  by (auto simp: passes_def messages_parts alert_dialog_content_def alert_dialog_action_def alert_dialog_cancel_def)

lemma avatar_pass [simp]:
  "passes kit_avatar"
  by (auto simp: passes_def messages_parts kit_avatar_def)

lemma badge_pass [simp]:
  "passes kit_badge"
  by (auto simp: passes_def messages_parts kit_badge_def)

lemma breadcrumb_pass [simp]:
  "passes breadcrumb_link"
  "passes breadcrumb_separator"
  by (auto simp: passes_def messages_parts breadcrumb_link_def breadcrumb_separator_def)

lemma breadcrumb_pass_handlers [simp]:
  "passes_handlers breadcrumb_ellipsis"
  by (auto simp: passes_handlers_def messages_parts breadcrumb_ellipsis_def)

lemma checkbox_pass_handlers [simp]:
  "passes_handlers kit_checkbox"
  by (auto simp: passes_handlers_def messages_parts kit_checkbox_def)

lemma command_pass [simp]:
  "passes command_dialog"
  "passes command_input"
  by (auto simp: passes_def messages_parts command_dialog_def command_input_def)

lemma context_menu_pass [simp]:
  "passes context_menu_sub_trigger"
  "passes context_menu_content"
  "passes context_menu_item"
  "passes context_menu_checkbox_item"
  "passes context_menu_radio_item"
  "passes context_menu_label"
  by (auto simp: passes_def messages_parts context_menu_sub_trigger_def context_menu_content_def context_menu_item_def context_menu_checkbox_item_def context_menu_radio_item_def context_menu_label_def)

lemma drawer_pass [simp]:
  "passes drawer_content"
  by (auto simp: passes_def messages_parts drawer_content_def)

lemma dropdown_menu_pass [simp]:
  "passes dropdown_menu_content"
  "passes dropdown_menu_item"
  "passes dropdown_menu_checkbox_item"
  "passes dropdown_menu_radio_item"
  "passes dropdown_menu_label"
  "passes dropdown_menu_sub_trigger"
  by (auto simp: passes_def messages_parts dropdown_menu_content_def dropdown_menu_item_def dropdown_menu_checkbox_item_def dropdown_menu_radio_item_def dropdown_menu_label_def dropdown_menu_sub_trigger_def)

lemma hover_card_pass [simp]:
  "passes hover_card_content"
  by (auto simp: passes_def messages_parts hover_card_content_def)

lemma input_pass [simp]:
  "passes kit_input"
  by (auto simp: passes_def messages_parts kit_input_def)

lemma pagination_pass [simp]:
  "passes pagination_link"
  by (auto simp: passes_def messages_parts pagination_link_def)

lemmas set_node_pagination_link [simp] = pagination_pass [THEN passesD]

lemma pagination_pass_handlers [simp]:
  "passes_handlers pagination_previous"
  "passes_handlers pagination_next"
  "passes_handlers pagination_ellipsis"
  by (auto simp: passes_handlers_def messages_parts pagination_previous_def pagination_next_def pagination_ellipsis_def)

lemma popover_pass [simp]:
  "passes popover_content"
  by (auto simp: passes_def messages_parts popover_content_def)

lemma radio_group_pass_handlers [simp]:
  "passes_handlers radio_group_item"
  by (auto simp: passes_handlers_def messages_parts radio_group_item_def)

lemma resizable_pass_handlers [simp]:
  "passes_handlers resizable_handle"
  by (auto simp: passes_handlers_def messages_parts resizable_handle_def)

lemma scroll_area_pass_handlers [simp]:
  "passes_handlers scroll_bar"
  by (auto simp: passes_handlers_def messages_parts scroll_bar_def)

lemmas set_node_scroll_area [simp] = scroll_area_pass_handlers [THEN passes_handlersD]

lemma scroll_area_pass [simp]:
  "passes scroll_area"
  by (auto simp: passes_def messages_parts scroll_area_def)

lemma select_pass_handlers [simp]:
  "passes_handlers select_scroll_up"
  "passes_handlers select_scroll_down"
  by (auto simp: passes_handlers_def messages_parts select_scroll_up_def select_scroll_down_def)

lemmas set_node_select [simp] = select_pass_handlers [THEN passes_handlersD]

lemma select_pass [simp]:
  "passes select_trigger"
  "passes select_content"
  "passes select_item"
  by (auto simp: passes_def messages_parts select_trigger_def select_content_def select_item_def)

lemma separator_pass [simp]:
  "passes kit_separator"
  by (auto simp: passes_def messages_parts kit_separator_def)

lemma sheet_pass [simp]:
  "passes sheet_content"
  by (auto simp: passes_def messages_parts sheet_content_def)

lemma switch_pass_handlers [simp]:
  "passes_handlers kit_switch"
  by (auto simp: passes_handlers_def messages_parts kit_switch_def)

lemma table_pass [simp]:
  "passes kit_table"
  by (auto simp: passes_def messages_parts kit_table_def)

lemma tabs_pass [simp]:
  "passes kit_tabs"
  "passes tabs_list"
  by (auto simp: passes_def messages_parts kit_tabs_def tabs_list_def)

lemma toggle_pass [simp]:
  "passes kit_toggle"
  by (auto simp: passes_def messages_parts kit_toggle_def)

lemma tooltip_pass [simp]:
  "passes tooltip_provider"
  "passes tooltip_content"
  by (auto simp: passes_def messages_parts tooltip_provider_def tooltip_content_def)

definition contract :: "(string \<times> 'm part) list \<Rightarrow> bool" where
  "contract T \<longleftrightarrow> (\<forall>(t, f)\<in>set T. if t \<in> set CHILDLESS then passes_handlers f else passes f)"

lemma contract_cons [simp]:
  "contract ((t, f) # T) \<longleftrightarrow> (if t \<in> set CHILDLESS then passes_handlers f else passes f) \<and> contract T"
  by (simp add: contract_def)

lemma contract_nil [simp]: "contract []"
  by (simp add: contract_def)

lemma contract_append [simp]: "contract (T @ U) \<longleftrightarrow> contract T \<and> contract U"
  by (auto simp: contract_def)

lemma contracts_1 [simp]:
  "contract BUTTON_PARTS"
  "contract DIALOG_PARTS"
  "contract ACCORDION_PARTS"
  "contract ALERT_PARTS"
  "contract ALERT_DIALOG_PARTS"
  "contract ASPECT_RATIO_PARTS"
  by (simp_all add: CHILDLESS_def BUTTON_PARTS_def DIALOG_PARTS_def ACCORDION_PARTS_def ALERT_PARTS_def ALERT_DIALOG_PARTS_def ASPECT_RATIO_PARTS_def)

lemma contracts_2 [simp]:
  "contract AVATAR_PARTS"
  "contract BADGE_PARTS"
  "contract BREADCRUMB_PARTS"
  "contract CARD_PARTS"
  "contract CHECKBOX_PARTS"
  "contract COLLAPSIBLE_PARTS"
  by (simp_all add: CHILDLESS_def AVATAR_PARTS_def BADGE_PARTS_def BREADCRUMB_PARTS_def CARD_PARTS_def CHECKBOX_PARTS_def COLLAPSIBLE_PARTS_def)

lemma contracts_3 [simp]:
  "contract COMMAND_PARTS"
  "contract CONTEXT_MENU_PARTS"
  "contract DRAWER_PARTS"
  "contract DROPDOWN_MENU_PARTS"
  "contract HOVER_CARD_PARTS"
  "contract INPUT_PARTS"
  by (simp_all add: CHILDLESS_def COMMAND_PARTS_def CONTEXT_MENU_PARTS_def DRAWER_PARTS_def DROPDOWN_MENU_PARTS_def HOVER_CARD_PARTS_def INPUT_PARTS_def)

lemma contracts_4 [simp]:
  "contract LABEL_PARTS"
  "contract PAGINATION_PARTS"
  "contract POPOVER_PARTS"
  "contract RADIO_GROUP_PARTS"
  "contract RESIZABLE_PARTS"
  "contract SCROLL_AREA_PARTS"
  by (simp_all add: CHILDLESS_def LABEL_PARTS_def PAGINATION_PARTS_def POPOVER_PARTS_def RADIO_GROUP_PARTS_def RESIZABLE_PARTS_def SCROLL_AREA_PARTS_def)

lemma contracts_5 [simp]:
  "contract SELECT_PARTS"
  "contract SEPARATOR_PARTS"
  "contract SHEET_PARTS"
  "contract SKELETON_PARTS"
  "contract SWITCH_PARTS"
  "contract TABLE_PARTS"
  by (simp_all add: CHILDLESS_def SELECT_PARTS_def SEPARATOR_PARTS_def SHEET_PARTS_def SKELETON_PARTS_def SWITCH_PARTS_def TABLE_PARTS_def)

lemma contracts_6 [simp]:
  "contract TABS_PARTS"
  "contract TEXTAREA_PARTS"
  "contract TOGGLE_PARTS"
  "contract TOOLTIP_PARTS"
  by (simp_all add: CHILDLESS_def TABS_PARTS_def TEXTAREA_PARTS_def TOGGLE_PARTS_def TOOLTIP_PARTS_def)

interpretation kit: part_table KIT CHILDLESS
proof unfold_locales
  have k: "contract KIT" by (simp add: KIT_def)
  show "passes f" if "(t, f) \<in> set KIT" "t \<notin> set CHILDLESS" for t and f :: "'m part"
    using k that by (auto simp: contract_def)
  show "passes_handlers f" if "(t, f) \<in> set KIT" "t \<in> set CHILDLESS" for t and f :: "'m part"
    using k that by (auto simp: contract_def)
qed

subsection \<open>What follows\<close>

text \<open>C37: rendering a page with the kit neither loses nor adds a message: whatever the page's tree can send, the
  rendered elements can send, and nothing else, as long as no part that shows only its own children (a
  check box, a switch, a scroll bar) is given any.\<close>

lemma kit_keeps_messages: "no_lost_child CHILDLESS n \<Longrightarrow> set_node (render KIT n) = set_node n"
  by (rule kit.render_messages)

lemma login_has_no_lost_child: "no_lost_child CHILDLESS (dash_login_view s)"
  by (simp add: dash_login_view_def brand_panel_def code_form_def password_login_def submit_button_def login_error_def
        CHILDLESS_def only_if_def opt_txt_def FEATURES_def)

lemma kit_keeps_messages_witness:
  "set_node (render KIT (dash_login_view login_page0)) = set_node (dash_login_view login_page0)
   \<and> LgShow \<in> set_node (render KIT (dash_login_view login_page0))"
proof -
  have "LgShow \<in> set_node (dash_login_view login_page0)"
    by (simp add: dash_login_view_def login_page0_def password_login_def)
  then show ?thesis using kit_keeps_messages [OF login_has_no_lost_child] by metis
qed

lemma switch_shows_no_child: "set_node (kit_switch as [] ns) = {}"
  \<comment> \<open>so the condition is needed\<close>
  by (simp add: kit_switch_def messages_parts)

lemma progress_value_not_given:
  \<comment> \<open>the value moves the bar, but the primitive never gets it\<close>
  "\<exists>own ns'. progress v as hs ns = pass ''ProgressPrimitive.Root'' own (without [''className''] as) hs ns' \<and> map_of own ''value'' = None"
  unfolding progress_def slotted_def part_def by (intro exI conjI, rule refl) simp

end
