(* ===== verification/ChartKit.thy ===== *)
theory ChartKit
  imports Http Vdom
begin

section \<open>The chart parts of the interface kit\<close>

text \<open>
  Models \<open>dashboard/components/ui/chart.tsx\<close>: the context a chart container gives to its parts, the style
  sheet it writes for the colours of its series in both themes, and what its tooltip and its legend
  show for an entry. No page uses these parts; the pages draw their charts with the charting library
  directly. That library is not modelled: an entry is an object it passes, \<open>undefined\<close> is a missing
  field, and the two formatters are functions that the caller may give. A label is text.

  The lemmas show that the style sheet declares exactly the colours of the configuration, each once per
  theme, that the tooltip has a row for every entry that is not hidden, and where its label stands.
\<close>

subsection \<open>Configuration and context\<close>

definition CHART_THEMES :: "(string \<times> string) list" where
  \<comment> \<open>name and selector\<close>
  "CHART_THEMES = [(''light'', []), (''dark'', ''.dark'')]"

record chart_series =
  cs_label :: "string option"
  cs_icon :: "string option"
  cs_color :: "string option"
  cs_theme :: "(string \<times> string) list option"

type_synonym chart_config = "(string \<times> chart_series) list"

definition use_chart :: "chart_config option \<Rightarrow> string + chart_config" where
  "use_chart ctx = (case ctx of None \<Rightarrow> Inl ''useChart must be used within a <ChartContainer />'' | Some c \<Rightarrow> Inr c)"

subsection \<open>The style sheet\<close>

abbreviation newline :: string where
  "newline \<equiv> [CHR 0x0A]"

definition color_config :: "chart_config \<Rightarrow> chart_config" where
  "color_config config = filter (\<lambda>(k, s). cs_theme s \<noteq> None \<or> truthy (cs_color s)) config"

definition series_color :: "string \<Rightarrow> chart_series \<Rightarrow> string option" where
  "series_color theme s =
     (case Option.bind (cs_theme s) (\<lambda>t. map_of t theme) of Some c \<Rightarrow> Some c | None \<Rightarrow> cs_color s)"

definition color_line :: "string \<Rightarrow> string \<times> chart_series \<Rightarrow> string" where
  \<comment> \<open>\<open>join\<close> writes \<open>null\<close> as the empty string\<close>
  "color_line theme = (\<lambda>(k, s).
     if truthy (series_color theme s) then ''  --color-'' @ k @ '': '' @ the (series_color theme s) @ '';'' else [])"

definition style_block :: "string \<Rightarrow> chart_config \<Rightarrow> string \<times> string \<Rightarrow> string" where
  "style_block i cc = (\<lambda>(theme, sel).
     newline @ sel @ '' [data-chart='' @ i @ ''] {'' @ newline @ join newline (map (color_line theme) cc) @ newline @
     ''}'' @ newline)"

definition style_sheet :: "string \<Rightarrow> chart_config \<Rightarrow> string" where
  "style_sheet i cc = join newline (map (style_block i cc) CHART_THEMES)"

definition chart_style :: "string \<Rightarrow> chart_config \<Rightarrow> 'm node" where
  "chart_style i config =
     (let cc = color_config config
      in if cc = [] then Null
         else el ''style'' [(''dangerouslySetInnerHTML'', style_sheet i cc)] [])"

subsection \<open>Container\<close>

definition chart_id :: "string option \<Rightarrow> string \<Rightarrow> string" where
  \<comment> \<open>the second argument is React's own identifier\<close>
  "chart_id own unique = ''chart-'' @ (case own of Some i \<Rightarrow> i | None \<Rightarrow> filter (\<lambda>c. c \<noteq> CHR '':'') unique)"

definition INITIAL_DIMENSION :: "nat \<times> nat" where
  "INITIAL_DIMENSION = (320, 200)"

definition chart_container ::
    "string option \<Rightarrow> string \<Rightarrow> chart_config \<Rightarrow> (nat \<times> nat) option \<Rightarrow> (string \<times> string) list \<Rightarrow> 'm handler list \<Rightarrow>
     (chart_config option \<Rightarrow> 'm node list) \<Rightarrow> 'm node" where
  \<comment> \<open>the children are rendered in the context of the container\<close>
  "chart_container own unique config dim as hs children =
     (let i = chart_id own unique; (w, h) = (case dim of None \<Rightarrow> INITIAL_DIMENSION | Some d \<Rightarrow> d)
      in Elem ''div'' (obj_spread [(''data-slot'', ''chart''), (''data-chart'', i)] as) hs
           [chart_style i config,
            el ''RechartsPrimitive.ResponsiveContainer'' [(''initialDimension'', show_nat w @ '' '' @ show_nat h)]
              (children (Some config))])"

subsection \<open>Entries\<close>

type_synonym chart_item = "(string \<times> json) list"

fun js_text :: "json \<Rightarrow> string" where
  \<comment> \<open>\<open>String(x)\<close>; an array joins its elements, without \<open>null\<close>\<close>
  "js_text JNull = ''null''"
| "js_text (JBool b) = (if b then ''true'' else ''false'')"
| "js_text (JNum n) = show_int n"
| "js_text (JStr s) = s"
| "js_text (JArr xs) = join '','' (map (\<lambda>x. if x = JNull then [] else js_text x) xs)"
| "js_text (JObj ps) = ''[object Object]''"

fun js_truthy :: "json \<Rightarrow> bool" where
  "js_truthy JNull = False"
| "js_truthy (JBool b) = b"
| "js_truthy (JNum n) = (n \<noteq> 0)"
| "js_truthy (JStr s) = (s \<noteq> [])"
| "js_truthy _ = True"

definition given :: "json option \<Rightarrow> json option" where
  \<comment> \<open>neither \<open>undefined\<close> nor \<open>null\<close>\<close>
  "given v = (if v = Some JNull then None else v)"

definition if_null :: "json option \<Rightarrow> json option \<Rightarrow> json option" where
  \<comment> \<open>\<open>a ?? b\<close>\<close>
  "if_null a b = (case given a of None \<Rightarrow> b | Some v \<Rightarrow> Some v)"

definition key_text :: "json option \<Rightarrow> string" where
  "key_text v = (case given v of None \<Rightarrow> ''value'' | Some j \<Rightarrow> js_text j)"

definition string_at :: "string \<Rightarrow> chart_item \<Rightarrow> string option" where
  "string_at k item = (case map_of item k of Some (JStr s) \<Rightarrow> Some s | _ \<Rightarrow> None)"

definition item_payload :: "chart_item \<Rightarrow> chart_item option" where
  "item_payload item = (case map_of item ''payload'' of Some (JObj ps) \<Rightarrow> Some ps | _ \<Rightarrow> None)"

definition config_key :: "chart_item \<Rightarrow> string \<Rightarrow> string" where
  "config_key item key =
     (case string_at key item of
        Some s \<Rightarrow> s
      | None \<Rightarrow> (case Option.bind (item_payload item) (string_at key) of Some s \<Rightarrow> s | None \<Rightarrow> key))"

definition payload_config :: "chart_config \<Rightarrow> chart_item \<Rightarrow> string \<Rightarrow> chart_series option" where
  "payload_config config item key =
     (case map_of config (config_key item key) of Some s \<Rightarrow> Some s | None \<Rightarrow> map_of config key)"

definition visible_items :: "chart_item list \<Rightarrow> chart_item list" where
  "visible_items items = filter (\<lambda>it. map_of it ''type'' \<noteq> Some (JStr ''none'')) items"

definition label_of :: "chart_series option \<Rightarrow> string option" where
  "label_of c = Option.bind c cs_label"

definition icon_of :: "chart_series option \<Rightarrow> string option" where
  "icon_of c = Option.bind c cs_icon"

subsection \<open>Tooltip\<close>

record 'm chart_tooltip =
  ct_active :: bool
  ct_payload :: "chart_item list option"
  ct_indicator :: string
  ct_hide_label :: bool
  ct_hide_indicator :: bool
  ct_label :: "json option"
  ct_label_formatter :: "(string option \<Rightarrow> chart_item list \<Rightarrow> 'm node) option"
  ct_formatter :: "(json \<Rightarrow> json \<Rightarrow> chart_item \<Rightarrow> nat \<Rightarrow> json option \<Rightarrow> 'm node) option"
  ct_color :: "string option"
  ct_name_key :: "string option"
  ct_label_key :: "string option"

definition chart_tooltip0 :: "chart_item list \<Rightarrow> 'm chart_tooltip" where
  \<comment> \<open>an active tooltip with the defaults\<close>
  "chart_tooltip0 items =
     \<lparr>ct_active = True, ct_payload = Some items, ct_indicator = ''dot'', ct_hide_label = False, ct_hide_indicator = False,
      ct_label = None, ct_label_formatter = None, ct_formatter = None, ct_color = None, ct_name_key = None, ct_label_key = None\<rparr>"

definition tooltip_items :: "'m chart_tooltip \<Rightarrow> chart_item list" where
  "tooltip_items p = (case ct_payload p of None \<Rightarrow> [] | Some items \<Rightarrow> items)"

definition text_else :: "string option \<Rightarrow> string \<Rightarrow> string" where
  \<comment> \<open>\<open>a ?? b\<close> on text\<close>
  "text_else v d = (case v of None \<Rightarrow> d | Some t \<Rightarrow> t)"

definition label_value :: "chart_config \<Rightarrow> 'm chart_tooltip \<Rightarrow> chart_item \<Rightarrow> string option" where
  "label_value config p item =
     (let key = key_text (if_null (map_option JStr (ct_label_key p)) (if_null (map_of item ''dataKey'') (map_of item ''name'')));
          own = label_of (payload_config config item key)
      in case ct_label p of
           Some (JStr l) \<Rightarrow> if truthy (ct_label_key p) then own else Some (text_else (label_of (map_of config l)) l)
         | _ \<Rightarrow> own)"

definition tooltip_label :: "chart_config \<Rightarrow> 'm chart_tooltip \<Rightarrow> 'm node" where
  "tooltip_label config p =
     (case tooltip_items p of
        [] \<Rightarrow> Null
      | item # items \<Rightarrow>
          if ct_hide_label p then Null
          else (let v = label_value config p item
                in case ct_label_formatter p of
                     Some f \<Rightarrow> el ''div'' [] [f v (tooltip_items p)]
                   | None \<Rightarrow> if truthy v then el ''div'' [] [Txt (the v)] else Null))"

definition nest_label :: "'m chart_tooltip \<Rightarrow> bool" where
  "nest_label p \<longleftrightarrow> length (tooltip_items p) = 1 \<and> ct_indicator p \<noteq> ''dot''"

definition indicator_color :: "'m chart_tooltip \<Rightarrow> chart_item \<Rightarrow> json option" where
  "indicator_color p item =
     if_null (map_option JStr (ct_color p))
       (if_null (Option.bind (item_payload item) (\<lambda>ps. map_of ps ''fill'')) (map_of item ''color''))"

definition json_txt :: "json option \<Rightarrow> 'm node" where
  \<comment> \<open>a field as a child\<close>
  "json_txt v = (case given v of None \<Rightarrow> Null | Some j \<Rightarrow> Txt (js_text j))"

definition value_text :: "env \<Rightarrow> json \<Rightarrow> string" where
  "value_text env v = (case v of JNum n \<Rightarrow> en_number env n | _ \<Rightarrow> js_text v)"

definition plain_row :: "env \<Rightarrow> chart_config \<Rightarrow> 'm chart_tooltip \<Rightarrow> chart_item \<Rightarrow> 'm node" where
  "plain_row env config p item =
     (let key = key_text (if_null (map_option JStr (ct_name_key p)) (if_null (map_of item ''name'') (map_of item ''dataKey'')));
          c = payload_config config item key;
          color = (case given (indicator_color p item) of None \<Rightarrow> [] | Some j \<Rightarrow> [sty (''--color-bg: '' @ js_text j @ ''; --color-border: '' @ js_text j)])
      in Frag
           [case icon_of c of Some i \<Rightarrow> el i [] [] | None \<Rightarrow> only_if (\<not> ct_hide_indicator p) (el ''div'' color []),
            el ''div'' []
              [el ''div'' []
                 [only_if (nest_label p) (tooltip_label config p),
                  el ''span'' [] [case label_of c of Some l \<Rightarrow> Txt l | None \<Rightarrow> json_txt (map_of item ''name'')]],
               (case given (map_of item ''value'') of None \<Rightarrow> Null | Some v \<Rightarrow> el ''span'' [] [Txt (value_text env v)])]])"

definition tooltip_row :: "env \<Rightarrow> chart_config \<Rightarrow> 'm chart_tooltip \<Rightarrow> nat \<Rightarrow> chart_item \<Rightarrow> 'm node" where
  "tooltip_row env config p i item =
     el ''div'' [(''key'', show_nat i)]
       [case (ct_formatter p, map_of item ''value'', map_of item ''name'') of
          (Some f, Some v, Some n) \<Rightarrow> if js_truthy n then f v n item i (map_of item ''payload'') else plain_row env config p item
        | _ \<Rightarrow> plain_row env config p item]"

definition numbered :: "(nat \<Rightarrow> 'a \<Rightarrow> 'b) \<Rightarrow> 'a list \<Rightarrow> 'b list" where
  \<comment> \<open>\<open>map\<close> with the index\<close>
  "numbered f xs = map (\<lambda>(i, x). f i x) (zip [0..<length xs] xs)"

definition chart_tooltip :: "env \<Rightarrow> chart_config option \<Rightarrow> 'm chart_tooltip \<Rightarrow> string + 'm node" where
  "chart_tooltip env ctx p =
     (case use_chart ctx of
        Inl err \<Rightarrow> Inl err
      | Inr config \<Rightarrow> Inr (
          if \<not> ct_active p \<or> tooltip_items p = [] then Null
          else el ''div'' []
                 [if nest_label p then Null else tooltip_label config p,
                  el ''div'' [] (numbered (tooltip_row env config p) (visible_items (tooltip_items p)))]))"

subsection \<open>Legend\<close>

definition legend_item :: "chart_config \<Rightarrow> bool \<Rightarrow> string option \<Rightarrow> nat \<Rightarrow> chart_item \<Rightarrow> 'm node" where
  "legend_item config hide_icon name_key i item =
     (let c = payload_config config item (key_text (if_null (map_option JStr name_key) (map_of item ''dataKey'')));
          color = (case given (map_of item ''color'') of None \<Rightarrow> [] | Some j \<Rightarrow> [sty (''background-color: '' @ js_text j)])
      in el ''div'' [(''key'', show_nat i)]
           [case (icon_of c, hide_icon) of (Some ic, False) \<Rightarrow> el ic [] [] | _ \<Rightarrow> el ''div'' color [],
            opt_txt (label_of c)])"

definition chart_legend :: "chart_config option \<Rightarrow> bool \<Rightarrow> chart_item list option \<Rightarrow> string option \<Rightarrow> string + 'm node" where
  "chart_legend ctx hide_icon payload name_key =
     (case use_chart ctx of
        Inl err \<Rightarrow> Inl err
      | Inr config \<Rightarrow> Inr (case payload of
          None \<Rightarrow> Null
        | Some items \<Rightarrow>
            if items = [] then Null
            else el ''div'' [] (numbered (legend_item config hide_icon name_key) (visible_items items))))"

subsection \<open>Lemmas\<close>

definition text_lines :: "string \<Rightarrow> string list" where
  \<comment> \<open>the lines that are not empty\<close>
  "text_lines s = filter (\<lambda>l. l \<noteq> []) (split_on (CHR 0x0A) s)"

lemma split_on_glue: "split_on c (a @ c # b) = split_on c a @ split_on c b"
proof (induction a)
  case (Cons x a)
  obtain w ws where "split_on c a = w # ws" by (cases "split_on c a") auto
  then show ?case using Cons by simp
qed simp

lemma text_lines_glue [simp]: "text_lines (a @ CHR 0x0A # b) = text_lines a @ text_lines b"
  by (simp add: text_lines_def split_on_glue)

lemma text_lines_Nil [simp]: "text_lines [] = []"
  by (simp add: text_lines_def)

lemma text_lines_lead [simp]: "text_lines (CHR 0x0A # b) = text_lines b"
  using text_lines_glue [of "[]" b] by simp

lemma text_lines_single: "CHR 0x0A \<notin> set l \<Longrightarrow> text_lines l = (if l = [] then [] else [l])"
  by (simp add: text_lines_def split_on_single)

lemma text_lines_join: "text_lines (join newline ws) = concat (map text_lines ws)"
  by (induction newline ws rule: join.induct) simp_all

definition declared :: "string \<Rightarrow> chart_config \<Rightarrow> string list" where
  \<comment> \<open>what the sheet should declare for a theme\<close>
  "declared theme config =
     [''  --color-'' @ k @ '': '' @ c @ '';''. (k, s) \<leftarrow> config, c \<leftarrow> (case series_color theme s of None \<Rightarrow> [] | Some c \<Rightarrow> [c]), c \<noteq> []]"

definition one_line_config :: "chart_config \<Rightarrow> bool" where
  "one_line_config config \<longleftrightarrow>
     (\<forall>(k, s)\<in>set config. CHR 0x0A \<notin> set k \<and> (\<forall>theme c. series_color theme s = Some c \<longrightarrow> CHR 0x0A \<notin> set c))"

lemma text_lines_color_line:
  assumes "one_line_config config" and "(k, s) \<in> set config"
  shows "text_lines (color_line theme (k, s)) =
    (case series_color theme s of None \<Rightarrow> [] | Some c \<Rightarrow> if c = [] then [] else [''  --color-'' @ k @ '': '' @ c @ '';''])"
  using assms by (fastforce simp: one_line_config_def color_line_def truthy_def text_lines_single split: option.splits)

lemma no_color_no_line: "\<not> (cs_theme s \<noteq> None \<or> truthy (cs_color s)) \<Longrightarrow> series_color theme s \<in> {None, Some []}"
  by (auto simp: series_color_def truthy_def split: option.splits)

lemma declared_filter: "declared theme (color_config config) = declared theme config"
proof (induction config)
  case (Cons e config)
  obtain k s where e: "e = (k, s)" by (cases e)
  show ?case
    using Cons no_color_no_line [of s theme] by (auto simp: e declared_def color_config_def split: option.splits)
qed (simp add: declared_def color_config_def)

lemma text_lines_colors:
  "one_line_config config \<Longrightarrow> text_lines (join newline (map (color_line theme) config)) = declared theme config"
proof (induction config)
  case (Cons e config)
  obtain k s where e: "e = (k, s)" by (cases e)
  have "one_line_config config" using Cons.prems by (simp add: one_line_config_def)
  then show ?case
    using Cons.IH text_lines_color_line [OF Cons.prems, of k s theme]
    by (auto simp: e text_lines_join declared_def split: option.splits)
qed (simp add: declared_def)

lemma one_line_color_config: "one_line_config config \<Longrightarrow> one_line_config (color_config config)"
  by (auto simp: one_line_config_def color_config_def)

lemma text_lines_block:
  assumes "one_line_config config" and "CHR 0x0A \<notin> set i" and "CHR 0x0A \<notin> set sel"
  shows "text_lines (style_block i (color_config config) (theme, sel)) =
    (sel @ '' [data-chart='' @ i @ ''] {'') # declared theme config @ [''}'']"
proof -
  let ?h = "sel @ '' [data-chart='' @ i @ ''] {''"
  let ?c = "join newline (map (color_line theme) (color_config config))"
  have "text_lines (style_block i (color_config config) (theme, sel)) = text_lines (?h @ CHR 0x0A # ?c @ CHR 0x0A # (''}'' @ CHR 0x0A # []))"
    by (simp add: style_block_def)
  also have "\<dots> = text_lines ?h @ text_lines ?c @ text_lines ''}''"
    by (simp only: text_lines_glue text_lines_Nil append_Nil2)
  also have "text_lines ?h = [?h]" using assms by (simp add: text_lines_single)
  also have "text_lines ?c = declared theme config"
    using text_lines_colors [OF one_line_color_config [OF assms(1)]] by (simp add: declared_filter)
  also have "text_lines ''}'' = [''}'']" by (simp add: text_lines_single)
  finally show ?thesis by simp
qed

subsection \<open>What the parts show\<close>

text \<open>The style sheet of a container declares, in each theme, exactly the series with a colour in that
  theme, each once and in the order of the configuration; there is none when no series has a colour.\<close>

theorem style_declares_colors:
  assumes "one_line_config config" and "CHR 0x0A \<notin> set i"
  shows "text_lines (style_sheet i (color_config config)) =
      (('' [data-chart='' @ i @ ''] {'') # declared ''light'' config @ [''}'']) @
      ((''.dark [data-chart='' @ i @ ''] {'') # declared ''dark'' config @ [''}''])"
    and "chart_style i config = Null \<Longrightarrow> declared theme config = []"
proof -
  show "text_lines (style_sheet i (color_config config)) =
      (('' [data-chart='' @ i @ ''] {'') # declared ''light'' config @ [''}'']) @
      ((''.dark [data-chart='' @ i @ ''] {'') # declared ''dark'' config @ [''}''])"
    using text_lines_block [OF assms, of "[]" "''light''"] text_lines_block [OF assms, of "''.dark''" "''dark''"]
    by (simp add: style_sheet_def CHART_THEMES_def text_lines_join)
  assume "chart_style i config = Null"
  then have "color_config config = []" by (auto simp: chart_style_def Let_def split: if_splits)
  then have "declared theme (color_config config) = []" by (simp add: declared_def)
  then show "declared theme config = []" by (simp add: declared_filter)
qed

lemma numbered_Nil [simp]: "numbered f [] = []"
  by (simp add: numbered_def)

lemma map_numbered:
  assumes "\<And>i x. g (f i x) = h x"
  shows "map g (numbered f xs) = map h xs"
  by (rule nth_equalityI) (simp_all add: numbered_def assms)

definition row_name :: "chart_config \<Rightarrow> 'm chart_tooltip \<Rightarrow> chart_item \<Rightarrow> string" where
  "row_name config p item =
     text_else (label_of (payload_config config item
       (key_text (if_null (map_option JStr (ct_name_key p)) (if_null (map_of item ''name'') (map_of item ''dataKey''))))))
       (case given (map_of item ''name'') of None \<Rightarrow> [] | Some j \<Rightarrow> js_text j)"

definition row_value :: "env \<Rightarrow> chart_item \<Rightarrow> string" where
  "row_value env item = (case given (map_of item ''value'') of None \<Rightarrow> [] | Some v \<Rightarrow> value_text env v)"

lemma plain_row_text:
  "text_of (plain_row env config p item) =
   (if nest_label p then text_of (tooltip_label config p) else []) @ row_name config p item @ row_value env item"
  by (simp add: plain_row_def Let_def row_name_def row_value_def text_else_def json_txt_def split: option.splits)

text \<open>Outside a container the tooltip is an error. Inside one it is empty while inactive or without
  entries, and otherwise shows its label once on top, or in the row of a single entry, and the name
  and the value of every entry that is not hidden, in order.\<close>

theorem tooltip_text:
  assumes "ct_formatter p = None" and "ct_active p" and "tooltip_items p \<noteq> []"
  shows "\<exists>n. chart_tooltip env (Some config) p = Inr n \<and>
    text_of n =
      (let label = text_of (tooltip_label config p)
       in (if nest_label p then [] else label) @
          concat (map (\<lambda>it. (if nest_label p then label else []) @ row_name config p it @ row_value env it)
            (visible_items (tooltip_items p))))"
proof -
  have r: "text_of (tooltip_row env config p i it) =
      (if nest_label p then text_of (tooltip_label config p) else []) @ row_name config p it @ row_value env it" for i it
    by (simp add: tooltip_row_def plain_row_text assms(1))
  have "map text_of (numbered (tooltip_row env config p) (visible_items (tooltip_items p))) =
      map (\<lambda>it. (if nest_label p then text_of (tooltip_label config p) else []) @ row_name config p it @ row_value env it)
        (visible_items (tooltip_items p))"
    by (rule map_numbered) (rule r)
  then show ?thesis
    using assms(2,3) by (simp add: chart_tooltip_def use_chart_def Let_def)
qed

lemma tooltip_outside: "chart_tooltip env None p = Inl ''useChart must be used within a <ChartContainer />''"
  by (simp add: chart_tooltip_def use_chart_def)

end
