(* ===== verification/Spec2Isabelle.thy ===== *)
theory Spec2Isabelle
  imports Bff Stream Relay Guard LiveData MitreDb Shell Investigate TwoFactor
    DashFlows KitParts ChartKit
begin

text \<open>
  \<^bold>\<open>Sentinel EDR: the operator consoles.\<close>

  Sentinel is an endpoint detection and response system: a Rust agent with eBPF programs on Linux hosts,
  a Go control plane that stores events, raises detections and dispatches containment actions, and two
  web consoles for operators, both in TypeScript. This development models the consoles:

  \<^item> \<open>src/web/src/\<close>, the console the Go server embeds: a React application that signs in with a bearer
    token, calls the API directly and follows a WebSocket feed. It is modelled completely.
  \<^item> \<open>src/dashboard/\<close>, the Next.js console: its server side is a backend-for-frontend that authenticates
    operators, checks their role and forwards to the Go API with a service account; its client side polls
    through that proxy and follows a server-sent event stream relayed from the WebSocket.

  \<^bold>\<open>Theories.\<close> They follow the order in which the code's modules use each other.

  \<^item> \<open>Prelude\<close>: JavaScript's truthiness, strings, searching, splitting and joining, and list lemmas.
    \<open>Http\<close>: JSON and its serialisation, requests, responses, object literals, percent-encoding, resolution
    of dot segments. \<open>Dates\<close>: parsing of RFC 3339 times, relative ages. \<open>Types\<close> and \<open>Format\<close>: the data
    model of \<open>types.ts\<close> and the helpers of \<open>format.ts\<close> and \<open>response-actions.ts\<close>.
  \<^item> \<open>Bff\<close>: \<open>dashboard/app/api/proxy/[...path]/route.ts\<close> and \<open>lib/go.ts\<close>. The three handlers are
    \<open>bff_GET\<close>, \<open>bff_POST\<close> and \<open>bff_DELETE\<close>, the token cache \<open>token_cache\<close>, the service login \<open>go_token\<close>.
    Its specifications are \<open>decide\<close>, a policy on path segments, and \<open>go_routes\<close>, the routes and roles the Go
    server registers. The locale \<open>gated_handler\<close> states what any gated handler guarantees and is interpreted
    on the three of them.
  \<^item> \<open>Guard\<close>: \<open>dashboard/proxy.ts\<close> (the block of self-registration and the content security policy) and
    the script \<open>scripts/seed.mjs\<close>. \<open>Relay\<close>: \<open>app/api/stream/route.ts\<close>, WebSocket to event stream, with
    the parser of the standard as its specification. \<open>Stream\<close>: \<open>lib/use-stream.ts\<close>, the shared event
    source with its reference count, as a world of subscribers and timers. \<open>LiveData\<close>: \<open>lib/use-data.ts\<close>,
    polling and paged live lists; the locale \<open>seen_guarded\<close> is what the tail, the push and the older-page
    operation share. \<open>MitreDb\<close>: \<open>lib/mitre.ts\<close>.
  \<^item> \<open>DashShell\<close>, \<open>Investigate\<close>, \<open>PolicyPanel\<close>, \<open>TwoFactor\<close>: components under \<open>dashboard/components/\<close>:
    page title, live announcer, sparkline; severity, technique chips, kill chain, lineage, incident summary
    and attack story; the policy and update panel of an endpoint; the two-factor card as a state machine
    with the inductive relation \<open>tf_run\<close>.
  \<^item> \<open>DashKit\<close>, \<open>DataTable\<close>, \<open>Query\<close>, \<open>DashPages\<close>: what the pages of the Next.js console share: metric card with
    its running number, information sheet, confirmation dialog, recent activity; the data table with its
    saved view (its row model is a record that the table library returns); the reading of an address;
    select boxes, links and \<open>page_run\<close>, the histories of a page. The locale \<open>confirm_flow\<close> is the contract of a
    page that asks before it acts, interpreted on the event, endpoint and detection pages.
  \<^item> \<open>DashEvents\<close>, \<open>DashEndpoints\<close>, \<open>DashDetections\<close>, \<open>DashCases\<close>, \<open>DashRules\<close>, \<open>DashTraffic\<close>, \<open>DashOverview\<close>,
    \<open>DashSettings\<close>: the pages under \<open>dashboard/app/(app)/\<close>; \<open>DashRules\<close> also holds the responses page,
    \<open>DashTraffic\<close> the data loss and the network page. \<open>DashAccess\<close>: \<open>login/page.tsx\<close>, sidebar, command
    palette and layout, with the inductive relation \<open>login_run\<close>. \<open>SidebarKit\<close>: \<open>components/ui/sidebar.tsx\<close>.
    \<open>KitParts\<close>: the other files of \<open>components/ui/\<close>, a table of parts for each; the locale \<open>part_table\<close>
    is what the pages rely on when they use one. \<open>ChartKit\<close>: \<open>chart.tsx\<close>, which no page uses.
    \<open>DashFlows\<close>: what the pages do to each other through links and to the proxy through requests, and the options of
    \<open>lib/auth.ts\<close>.
  \<^item> \<open>Vdom\<close>, \<open>Ui\<close>, \<open>Widgets\<close>, \<open>Filters\<close>: rendered trees whose handlers carry messages, and the shared
    elements of \<open>web/src/ui.tsx\<close>, \<open>components.tsx\<close> (drawer, two-step confirm button, copy button) and
    \<open>filters.tsx\<close> (search, tabs, sorting); the locale \<open>comparator\<close> is what sorting needs.
  \<^item> \<open>Api\<close>, \<open>Ws\<close>, \<open>Store\<close>: \<open>api.ts\<close>, \<open>ws.ts\<close> and \<open>store.tsx\<close>: the session, every endpoint, the reconnecting
    feed, and the store with its live messages; the locale \<open>keyed_upsert\<close> is the contract of its four
    collections. \<open>ProcessTree\<close>: \<open>ProcessTree.tsx\<close>.
  \<^item> \<open>Pages\<close>, \<open>EventsPage\<close>, \<open>EndpointsPage\<close>, \<open>DetectionsPage\<close>, \<open>CasesPage\<close>, \<open>ReportPages\<close>, \<open>ControlPages\<close>:
    the files of \<open>web/src/pages/\<close>. \<open>Shell\<close>: \<open>App.tsx\<close>, \<open>Layout.tsx\<close> and \<open>Login.tsx\<close>.
  \<^item> This theory imports them and proves what spans pages: who can send containment actions, and how.

  \<^bold>\<open>How the code is read.\<close> A component or hook with state is a record of its \<open>useState\<close> and \<open>useRef\<close> values.
  A callback is a function on that record; it returns the new state and its effects in order (requests, toasts,
  clipboard, reload). An \<open>async\<close> callback is cut at each \<open>await\<close>: its continuation takes the reply, so
  every interleaving of replies, timers and user actions is a list of steps or a derivation of a step relation. A
  view is a function to a tree (\<open>'m node\<close>); \<open>set_node\<close> of the tree is the set of messages a user can send
  from it, \<open>unconfirmed\<close> those not behind a confirm button. Errors and early returns are branches. A
  string is a list of bytes of its UTF-8 form; \<open>undefined\<close> and \<open>null\<close> are \<open>None\<close>; numbers are integers, and
  where a double rounds (\<open>compact\<close>) the rounding is written out. Object literals and maps are lists of
  entries, in insertion order.

  \<^bold>\<open>What the lemmas show.\<close> For the proxy: the role and path policy is exactly what the handlers do and agrees with the Go
  server's routes, nothing escapes \<open>/api/v1/\<close>, the service token is the only credential sent and is renewed
  once. For live data: no duplicates or lost bounds in any interleaving, with the exact conditions under
  which a row is hidden. For the stream: the shared source is open exactly while used, and what the relay writes parses back.
  For the pages: containment only for operators who may act, only for the finding's own host and process and only
  after confirmation; case changes guarded; counts, tables and timelines complete. For the process tree: the upward
  walk ends and stays on one host. For the components of the Next.js console: what they recommend, show and send is valid,
  and secrets do not outlive the card that asked for them. For its pages: in every history a response is one
  the page offered for its own host and the operator confirmed, changes go to the case shown, suppressions
  are well formed, the second factor cannot be skipped, every link lands where its text says, and every
  request is a registered route that the proxy opens to operators of that route's role only; and the parts that render the pages
  neither lose nor add a message. Each property stands below its description, followed by
  an instance on concrete data.

  \<^bold>\<open>Termination.\<close> No fuel is used. Recursive functions are structural, except the loop that picks the
  byte unit, the digits of a number, splitting by a separator, joining the lines of a command and the walk up the process tree, whose
  termination is proved by measures; the last one by the finitely many pids not yet visited.

  \<^bold>\<open>Not modelled.\<close> The Go server (but for its table of routes), the Rust agent and the eBPF programs, which are other languages.
  Better Auth, React, Next.js, the chart and the table library are third-party: sessions, replies, the rows
  that a table shows, the clicks on a chart and browser events are arguments or steps. The root layout, the
  logo and the build files hold no logic. Keys of object literals that name members of the prototype, case
  mapping outside ASCII, the widths of bars, which are doubles, and class names that only choose an
  appearance are left out; collation, clock and locale formats are parameters.
\<close>

section \<open>Properties across components\<close>

subsection \<open>Lemmas\<close>

lemma endpoints_view_messages:
  assumes "m \<in> set_node (endpoints_view env ses agents s)"
  shows "m \<in> range EpSelect \<union> range EpQuery \<union> range EpStatus \<union> range EpSort \<or>
    (\<exists>a. ep_sel s = Some a \<and> role_can_act ses \<and> m \<in> set_node (endpoint_actions a))"
  using assms set_node_endpoint_head [of "ep_sort s"]
  by (auto simp: endpoints_view_def Let_def set_node_endpoint_drawer split: option.splits if_splits)

lemma unconfirmed_opt_txt [simp]: "unconfirmed (opt_txt s) = {}"
  by (simp add: opt_txt_def split: option.splits)

lemma unconfirmed_num_txt [simp]: "unconfirmed (num_txt n) = {}"
  by (simp add: num_txt_def)

lemma unconfirmed_drawer:
  "unconfirmed (drawer t s c ns f) \<subseteq> {c} \<union> (\<Union>n\<in>set ns. unconfirmed n) \<union> (case f of None \<Rightarrow> {} | Some n \<Rightarrow> unconfirmed n)"
  by (auto simp: drawer_def drawer_key_def split: option.splits if_splits)

lemma unconfirmed_confirm_button [simp]:
  "unconfirmed (confirm_button c l m ns) = (\<Union>n\<in>set ns. unconfirmed n)"
  by (simp add: confirm_button_def)

lemma unconfirmed_endpoint_actions:
  "unconfirmed (endpoint_actions a) = (if ag_status a = ''isolated'' then {EpAct a ''unisolate''} else {})"
  by (simp add: endpoint_actions_def)

lemma unconfirmed_detection_actions:
  "unconfirmed (detection_actions can_act events d) = {DtSetStat d ''acknowledged'', DtSetStat d ''closed''}"
  by (auto simp: detection_actions_def num_txt_def opt_txt_def split: option.splits)

lemma in_unconfirmed: "m \<in> unconfirmed n \<Longrightarrow> m \<in> set_node n"
  by (rule subsetD [OF unconfirmed_subset])

lemma unconfirmed_endpoint_drawer:
  "EpAct a t \<in> unconfirmed (endpoint_drawer env can_act b) \<Longrightarrow> EpAct a t \<in> unconfirmed (endpoint_actions b)"
  unfolding endpoint_drawer_def by (drule subsetD [OF unconfirmed_drawer]) (auto dest!: in_unconfirmed split: if_splits)

lemma unconfirmed_frag3:
  "m \<in> unconfirmed (Frag [x, y, z]) \<Longrightarrow> m \<notin> set_node x \<Longrightarrow> m \<notin> set_node y \<Longrightarrow> m \<in> unconfirmed z"
  using in_unconfirmed [of m x] in_unconfirmed [of m y] by auto

lemma unconfirmed_endpoints_view:
  assumes "EpAct a t \<in> unconfirmed (endpoints_view env ses agents s)"
  shows "\<exists>b. ep_sel s = Some b \<and> EpAct a t \<in> unconfirmed (endpoint_actions b)"
proof -
  have "EpAct a t \<in> unconfirmed (case ep_sel s of None \<Rightarrow> Null | Some b \<Rightarrow> endpoint_drawer env (role_can_act ses) b)"
    by (rule unconfirmed_frag3 [OF assms [unfolded endpoints_view_def Let_def]])
      (use set_node_endpoint_head [of "ep_sort s"] in \<open>auto split: if_splits\<close>)
  then show ?thesis by (auto dest: unconfirmed_endpoint_drawer split: option.splits)
qed

lemma unconfirmed_detection_drawer:
  "DtRespond d ty tg \<in> unconfirmed (detection_drawer env can_act events s b) \<Longrightarrow> DtRespond d ty tg \<in> unconfirmed (detection_actions can_act events b)"
  unfolding detection_drawer_def
  by (drule subsetD [OF unconfirmed_drawer])
    (auto dest!: in_unconfirmed simp: set_node_triage_section kv_opt_def split: if_splits option.splits)

lemma unconfirmed_detections_view:
  assumes "DtRespond d ty tg \<in> unconfirmed (detections_view env ses detections events s)"
  shows "\<exists>b. DtRespond d ty tg \<in> unconfirmed (detection_actions (role_can_act ses) events b)"
proof -
  have "DtRespond d ty tg \<in> unconfirmed (case dt_sel s of None \<Rightarrow> Null | Some b \<Rightarrow> detection_drawer env (role_can_act ses) events s b)"
    by (rule unconfirmed_frag3 [OF assms [unfolded detections_view_def Let_def]]) (auto split: if_splits)
  then show ?thesis by (auto dest: unconfirmed_detection_drawer split: option.splits)
qed

subsection \<open>Properties\<close>



text \<open>C6: every containment action a page offers sits behind a two-step confirm button: outside
  such buttons the endpoint page offers only lifting an isolation and the detection page no response
  at all; a confirm button calls its action only on a click on Confirm right after the click that
  armed it.\<close>

theorem containment_needs_confirmation:
  "(\<forall>a t. EpAct a t \<in> unconfirmed (endpoints_view env ses agents s1) \<longrightarrow> t = ''unisolate'' \<and> ag_status a = ''isolated'') \<and>
   (\<forall>d t g. DtRespond d t g \<notin> unconfirmed (detections_view env ses detections events s2)) \<and>
   (\<forall>armed. confirm_enabled cn lb armed Confirm \<longleftrightarrow> armed) \<and>
   (\<forall>m armed. fst (confirm_step m armed) \<longleftrightarrow> m = Arm)"
proof (intro conjI allI impI)
  fix a t
  assume "EpAct a t \<in> unconfirmed (endpoints_view env ses agents s1)"
  from unconfirmed_endpoints_view [OF this] show "t = ''unisolate''" and "ag_status a = ''isolated''"
    by (auto simp: unconfirmed_endpoint_actions split: if_splits)
next
  fix d t g
  show "DtRespond d t g \<notin> unconfirmed (detections_view env ses detections events s2)"
    using unconfirmed_detections_view [of d t g] by (auto simp: unconfirmed_detection_actions)
next
  show "confirm_enabled cn lb armed Confirm \<longleftrightarrow> armed" for armed by (simp add: confirm_offers)
  show "fst (confirm_step m armed) \<longleftrightarrow> m = Arm" for m armed by (cases m) (simp_all add: confirm_step_def)
qed

lemma containment_needs_confirmation_witness:
  "DtRespond (sample_detection ''d'' ''high'') ''isolate'' None \<notin>
     unconfirmed (detections_view plain_env (set_session ''t'' ''u'' ''admin'') [] [] (detections0\<lparr>dt_sel := Some (sample_detection ''d'' ''high'')\<rparr>))"
  using containment_needs_confirmation [of plain_env "set_session ''t'' ''u'' ''admin''" "[]" endpoints0 "[]" "[]"
      "detections0\<lparr>dt_sel := Some (sample_detection ''d'' ''high'')\<rparr>" None "[]"] by blast

end
